(* ===== verification/Prelude.thy ===== *)
theory Prelude
  imports Main "HOL-Library.Word" "HOL-Library.Signed_Division"
begin

text \<open>
  What every theory of the development shares: the result type of a C function that may
  run into undefined behaviour, sequencing of such results, the weakest-precondition
  predicate the component proofs are phrased with, C integer ranges, and the pthread
  mutexes together with the log of notifications, which are the part of the state that
  no component of the program owns.
\<close>

section \<open>Faults and sequencing\<close>

text \<open>
  A C function either returns or does something the C standard (or the library it calls)
  leaves undefined; the second case is a value too, so that the absence of undefined
  behaviour is a theorem and not an assumption. Relocking a default mutex by its owner
  blocks for ever and counts as a fault as well.
\<close>

datatype fault =
    NullPointer
  | OutOfBounds
  | Uninitialised
  | SelfDeadlock
  | UnlockNotHeld
  | IntOverflow
  | UseAfterFree

type_synonym 'a result = "fault + 'a"

definition bindE :: "'a result \<Rightarrow> ('a \<Rightarrow> 'b result) \<Rightarrow> 'b result" where
  "bindE m k = (case m of Inl f \<Rightarrow> Inl f | Inr r \<Rightarrow> k r)"

lemma bindE_simps [simp]:
  "bindE (Inl f) k = Inl f"
  "bindE (Inr r) k = k r"
  by (simp_all add: bindE_def)

lemma bindE_assoc: "bindE (bindE m k) l = bindE m (\<lambda>r. bindE (k r) l)"
  by (simp add: bindE_def split: sum.splits)

lemma bindE_Inr_conv: "bindE m k = Inr b \<longleftrightarrow> (\<exists>a. m = Inr a \<and> k a = Inr b)"
  by (simp add: bindE_def split: sum.splits)

lemma bindE_Inl_conv:
  "bindE m k = Inl f \<longleftrightarrow> m = Inl f \<or> (\<exists>a. m = Inr a \<and> k a = Inl f)"
  by (simp add: bindE_def split: sum.splits)

text \<open>Reading through a pointer that may be NULL.\<close>

definition deref :: "'a option \<Rightarrow> 'a result" where
  "deref p = (case p of None \<Rightarrow> Inl NullPointer | Some v \<Rightarrow> Inr v)"

lemma deref_simps [simp]:
  "deref None = Inl NullPointer"
  "deref (Some v) = Inr v"
  by (simp_all add: deref_def)

text \<open>The loops of the program that stop at the first fault, over a list of values.\<close>

fun mapE :: "('a \<Rightarrow> 'b result) \<Rightarrow> 'a list \<Rightarrow> 'b list result" where
  "mapE f [] = Inr []"
| "mapE f (x # xs) = bindE (f x) (\<lambda>y. bindE (mapE f xs) (\<lambda>ys. Inr (y # ys)))"

lemma mapE_Inr_iff: "mapE f xs = Inr ys \<longleftrightarrow> list_all2 (\<lambda>x y. f x = Inr y) xs ys"
  by (induction xs arbitrary: ys) (auto simp: bindE_Inr_conv list_all2_Cons1)

lemma mapE_total:
  "\<forall>x\<in>set xs. f x = Inr (g x) \<Longrightarrow> mapE f xs = Inr (map g xs)"
  by (induction xs) auto

text \<open>Reading an array at an index.\<close>

definition nthE :: "'a list \<Rightarrow> nat \<Rightarrow> 'a result" where
  "nthE xs i = (if i < length xs then Inr (xs ! i) else Inl OutOfBounds)"

lemma nthE_in_range [simp]: "i < length xs \<Longrightarrow> nthE xs i = Inr (xs ! i)"
  by (simp add: nthE_def)

lemma concat_map_concat:
  "concat (map g (concat (map h cs))) = concat (map (\<lambda>c. concat (map g (h c))) cs)"
  by (induction cs) simp_all

lemma find_SomeD: "find P xs = Some x \<Longrightarrow> x \<in> set xs \<and> P x"
  by (induction xs) (auto split: if_splits)

lemma find_append: "find P (xs @ ys) = (case find P xs of None \<Rightarrow> find P ys | Some x \<Rightarrow> Some x)"
  by (induction xs) auto

section \<open>Weakest preconditions\<close>

text \<open>
  \<open>wp m Q F\<close>: the run \<open>m\<close> returns a value satisfying \<open>Q\<close> or faults with a fault
  satisfying \<open>F\<close>. With \<open>F = (\<lambda>_. False)\<close> this is total correctness, with
  \<open>F = (\<lambda>_. True)\<close> partial correctness; a proper set of faults says which kinds of
  undefined behaviour are possible at all.
\<close>

definition wp :: "'a result \<Rightarrow> ('a \<Rightarrow> bool) \<Rightarrow> (fault \<Rightarrow> bool) \<Rightarrow> bool" where
  "wp m Q F = (case m of Inl f \<Rightarrow> F f | Inr r \<Rightarrow> Q r)"

named_theorems wp_simps

lemma wp_Inr [wp_simps, simp]: "wp (Inr r) Q F = Q r"
  and wp_Inl [wp_simps, simp]: "wp (Inl f) Q F = F f"
  by (simp_all add: wp_def)

lemma wp_bindE [wp_simps]: "wp (bindE m k) Q F = wp m (\<lambda>r. wp (k r) Q F) F"
  by (simp add: wp_def bindE_def split: sum.splits)

lemma wp_if [wp_simps]:
  "wp (if b then m else n) Q F = (if b then wp m Q F else wp n Q F)"
  by simp

lemma wp_mono:
  assumes "wp m Q F" and "\<And>r. Q r \<Longrightarrow> Q' r" and "\<And>f. F f \<Longrightarrow> F' f"
  shows "wp m Q' F'"
  using assms by (simp add: wp_def split: sum.splits)

lemma wp_post:
  assumes "wp m Q F" and "\<And>r. Q r \<Longrightarrow> Q' r"
  shows "wp m Q' F"
  using assms by (rule wp_mono)

lemma wp_conj: "wp m Q F \<Longrightarrow> wp m Q' F \<Longrightarrow> wp m (\<lambda>r. Q r \<and> Q' r) F"
  by (simp add: wp_def split: sum.splits)

lemma wp_total_iff: "wp m Q (\<lambda>_. False) \<longleftrightarrow> (\<exists>r. m = Inr r \<and> Q r)"
  by (auto simp: wp_def split: sum.splits)

lemma wp_returns: "wp m Q F \<Longrightarrow> m = Inr r \<Longrightarrow> Q r"
  by (simp add: wp_def)

lemma wp_faults: "wp m Q F \<Longrightarrow> m = Inl f \<Longrightarrow> F f"
  by (simp add: wp_def)

section \<open>C integers\<close>

text \<open>
  The program is compiled for LP64: \<open>int\<close> has 32 bits, \<open>long\<close>, \<open>size_t\<close> and
  \<open>off_t\<close> have 64. An \<open>int\<close> expression is a mathematical integer that has been checked
  to be in range, since signed overflow is undefined; conversions to \<open>int\<close> wrap, as
  gcc and clang define it.
\<close>

definition INT_MIN :: int where "INT_MIN = - (2 ^ 31)"

definition INT_MAX :: int where "INT_MAX = 2 ^ 31 - 1"

definition LONG_MIN :: int where "LONG_MIN = - (2 ^ 63)"

definition LONG_MAX :: int where "LONG_MAX = 2 ^ 63 - 1"

lemmas c_limits = INT_MIN_def INT_MAX_def LONG_MIN_def LONG_MAX_def

definition cint :: "int \<Rightarrow> int result" where
  "cint i = (if INT_MIN \<le> i \<and> i \<le> INT_MAX then Inr i else Inl IntOverflow)"

lemma cint_in_range [simp]: "INT_MIN \<le> i \<Longrightarrow> i \<le> INT_MAX \<Longrightarrow> cint i = Inr i"
  by (simp add: cint_def)

lemma wp_cint [wp_simps]:
  "wp (cint i) Q F = (if INT_MIN \<le> i \<and> i \<le> INT_MAX then Q i else F IntOverflow)"
  by (simp add: cint_def)

definition to_int :: "int \<Rightarrow> int" where
  "to_int i = sint (word_of_int i :: 32 word)"

lemma to_int_range: "INT_MIN \<le> to_int i" "to_int i \<le> INT_MAX"
  using sint_range_size [of "word_of_int i :: 32 word"]
  by (simp_all add: to_int_def c_limits word_size)

lemma to_int_id:
  assumes "INT_MIN \<le> i" and "i \<le> INT_MAX"
  shows "to_int i = i"
  using assms unfolding to_int_def c_limits
  by (simp add: sint_sbintrunc' signed_take_bit_int_eq_self)

lemma sint32_range: "INT_MIN \<le> sint (w :: 32 word)" "sint (w :: 32 word) \<le> INT_MAX"
  using sint_range_size [of w] by (simp_all add: c_limits word_size)

section \<open>Mutexes and the event log\<close>

text \<open>
  The five mutexes of the program (pthread mutexes of the default kind). \<open>held\<close> is the
  set the running thread owns. \<open>lock_order\<close> is a ghost: it collects the pairs (owned,
  acquired), so that a global acquisition order can be stated. \<open>notifications\<close> is the
  sequence of \<open>UpnpNotify\<close> calls the program has made, newest last, each with the
  device, the service, the variable names and the values it passed; \<open>subscriptions\<close> does
  the same for the initial events sent with \<open>UpnpAcceptSubscription\<close>.
\<close>

datatype mutex = DeviceMutex | TransportMutex | ControlMutex | ConnmgrMutex | MpdMutex

record notification =
  DevUDN_sent :: string
  ServiceID_sent :: string
  VarNames_sent :: "string list"
  VarValues_sent :: "string list"

record env =
  held :: "mutex set"
  lock_order :: "(mutex \<times> mutex) set"
  notifications :: "notification list"
  subscriptions :: "notification list"

lemma env_update_same [simp]: "w\<lparr>held := held w\<rparr> = w"
  by simp

definition lock :: "mutex \<Rightarrow> 'z env_scheme \<Rightarrow> 'z env_scheme result" where
  "lock m w =
     (if m \<in> held w then Inl SelfDeadlock
      else Inr (w\<lparr>held := insert m (held w), lock_order := lock_order w \<union> held w \<times> {m}\<rparr>))"

definition unlock :: "mutex \<Rightarrow> 'z env_scheme \<Rightarrow> 'z env_scheme result" where
  "unlock m w =
     (if m \<in> held w then Inr (w\<lparr>held := held w - {m}\<rparr>) else Inl UnlockNotHeld)"

lemma wp_lock [wp_simps]:
  "wp (lock m w) Q F =
     (if m \<in> held w then F SelfDeadlock
      else Q (w\<lparr>held := insert m (held w), lock_order := lock_order w \<union> held w \<times> {m}\<rparr>))"
  by (simp add: lock_def)

lemma wp_unlock [wp_simps]:
  "wp (unlock m w) Q F =
     (if m \<in> held w then Q (w\<lparr>held := held w - {m}\<rparr>) else F UnlockNotHeld)"
  by (simp add: unlock_def)

definition lock_fault :: "fault \<Rightarrow> bool" where
  "lock_fault f \<longleftrightarrow> f = SelfDeadlock \<or> f = UnlockNotHeld"

end
