(* ===== verification/CLib.thy ===== *)
theory CLib
  imports Prelude
begin

text \<open>
  The functions of the C standard library the program uses on strings and numbers:
  \<open>strtol\<close> and \<open>atoi\<close> in base ten, \<open>snprintf\<close> with the conversions \<open>%d\<close>,
  \<open>%02d\<close> and \<open>%s\<close>. A C string is the list of its characters before the
  terminating NUL, a \<open>char *\<close> that may be NULL an option of it, and advancing a pointer
  inside a string takes the tail.
\<close>

section \<open>Decimal output\<close>

definition digit_char :: "nat \<Rightarrow> char" where
  "digit_char d = ''0123456789'' ! d"

definition digit_value :: "char \<Rightarrow> nat option" where
  "digit_value c =
     (if 48 \<le> (of_char c :: nat) \<and> (of_char c :: nat) \<le> 57 then Some (of_char c - 48) else None)"

lemma less_10_cases:
  "(d :: nat) < 10 \<Longrightarrow> d = 0 \<or> d = 1 \<or> d = 2 \<or> d = 3 \<or> d = 4 \<or> d = 5 \<or> d = 6 \<or> d = 7 \<or> d = 8 \<or> d = 9"
  by arith

lemma digit_value_char [simp]: "d < 10 \<Longrightarrow> digit_value (digit_char d) = Some d"
  by (drule less_10_cases) (auto simp: digit_value_def digit_char_def)

lemma digit_value_less: "digit_value c = Some d \<Longrightarrow> d < 10"
  by (auto simp: digit_value_def split: if_splits)

fun dec_digits :: "nat \<Rightarrow> string" where
  "dec_digits n = (if n < 10 then [digit_char n] else dec_digits (n div 10) @ [digit_char (n mod 10)])"

declare dec_digits.simps [simp del]

lemma dec_digits_small: "n < 10 \<Longrightarrow> dec_digits n = [digit_char n]"
  by (simp add: dec_digits.simps)

lemma dec_digits_big: "10 \<le> n \<Longrightarrow> dec_digits n = dec_digits (n div 10) @ [digit_char (n mod 10)]"
  by (subst dec_digits.simps) simp

lemma dec_digits_nonempty [simp]: "dec_digits n \<noteq> []"
  by (subst dec_digits.simps) simp

lemma dec_digits_digits: "c \<in> set (dec_digits n) \<Longrightarrow> digit_value c \<noteq> None"
proof (induction n rule: dec_digits.induct)
  case (1 n)
  then show ?case
    by (cases "n < 10") (auto simp: dec_digits_small dec_digits_big)
qed

lemma dec_digits_length:
  "n < 10 ^ k \<Longrightarrow> 0 < k \<Longrightarrow> length (dec_digits n) \<le> k"
proof (induction n arbitrary: k rule: dec_digits.induct)
  case (1 n)
  show ?case
  proof (cases "n < 10")
    case True
    with "1.prems" show ?thesis by (simp add: dec_digits_small)
  next
    case False
    with "1.prems" obtain j where k: "k = Suc j" and j: "0 < j"
      by (cases k; cases "k - 1") auto
    from False "1.prems" k have "n div 10 < 10 ^ j" by auto
    with "1.IH" False j have "length (dec_digits (n div 10)) \<le> j" by simp
    with False k show ?thesis by (simp add: dec_digits_big)
  qed
qed

definition fmt_d :: "int \<Rightarrow> string" where
  "fmt_d i = (if i < 0 then CHR ''-'' # dec_digits (nat (- i)) else dec_digits (nat i))"

definition fmt_02d :: "int \<Rightarrow> string" where
  "fmt_02d i =
     (let sg = (if i < 0 then ''-'' else []); ds = dec_digits (nat \<bar>i\<bar>)
      in sg @ replicate (2 - (length sg + length ds)) (CHR ''0'') @ ds)"

text \<open>\<open>%s\<close> of a null pointer prints \<open>(null)\<close>, as the GNU C library does.\<close>

definition fmt_s :: "string option \<Rightarrow> string" where
  "fmt_s p = (case p of None \<Rightarrow> ''(null)'' | Some s \<Rightarrow> s)"

lemma fmt_s_simps [simp]: "fmt_s None = ''(null)''" "fmt_s (Some s) = s"
  by (simp_all add: fmt_s_def)

definition snprintf :: "nat \<Rightarrow> string \<Rightarrow> string" where
  "snprintf n s = take (n - 1) s"

lemma snprintf_fits: "length s < n \<Longrightarrow> snprintf n s = s"
  by (simp add: snprintf_def)

lemma snprintf_length: "0 < n \<Longrightarrow> length (snprintf n s) < n"
  by (simp add: snprintf_def)

section \<open>Decimal input\<close>

definition c_isspace :: "char \<Rightarrow> bool" where
  "c_isspace c \<longleftrightarrow> (of_char c :: nat) = 32 \<or> (9 \<le> (of_char c :: nat) \<and> (of_char c :: nat) \<le> 13)"

fun scan_digits :: "int \<Rightarrow> string \<Rightarrow> int \<times> string" where
  "scan_digits acc [] = (acc, [])"
| "scan_digits acc (c # cs) =
     (case digit_value c of
        Some d \<Rightarrow> scan_digits (acc * 10 + int d) cs
      | None \<Rightarrow> (acc, c # cs))"

definition clamp_long :: "int \<Rightarrow> int" where
  "clamp_long v = max LONG_MIN (min LONG_MAX v)"

definition scan_sign :: "string \<Rightarrow> bool \<times> string" where
  "scan_sign s =
     (case s of
        [] \<Rightarrow> (False, [])
      | c # cs \<Rightarrow> if c = CHR ''-'' then (True, cs) else if c = CHR ''+'' then (False, cs) else (False, s))"

text \<open>
  \<open>strtol (s, &end, 10)\<close>: the value and the string at \<open>end\<close>. With no digit to
  convert, the value is 0 and \<open>end\<close> is the start of the string.
\<close>

definition strtol10 :: "string \<Rightarrow> int \<times> string" where
  "strtol10 s =
     (let (neg, u) = scan_sign (dropWhile c_isspace s) in
      case u of
        [] \<Rightarrow> (0, s)
      | c # cs \<Rightarrow>
          (case digit_value c of
             None \<Rightarrow> (0, s)
           | Some d \<Rightarrow>
               (let (v, rest) = scan_digits 0 u
                in (clamp_long (if neg then - v else v), rest))))"

definition atoi :: "string \<Rightarrow> int" where
  "atoi s = to_int (fst (strtol10 s))"

text \<open>Advancing a pointer by one: past the terminating NUL there is nothing to read.\<close>

definition ptr_inc :: "string \<Rightarrow> string result" where
  "ptr_inc s = (case s of [] \<Rightarrow> Inl OutOfBounds | _ # cs \<Rightarrow> Inr cs)"

lemma ptr_inc_simps [simp]:
  "ptr_inc [] = Inl OutOfBounds"
  "ptr_inc (c # cs) = Inr cs"
  by (simp_all add: ptr_inc_def)

section \<open>Input reads back what output wrote\<close>

lemma scan_digits_dec:
  "scan_digits acc (dec_digits n @ r) = scan_digits (acc * 10 ^ length (dec_digits n) + int n) r"
proof (induction n arbitrary: acc r rule: dec_digits.induct)
  case (1 n)
  show ?case
  proof (cases "n < 10")
    case True
    then show ?thesis by (simp add: dec_digits_small)
  next
    case False
    then have big: "dec_digits n = dec_digits (n div 10) @ [digit_char (n mod 10)]"
      by (simp add: dec_digits_big)
    have "int n = int (n div 10) * 10 + int (n mod 10)"
      by (simp add: zdiv_int zmod_int)
    with "1.IH" [OF False] show ?thesis
      by (simp add: big algebra_simps)
  qed
qed

lemma scan_digits_stop:
  "r = [] \<or> digit_value (hd r) = None \<Longrightarrow> scan_digits acc r = (acc, r)"
  by (cases r) auto

lemma scan_digits_zeros:
  "scan_digits 0 (replicate k (CHR ''0'') @ s) = scan_digits 0 s"
proof (induction k)
  case 0
  show ?case by simp
next
  case (Suc k)
  have "digit_value (CHR ''0'') = Some 0" by (simp add: digit_value_def)
  with Suc show ?case by simp
qed

lemma digit_not_space_sign:
  assumes "digit_value c \<noteq> None"
  shows "\<not> c_isspace c" "c \<noteq> CHR ''-''" "c \<noteq> CHR ''+''"
  using assms by (auto simp: digit_value_def c_isspace_def split: if_splits)

lemma strtol10_digit:
  assumes "digit_value c \<noteq> None"
  shows "strtol10 (c # cs) = (let (v, rest) = scan_digits 0 (c # cs) in (clamp_long v, rest))"
  using assms digit_not_space_sign [OF assms]
  by (auto simp: strtol10_def scan_sign_def)

lemma strtol10_padded:
  assumes n: "int n \<le> LONG_MAX" and r: "r = [] \<or> digit_value (hd r) = None"
  shows "strtol10 (replicate k (CHR ''0'') @ dec_digits n @ r) = (int n, r)"
proof -
  let ?s = "replicate k (CHR ''0'') @ dec_digits n @ r"
  obtain c cs where s: "?s = c # cs"
    by (cases ?s) auto
  have z: "digit_value (CHR ''0'') \<noteq> None" by (simp add: digit_value_def)
  have c: "digit_value c \<noteq> None"
  proof (cases k)
    case 0
    with s have "c \<in> set (dec_digits n)" by (cases "dec_digits n") auto
    then show ?thesis by (rule dec_digits_digits)
  next
    case (Suc j)
    with s z show ?thesis by auto
  qed
  have "scan_digits 0 (c # cs) = (int n, r)"
    unfolding s [symmetric] scan_digits_zeros
    by (simp add: scan_digits_dec scan_digits_stop [OF r])
  with strtol10_digit [OF c] n show ?thesis
    unfolding s by (simp add: clamp_long_def c_limits)
qed

lemma strtol10_dec:
  assumes "int n \<le> LONG_MAX"
  shows "strtol10 (dec_digits n) = (int n, [])"
  using strtol10_padded [OF assms, of "[]" 0] by simp

lemma atoi_fmt_d:
  assumes "0 \<le> i" and "i \<le> INT_MAX"
  shows "atoi (fmt_d i) = i"
  using assms strtol10_dec [of "nat i"]
  by (simp add: atoi_def fmt_d_def to_int_id c_limits)

lemma atoi_range: "INT_MIN \<le> atoi s" "atoi s \<le> INT_MAX"
  by (simp_all add: atoi_def to_int_range)

text \<open>A number ends where the digits do.\<close>

lemma scan_digits_append_stop:
  "digit_value c = None \<Longrightarrow> fst (scan_digits acc (x @ c # r)) = fst (scan_digits acc x)"
  by (induction acc x rule: scan_digits.induct) (auto split: option.split)

lemma atoi_append_stop:
  assumes "digit_value c = None" and "\<not> c_isspace c" and "c \<noteq> CHR ''-''" and "c \<noteq> CHR ''+''"
  shows "atoi (x @ c # r) = atoi x"
proof -
  have d: "dropWhile c_isspace (x @ c # r) = dropWhile c_isspace x @ c # r"
    using assms(2) by (induction x) auto
  have "fst (strtol10 (x @ c # r)) = fst (strtol10 x)"
  proof (cases "dropWhile c_isspace x")
    case Nil
    show ?thesis using assms unfolding strtol10_def d Nil by (simp add: scan_sign_def)
  next
    case (Cons y ys)
    note stop = scan_digits_append_stop [OF assms(1), of _ _ r]
    show ?thesis
      using assms stop [of 0 "y # ys"] stop [of 0 ys] unfolding strtol10_def d Cons
      by (cases ys) (auto simp: scan_sign_def Let_def split_beta split: option.split)
  qed
  then show ?thesis by (simp add: atoi_def)
qed

lemma fmt_02d_nat:
  "0 \<le> i \<Longrightarrow> fmt_02d i = replicate (2 - length (dec_digits (nat i))) (CHR ''0'') @ dec_digits (nat i)"
  by (simp add: fmt_02d_def Let_def)

lemma fmt_02d_length:
  assumes "0 \<le> i" and "i < 10 ^ k" and "2 \<le> k"
  shows "length (fmt_02d i) \<le> k"
proof -
  have "nat i < 10 ^ k" using assms by (simp add: nat_less_iff)
  then have "length (dec_digits (nat i)) \<le> k"
    using assms by (intro dec_digits_length) auto
  with assms show ?thesis by (simp add: fmt_02d_nat)
qed

lemma strtol10_fmt_02d:
  assumes "0 \<le> i" and "i \<le> LONG_MAX" and "r = [] \<or> digit_value (hd r) = None"
  shows "strtol10 (fmt_02d i @ r) = (i, r)"
  using strtol10_padded [of "nat i" r] assms by (simp add: fmt_02d_nat)

section \<open>Character buffers\<close>

text \<open>
  A heap or stack array of \<open>char\<close>: \<open>None\<close> is a byte nobody has written yet. Writing
  outside it and reading a byte that was never written are faults.
\<close>

type_synonym buffer = "char option list"

abbreviation NUL :: char where "NUL \<equiv> CHR 0x00"

definition malloc :: "nat \<Rightarrow> buffer" where
  "malloc n = replicate n None"

definition memcpy_at :: "buffer \<Rightarrow> nat \<Rightarrow> string \<Rightarrow> buffer result" where
  "memcpy_at buf off s =
     (if off + length s \<le> length buf
      then Inr (take off buf @ map Some s @ drop (off + length s) buf)
      else Inl OutOfBounds)"

fun read_cstring :: "buffer \<Rightarrow> string result" where
  "read_cstring [] = Inl OutOfBounds"
| "read_cstring (None # b) = Inl Uninitialised"
| "read_cstring (Some c # b) =
     (if c = NUL then Inr [] else bindE (read_cstring b) (\<lambda>s. Inr (c # s)))"

lemma read_cstring_map:
  "NUL \<notin> set s \<Longrightarrow> read_cstring (map Some s @ Some NUL # b) = Inr s"
  by (induction s) auto

lemma memcpy_at_append:
  assumes "length pre = off"
  shows "memcpy_at (pre @ mid @ post) off s =
    (if length s \<le> length mid + length post
     then Inr (pre @ map Some s @ drop (length s) (mid @ post)) else Inl OutOfBounds)"
  using assms by (auto simp: memcpy_at_def)

lemma memcpy_at_tail:
  assumes "length pre = off" and "length s \<le> k"
  shows "memcpy_at (pre @ malloc k) off s = Inr (pre @ map Some s @ malloc (k - length s))"
  using assms by (simp add: memcpy_at_def malloc_def)

end
