(* ===== verification/Upnp.thy ===== *)
theory Upnp
  imports CLib
begin

text \<open>
  upnp.h and the lookups of upnp.c: services, actions, arguments, state variables and the
  event an action handler works on. A pointer array that ends with NULL is the list of its
  entries; the action table, which ends with an entry whose name is NULL, keeps that entry.
  Function pointers are HOL functions on the program state \<open>'w\<close>, and
  \<open>variable_values\<close>, in C a pointer to a component's array, is the projection that reads
  that array from the state.
\<close>

section \<open>DOM trees\<close>

text \<open>
  The part of a DOM tree the program builds and reads: the document, elements with their
  attributes, and text. Names and values of nodes are those DOM Level 2 gives them.
\<close>

datatype ixml =
    Document "ixml list"
  | Element string "(string \<times> string) list" "ixml list"
  | TextNode string

fun child_nodes :: "ixml \<Rightarrow> ixml list" where
  "child_nodes (Document ns) = ns"
| "child_nodes (Element t as ns) = ns"
| "child_nodes (TextNode v) = []"

fun node_name :: "ixml \<Rightarrow> string" where
  "node_name (Document ns) = ''#document''"
| "node_name (Element t as ns) = t"
| "node_name (TextNode v) = ''#text''"

fun node_value :: "ixml \<Rightarrow> string option" where
  "node_value (TextNode v) = Some v"
| "node_value (Document ns) = None"
| "node_value (Element t as ns) = None"

section \<open>Types of upnp.h\<close>

datatype param_dir = PARAM_DIR_IN | PARAM_DIR_OUT

record argument =
  arg_name :: string
  direction :: param_dir
  statevar :: nat

datatype param_datatype =
    DATATYPE_STRING
  | DATATYPE_BOOLEAN
  | DATATYPE_I2
  | DATATYPE_I4
  | DATATYPE_UI2
  | DATATYPE_UI4
  | DATATYPE_UNKNOWN

datatype param_event = SENDEVENT_NO | SENDEVENT_YES

record param_range =
  range_min :: int
  range_max :: int
  range_step :: int

record var_meta =
  sendevents :: param_event
  datatype_of :: param_datatype
  allowed_values :: "string list option"
  allowed_range :: "param_range option"
  default_value :: "string option"

record icon =
  icon_width :: int
  icon_height :: int
  icon_depth :: int
  icon_url :: string
  icon_mimetype :: string

text \<open>
  \<open>struct service\<close> without its function pointers, which is what the handlers see of it
  through the event, and then the whole of it.
\<close>

record 'w service_vars =
  service_mutex :: mutex
  service_name :: string
  service_type :: string
  scpd_url :: string
  control_url :: string
  event_url :: string
  action_arguments :: "nat \<Rightarrow> argument list option"
  variable_names :: "nat \<Rightarrow> string option"
  variable_values :: "'w \<Rightarrow> nat \<Rightarrow> string option"
  variable_defaults :: "(nat \<Rightarrow> string option) option"
  variable_meta :: "nat \<Rightarrow> var_meta option"
  variable_count :: nat
  command_count :: nat

text \<open>libupnp's action request, as far as the program reads and writes it.\<close>

record upnp_action_request =
  ErrCode :: int
  ErrStr :: string
  ActionName :: string
  DevUDN :: string
  ServiceID :: string
  ActionRequest :: "ixml option"
  ActionResult :: "ixml option"

record 'w action_event =
  request :: upnp_action_request
  event_status :: int
  event_service :: "'w service_vars"

type_synonym 'w handler = "'w action_event \<Rightarrow> 'w \<Rightarrow> (int \<times> 'w action_event \<times> 'w) result"

record 'w action =
  action_name :: "string option"
  callback :: "'w handler option"

record 'w service = "'w service_vars" +
  actions :: "'w action list"
  subscription_notify :: "('w \<Rightarrow> (int \<times> 'w) result) option"

record 'w device =
  init_function :: "('w \<Rightarrow> (int \<times> 'w) result) option"
  device_type :: string
  friendly_name :: string
  manufacturer :: string
  manufacturer_url :: string
  model_description :: string
  model_name :: string
  model_number :: string
  model_url :: string
  serial_number :: string
  udn :: string
  upc :: string
  presentation_url :: string
  icons :: "icon list option"
  services :: "'w service list"

text \<open>
  A table written with designated initialisers, \<open>[INDEX] = value\<close>, as an array of \<open>n\<close>
  entries; an index without an initialiser is NULL.
\<close>

definition array_of :: "nat \<Rightarrow> 'a \<Rightarrow> (nat \<times> 'a) list \<Rightarrow> 'a list" where
  "array_of n null inits = map (\<lambda>i. case map_of inits i of None \<Rightarrow> null | Some v \<Rightarrow> v) [0..<n]"

lemma array_of_length [simp]: "length (array_of n null inits) = n"
  by (simp add: array_of_def)

text \<open>Positional initialisers; the members left out are NULL.\<close>

definition argument_init :: "string \<Rightarrow> param_dir \<Rightarrow> nat \<Rightarrow> argument" where
  "argument_init n d v = \<lparr>arg_name = n, direction = d, statevar = v\<rparr>"

definition var_meta_init ::
  "param_event \<Rightarrow> param_datatype \<Rightarrow> string list option \<Rightarrow> param_range option \<Rightarrow> string option \<Rightarrow> var_meta" where
  "var_meta_init e t vs r d =
     \<lparr>sendevents = e, datatype_of = t, allowed_values = vs, allowed_range = r, default_value = d\<rparr>"

lemma init_simps [simp]:
  "arg_name (argument_init n d v) = n" "direction (argument_init n d v) = d"
  "statevar (argument_init n d v) = v"
  "sendevents (var_meta_init e t vs r df) = e" "datatype_of (var_meta_init e t vs r df) = t"
  "allowed_values (var_meta_init e t vs r df) = vs" "allowed_range (var_meta_init e t vs r df) = r"
  "default_value (var_meta_init e t vs r df) = df"
  by (simp_all add: argument_init_def var_meta_init_def)

section \<open>Finding services and actions\<close>

fun find_service_loop :: "'w service list \<Rightarrow> string \<Rightarrow> 'w service option" where
  "find_service_loop [] name = None"
| "find_service_loop (s # ss) name =
     (if service_name s = name then Some s else find_service_loop ss name)"

definition find_service :: "'w device \<Rightarrow> string \<Rightarrow> 'w service option" where
  "find_service device_def name = find_service_loop (services device_def) name"

fun find_action_loop :: "'w action list \<Rightarrow> string \<Rightarrow> 'w action option result" where
  "find_action_loop [] name = Inl OutOfBounds"
| "find_action_loop (a # as) name =
     (case action_name a of
        None \<Rightarrow> Inr None
      | Some n \<Rightarrow> if n = name then Inr (Some a) else find_action_loop as name)"

definition find_action :: "'w service option \<Rightarrow> string \<Rightarrow> 'w action option result" where
  "find_action srv name =
     (case srv of
        None \<Rightarrow> Inr None
      | Some s \<Rightarrow> find_action_loop (actions s) name)"

lemma find_service_loop_conv: "find_service_loop ss name = find (\<lambda>s. service_name s = name) ss"
  by (induction ss) auto

lemma find_service_Some_iff:
  assumes "distinct (map service_name (services d))"
  shows "find_service d name = Some s \<longleftrightarrow> s \<in> set (services d) \<and> service_name s = name"
  using assms
  by (auto simp: find_service_def find_service_loop_conv find_Some_iff distinct_conv_nth in_set_conv_nth)

text \<open>
  A table is well formed when its last entry is its only one without a name. The search
  then stays inside the table and finds every action it names: no entry is hidden behind a
  hole left by the initialisers.
\<close>

definition action_table_ok :: "'w action list \<Rightarrow> bool" where
  "action_table_ok as \<longleftrightarrow> as \<noteq> [] \<and> action_name (last as) = None
     \<and> (\<forall>a\<in>set (butlast as). action_name a \<noteq> None)
     \<and> distinct (map action_name (butlast as))"

lemma find_action_loop_append:
  assumes "\<forall>a\<in>set as. action_name a \<noteq> None" and "action_name z = None"
  shows "find_action_loop (as @ [z]) name = Inr (find (\<lambda>a. action_name a = Some name) as)"
  using assms by (induction as) auto

lemma find_action_loop_ok:
  assumes "action_table_ok as"
  shows "find_action_loop as name = Inr (find (\<lambda>a. action_name a = Some name) (butlast as))"
proof -
  from assms have "as = butlast as @ [last as]"
    by (simp add: action_table_ok_def)
  with assms find_action_loop_append [of "butlast as" "last as" name] show ?thesis
    by (simp add: action_table_ok_def)
qed

lemma find_action_loop_in_range:
  assumes "action_table_ok as"
  shows "(\<exists>a. find_action_loop as name = Inr (Some a) \<and> a \<in> set as \<and> action_name a = Some name)
       \<or> find_action_loop as name = Inr None \<and> Some name \<notin> action_name ` set as"
proof (cases "find (\<lambda>a. action_name a = Some name) (butlast as)")
  case None
  have "set as \<subseteq> insert (last as) (set (butlast as))"
    by (cases as rule: rev_cases) auto
  with None assms show ?thesis
    by (force simp: find_action_loop_ok find_None_iff action_table_ok_def)
next
  case (Some a)
  then have "a \<in> set as \<and> action_name a = Some name"
    using find_SomeD [OF Some] by (blast dest: in_set_butlastD)
  with Some find_action_loop_ok [OF assms] show ?thesis by simp
qed

lemma find_action_loop_SomeD:
  "find_action_loop as n = Inr (Some a) \<Longrightarrow> action_name a = Some n \<and> a \<in> set as"
  by (induction as) (auto split: option.splits if_splits)

lemma find_distinct_map:
  "distinct (map f xs) \<Longrightarrow> x \<in> set xs \<Longrightarrow> find (\<lambda>y. f y = f x) xs = Some x"
  by (induction xs) (auto simp: image_iff dest: sym)

lemma find_action_loop_member:
  assumes ok: "action_table_ok as" and a: "a \<in> set as" "action_name a = Some name"
  shows "find_action_loop as name = Inr (Some a)"
proof -
  have "a \<in> set (butlast as) \<or> a = last as"
    using a(1) by (cases as rule: rev_cases) auto
  with ok a(2) have "a \<in> set (butlast as)" and "distinct (map action_name (butlast as))"
    by (auto simp: action_table_ok_def)
  then have "find (\<lambda>b. action_name b = Some name) (butlast as) = Some a"
    using find_distinct_map [of action_name "butlast as" a] a(2) by simp
  with find_action_loop_ok [OF ok] show ?thesis by simp
qed

lemma find_action_loop_absent:
  "action_table_ok as \<Longrightarrow> Some name \<notin> action_name ` set as \<Longrightarrow> find_action_loop as name = Inr None"
  using find_action_loop_in_range [of as name] by (auto simp: image_iff)

end
