(* ===== verification/Upnp_Desc.thy ===== *)
theory Upnp_Desc
  imports Upnp "HOL-Library.AList"
begin

text \<open>
  upnp.c: the XML documents that describe the device (\<open>generate_desc\<close>) and each service
  (\<open>generate_scpd\<close>). Building a tree node by node through the DOM calls is done here with
  the nodes as values: a child is attached when it is complete, which gives the tree the C
  code has when it returns. A text node made from a null pointer is a fault. Turning the
  tree into a string is the library's work and stays a parameter.
\<close>

section \<open>Document construction\<close>

fun ixmlNode_appendChild :: "ixml \<Rightarrow> ixml \<Rightarrow> ixml" where
  "ixmlNode_appendChild (Document ns) c = Document (ns @ [c])"
| "ixmlNode_appendChild (Element t as ns) c = Element t as (ns @ [c])"
| "ixmlNode_appendChild (TextNode v) c = TextNode v"

abbreviation createElement :: "string \<Rightarrow> ixml" where
  "createElement t \<equiv> Element t [] []"

fun add_value_attribute :: "ixml \<Rightarrow> string \<Rightarrow> string \<Rightarrow> ixml" where
  "add_value_attribute (Element t as ns) attrname v = Element t (AList.update attrname v as) ns"
| "add_value_attribute n attrname v = n"

definition add_value_element :: "ixml \<Rightarrow> string \<Rightarrow> string option \<Rightarrow> ixml result" where
  "add_value_element parent tagname value =
     bindE (deref value) (\<lambda>v.
     Inr (ixmlNode_appendChild parent
            (ixmlNode_appendChild (createElement tagname) (TextNode v))))"

definition add_value_element_int :: "ixml \<Rightarrow> string \<Rightarrow> int \<Rightarrow> ixml result" where
  "add_value_element_int parent tagname value = add_value_element parent tagname (Some (fmt_d value))"

definition add_value_element_long :: "ixml \<Rightarrow> string \<Rightarrow> int \<Rightarrow> ixml result" where
  "add_value_element_long parent tagname value = add_value_element parent tagname (Some (fmt_d value))"

fun param_datatype_names :: "param_datatype \<Rightarrow> string option" where
  "param_datatype_names DATATYPE_STRING = Some ''string''"
| "param_datatype_names DATATYPE_BOOLEAN = Some ''boolean''"
| "param_datatype_names DATATYPE_I2 = Some ''i2''"
| "param_datatype_names DATATYPE_I4 = Some ''i4''"
| "param_datatype_names DATATYPE_UI2 = Some ''ui2''"
| "param_datatype_names DATATYPE_UI4 = Some ''ui4''"
| "param_datatype_names DATATYPE_UNKNOWN = None"

definition gen_specversion :: "int \<Rightarrow> int \<Rightarrow> ixml result" where
  "gen_specversion major minor =
     bindE (add_value_element_int (createElement ''specVersion'') ''major'' major) (\<lambda>top.
     add_value_element_int top ''minor'' minor)"

definition gen_scpd_argument :: "(nat \<Rightarrow> string option) \<Rightarrow> argument \<Rightarrow> ixml result" where
  "gen_scpd_argument varnames arg =
     bindE (add_value_element (createElement ''argument'') ''name'' (Some (arg_name arg))) (\<lambda>child.
     bindE (add_value_element child ''direction''
              (Some (if direction arg = PARAM_DIR_IN then ''in'' else ''out''))) (\<lambda>child.
     add_value_element child ''relatedStateVariable'' (varnames (statevar arg))))"

definition gen_scpd_action ::
  "string option \<Rightarrow> argument list option \<Rightarrow> (nat \<Rightarrow> string option) \<Rightarrow> ixml result" where
  "gen_scpd_action name arglist varnames =
     bindE (add_value_element (createElement ''action'') ''name'' name) (\<lambda>top.
     case arglist of
       None \<Rightarrow> Inr top
     | Some args \<Rightarrow>
         bindE (mapE (gen_scpd_argument varnames) args) (\<lambda>children.
         Inr (ixmlNode_appendChild top
                (fold (\<lambda>c p. ixmlNode_appendChild p c) children (createElement ''argumentList'')))))"

definition gen_scpd_actionlist :: "'w service \<Rightarrow> ixml result" where
  "gen_scpd_actionlist srv =
     bindE (mapE (\<lambda>i. bindE (nthE (actions srv) i) (\<lambda>act.
              gen_scpd_action (action_name act) (action_arguments srv i) (variable_names srv)))
            [0..<command_count srv]) (\<lambda>children.
     Inr (fold (\<lambda>c p. ixmlNode_appendChild p c) children (createElement ''actionList'')))"

definition gen_scpd_statevar :: "string option \<Rightarrow> var_meta \<Rightarrow> ixml result" where
  "gen_scpd_statevar name meta =
     bindE (Inr (add_value_attribute (createElement ''stateVariable'') ''sendEvents''
              (if sendevents meta = SENDEVENT_YES then ''yes'' else ''no''))) (\<lambda>top.
     bindE (add_value_element top ''name'' name) (\<lambda>top.
     bindE (add_value_element top ''dataType'' (param_datatype_names (datatype_of meta))) (\<lambda>top.
     bindE (case allowed_values meta of
              None \<Rightarrow> Inr top
            | Some values \<Rightarrow>
                Inr (ixmlNode_appendChild top
                  (fold (\<lambda>v p. ixmlNode_appendChild p
                           (ixmlNode_appendChild (createElement ''allowedValue'') (TextNode v)))
                     values (createElement ''allowedValueList'')))) (\<lambda>top.
     bindE (case allowed_range meta of
              None \<Rightarrow> Inr top
            | Some rng \<Rightarrow>
                bindE (add_value_element_long (createElement ''allowedValueRange'') ''minimum'' (range_min rng)) (\<lambda>parent.
                bindE (add_value_element_long parent ''maximum'' (range_max rng)) (\<lambda>parent.
                bindE (if range_step rng \<noteq> 0
                       then add_value_element_long parent ''step'' (range_step rng)
                       else Inr parent) (\<lambda>parent.
                Inr (ixmlNode_appendChild top parent))))) (\<lambda>top.
     case default_value meta of
       None \<Rightarrow> Inr top
     | Some v \<Rightarrow> add_value_element top ''defaultValue'' (Some v))))))"

definition gen_scpd_servicestatetable :: "'w service \<Rightarrow> ixml result" where
  "gen_scpd_servicestatetable srv =
     bindE (mapE (\<lambda>i. bindE (deref (variable_meta srv i)) (gen_scpd_statevar (variable_names srv i)))
            [0..<variable_count srv]) (\<lambda>children.
     Inr (fold (\<lambda>c p. ixmlNode_appendChild p c) children (createElement ''serviceStateTable'')))"

definition generate_scpd :: "'w service \<Rightarrow> ixml result" where
  "generate_scpd srv =
     bindE (Inr (add_value_attribute (createElement ''scpd'') ''xmlns''
              ''urn:schemas-upnp-org:service-1-0'')) (\<lambda>root.
     bindE (gen_specversion 1 0) (\<lambda>child.
     bindE (Inr (ixmlNode_appendChild root child)) (\<lambda>root.
     bindE (gen_scpd_actionlist srv) (\<lambda>child.
     bindE (Inr (ixmlNode_appendChild root child)) (\<lambda>root.
     bindE (gen_scpd_servicestatetable srv) (\<lambda>child.
     Inr (ixmlNode_appendChild (Document []) (ixmlNode_appendChild root child))))))))"

definition gen_desc_iconlist :: "icon list \<Rightarrow> ixml result" where
  "gen_desc_iconlist icon_list =
     bindE (mapE (\<lambda>icon_entry.
       bindE (add_value_element (createElement ''icon'') ''mimetype'' (Some (icon_mimetype icon_entry))) (\<lambda>parent.
       bindE (add_value_element_int parent ''width'' (icon_width icon_entry)) (\<lambda>parent.
       bindE (add_value_element_int parent ''height'' (icon_height icon_entry)) (\<lambda>parent.
       bindE (add_value_element_int parent ''depth'' (icon_depth icon_entry)) (\<lambda>parent.
       add_value_element parent ''url'' (Some (icon_url icon_entry))))))) icon_list) (\<lambda>children.
     Inr (fold (\<lambda>c p. ixmlNode_appendChild p c) children (createElement ''iconList'')))"

definition gen_desc_servicelist :: "'w device \<Rightarrow> ixml result" where
  "gen_desc_servicelist device_def =
     bindE (mapE (\<lambda>srv.
       bindE (add_value_element (createElement ''service'') ''serviceType'' (Some (service_type srv))) (\<lambda>parent.
       bindE (add_value_element parent ''serviceId'' (Some (service_name srv))) (\<lambda>parent.
       bindE (add_value_element parent ''SCPDURL'' (Some (scpd_url srv))) (\<lambda>parent.
       bindE (add_value_element parent ''controlURL'' (Some (control_url srv))) (\<lambda>parent.
       add_value_element parent ''eventSubURL'' (Some (event_url srv))))))) (services device_def)) (\<lambda>children.
     Inr (fold (\<lambda>c p. ixmlNode_appendChild p c) children (createElement ''serviceList'')))"

fun add_value_elements :: "ixml \<Rightarrow> (string \<times> string) list \<Rightarrow> ixml result" where
  "add_value_elements parent [] = Inr parent"
| "add_value_elements parent ((t, v) # tvs) =
     bindE (add_value_element parent t (Some v)) (\<lambda>parent. add_value_elements parent tvs)"

definition generate_desc :: "'w device \<Rightarrow> ixml result" where
  "generate_desc device_def =
     bindE (Inr (add_value_attribute (createElement ''root'') ''xmlns''
              ''urn:schemas-upnp-org:device-1-0'')) (\<lambda>root.
     bindE (gen_specversion 1 0) (\<lambda>child.
     bindE (Inr (ixmlNode_appendChild root child)) (\<lambda>root.
     bindE (add_value_elements (createElement ''device'')
       [(''deviceType'', device_type device_def),
        (''presentationURL'', presentation_url device_def),
        (''friendlyName'', friendly_name device_def),
        (''manufacturer'', manufacturer device_def),
        (''manufacturerURL'', manufacturer_url device_def),
        (''modelDescription'', model_description device_def),
        (''modelName'', model_name device_def),
        (''modelURL'', model_url device_def),
        (''UDN'', udn device_def),
        (''modelNumber'', model_number device_def),
        (''serialNumber'', serial_number device_def)]) (\<lambda>parent.
     bindE (case icons device_def of
              None \<Rightarrow> Inr parent
            | Some is \<Rightarrow> bindE (gen_desc_iconlist is) (\<lambda>child.
                Inr (ixmlNode_appendChild parent child))) (\<lambda>parent.
     bindE (gen_desc_servicelist device_def) (\<lambda>child.
     Inr (ixmlNode_appendChild (Document [])
            (ixmlNode_appendChild root (ixmlNode_appendChild parent child)))))))))"

text \<open>\<open>to_string\<close> is \<open>ixmlDocumenttoString\<close>.\<close>

definition upnp_get_scpd :: "(ixml \<Rightarrow> string) \<Rightarrow> 'w service \<Rightarrow> string result" where
  "upnp_get_scpd to_string srv = bindE (generate_scpd srv) (\<lambda>doc. Inr (to_string doc))"

definition upnp_get_device_desc :: "(ixml \<Rightarrow> string) \<Rightarrow> 'w device \<Rightarrow> string result" where
  "upnp_get_device_desc to_string device_def =
     bindE (generate_desc device_def) (\<lambda>doc. Inr (to_string doc))"

section \<open>Reading a document back\<close>

text \<open>The nodes a path of tag names leads to, in document order, and their text.\<close>

fun descend :: "string list \<Rightarrow> ixml \<Rightarrow> ixml list" where
  "descend [] n = [n]"
| "descend (t # ts) n = concat (map (descend ts) (filter (\<lambda>c. node_name c = t) (child_nodes n)))"

definition texts :: "string list \<Rightarrow> ixml \<Rightarrow> string list" where
  "texts path n = concat (map (\<lambda>e. List.map_filter node_value (child_nodes e)) (descend path n))"

lemma fold_appendChild_Element:
  "fold (\<lambda>c p. ixmlNode_appendChild p c) cs (Element t as ns) = Element t as (ns @ cs)"
  by (induction cs arbitrary: ns) auto

lemma fold_appendChild_text:
  "fold (\<lambda>v p. ixmlNode_appendChild p (f v)) vs (Element t as ns) = Element t as (ns @ map f vs)"
  by (induction vs arbitrary: ns) auto

section \<open>The documents as trees\<close>

abbreviation text_element :: "string \<Rightarrow> string \<Rightarrow> ixml" where
  "text_element t v \<equiv> Element t [] [TextNode v]"

lemma add_value_element_Element:
  "add_value_element (Element t as ns) tag (Some v) = Inr (Element t as (ns @ [text_element tag v]))"
  by (simp add: add_value_element_def)

lemmas desc_simps = add_value_element_Element add_value_element_int_def add_value_element_long_def
  fold_appendChild_Element fold_appendChild_text

lemma gen_specversion_tree:
  "gen_specversion a b = Inr (Element ''specVersion'' []
     [text_element ''major'' (fmt_d a), text_element ''minor'' (fmt_d b)])"
  by (simp add: gen_specversion_def desc_simps)

definition scpd_argument_tree :: "(nat \<Rightarrow> string option) \<Rightarrow> argument \<Rightarrow> ixml" where
  "scpd_argument_tree names a = Element ''argument'' []
     [text_element ''name'' (arg_name a),
      text_element ''direction'' (if direction a = PARAM_DIR_IN then ''in'' else ''out''),
      text_element ''relatedStateVariable'' (the (names (statevar a)))]"

lemma gen_scpd_argument_tree:
  "names (statevar a) \<noteq> None \<Longrightarrow> gen_scpd_argument names a = Inr (scpd_argument_tree names a)"
  by (auto simp: gen_scpd_argument_def scpd_argument_tree_def desc_simps)

definition scpd_action_tree ::
  "(nat \<Rightarrow> string option) \<Rightarrow> string option \<Rightarrow> argument list option \<Rightarrow> ixml" where
  "scpd_action_tree names n args = Element ''action'' []
     (text_element ''name'' (the n) #
      (case args of
         None \<Rightarrow> []
       | Some as \<Rightarrow> [Element ''argumentList'' [] (map (scpd_argument_tree names) as)]))"

lemma gen_scpd_action_tree:
  assumes "n \<noteq> None" and "\<forall>as. args = Some as \<longrightarrow> (\<forall>a\<in>set as. names (statevar a) \<noteq> None)"
  shows "gen_scpd_action n args names = Inr (scpd_action_tree names n args)"
proof (cases args)
  case None
  with assms show ?thesis by (auto simp: gen_scpd_action_def scpd_action_tree_def desc_simps)
next
  case (Some as)
  with assms have "mapE (gen_scpd_argument names) as = Inr (map (scpd_argument_tree names) as)"
    by (intro mapE_total) (simp add: gen_scpd_argument_tree)
  with Some assms(1) show ?thesis
    by (auto simp: gen_scpd_action_def scpd_action_tree_def desc_simps)
qed

definition scpd_statevar_tree :: "string option \<Rightarrow> var_meta \<Rightarrow> ixml" where
  "scpd_statevar_tree n meta = Element ''stateVariable''
     [(''sendEvents'', if sendevents meta = SENDEVENT_YES then ''yes'' else ''no'')]
     ([text_element ''name'' (the n), text_element ''dataType'' (the (param_datatype_names (datatype_of meta)))]
      @ (case allowed_values meta of None \<Rightarrow> []
         | Some vs \<Rightarrow> [Element ''allowedValueList'' [] (map (text_element ''allowedValue'') vs)])
      @ (case allowed_range meta of None \<Rightarrow> []
         | Some r \<Rightarrow> [Element ''allowedValueRange'' []
             ([text_element ''minimum'' (fmt_d (range_min r)), text_element ''maximum'' (fmt_d (range_max r))]
              @ (if range_step r \<noteq> 0 then [text_element ''step'' (fmt_d (range_step r))] else []))])
      @ (case default_value meta of None \<Rightarrow> [] | Some v \<Rightarrow> [text_element ''defaultValue'' v]))"

lemma gen_scpd_statevar_tree:
  assumes "n \<noteq> None" and "datatype_of meta \<noteq> DATATYPE_UNKNOWN"
  shows "gen_scpd_statevar n meta = Inr (scpd_statevar_tree n meta)"
proof -
  from assms(2) obtain d where "param_datatype_names (datatype_of meta) = Some d"
    by (cases "datatype_of meta") auto
  with assms(1) show ?thesis
    by (auto simp: gen_scpd_statevar_def scpd_statevar_tree_def desc_simps split: option.splits)
qed

text \<open>
  A service is well formed when its tables agree: the action table is complete and ends
  with its sentinel, every argument refers to a variable below \<open>variable_count\<close>, and every
  such variable has a name and a data type.
\<close>

definition service_tables_ok :: "'w service \<Rightarrow> bool" where
  "service_tables_ok srv \<longleftrightarrow>
     action_table_ok (actions srv)
   \<and> length (actions srv) = Suc (command_count srv)
   \<and> (\<forall>i\<in>set [0..<variable_count srv]. variable_names srv i \<noteq> None
        \<and> (case variable_meta srv i of None \<Rightarrow> False | Some m \<Rightarrow> datatype_of m \<noteq> DATATYPE_UNKNOWN))
   \<and> (\<forall>i\<in>set [0..<command_count srv]. case action_arguments srv i of
          None \<Rightarrow> True | Some as \<Rightarrow> \<forall>a\<in>set as. statevar a < variable_count srv)"

definition scpd_tree :: "'w service \<Rightarrow> ixml" where
  "scpd_tree srv = Document [Element ''scpd'' [(''xmlns'', ''urn:schemas-upnp-org:service-1-0'')]
     [Element ''specVersion'' [] [text_element ''major'' (fmt_d 1), text_element ''minor'' (fmt_d 0)],
      Element ''actionList'' [] (map (\<lambda>i. scpd_action_tree (variable_names srv)
         (action_name (actions srv ! i)) (action_arguments srv i)) [0..<command_count srv]),
      Element ''serviceStateTable'' [] (map (\<lambda>i. scpd_statevar_tree (variable_names srv i)
         (the (variable_meta srv i))) [0..<variable_count srv])]]"

lemma service_tables_argument:
  assumes "service_tables_ok srv" and "i < command_count srv"
    and "action_arguments srv i = Some as" and "a \<in> set as"
  shows "statevar a < variable_count srv"
proof -
  have "i \<in> set [0..<command_count srv]" using assms(2) by simp
  with assms(1) have "case action_arguments srv i of None \<Rightarrow> True
      | Some as \<Rightarrow> \<forall>a\<in>set as. statevar a < variable_count srv"
    unfolding service_tables_ok_def by blast
  with assms(3,4) show ?thesis by simp
qed

lemma service_tables_action:
  assumes "service_tables_ok srv" and "i < command_count srv"
  shows "i < length (actions srv)" "action_name (actions srv ! i) \<noteq> None"
    "\<forall>as. action_arguments srv i = Some as \<longrightarrow> (\<forall>a\<in>set as. variable_names srv (statevar a) \<noteq> None)"
proof -
  show i: "i < length (actions srv)" using assms by (simp add: service_tables_ok_def)
  have "actions srv ! i \<in> set (butlast (actions srv))"
    using assms by (auto simp: service_tables_ok_def in_set_conv_nth nth_butlast)
  then show "action_name (actions srv ! i) \<noteq> None"
    using assms(1) by (auto simp: service_tables_ok_def action_table_ok_def)
  show "\<forall>as. action_arguments srv i = Some as \<longrightarrow> (\<forall>a\<in>set as. variable_names srv (statevar a) \<noteq> None)"
  proof (intro allI impI ballI)
    fix as a assume "action_arguments srv i = Some as" and "a \<in> set as"
    with assms have "statevar a < variable_count srv"
      by (blast intro: service_tables_argument)
    with assms(1) show "variable_names srv (statevar a) \<noteq> None"
      by (simp add: service_tables_ok_def)
  qed
qed

lemma generate_scpd_tree:
  assumes ok: "service_tables_ok srv"
  shows "generate_scpd srv = Inr (scpd_tree srv)"
proof -
  have "mapE (\<lambda>i. bindE (nthE (actions srv) i) (\<lambda>act.
            gen_scpd_action (action_name act) (action_arguments srv i) (variable_names srv))) [0..<command_count srv]
      = Inr (map (\<lambda>i. scpd_action_tree (variable_names srv)
           (action_name (actions srv ! i)) (action_arguments srv i)) [0..<command_count srv])"
    using service_tables_action [OF ok] by (intro mapE_total) (simp add: gen_scpd_action_tree)
  moreover have "mapE (\<lambda>i. bindE (deref (variable_meta srv i)) (gen_scpd_statevar (variable_names srv i)))
        [0..<variable_count srv]
      = Inr (map (\<lambda>i. scpd_statevar_tree (variable_names srv i) (the (variable_meta srv i))) [0..<variable_count srv])"
    using ok by (intro mapE_total)
      (auto simp: service_tables_ok_def gen_scpd_statevar_tree split: option.splits)
  ultimately show ?thesis
    by (simp add: generate_scpd_def scpd_tree_def gen_scpd_actionlist_def
        gen_scpd_servicestatetable_def gen_specversion_tree desc_simps)
qed

lemma scpd_action_tree_name: "node_name (scpd_action_tree names n args) = ''action''"
  and scpd_statevar_tree_name: "node_name (scpd_statevar_tree n meta) = ''stateVariable''"
  by (simp_all add: scpd_action_tree_def scpd_statevar_tree_def)

lemma texts_scpd_action_tree:
  "texts [''name''] (scpd_action_tree names n args) = [the n]"
  "texts [''argumentList'', ''argument'', ''relatedStateVariable''] (scpd_action_tree names n args)
     = (case args of None \<Rightarrow> [] | Some as \<Rightarrow> map (\<lambda>a. the (names (statevar a))) as)"
proof -
  show "texts [''name''] (scpd_action_tree names n args) = [the n]"
    by (cases args) (simp_all add: texts_def scpd_action_tree_def map_filter_simps)
  have f: "filter (\<lambda>c. node_name c = ''argument'') (map (scpd_argument_tree names) as)
      = map (scpd_argument_tree names) as" for as
    by (induction as) (simp_all add: scpd_argument_tree_def)
  have "concat (map (\<lambda>e. List.map_filter node_value (child_nodes e))
        (concat (map (descend [''relatedStateVariable'']) (map (scpd_argument_tree names) as))))
      = map (\<lambda>a. the (names (statevar a))) as" for as
    by (induction as) (simp_all add: scpd_argument_tree_def map_filter_simps)
  then show "texts [''argumentList'', ''argument'', ''relatedStateVariable''] (scpd_action_tree names n args)
     = (case args of None \<Rightarrow> [] | Some as \<Rightarrow> map (\<lambda>a. the (names (statevar a))) as)"
    by (simp add: texts_def scpd_action_tree_def f split: option.splits)
qed

lemma texts_scpd_statevar_tree: "texts [''name''] (scpd_statevar_tree n meta) = [the n]"
  by (cases "allowed_values meta"; cases "allowed_range meta"; cases "default_value meta")
    (simp_all add: texts_def scpd_statevar_tree_def map_filter_simps)

lemma texts_Cons:
  "texts (t # ts) n = concat (map (texts ts) (filter (\<lambda>c. node_name c = t) (child_nodes n)))"
  by (simp add: texts_def concat_map_concat fun_eq_iff cong: map_cong)

lemma concat_map_singleton: "concat (map (\<lambda>i. [f i]) xs) = map f xs"
  by (induction xs) auto

lemma filter_True_map:
  assumes "\<And>i. node_name (f i) = t"
  shows "filter (\<lambda>c. node_name c = t) (map f xs) = map f xs"
  using assms by (induction xs) auto

lemma scpd_texts:
  assumes ok: "service_tables_ok srv"
  shows "texts [''scpd'', ''actionList'', ''action'', ''name''] (scpd_tree srv)
      = map (\<lambda>a. the (action_name a)) (butlast (actions srv))"
    and "texts [''scpd'', ''serviceStateTable'', ''stateVariable'', ''name''] (scpd_tree srv)
      = map (\<lambda>i. the (variable_names srv i)) [0..<variable_count srv]"
    and "set (texts [''scpd'', ''actionList'', ''action'', ''argumentList'', ''argument'', ''relatedStateVariable'']
           (scpd_tree srv))
      \<subseteq> set (texts [''scpd'', ''serviceStateTable'', ''stateVariable'', ''name''] (scpd_tree srv))"
proof -
  have len: "length (actions srv) = Suc (command_count srv)"
    using ok by (simp add: service_tables_ok_def)
  then have "map (\<lambda>i. the (action_name (actions srv ! i))) [0..<command_count srv]
      = map (\<lambda>a. the (action_name a)) (butlast (actions srv))"
    by (intro nth_equalityI) (simp_all add: nth_butlast)
  then show "texts [''scpd'', ''actionList'', ''action'', ''name''] (scpd_tree srv)
      = map (\<lambda>a. the (action_name a)) (butlast (actions srv))"
    by (simp add: texts_Cons [of "''scpd''"] texts_Cons [of "''actionList''"] texts_Cons [of "''action''"]
        scpd_tree_def filter_True_map scpd_action_tree_name texts_scpd_action_tree o_def concat_map_singleton)
  show names: "texts [''scpd'', ''serviceStateTable'', ''stateVariable'', ''name''] (scpd_tree srv)
      = map (\<lambda>i. the (variable_names srv i)) [0..<variable_count srv]"
    by (simp add: texts_Cons [of "''scpd''"] texts_Cons [of "''serviceStateTable''"]
        texts_Cons [of "''stateVariable''"] scpd_tree_def filter_True_map scpd_statevar_tree_name
        texts_scpd_statevar_tree o_def concat_map_singleton)
  have related: "texts [''scpd'', ''actionList'', ''action'', ''argumentList'', ''argument'', ''relatedStateVariable'']
        (scpd_tree srv)
      = concat (map (\<lambda>i. case action_arguments srv i of None \<Rightarrow> []
          | Some as \<Rightarrow> map (\<lambda>a. the (variable_names srv (statevar a))) as) [0..<command_count srv])"
    by (simp add: texts_Cons [of "''scpd''"] texts_Cons [of "''actionList''"] texts_Cons [of "''action''"]
        scpd_tree_def filter_True_map scpd_action_tree_name texts_scpd_action_tree o_def)
  show "set (texts [''scpd'', ''actionList'', ''action'', ''argumentList'', ''argument'', ''relatedStateVariable'']
           (scpd_tree srv))
      \<subseteq> set (texts [''scpd'', ''serviceStateTable'', ''stateVariable'', ''name''] (scpd_tree srv))"
    unfolding names related
    by (auto split: option.splits intro!: imageI service_tables_argument [OF ok] dest: sym)
qed

section \<open>The device description as a tree\<close>

definition icon_tree :: "icon \<Rightarrow> ixml" where
  "icon_tree i = Element ''icon'' []
     [text_element ''mimetype'' (icon_mimetype i), text_element ''width'' (fmt_d (icon_width i)),
      text_element ''height'' (fmt_d (icon_height i)), text_element ''depth'' (fmt_d (icon_depth i)),
      text_element ''url'' (icon_url i)]"

definition service_tree :: "'w service \<Rightarrow> ixml" where
  "service_tree s = Element ''service'' []
     [text_element ''serviceType'' (service_type s), text_element ''serviceId'' (service_name s),
      text_element ''SCPDURL'' (scpd_url s), text_element ''controlURL'' (control_url s),
      text_element ''eventSubURL'' (event_url s)]"

definition desc_tree :: "'w device \<Rightarrow> ixml" where
  "desc_tree d = Document [Element ''root'' [(''xmlns'', ''urn:schemas-upnp-org:device-1-0'')]
     [Element ''specVersion'' [] [text_element ''major'' (fmt_d 1), text_element ''minor'' (fmt_d 0)],
      Element ''device'' []
        (map (\<lambda>(t, v). text_element t v)
           [(''deviceType'', device_type d), (''presentationURL'', presentation_url d),
            (''friendlyName'', friendly_name d), (''manufacturer'', manufacturer d),
            (''manufacturerURL'', manufacturer_url d), (''modelDescription'', model_description d),
            (''modelName'', model_name d), (''modelURL'', model_url d), (''UDN'', udn d),
            (''modelNumber'', model_number d), (''serialNumber'', serial_number d)]
         @ (case icons d of None \<Rightarrow> [] | Some is \<Rightarrow> [Element ''iconList'' [] (map icon_tree is)])
         @ [Element ''serviceList'' [] (map service_tree (services d))])]]"

lemma gen_desc_iconlist_tree: "gen_desc_iconlist is = Inr (Element ''iconList'' [] (map icon_tree is))"
proof -
  have "mapE (\<lambda>i.
       bindE (add_value_element (createElement ''icon'') ''mimetype'' (Some (icon_mimetype i))) (\<lambda>parent.
       bindE (add_value_element_int parent ''width'' (icon_width i)) (\<lambda>parent.
       bindE (add_value_element_int parent ''height'' (icon_height i)) (\<lambda>parent.
       bindE (add_value_element_int parent ''depth'' (icon_depth i)) (\<lambda>parent.
       add_value_element parent ''url'' (Some (icon_url i))))))) is = Inr (map icon_tree is)"
    by (intro mapE_total ballI) (simp add: desc_simps icon_tree_def)
  then show ?thesis
    by (simp add: gen_desc_iconlist_def fold_appendChild_Element)
qed

lemma gen_desc_servicelist_tree:
  "gen_desc_servicelist d = Inr (Element ''serviceList'' [] (map service_tree (services d)))"
proof -
  have "mapE (\<lambda>srv.
       bindE (add_value_element (createElement ''service'') ''serviceType'' (Some (service_type srv))) (\<lambda>parent.
       bindE (add_value_element parent ''serviceId'' (Some (service_name srv))) (\<lambda>parent.
       bindE (add_value_element parent ''SCPDURL'' (Some (scpd_url srv))) (\<lambda>parent.
       bindE (add_value_element parent ''controlURL'' (Some (control_url srv))) (\<lambda>parent.
       add_value_element parent ''eventSubURL'' (Some (event_url srv))))))) (services d)
     = Inr (map service_tree (services d))"
    by (intro mapE_total ballI) (simp add: desc_simps service_tree_def)
  then show ?thesis
    by (simp add: gen_desc_servicelist_def fold_appendChild_Element)
qed

lemma generate_desc_tree: "generate_desc d = Inr (desc_tree d)"
  by (cases "icons d")
    (simp_all add: generate_desc_def desc_tree_def gen_specversion_tree add_value_element_Element
      gen_desc_iconlist_tree gen_desc_servicelist_tree)

lemma desc_texts:
  "texts [''root'', ''device'', ''UDN''] (desc_tree d) = [udn d]"
  "texts [''root'', ''device'', ''friendlyName''] (desc_tree d) = [friendly_name d]"
  "texts [''root'', ''device'', ''serviceList'', ''service'', ''serviceId''] (desc_tree d) = map service_name (services d)"
  "texts [''root'', ''device'', ''serviceList'', ''service'', ''SCPDURL''] (desc_tree d) = map scpd_url (services d)"
proof -
  have f: "filter (\<lambda>c. node_name c = ''service'') (map service_tree ss) = map service_tree ss" for ss :: "'a service list"
    by (simp add: filter_True_map service_tree_def)
  have t: "texts [''serviceId''] (service_tree s) = [service_name s]"
    "texts [''SCPDURL''] (service_tree s) = [scpd_url s]" for s :: "'a service"
    by (simp_all add: texts_def service_tree_def map_filter_simps)
  have d: "filter (\<lambda>c. node_name c = ''serviceList'') (child_nodes (Element ''device'' [] 
      (map (\<lambda>(t, v). text_element t v)
           [(''deviceType'', device_type d), (''presentationURL'', presentation_url d),
            (''friendlyName'', friendly_name d), (''manufacturer'', manufacturer d),
            (''manufacturerURL'', manufacturer_url d), (''modelDescription'', model_description d),
            (''modelName'', model_name d), (''modelURL'', model_url d), (''UDN'', udn d),
            (''modelNumber'', model_number d), (''serialNumber'', serial_number d)]
         @ (case icons d of None \<Rightarrow> [] | Some is \<Rightarrow> [Element ''iconList'' [] (map icon_tree is)])
         @ [Element ''serviceList'' [] (map service_tree (services d))])))
      = [Element ''serviceList'' [] (map service_tree (services d))]"
    by (cases "icons d") simp_all
  show "texts [''root'', ''device'', ''serviceList'', ''service'', ''serviceId''] (desc_tree d) = map service_name (services d)"
    and "texts [''root'', ''device'', ''serviceList'', ''service'', ''SCPDURL''] (desc_tree d) = map scpd_url (services d)"
    using d by (simp_all add: texts_Cons [of "''root''"] texts_Cons [of "''device''"]
      texts_Cons [of "''serviceList''"] texts_Cons [of "''service''"] desc_tree_def f t o_def concat_map_singleton)
  show "texts [''root'', ''device'', ''UDN''] (desc_tree d) = [udn d]"
    and "texts [''root'', ''device'', ''friendlyName''] (desc_tree d) = [friendly_name d]"
    by (cases "icons d"; simp add: texts_def desc_tree_def map_filter_simps)+
qed

text \<open>
  What a client gets from the description of a well-formed service: the document lists the
  actions of the table, in order, each of them is one the dispatcher finds, and every state
  variable an argument refers to is declared in the state table.
\<close>

lemma service_described:
  assumes ok: "service_tables_ok s"
  shows "\<exists>doc. generate_scpd s = Inr doc
    \<and> texts [''scpd'', ''actionList'', ''action'', ''name''] doc
        = map (\<lambda>a. the (action_name a)) (butlast (actions s))
    \<and> (\<forall>n\<in>set (texts [''scpd'', ''actionList'', ''action'', ''name''] doc).
         \<exists>a. find_action (Some s) n = Inr (Some a) \<and> action_name a = Some n)
    \<and> set (texts [''scpd'', ''actionList'', ''action'', ''argumentList'', ''argument'', ''relatedStateVariable''] doc)
        \<subseteq> set (texts [''scpd'', ''serviceStateTable'', ''stateVariable'', ''name''] doc)"
proof -
  have t: "action_table_ok (actions s)" using ok by (simp add: service_tables_ok_def)
  have "\<exists>a. find_action (Some s) n = Inr (Some a) \<and> action_name a = Some n"
    if n: "n \<in> (\<lambda>a. the (action_name a)) ` set (butlast (actions s))" for n
  proof -
    obtain a where a: "a \<in> set (butlast (actions s))" "n = the (action_name a)"
      using n by blast
    then have "action_name a = Some n" "a \<in> set (actions s)"
      using t by (auto simp: action_table_ok_def dest: in_set_butlastD)
    then show ?thesis
      using find_action_loop_member [OF t] by (auto simp: find_action_def)
  qed
  with scpd_texts [OF ok] generate_scpd_tree [OF ok] show ?thesis
    by (intro exI [of _ "scpd_tree s"]) simp
qed

end
