(* ===== verification/Xmlescape.thy ===== *)
theory Xmlescape
  imports CLib
begin

text \<open>
  xmlescape.c: escaping a string for inclusion in XML. \<open>xmlescape_real\<close> is called
  twice, once with no target to count the length of the result and once to write it into
  a buffer of that length plus one. The specification \<open>xml_text\<close> replaces characters one
  by one; the lemmas show that the two passes agree, that no byte is written outside the
  buffer, and that the text form (the one every caller uses) loses no information.
\<close>

section \<open>The code\<close>

fun xmlescape_write :: "bool \<Rightarrow> string \<Rightarrow> buffer \<Rightarrow> int \<Rightarrow> (buffer \<times> int) result" where
  "xmlescape_write attribute [] target len = Inr (target, len)"
| "xmlescape_write attribute (c # str) target len =
     (if c = CHR ''<'' then
        bindE (memcpy_at target (nat len) ''&lt;'') (\<lambda>target.
        bindE (cint (len + 4)) (\<lambda>len. xmlescape_write attribute str target len))
      else if attribute \<and> c = CHR 0x22 then
        bindE (memcpy_at target (nat len) ''%22'') (\<lambda>target.
        bindE (cint (len + 3)) (\<lambda>len. xmlescape_write attribute str target len))
      else if c = CHR ''>'' then
        bindE (memcpy_at target (nat len) ''&gt;'') (\<lambda>target.
        bindE (cint (len + 4)) (\<lambda>len. xmlescape_write attribute str target len))
      else if c = CHR ''&'' then
        bindE (memcpy_at target (nat len) ''&amp;'') (\<lambda>target.
        bindE (cint (len + 5)) (\<lambda>len. xmlescape_write attribute str target len))
      else
        bindE (memcpy_at target (nat len) [c]) (\<lambda>target.
        bindE (cint (len + 1)) (\<lambda>len. xmlescape_write attribute str target len)))"

fun xmlescape_count :: "bool \<Rightarrow> string \<Rightarrow> int \<Rightarrow> int result" where
  "xmlescape_count attribute [] len = Inr len"
| "xmlescape_count attribute (c # str) len =
     (if c = CHR ''<'' then bindE (cint (len + 4)) (xmlescape_count attribute str)
      else if attribute \<and> c = CHR 0x22 then bindE (cint (len + 3)) (xmlescape_count attribute str)
      else if c = CHR ''>'' then bindE (cint (len + 4)) (xmlescape_count attribute str)
      else if c = CHR ''&'' then bindE (cint (len + 5)) (xmlescape_count attribute str)
      else bindE (cint (len + 1)) (xmlescape_count attribute str))"

text \<open>
  The target may be NULL and so may the pointer the length is stored through
  (\<open>want_length\<close>); the result is the target buffer and the stored length.
\<close>

definition xmlescape_real ::
  "string \<Rightarrow> buffer option \<Rightarrow> bool \<Rightarrow> bool \<Rightarrow> (buffer option \<times> int option) result" where
  "xmlescape_real str target want_length attribute =
     (case target of
        Some t \<Rightarrow>
          bindE (xmlescape_write attribute str t 0) (\<lambda>(t, len).
          bindE (memcpy_at t (nat len) [NUL]) (\<lambda>t.
          Inr (Some t, if want_length then Some len else None)))
      | None \<Rightarrow>
          if want_length
          then bindE (xmlescape_count attribute str 0) (\<lambda>len. Inr (None, Some len))
          else Inr (None, None))"

definition xmlescape :: "string \<Rightarrow> bool \<Rightarrow> string result" where
  "xmlescape str attribute =
     bindE (xmlescape_real str None True attribute) (\<lambda>(_, len).
     bindE (deref len) (\<lambda>len.
     bindE (cint (len + 1)) (\<lambda>n.
     bindE (xmlescape_real str (Some (malloc (nat n))) False attribute) (\<lambda>(out, _).
     bindE (deref out) read_cstring))))"

section \<open>The specification\<close>

definition xml_char :: "bool \<Rightarrow> char \<Rightarrow> string" where
  "xml_char attribute c =
     (if c = CHR ''<'' then ''&lt;''
      else if attribute \<and> c = CHR 0x22 then ''%22''
      else if c = CHR ''>'' then ''&gt;''
      else if c = CHR ''&'' then ''&amp;''
      else [c])"

definition xml_text :: "bool \<Rightarrow> string \<Rightarrow> string" where
  "xml_text attribute s = concat (map (xml_char attribute) s)"

lemma xml_text_simps [simp]:
  "xml_text a [] = []"
  "xml_text a (c # s) = xml_char a c @ xml_text a s"
  by (simp_all add: xml_text_def)

lemma xml_text_append: "xml_text a (s @ t) = xml_text a s @ xml_text a t"
  by (simp add: xml_text_def)

lemma xml_char_length: "1 \<le> length (xml_char a c)" "length (xml_char a c) \<le> 5"
  by (simp_all add: xml_char_def)

lemma xml_text_length: "length s \<le> length (xml_text a s)" "length (xml_text a s) \<le> 5 * length s"
proof (induction s)
  case (Cons c s)
  case 1
  with Cons xml_char_length [of a c] show ?case by simp
next
  case (Cons c s)
  case 2
  with Cons xml_char_length [of a c] show ?case by simp
qed simp_all

lemma xml_char_NUL: "c \<noteq> NUL \<Longrightarrow> NUL \<notin> set (xml_char a c)"
  by (auto simp: xml_char_def split: if_splits)

lemma xml_text_NUL: "NUL \<notin> set s \<Longrightarrow> NUL \<notin> set (xml_text a s)"
proof (induction s)
  case (Cons c s)
  with xml_char_NUL [of c a] show ?case by auto
qed simp

section \<open>Both passes follow the specification\<close>

lemma xmlescape_count_step:
  "xmlescape_count a (c # s) len = bindE (cint (len + int (length (xml_char a c)))) (xmlescape_count a s)"
  by (simp add: xml_char_def)

lemma xmlescape_write_step:
  "xmlescape_write a (c # s) t len =
     bindE (memcpy_at t (nat len) (xml_char a c)) (\<lambda>t.
     bindE (cint (len + int (length (xml_char a c)))) (\<lambda>len. xmlescape_write a s t len))"
  by (simp add: xml_char_def)

lemma xmlescape_count_text:
  assumes "0 \<le> len" and "len + int (length (xml_text a s)) \<le> INT_MAX"
  shows "xmlescape_count a s len = Inr (len + int (length (xml_text a s)))"
  using assms
proof (induction s arbitrary: len)
  case (Cons c s)
  then have "INT_MIN \<le> len + int (length (xml_char a c))"
    and "len + int (length (xml_char a c)) \<le> INT_MAX"
    by (auto simp: INT_MIN_def)
  moreover have "xmlescape_count a s (len + int (length (xml_char a c)))
      = Inr (len + int (length (xml_char a c)) + int (length (xml_text a s)))"
    using Cons by simp
  ultimately show ?case by (simp only: xmlescape_count_step) simp
qed simp

lemma xmlescape_write_text:
  assumes "length pre + length (xml_text a s) \<le> nat INT_MAX" and "length (xml_text a s) \<le> k"
  shows "xmlescape_write a s (map Some pre @ malloc k) (int (length pre))
    = Inr (map Some (pre @ xml_text a s) @ malloc (k - length (xml_text a s)),
           int (length pre + length (xml_text a s)))"
  using assms
proof (induction s arbitrary: pre k)
  case (Cons c s)
  let ?x = "xml_char a c"
  have k: "length ?x \<le> k" using Cons.prems by simp
  have range: "int (length pre) + int (length ?x) \<le> INT_MAX"
    using Cons.prems by (auto simp: INT_MAX_def)
  have "xmlescape_write a s (map Some (pre @ ?x) @ malloc (k - length ?x)) (int (length (pre @ ?x)))
    = Inr (map Some ((pre @ ?x) @ xml_text a s) @ malloc (k - length ?x - length (xml_text a s)),
           int (length (pre @ ?x) + length (xml_text a s)))"
    using Cons.prems by (intro Cons.IH) auto
  with k range show ?case
    by (simp only: xmlescape_write_step) (simp add: memcpy_at_tail INT_MIN_def add.assoc)
qed (simp add: malloc_def)

lemma xmlescape_text:
  assumes "NUL \<notin> set s" and "int (length (xml_text a s)) < INT_MAX"
  shows "xmlescape s a = Inr (xml_text a s)"
proof -
  let ?n = "length (xml_text a s)"
  have count: "xmlescape_count a s 0 = Inr (int ?n)"
    using assms xmlescape_count_text [of 0 a s] by simp
  have n: "nat (int ?n + 1) = Suc ?n" by simp
  have "xmlescape_write a s (map Some [] @ malloc (Suc ?n)) (int (length ([] :: string)))
      = Inr (map Some ([] @ xml_text a s) @ malloc (Suc ?n - ?n), int (length ([] :: string) + ?n))"
    using assms by (intro xmlescape_write_text) (auto simp: INT_MAX_def)
  then have wr: "xmlescape_write a s (malloc (Suc ?n)) 0 = Inr (map Some (xml_text a s) @ malloc (Suc 0), int ?n)"
    by simp
  have fin: "memcpy_at (map Some (xml_text a s) @ malloc (Suc 0)) ?n [NUL]
      = Inr (map Some (xml_text a s) @ [Some NUL])"
    using memcpy_at_tail [of "map Some (xml_text a s)" ?n "[NUL]" "Suc 0"] by (simp add: malloc_def)
  show ?thesis
    using assms read_cstring_map [OF xml_text_NUL [OF assms(1)], of a "[]"]
    by (simp add: xmlescape_def xmlescape_real_def count n wr fin INT_MIN_def)
qed

text \<open>
  C11. \<open>xmlescape\<close> never writes outside the buffer it allocates, never reads an
  unwritten byte, and returns exactly the text in which every special character has been
  replaced, as long as the result is shorter than \<open>INT_MAX\<close>.
\<close>

theorem xmlescape_correct:
  assumes "NUL \<notin> set s" and "int (length (xml_text a s)) < INT_MAX"
  shows "xmlescape s a = Inr (xml_text a s)"
  by (rule xmlescape_text [OF assms])

theorem xmlescape_correct_witness:
  "xmlescape ''<a b=1>&'' False = Inr ''&lt;a b=1&gt;&amp;''"
  using xmlescape_correct [of "''<a b=1>&''" False] by (simp add: xml_char_def INT_MAX_def)

lemma xmlescape_correct_bound:
  assumes "NUL \<notin> set s" and "5 * int (length s) < INT_MAX"
  shows "xmlescape s a = Inr (xml_text a s)"
proof -
  have "int (length (xml_text a s)) < INT_MAX"
    using assms(2) xml_text_length(2) [of a s] by linarith
  with assms show ?thesis by (simp add: xmlescape_text)
qed

section \<open>What escaping preserves\<close>

text \<open>Reading an escaped text back, as an XML parser does with the three entities.\<close>

fun xml_unescape :: "string \<Rightarrow> string" where
  "xml_unescape [] = []"
| "xml_unescape (c # s) =
     (if c \<noteq> CHR ''&'' then c # xml_unescape s
      else if take 3 s = ''lt;'' then CHR ''<'' # xml_unescape (drop 3 s)
      else if take 3 s = ''gt;'' then CHR ''>'' # xml_unescape (drop 3 s)
      else if take 4 s = ''amp;'' then CHR ''&'' # xml_unescape (drop 4 s)
      else c # xml_unescape s)"

lemma xml_unescape_char: "xml_unescape (xml_char False c @ s) = c # xml_unescape s"
  by (simp add: xml_char_def)

lemma xml_unescape_text: "xml_unescape (xml_text False s) = s"
  by (induction s) (simp_all add: xml_unescape_char)

lemma xml_text_inject: "xml_text False s = xml_text False t \<longleftrightarrow> s = t"
  using xml_unescape_text by metis

lemma xml_text_no_markup: "set (xml_text a s) \<inter> {CHR ''<'', CHR ''>''} = {}"
  by (induction s) (auto simp: xml_char_def split: if_splits)

text \<open>
  C24. In text mode, the mode of every call in the program, what \<open>xmlescape\<close> returns
  can be put between two tags and loses nothing: it has no angle bracket, and a reader that
  resolves the three entities gets the value back. The value is shorter than a fifth of
  \<open>INT_MAX\<close>, so that the length of the result, counted in an \<open>int\<close>, does not overflow.
\<close>

theorem xmlescape_roundtrip:
  assumes "NUL \<notin> set s" and "5 * int (length s) < INT_MAX"
  shows "\<exists>t. xmlescape s False = Inr t \<and> xml_unescape t = s \<and> set t \<inter> {CHR ''<'', CHR ''>''} = {}"
  using xmlescape_correct_bound [OF assms] xml_unescape_text xml_text_no_markup by blast

theorem xmlescape_roundtrip_witness:
  "\<exists>t. xmlescape ''<Event a=1> & &lt;'' False = Inr t \<and> xml_unescape t = ''<Event a=1> & &lt;''"
  using xmlescape_roundtrip [of "''<Event a=1> & &lt;''"] by (auto simp: INT_MAX_def)

text \<open>
  Attribute mode is not lossless: a double quote becomes the three characters
  \<open>%22\<close>, which a value may contain as they are, so two different values have the same
  escaped form.
\<close>

lemma xmlescape_attribute_collision:
  "xmlescape [CHR 0x22] True = xmlescape ''%22'' True \<and> xmlescape [CHR 0x22] True = Inr ''%22''"
proof
  show b: "xmlescape [CHR 0x22] True = Inr ''%22''"
    by (subst xmlescape_text) (simp_all add: xml_char_def INT_MAX_def)
  have "xmlescape ''%22'' True = Inr ''%22''"
    by (subst xmlescape_text) (simp_all add: xml_char_def INT_MAX_def)
  with b show "xmlescape [CHR 0x22] True = xmlescape ''%22'' True" by simp
qed

end
