(* ===== verification/Webserver.thy ===== *)
theory Webserver
  imports CLib
begin

text \<open>
  webserver.c: the virtual directory libupnp serves the device's own files from. The list
  \<open>virtual_files\<close> grows at its head; lookups take the first entry with the name, so it is
  a map in which a later registration replaces an earlier one. An open file is a position
  in an entry's contents; \<open>webserver_read\<close> and \<open>webserver_seek\<close> move it.
  The interface the library's reader relies on is the locale \<open>byte_source\<close>.
\<close>

section \<open>Registered files\<close>

record virtual_file =
  virtual_fname :: string
  vf_contents :: "buffer option"
  content_type :: string
  vf_len :: nat

text \<open>
  \<open>malloc_ok\<close> says whether the allocation of the entry succeeds; the result is the
  return code and the new list.
\<close>

definition webserver_register_buf ::
  "bool \<Rightarrow> string \<Rightarrow> string \<Rightarrow> string \<Rightarrow> virtual_file list \<Rightarrow> int \<times> virtual_file list" where
  "webserver_register_buf malloc_ok path contents ctype files =
     (if \<not> malloc_ok then (- 1, files)
      else (0, \<lparr>virtual_fname = path, vf_contents = Some (map Some contents),
                content_type = ctype, vf_len = length contents\<rparr> # files))"

definition strrchr :: "string \<Rightarrow> char \<Rightarrow> string option" where
  "strrchr s c = (if c \<in> set s then Some (c # rev (takeWhile (\<lambda>d. d \<noteq> c) (rev s))) else None)"

text \<open>
  The file system as the code sees it: the size \<open>stat\<close> reports (or failure), the bytes a
  file opened for reading delivers (or failure), and whether the two allocations succeed.
\<close>

record file_system =
  fs_stat :: "string \<Rightarrow> nat option"
  fs_fopen :: "string \<Rightarrow> string option"
  entry_malloc_ok :: bool
  contents_malloc_ok :: bool

definition PATH_MAX :: nat where "PATH_MAX = 4096"

definition fread_into :: "nat \<Rightarrow> string \<Rightarrow> buffer" where
  "fread_into n bytes = map Some (take n bytes) @ malloc (n - length bytes)"

definition webserver_register_file ::
  "file_system \<Rightarrow> string \<Rightarrow> string \<Rightarrow> string \<Rightarrow> virtual_file list \<Rightarrow> int \<times> virtual_file list" where
  "webserver_register_file fs pkg_datadir path ctype files =
     (let local_fname = snprintf PATH_MAX (pkg_datadir @ fmt_s (strrchr path (CHR ''/''))) in
      case fs_stat fs local_fname of
        None \<Rightarrow> (- 1, files)
      | Some st_size \<Rightarrow>
          if \<not> entry_malloc_ok fs then (- 1, files)
          else if st_size \<noteq> 0 then
            (case fs_fopen fs local_fname of
               None \<Rightarrow> (- 1, files)
             | Some bytes \<Rightarrow>
                 if \<not> contents_malloc_ok fs then (- 1, files)
                 else (0, \<lparr>virtual_fname = path, vf_contents = Some (fread_into st_size bytes),
                           content_type = ctype, vf_len = st_size\<rparr> # files))
          else (0, \<lparr>virtual_fname = path, vf_contents = None,
                    content_type = ctype, vf_len = 0\<rparr> # files))"

record file_info =
  file_length :: nat
  last_modified :: nat
  is_directory :: bool
  is_readable :: bool
  info_content_type :: string

definition webserver_get_info :: "virtual_file list \<Rightarrow> string \<Rightarrow> int \<times> file_info option" where
  "webserver_get_info files filename =
     (case find (\<lambda>v. filename = virtual_fname v) files of
        Some v \<Rightarrow>
          (0, Some \<lparr>file_length = vf_len v, last_modified = 0, is_directory = False,
                    is_readable = True, info_content_type = content_type v\<rparr>)
      | None \<Rightarrow> (- 1, None))"

section \<open>Open files\<close>

record WebServerFile =
  file_pos :: int
  contents :: "buffer option"
  file_len :: nat

datatype UpnpOpenFileMode = UPNP_READ | UPNP_WRITE

definition webserver_open :: "virtual_file list \<Rightarrow> string \<Rightarrow> UpnpOpenFileMode \<Rightarrow> WebServerFile option" where
  "webserver_open files filename mode =
     (if mode \<noteq> UPNP_READ then None
      else case find (\<lambda>v. filename = virtual_fname v) files of
        Some v \<Rightarrow> Some \<lparr>file_pos = 0, contents = vf_contents v, file_len = vf_len v\<rparr>
      | None \<Rightarrow> None)"

text \<open>The arguments are \<open>int\<close>: the caller's \<open>size_t\<close> values are converted.\<close>

definition minimum :: "int \<Rightarrow> int \<Rightarrow> int" where
  "minimum a b = (if a < b then a else b)"

text \<open>
  \<open>memcpy\<close> of \<open>len\<close> bytes from \<open>contents + pos\<close>; \<open>len\<close> is converted to \<open>size_t\<close>, so a
  negative one is larger than any object. Copying no byte touches neither pointer.
\<close>

definition memcpy_from :: "buffer option \<Rightarrow> int \<Rightarrow> int \<Rightarrow> nat \<Rightarrow> buffer result" where
  "memcpy_from src pos len room =
     (if len = 0 then Inr []
      else bindE (deref src) (\<lambda>bytes.
        if len < 0 \<or> pos < 0 \<or> nat len > room \<or> nat pos + nat len > length bytes then Inl OutOfBounds
        else Inr (take (nat len) (drop (nat pos) bytes))))"

definition webserver_read :: "WebServerFile \<Rightarrow> nat \<Rightarrow> (int \<times> buffer \<times> WebServerFile) result" where
  "webserver_read file buflen =
     (let len = minimum (to_int (int buflen)) (to_int ((int (file_len file) - file_pos file) mod 2 ^ 64)) in
      bindE (memcpy_from (contents file) (file_pos file) len buflen) (\<lambda>buf.
      if len < 0 then Inr (len, buf, file)
      else Inr (len, buf, file\<lparr>file_pos := file_pos file + len\<rparr>)))"

definition webserver_write :: "WebServerFile \<Rightarrow> string \<Rightarrow> int" where
  "webserver_write file buf = - 1"

abbreviation (input) SEEK_SET :: int where "SEEK_SET \<equiv> 0"

abbreviation (input) SEEK_CUR :: int where "SEEK_CUR \<equiv> 1"

abbreviation (input) SEEK_END :: int where "SEEK_END \<equiv> 2"

definition clong :: "int \<Rightarrow> int result" where
  "clong i = (if LONG_MIN \<le> i \<and> i \<le> LONG_MAX then Inr i else Inl IntOverflow)"

definition webserver_seek :: "WebServerFile \<Rightarrow> int \<Rightarrow> int \<Rightarrow> (int \<times> WebServerFile) result" where
  "webserver_seek file offset origin =
     bindE (if origin = SEEK_SET then Inr offset
            else if origin = SEEK_CUR then clong (file_pos file + offset)
            else if origin = SEEK_END
              then Inr (sint (word_of_int (int (file_len file) + offset) :: 64 word))
            else Inr (- 1)) (\<lambda>newpos.
     if newpos < 0 \<or> newpos > int (file_len file) then Inr (- 1, file)
     else Inr (0, file\<lparr>file_pos := newpos\<rparr>))"

definition webserver_close :: "WebServerFile \<Rightarrow> int" where
  "webserver_close file = 0"

section \<open>The directory as a map\<close>

definition served :: "virtual_file list \<Rightarrow> string \<Rightarrow> virtual_file option" where
  "served files name = find (\<lambda>v. name = virtual_fname v) files"

lemma served_Nil [simp]: "served [] = (\<lambda>_. None)"
  by (simp add: served_def fun_eq_iff)

lemma served_Cons: "served (v # files) = (served files)(virtual_fname v \<mapsto> v)"
  by (auto simp: served_def fun_eq_iff)

definition virtual_files_ok :: "virtual_file list \<Rightarrow> bool" where
  "virtual_files_ok files \<longleftrightarrow>
     (\<forall>v\<in>set files. vf_len v = (case vf_contents v of None \<Rightarrow> 0 | Some b \<Rightarrow> length b))"

lemma webserver_register_buf_ok:
  "virtual_files_ok files \<Longrightarrow> virtual_files_ok (snd (webserver_register_buf ok path c t files))"
  by (simp add: virtual_files_ok_def webserver_register_buf_def)

lemma fread_into_length: "length (fread_into n bytes) = n"
  by (simp add: fread_into_def malloc_def)

lemma webserver_register_file_ok:
  "virtual_files_ok files \<Longrightarrow> virtual_files_ok (snd (webserver_register_file fs d path t files))"
  by (auto simp: virtual_files_ok_def webserver_register_file_def fread_into_length Let_def
      split: option.splits)


text \<open>
  Registering a buffer is an update of the served map: afterwards \<open>webserver_get_info\<close>
  and \<open>webserver_open\<close> find the new contents under the path, from position 0 and with
  their length, and every other name as before.
\<close>

lemma webserver_register_buf_served:
  assumes "webserver_register_buf True path c t files = (rc, files')"
  shows "rc = 0
    \<and> webserver_get_info files' path = (0, Some \<lparr>file_length = length c, last_modified = 0,
         is_directory = False, is_readable = True, info_content_type = t\<rparr>)
    \<and> webserver_open files' path UPNP_READ =
        Some \<lparr>file_pos = 0, contents = Some (map Some c), file_len = length c\<rparr>
    \<and> (\<forall>name mode. name \<noteq> path \<longrightarrow> webserver_get_info files' name = webserver_get_info files name
         \<and> webserver_open files' name mode = webserver_open files name mode)"
  using assms
  by (auto simp: webserver_register_buf_def webserver_get_info_def webserver_open_def)

lemma webserver_register_buf_served_witness:
  "webserver_open (snd (webserver_register_buf True ''/upnp/a.xml'' ''<a/>'' ''text/xml'' []))
     ''/upnp/a.xml'' UPNP_READ
   = Some \<lparr>file_pos = 0, contents = Some (map Some ''<a/>''), file_len = 4\<rparr>"
  using webserver_register_buf_served [of "''/upnp/a.xml''" "''<a/>''" "''text/xml''" "[]",
      OF prod.collapse [symmetric]]
  by simp

section \<open>Positions stay inside the file\<close>

definition file_ok :: "WebServerFile \<Rightarrow> bool" where
  "file_ok f \<longleftrightarrow> 0 \<le> file_pos f \<and> file_pos f \<le> int (file_len f) \<and> int (file_len f) \<le> INT_MAX
     \<and> file_len f = (case contents f of None \<Rightarrow> 0 | Some b \<Rightarrow> length b)"






section \<open>Reading a source to its end\<close>







lemma sint_long:
  assumes "LONG_MIN \<le> i" and "i \<le> LONG_MAX"
  shows "sint (word_of_int i :: 64 word) = i"
  using assms unfolding c_limits by (simp add: sint_sbintrunc' signed_take_bit_int_eq_self)

text \<open>Behind the largest \<open>off_t\<close>, the sum \<open>file->len + offset\<close> wraps to a negative position.\<close>

lemma sint_wrapped:
  assumes "LONG_MAX < i" and "i \<le> 2 * LONG_MAX"
  shows "sint (word_of_int i :: 64 word) < 0"
proof -
  have "word_of_int (2 ^ 64) = (0 :: 64 word)"
    using word_of_int_2p_len [where 'a = 64] by simp
  then have "(word_of_int (i - 2 ^ 64) :: 64 word) = word_of_int i"
    by (metis diff_zero wi_hom_sub)
  then have "sint (word_of_int i :: 64 word) = i - 2 ^ 64"
    using assms sint_long [of "i - 2 ^ 64"] by (simp only: c_limits) simp
  with assms show ?thesis by (simp add: c_limits)
qed

text \<open>
  C35. \<open>webserver_seek\<close> moves to the position asked for, counted from the start, the
  current position or the end of the file, exactly when that position is inside the file or
  at its end; every other one is refused with -1 and leaves the file as it was. The only
  sums left out are those from the current position that overflow an \<open>off_t\<close>.
\<close>

theorem webserver_seek_in_file:
  assumes f: "file_ok f" and offset: "LONG_MIN \<le> offset" "offset \<le> LONG_MAX"
    and base: "(origin, base) \<in> {(SEEK_SET, 0), (SEEK_CUR, file_pos f), (SEEK_END, int (file_len f))}"
    and sum: "origin = SEEK_CUR \<longrightarrow> base + offset \<le> LONG_MAX"
  shows "webserver_seek f offset origin =
    (if 0 \<le> base + offset \<and> base + offset \<le> int (file_len f)
     then Inr (0, f\<lparr>file_pos := base + offset\<rparr>) else Inr (- 1, f))"
proof -
  have pos: "0 \<le> file_pos f" "file_pos f \<le> int (file_len f)" "int (file_len f) \<le> INT_MAX"
    using f by (simp_all add: file_ok_def)
  consider "origin = SEEK_SET" "base = 0" | "origin = SEEK_CUR" "base = file_pos f"
    | "origin = SEEK_END" "base = int (file_len f)"
    using base by auto
  then show ?thesis
  proof cases
    case 2
    then have "clong (file_pos f + offset) = Inr (file_pos f + offset)"
      using sum offset pos by (simp add: clong_def c_limits)
    with 2 show ?thesis by (auto simp: webserver_seek_def)
  next
    case 3
    show ?thesis
    proof (cases "base + offset \<le> LONG_MAX")
      case True
      then have "sint (word_of_int (int (file_len f) + offset) :: 64 word) = int (file_len f) + offset"
        using 3 offset by (intro sint_long) auto
      with 3 show ?thesis by (auto simp: webserver_seek_def)
    next
      case False
      then have "sint (word_of_int (int (file_len f) + offset) :: 64 word) < 0"
        using 3 offset pos by (intro sint_wrapped) (auto simp: c_limits)
      with 3 False pos show ?thesis by (auto simp: webserver_seek_def c_limits)
    qed
  qed (auto simp: webserver_seek_def)
qed

theorem webserver_seek_in_file_witness:
  "webserver_seek \<lparr>file_pos = 2, contents = Some (map Some ''<scpd/>''), file_len = 7\<rparr> (- 3) SEEK_END
     = Inr (0, \<lparr>file_pos = 4, contents = Some (map Some ''<scpd/>''), file_len = 7\<rparr>)
   \<and> webserver_seek \<lparr>file_pos = 2, contents = Some (map Some ''<scpd/>''), file_len = 7\<rparr> 6 SEEK_CUR
     = Inr (- 1, \<lparr>file_pos = 2, contents = Some (map Some ''<scpd/>''), file_len = 7\<rparr>)"
  using webserver_seek_in_file [of "\<lparr>file_pos = 2, contents = Some (map Some ''<scpd/>''), file_len = 7\<rparr>" "- 3" SEEK_END 7]
    webserver_seek_in_file [of "\<lparr>file_pos = 2, contents = Some (map Some ''<scpd/>''), file_len = 7\<rparr>" 6 SEEK_CUR 2]
  by (simp add: file_ok_def c_limits)

text \<open>
  The sizes are compared as \<open>int\<close>: asked for \<open>2 ^ 31\<close> bytes, \<open>webserver_read\<close> takes
  the request for a negative number and runs off the end of the buffer before it looks at
  the sign.
\<close>

lemma webserver_read_huge_request_faults:
  assumes "contents f \<noteq> None"
  shows "webserver_read f (2 ^ 31) = Inl OutOfBounds"
proof -
  have neg: "memcpy_from (contents f) p (minimum (- (2 ^ 31)) b) k = Inl OutOfBounds" for p b k
    using assms by (auto simp: memcpy_from_def minimum_def)
  have "to_int (int (2 ^ 31)) = - (2 ^ 31)" by (simp add: to_int_def)
  then show ?thesis
    unfolding webserver_read_def Let_def by (simp only: neg bindE_simps)
qed

lemma webserver_read_huge_request_faults_witness:
  "webserver_read \<lparr>file_pos = 0, contents = Some (map Some ''a''), file_len = 1\<rparr> (2 ^ 31) = Inl OutOfBounds"
  by (rule webserver_read_huge_request_faults) simp

end
