(* ===== verification/Locking.thy ===== *)
theory Locking
  imports Prelude
begin

text \<open>
  Lock discipline. The mutexes are ranked: the device mutex first, then the mutex of one
  service, then the mutex of the player connection. A thread that only acquires mutexes of
  higher rank than those it owns cannot deadlock with another one that does the same, and
  never relocks. \<open>safe\<close> says of a run that it ends in a state satisfying a predicate or
  with a fault that is not a misuse of a mutex; its rules follow the syntax of the
  definitions, so that the proofs about a function are a pass over its text.
\<close>

section \<open>Ranks\<close>

fun lock_rank :: "mutex \<Rightarrow> nat" where
  "lock_rank DeviceMutex = 0"
| "lock_rank TransportMutex = 1"
| "lock_rank ControlMutex = 1"
| "lock_rank ConnmgrMutex = 1"
| "lock_rank MpdMutex = 2"

text \<open>A mutex comes before those of higher rank.\<close>

instantiation mutex :: order
begin

definition less_mutex :: "mutex \<Rightarrow> mutex \<Rightarrow> bool" where
  "less_mutex a b \<longleftrightarrow> lock_rank a < lock_rank b"

definition less_eq_mutex :: "mutex \<Rightarrow> mutex \<Rightarrow> bool" where
  "less_eq_mutex a b \<longleftrightarrow> a = b \<or> lock_rank a < lock_rank b"

instance
  by standard (auto simp: less_mutex_def less_eq_mutex_def)

end

lemma mutex_order [simp]:
  "DeviceMutex < m \<longleftrightarrow> m \<noteq> DeviceMutex" "m < MpdMutex \<longleftrightarrow> m \<noteq> MpdMutex"
  by (cases m; simp add: less_mutex_def)+

definition ordered :: "'z env_scheme \<Rightarrow> bool" where
  "ordered w \<longleftrightarrow> (\<forall>(a, b)\<in>lock_order w. a < b)"

definition may_lock :: "mutex \<Rightarrow> mutex set \<Rightarrow> bool" where
  "may_lock m M \<longleftrightarrow> (\<forall>h\<in>M. h < m)"

lemma may_lock_not_held: "may_lock m M \<Longrightarrow> m \<notin> M"
  by (auto simp: may_lock_def)

lemma may_lock_empty [simp]: "may_lock m {}"
  by (simp add: may_lock_def)

lemma may_lock_insert [simp]: "may_lock m (insert h M) \<longleftrightarrow> h < m \<and> may_lock m M"
  by (simp add: may_lock_def)

lemma ordered_acyclic:
  assumes "ordered w"
  shows "acyclic (lock_order w)"
proof -
  have "lock_order w \<subseteq> measure lock_rank"
    using assms by (auto simp: ordered_def less_mutex_def)
  then show ?thesis
    using wf_acyclic [OF wf_measure] acyclic_subset by blast
qed

lemma ordered_lock:
  "ordered w \<Longrightarrow> may_lock m (held w) \<Longrightarrow> ordered (w\<lparr>held := h, lock_order := lock_order w \<union> held w \<times> {m}\<rparr>)"
  by (auto simp: ordered_def may_lock_def)

lemma ordered_frame [simp]:
  "ordered (w\<lparr>held := h\<rparr>) = ordered w"
  "ordered (w\<lparr>notifications := n\<rparr>) = ordered w"
  "ordered (w\<lparr>subscriptions := n\<rparr>) = ordered w"
  by (simp_all add: ordered_def)

text \<open>
  Threads that own the mutexes \<open>H\<close> and wait for \<open>m\<close>, one of the others owning it each time,
  are stuck. It cannot happen when every one of them waits for a mutex that comes after
  those it owns: the one that waits for the last mutex finds it free.
\<close>

definition circular_wait :: "(mutex set \<times> mutex) set \<Rightarrow> bool" where
  "circular_wait T \<longleftrightarrow> T \<noteq> {} \<and> (\<forall>(H, m)\<in>T. \<exists>(H', m')\<in>T. m \<in> H')"

lemma no_circular_wait:
  assumes "\<forall>(H, m)\<in>T. may_lock m H"
  shows "\<not> circular_wait T"
proof
  assume circ: "circular_wait T"
  then obtain t where "t \<in> T" by (auto simp: circular_wait_def)
  moreover have "lock_rank m \<le> 2" for m by (cases m) simp_all
  ultimately obtain H m where last: "(H, m) \<in> T" "\<forall>(H', m')\<in>T. lock_rank m' \<le> lock_rank m"
    using ex_has_greatest_nat [of "\<lambda>t. t \<in> T" t "\<lambda>t. lock_rank (snd t)" 3]
    by (fastforce simp: le_imp_less_Suc numeral_eq_Suc)
  with circ obtain H' m' where "(H', m') \<in> T" "m \<in> H'" by (fastforce simp: circular_wait_def)
  with assms last(2) show False by (fastforce simp: may_lock_def less_mutex_def)
qed

section \<open>Runs that respect the mutexes\<close>

lemma lock_fault_simps [simp]:
  "\<not> lock_fault NullPointer" "\<not> lock_fault OutOfBounds" "\<not> lock_fault Uninitialised"
  "\<not> lock_fault IntOverflow" "lock_fault SelfDeadlock" "lock_fault UnlockNotHeld"
  by (simp_all add: lock_fault_def)

text \<open>For runs that return a value, a value and a state, and a state.\<close>

definition benign :: "'a result \<Rightarrow> bool" where
  "benign m \<longleftrightarrow> wp m (\<lambda>_. True) (\<lambda>f. \<not> lock_fault f)"

definition safe :: "('z env_scheme \<Rightarrow> bool) \<Rightarrow> ('a \<times> 'z env_scheme) result \<Rightarrow> bool" where
  "safe P m \<longleftrightarrow> wp m (\<lambda>(r, w). P w) (\<lambda>f. \<not> lock_fault f)"

definition safe_st :: "('z env_scheme \<Rightarrow> bool) \<Rightarrow> 'z env_scheme result \<Rightarrow> bool" where
  "safe_st P m \<longleftrightarrow> wp m P (\<lambda>f. \<not> lock_fault f)"

lemmas safe_defs = benign_def safe_def safe_st_def

named_theorems safe_rules

lemma safe_Inr [safe_rules]: "P w \<Longrightarrow> safe P (Inr (r, w))"
  and safe_st_Inr [safe_rules]: "P w \<Longrightarrow> safe_st P (Inr w)"
  and safe_Inl [safe_rules]: "\<not> lock_fault f \<Longrightarrow> safe P (Inl f)"
  and safe_st_Inl [safe_rules]: "\<not> lock_fault f \<Longrightarrow> safe_st P (Inl f)"
  by (simp_all add: safe_defs)

lemma safe_bind:
  "safe P m \<Longrightarrow> (\<And>r w. P w \<Longrightarrow> safe Q (k r w)) \<Longrightarrow> safe Q (bindE m (\<lambda>(r, w). k r w))"
  "safe P m \<Longrightarrow> (\<And>r w. P w \<Longrightarrow> safe_st Q (k' r w)) \<Longrightarrow> safe_st Q (bindE m (\<lambda>(r, w). k' r w))"
  "safe_st P n \<Longrightarrow> (\<And>w. P w \<Longrightarrow> safe Q (l w)) \<Longrightarrow> safe Q (bindE n l)"
  "safe_st P n \<Longrightarrow> (\<And>w. P w \<Longrightarrow> safe_st Q (l' w)) \<Longrightarrow> safe_st Q (bindE n l')"
  by (auto simp: safe_defs wp_bindE elim: wp_post)

lemma benign_bind:
  "benign m \<Longrightarrow> (\<And>r. safe Q (k r)) \<Longrightarrow> safe Q (bindE m k)"
  "benign m \<Longrightarrow> (\<And>r. safe_st Q (k' r)) \<Longrightarrow> safe_st Q (bindE m k')"
  by (auto simp: safe_defs wp_bindE elim: wp_post)

lemma safe_split [safe_rules]:
  "(b \<Longrightarrow> safe P x) \<Longrightarrow> (\<not> b \<Longrightarrow> safe P y) \<Longrightarrow> safe P (if b then x else y)"
  "(b \<Longrightarrow> safe_st P x') \<Longrightarrow> (\<not> b \<Longrightarrow> safe_st P y') \<Longrightarrow> safe_st P (if b then x' else y')"
  "(\<And>c d. p = (c, d) \<Longrightarrow> safe P (f c d)) \<Longrightarrow> safe P (case p of (c, d) \<Rightarrow> f c d)"
  "(\<And>c d. p = (c, d) \<Longrightarrow> safe_st P (f' c d)) \<Longrightarrow> safe_st P (case p of (c, d) \<Rightarrow> f' c d)"
  "(q = None \<Longrightarrow> safe P u) \<Longrightarrow> (\<And>v. q = Some v \<Longrightarrow> safe P (g v)) \<Longrightarrow>
     safe P (case q of None \<Rightarrow> u | Some v \<Rightarrow> g v)"
  "(q = None \<Longrightarrow> safe_st P u') \<Longrightarrow> (\<And>v. q = Some v \<Longrightarrow> safe_st P (g' v)) \<Longrightarrow>
     safe_st P (case q of None \<Rightarrow> u' | Some v \<Rightarrow> g' v)"
  by (auto split: prod.split option.split)

lemma safe_mono: "safe P m \<Longrightarrow> (\<And>w. P w \<Longrightarrow> Q w) \<Longrightarrow> safe Q m"
  and safe_st_mono: "safe_st P n \<Longrightarrow> (\<And>w. P w \<Longrightarrow> Q w) \<Longrightarrow> safe_st Q n"
  by (auto simp: safe_defs elim!: wp_post)

lemma benign_simps [simp]:
  "benign (Inr r)" "benign (Inl f) = (\<not> lock_fault f)" "benign (cint i)" "benign (deref p)"
  by (simp_all add: benign_def cint_def deref_def split: option.split)

lemma benign_bindE: "benign m \<Longrightarrow> (\<And>r. benign (k r)) \<Longrightarrow> benign (bindE m k)"
  by (auto simp: benign_def wp_bindE elim: wp_post)

lemma benign_mapE: "(\<And>x. benign (f x)) \<Longrightarrow> benign (mapE f xs)"
  by (induction xs) (auto intro!: benign_bindE)

lemma safe_cint [safe_rules]:
  "(\<And>v. safe Q (k v)) \<Longrightarrow> safe Q (bindE (cint i) k)"
  "(\<And>v. safe_st Q (k' v)) \<Longrightarrow> safe_st Q (bindE (cint i) k')"
  by (auto intro: benign_bind)

lemma safe_deref [safe_rules]:
  "(\<And>v. p = Some v \<Longrightarrow> safe Q (k v)) \<Longrightarrow> safe Q (bindE (deref p) k)"
  "(\<And>v. p = Some v \<Longrightarrow> safe_st Q (k' v)) \<Longrightarrow> safe_st Q (bindE (deref p) k')"
  by (cases p; auto intro: safe_rules)+

section \<open>The rules for the mutexes\<close>

text \<open>
  The assertions of such a proof relate the state to what the operation started with, the
  base \<open>b\<close>, and to the set \<open>M\<close> of mutexes owned at that point. Which relation is a matter
  of the component; all it has to do for the rules is to follow lock and unlock.
\<close>

locale lock_relation =
  fixes S :: "'b \<Rightarrow> mutex set \<Rightarrow> 'z env_scheme \<Rightarrow> bool"
  assumes S_held: "S b M w \<Longrightarrow> held w = M"
    and S_lock: "S b M w \<Longrightarrow> may_lock m M \<Longrightarrow>
      S b (insert m M) (w\<lparr>held := insert m M, lock_order := lock_order w \<union> M \<times> {m}\<rparr>)"
    and S_unlock: "S b M w \<Longrightarrow> S b (M - {m}) (w\<lparr>held := M - {m}\<rparr>)"
begin

lemmas bind = safe_bind [where P = "S b M" and Q = "S b N"] for b M N

lemma safe_lock:
  assumes "S b M w" and "may_lock m M"
  shows "safe_st (S b (insert m M)) (lock m w)"
  using assms S_held [OF assms(1)] may_lock_not_held [OF assms(2)] S_lock [OF assms]
  by (simp add: safe_defs wp_lock)

lemma safe_unlock:
  assumes "S b M w" and "m \<in> M" and "M - {m} = N"
  shows "safe_st (S b N) (unlock m w)"
  using assms S_held [OF assms(1)] S_unlock [OF assms(1), of m]
  by (auto simp: safe_defs wp_unlock)

end

end
