(* ===== verification/Upnp_Device.thy ===== *)
theory Upnp_Device
  imports Upnp_Desc Xmlescape Webserver Locking
begin

text \<open>
  upnp_device.c: what every action handler uses to read its arguments, build its response
  and report errors, and the entry points libupnp calls, \<open>handle_action_request\<close> and
  \<open>handle_subscription_request\<close>, which find the service and the action, run the handler
  and fill in the reply. libupnp and IXML are a record of functions, an argument of every
  definition that calls them.
\<close>

section \<open>The library\<close>

text \<open>
  The constants and functions of libupnp and IXML the code uses. An allocation inside a
  library function that fails shows in its result. \<open>LINE_SIZE\<close> is the size of \<open>ErrStr\<close>.
\<close>

record upnp_lib =
  UPNP_E_SUCCESS :: int
  UPNP_E_INTERNAL_ERROR :: int
  UPNP_SOAP_E_ACTION_FAILED :: int
  UPNP_SOAP_E_INVALID_ARGS :: int
  LINE_SIZE :: nat
  UpnpAddToActionResponse ::
    "ixml option \<Rightarrow> string \<Rightarrow> string \<Rightarrow> string \<Rightarrow> string \<Rightarrow> int \<times> ixml option"
  UpnpGetErrorMessage :: "int \<Rightarrow> string"
  UpnpMakeActionResponse :: "string \<Rightarrow> string \<Rightarrow> ixml option"
  UpnpAcceptSubscription :: "string \<Rightarrow> string \<Rightarrow> string list \<Rightarrow> string list \<Rightarrow> string \<Rightarrow> int"
  ixmlParseBuffer :: "string \<Rightarrow> ixml option"
  ixmlDocument_getElementById :: "ixml \<Rightarrow> string \<Rightarrow> ixml option"
  ixmlElement_getAttribute :: "ixml \<Rightarrow> string \<Rightarrow> string option"
  ixmlDocumenttoString :: "ixml \<Rightarrow> string"
  UpnpInit :: "string \<Rightarrow> int \<Rightarrow> int"
  UpnpEnableWebserver :: "bool \<Rightarrow> int"
  UpnpSetVirtualDirCallbacks :: int
  UpnpAddVirtualDir :: "string \<Rightarrow> int"
  UpnpRegisterRootDevice2 :: "string \<Rightarrow> int"
  UpnpSendAdvertisement :: "int \<Rightarrow> int"

section \<open>Variables, responses and errors\<close>

definition get_service_var :: "'w service_vars \<Rightarrow> nat \<Rightarrow> 'w \<Rightarrow> string option" where
  "get_service_var srv varnum w =
     (let val = (case variable_values srv w varnum of
                   Some v \<Rightarrow> Some v
                 | None \<Rightarrow> (case variable_defaults srv of None \<Rightarrow> None | Some d \<Rightarrow> d varnum)) in
      case val of None \<Rightarrow> Some [] | Some v \<Rightarrow> Some v)"

lemma get_service_var_not_NULL: "get_service_var srv varnum w \<noteq> None"
  by (simp add: get_service_var_def Let_def split: option.splits)

text \<open>
  The message has been formatted; \<open>error_code\<close> is an argument the function does not use.
\<close>

definition upnp_set_error :: "upnp_lib \<Rightarrow> 'w action_event \<Rightarrow> int \<Rightarrow> string \<Rightarrow> 'w action_event" where
  "upnp_set_error L event error_code msg =
     event\<lparr>event_status := - 1,
           request := (request event)\<lparr>ActionResult := None,
                                       ErrCode := UPNP_SOAP_E_ACTION_FAILED L,
                                       ErrStr := snprintf (LINE_SIZE L) msg\<rparr>\<rparr>"

definition upnp_add_response ::
  "upnp_lib \<Rightarrow> 'w action_event \<Rightarrow> string \<Rightarrow> string \<Rightarrow> (int \<times> 'w action_event) result" where
  "upnp_add_response L event key value =
     (if event_status event \<noteq> 0 then Inr (- 1, event)
      else
        let (rc, doc) = UpnpAddToActionResponse L (ActionResult (request event))
              (ActionName (request event)) (service_type (event_service event)) key value in
        if rc \<noteq> UPNP_E_SUCCESS L
        then
          (if length (UpnpGetErrorMessage L rc) < LINE_SIZE L
           then Inr (- 1, event\<lparr>request := (request event)\<lparr>ActionResult := None,
                     ErrCode := UPNP_SOAP_E_ACTION_FAILED L, ErrStr := UpnpGetErrorMessage L rc\<rparr>\<rparr>)
           else Inl OutOfBounds)
        else Inr (0, event\<lparr>request := (request event)\<lparr>ActionResult := doc\<rparr>\<rparr>))"

definition upnp_append_variable ::
  "upnp_lib \<Rightarrow> 'z env_scheme action_event \<Rightarrow> nat \<Rightarrow> string \<Rightarrow> 'z env_scheme
    \<Rightarrow> (int \<times> 'z env_scheme action_event \<times> 'z env_scheme) result" where
  "upnp_append_variable L event varnum paramname w =
     (if variable_count (event_service event) \<le> varnum
      then Inr (- 1, upnp_set_error L event (UPNP_E_INTERNAL_ERROR L)
                  (''Internal Error - illegal variable number '' @ fmt_d (int varnum)), w)
      else
        bindE (lock (service_mutex (event_service event)) w) (\<lambda>w.
        bindE (case get_service_var (event_service event) varnum w of
                 None \<Rightarrow> Inr (- 1, upnp_set_error L event (UPNP_E_INTERNAL_ERROR L) ''Internal Error'')
               | Some value \<Rightarrow> upnp_add_response L event paramname value) (\<lambda>(retval, event).
        bindE (unlock (service_mutex (event_service event)) w) (\<lambda>w.
        Inr (retval, event, w)))))"

text \<open>The search through the children of the action element for one named \<open>key\<close>.\<close>

fun find_argument :: "ixml list \<Rightarrow> string \<Rightarrow> ixml option" where
  "find_argument [] key = None"
| "find_argument (n # ns) key = (if node_name n = key then Some n else find_argument ns key)"

definition upnp_get_string ::
  "upnp_lib \<Rightarrow> 'w action_event \<Rightarrow> string \<Rightarrow> (string option \<times> 'w action_event) result" where
  "upnp_get_string L event key =
     (case ActionRequest (request event) of
        None \<Rightarrow> Inr (None, upnp_set_error L event (UPNP_SOAP_E_INVALID_ARGS L) ''Invalid action request document'')
      | Some doc \<Rightarrow>
          (case child_nodes doc of
             [] \<Rightarrow> Inr (None, upnp_set_error L event (UPNP_SOAP_E_INVALID_ARGS L) ''Invalid action request document'')
           | node # _ \<Rightarrow>
               (case find_argument (child_nodes node) key of
                  Some arg \<Rightarrow>
                    (case child_nodes arg of
                       [] \<Rightarrow> Inr (Some [], event)
                     | val # _ \<Rightarrow> bindE (deref (node_value val)) (\<lambda>v. Inr (Some v, event)))
                | None \<Rightarrow> Inr (None, upnp_set_error L event (UPNP_SOAP_E_INVALID_ARGS L)
                    (''Missing action request argument ('' @ key @ '')'')))))"

text \<open>The \<open>instance\<close> pointer is NULL in every call of the program, so nothing is stored.\<close>

definition upnp_obtain_instanceid ::
  "upnp_lib \<Rightarrow> 'w action_event \<Rightarrow> (int \<times> 'w action_event) result" where
  "upnp_obtain_instanceid L event =
     bindE (upnp_get_string L event ''InstanceID'') (\<lambda>(value, event).
     case value of
       None \<Rightarrow> Inr (- 1, upnp_set_error L event (UPNP_SOAP_E_INVALID_ARGS L) ''Missing InstanceID'')
     | Some v \<Rightarrow> Inr (if atoi v \<noteq> 0 then - 1 else 0, event))"

section \<open>Requests\<close>

definition handle_action_request ::
  "upnp_lib \<Rightarrow> 'w device \<Rightarrow> upnp_action_request \<Rightarrow> 'w \<Rightarrow> (int \<times> upnp_action_request \<times> 'w) result" where
  "handle_action_request L dev ar_event w =
     (let srv = find_service dev (ServiceID ar_event) in
      bindE (find_action srv (ActionName ar_event)) (\<lambda>act.
      case act of
        None \<Rightarrow> Inr (- 1, ar_event\<lparr>ActionResult := None, ErrCode := 401\<rparr>, w)
      | Some a \<Rightarrow>
          (case callback a of
             Some cb \<Rightarrow>
               bindE (deref srv) (\<lambda>s.
               bindE (cb \<lparr>request = ar_event, event_status = 0, event_service = service_vars.truncate s\<rparr> w)
                 (\<lambda>(rc, event, w).
               let ar = request event;
                   ar = (if rc = 0 then ar\<lparr>ErrCode := UPNP_E_SUCCESS L\<rparr> else ar);
                   ar = (if ActionResult ar = None
                         then ar\<lparr>ActionResult := UpnpMakeActionResponse L (ActionName ar) (ServiceID ar)\<rparr>
                         else ar)
               in Inr (0, ar, w)))
           | None \<Rightarrow> Inr (0, ar_event\<lparr>ErrCode := UPNP_E_SUCCESS L\<rparr>, w))))"

record upnp_subscription_request =
  sr_UDN :: string
  sr_ServiceId :: string
  sr_Sid :: string

definition is_evented :: "'w service_vars \<Rightarrow> nat \<Rightarrow> bool result" where
  "is_evented srv i = bindE (deref (variable_meta srv i)) (\<lambda>m. Inr (sendevents m = SENDEVENT_YES))"

fun filterE :: "('a \<Rightarrow> bool result) \<Rightarrow> 'a list \<Rightarrow> 'a list result" where
  "filterE P [] = Inr []"
| "filterE P (x # xs) = bindE (P x) (\<lambda>b. bindE (filterE P xs) (\<lambda>ys. Inr (if b then x # ys else ys)))"

definition handle_subscription_request ::
  "upnp_lib \<Rightarrow> 'z env_scheme device \<Rightarrow> upnp_subscription_request \<Rightarrow> 'z env_scheme
    \<Rightarrow> (int \<times> 'z env_scheme) result" where
  "handle_subscription_request L dev sr_event w =
     (case find_service dev (sr_ServiceId sr_event) of
        None \<Rightarrow> Inr (- 1, w)
      | Some srv \<Rightarrow>
          bindE (lock DeviceMutex w) (\<lambda>w.
          bindE (case subscription_notify srv of
                   None \<Rightarrow> Inr w
                 | Some f \<Rightarrow> bindE (f w) (\<lambda>(_, w). Inr w)) (\<lambda>w.
          bindE (filterE (is_evented (service_vars.truncate srv)) [0..<variable_count srv]) (\<lambda>idx.
          bindE (mapE (\<lambda>i. deref (variable_names srv i)) idx) (\<lambda>eventvar_names.
          bindE (mapE (\<lambda>i. bindE (deref (get_service_var (service_vars.truncate srv) i w))
                              (\<lambda>v. xmlescape v False)) idx) (\<lambda>eventvar_values.
          let rc = UpnpAcceptSubscription L (sr_UDN sr_event) (sr_ServiceId sr_event)
                     eventvar_names eventvar_values (sr_Sid sr_event);
              w = w\<lparr>subscriptions := subscriptions w @
                     [\<lparr>DevUDN_sent = sr_UDN sr_event, ServiceID_sent = sr_ServiceId sr_event,
                       VarNames_sent = eventvar_names, VarValues_sent = eventvar_values\<rparr>]\<rparr>
          in bindE (unlock DeviceMutex w) (\<lambda>w.
             Inr (if rc = UPNP_E_SUCCESS L then 0 else - 1, w))))))))"

datatype upnp_event =
    UPNP_CONTROL_ACTION_REQUEST upnp_action_request
  | UPNP_CONTROL_GET_VAR_REQUEST
  | UPNP_EVENT_SUBSCRIPTION_REQUEST upnp_subscription_request
  | UPNP_OTHER_EVENT int

text \<open>The event's data is updated in place: the result carries it back to the library.\<close>

definition event_handler ::
  "upnp_lib \<Rightarrow> 'z env_scheme device \<Rightarrow> upnp_event \<Rightarrow> 'z env_scheme
    \<Rightarrow> (int \<times> upnp_event \<times> 'z env_scheme) result" where
  "event_handler L dev event w =
     (case event of
        UPNP_CONTROL_ACTION_REQUEST ar \<Rightarrow>
          bindE (handle_action_request L dev ar w) (\<lambda>(_, ar, w).
          Inr (0, UPNP_CONTROL_ACTION_REQUEST ar, w))
      | UPNP_CONTROL_GET_VAR_REQUEST \<Rightarrow> Inr (0, event, w)
      | UPNP_EVENT_SUBSCRIPTION_REQUEST sr \<Rightarrow>
          bindE (handle_subscription_request L dev sr w) (\<lambda>(_, w). Inr (0, event, w))
      | UPNP_OTHER_EVENT n \<Rightarrow> Inr (0, event, w))"

section \<open>Reading arguments\<close>

text \<open>
  The request document of an action with the given arguments: the document, the action
  element, one element per argument with its value as text (none when it is empty).
\<close>

definition arg_node :: "string \<times> string \<Rightarrow> ixml" where
  "arg_node kv = Element (fst kv) [] (if snd kv = [] then [] else [TextNode (snd kv)])"

definition request_doc :: "string \<Rightarrow> (string \<times> string) list \<Rightarrow> ixml" where
  "request_doc action args = Document [Element action [] (map arg_node args)]"

lemma find_argument_map:
  "find_argument (map arg_node args) key = map_option (\<lambda>v. arg_node (key, v)) (map_of args key)"
  by (induction args) (auto simp: arg_node_def)

text \<open>
  On a request document as libupnp delivers it, \<open>upnp_get_string\<close> returns the first
  argument with the name, the empty string included, and leaves the event alone; if there
  is none it returns NULL and the event is in error, with no response document.
\<close>

lemma upnp_get_string_spec:
  assumes "ActionRequest (request ev) = Some (request_doc act args)"
  shows "upnp_get_string L ev key =
    (case map_of args key of
       Some v \<Rightarrow> Inr (Some v, ev)
     | None \<Rightarrow> Inr (None, upnp_set_error L ev (UPNP_SOAP_E_INVALID_ARGS L)
                      (''Missing action request argument ('' @ key @ '')'')))"
  using assms
  by (cases "map_of args key") (auto simp: upnp_get_string_def request_doc_def find_argument_map arg_node_def)

definition some_request :: "string \<Rightarrow> string \<Rightarrow> (string \<times> string) list \<Rightarrow> upnp_action_request" where
  "some_request sid act args =
     \<lparr>ErrCode = 0, ErrStr = [], ActionName = act, DevUDN = ''uuid:1'', ServiceID = sid,
      ActionRequest = Some (request_doc act args), ActionResult = None\<rparr>"

lemma some_request_simps [simp]:
  "ActionRequest (some_request sid act args) = Some (request_doc act args)"
  "ActionName (some_request sid act args) = act"
  "ServiceID (some_request sid act args) = sid"
  "DevUDN (some_request sid act args) = ''uuid:1''"
  "ActionResult (some_request sid act args) = None"
  by (simp_all add: some_request_def)

text \<open>
  A library to evaluate concrete runs with: every call succeeds, a response is an element
  named after the action that collects its arguments, and parsing finds nothing.
\<close>

definition sample_lib :: upnp_lib where
  "sample_lib =
     \<lparr>UPNP_E_SUCCESS = 0, UPNP_E_INTERNAL_ERROR = - 911, UPNP_SOAP_E_ACTION_FAILED = 501,
      UPNP_SOAP_E_INVALID_ARGS = 402, LINE_SIZE = 180,
      UpnpAddToActionResponse = (\<lambda>doc act t k v.
        (0, Some (case doc of
                    Some (Element a as ns) \<Rightarrow> Element a as (ns @ [Element k [] [TextNode v]])
                  | _ \<Rightarrow> Element (act @ ''Response'') [] [Element k [] [TextNode v]]))),
      UpnpGetErrorMessage = (\<lambda>rc. ''error''),
      UpnpMakeActionResponse = (\<lambda>act sid. Some (Element (act @ ''Response'') [] [])),
      UpnpAcceptSubscription = (\<lambda>u s ns vs sid. 0),
      ixmlParseBuffer = (\<lambda>s. None),
      ixmlDocument_getElementById = (\<lambda>d i. None),
      ixmlElement_getAttribute = (\<lambda>e k. None),
      ixmlDocumenttoString = (\<lambda>d. ''<?xml version=1.0?>''),
      UpnpInit = (\<lambda>ip port. 0), UpnpEnableWebserver = (\<lambda>b. 0), UpnpSetVirtualDirCallbacks = 0,
      UpnpAddVirtualDir = (\<lambda>d. 0), UpnpRegisterRootDevice2 = (\<lambda>d. 0), UpnpSendAdvertisement = (\<lambda>n. 0)\<rparr>"

definition sample_event :: "'w service_vars \<Rightarrow> string \<Rightarrow> (string \<times> string) list \<Rightarrow> 'w action_event" where
  "sample_event s act args =
     \<lparr>request = some_request (service_name s) act args, event_status = 0, event_service = s\<rparr>"

lemma sample_event_simps [simp]:
  "request (sample_event s act args) = some_request (service_name s) act args"
  "event_status (sample_event s act args) = 0"
  "event_service (sample_event s act args) = s"
  by (simp_all add: sample_event_def)

definition sample_service :: "unit env_scheme service_vars" where
  "sample_service =
     \<lparr>service_mutex = ConnmgrMutex, service_name = ''s'', service_type = ''s:1'', scpd_url = ''/a'',
      control_url = ''/b'', event_url = ''/c'', action_arguments = (\<lambda>_. None),
      variable_names = (\<lambda>_. Some ''V''), variable_values = (\<lambda>_ _. None),
      variable_defaults = Some (\<lambda>_. Some ''7''), variable_meta = (\<lambda>_. None),
      variable_count = 1, command_count = 0\<rparr>"

lemma upnp_get_string_spec_witness:
  "upnp_get_string sample_lib
     (sample_event sample_service ''Seek'' [(''InstanceID'', ''0''), (''Unit'', ''REL_TIME'')]) ''Unit''
   = Inr (Some ''REL_TIME'',
     sample_event sample_service ''Seek'' [(''InstanceID'', ''0''), (''Unit'', ''REL_TIME'')])"
  using upnp_get_string_spec [of
      "sample_event sample_service ''Seek'' [(''InstanceID'', ''0''), (''Unit'', ''REL_TIME'')]"
      "''Seek''" "[(''InstanceID'', ''0''), (''Unit'', ''REL_TIME'')]" sample_lib "''Unit''"]
  by simp

lemma upnp_set_error_simps [simp]:
  "event_status (upnp_set_error L ev e m) = - 1"
  "event_service (upnp_set_error L ev e m) = event_service ev"
  "ErrCode (request (upnp_set_error L ev e m)) = UPNP_SOAP_E_ACTION_FAILED L"
  "ActionResult (request (upnp_set_error L ev e m)) = None"
  "ActionName (request (upnp_set_error L ev e m)) = ActionName (request ev)"
  "ActionRequest (request (upnp_set_error L ev e m)) = ActionRequest (request ev)"
  "ServiceID (request (upnp_set_error L ev e m)) = ServiceID (request ev)"
  "DevUDN (request (upnp_set_error L ev e m)) = DevUDN (request ev)"
  by (simp_all add: upnp_set_error_def)

section \<open>What the helpers leave alone\<close>

text \<open>
  No helper changes the request itself or the service of the event; \<open>same_call\<close> says so.
\<close>

definition same_call :: "'w action_event \<Rightarrow> 'w action_event \<Rightarrow> bool" where
  "same_call ev ev' \<longleftrightarrow> event_service ev' = event_service ev
     \<and> ActionName (request ev') = ActionName (request ev)
     \<and> ServiceID (request ev') = ServiceID (request ev)
     \<and> DevUDN (request ev') = DevUDN (request ev)
     \<and> ActionRequest (request ev') = ActionRequest (request ev)"

lemma same_call_refl [simp]: "same_call ev ev"
  by (simp add: same_call_def)

lemma same_call_set_error [simp]: "same_call ev (upnp_set_error L ev' e m) = same_call ev ev'"
  by (simp add: same_call_def)

lemma same_call_trans: "same_call a b \<Longrightarrow> same_call b c \<Longrightarrow> same_call a c"
  by (simp add: same_call_def)

lemma wp_get_string:
  "wp (upnp_get_string L ev key)
     (\<lambda>(v, ev'). same_call ev ev' \<and> (v \<noteq> None \<longrightarrow> ev' = ev)
        \<and> (v = None \<longrightarrow> event_status ev' = - 1 \<and> ErrCode (request ev') = UPNP_SOAP_E_ACTION_FAILED L))
     (\<lambda>f. f = NullPointer)"
proof -
  have "wp (deref p) (\<lambda>_. True) (\<lambda>f. f = NullPointer)" for p :: "string option"
    by (cases p) simp_all
  then show ?thesis
    by (simp add: upnp_get_string_def wp_simps deref_def split: option.split list.split)
qed

lemma wp_obtain_instanceid:
  "wp (upnp_obtain_instanceid L ev)
     (\<lambda>(rc, ev'). same_call ev ev' \<and> (rc = 0 \<longrightarrow> ev' = ev) \<and> (rc = 0 \<or> rc = - 1))
     (\<lambda>f. f = NullPointer)"
  unfolding upnp_obtain_instanceid_def wp_bindE
  by (rule wp_post [OF wp_get_string]) (auto split: option.splits)

lemma wp_add_response:
  "wp (upnp_add_response L ev key value)
     (\<lambda>(rc, ev'). same_call ev ev' \<and> event_status ev' = event_status ev \<and> (rc = 0 \<or> rc = - 1))
     (\<lambda>f. f = OutOfBounds)"
  by (simp add: upnp_add_response_def same_call_def split: prod.split)

text \<open>Appending a variable takes the service's mutex and gives it back.\<close>

lemma wp_append_variable:
  assumes free: "service_mutex (event_service ev) \<notin> held w"
  shows "wp (upnp_append_variable L ev n k w)
     (\<lambda>(rc, ev', w'). same_call ev ev' \<and> (rc = 0 \<or> rc = - 1)
        \<and> (w' = w \<or> w' = w\<lparr>lock_order := lock_order w \<union> held w \<times> {service_mutex (event_service ev)}\<rparr>))
     (\<lambda>f. f = OutOfBounds)"
proof (cases "variable_count (event_service ev) \<le> n")
  case True
  then show ?thesis by (simp add: upnp_append_variable_def)
next
  case False
  let ?m = "service_mutex (event_service ev)"
  let ?w1 = "w\<lparr>held := insert ?m (held w), lock_order := lock_order w \<union> held w \<times> {?m}\<rparr>"
  obtain v where v: "get_service_var (event_service ev) n ?w1 = Some v"
    using get_service_var_not_NULL by fastforce
  have restore: "?w1\<lparr>held := held ?w1 - {?m}\<rparr> = w\<lparr>lock_order := lock_order w \<union> held w \<times> {?m}\<rparr>"
    using free by (simp add: insert_Diff_if)
  have "wp (upnp_add_response L ev k v) (\<lambda>(rc, ev'). same_call ev ev' \<and> (rc = 0 \<or> rc = - 1)) (\<lambda>f. f = OutOfBounds)"
    by (rule wp_post [OF wp_add_response]) auto
  then show ?thesis
    using False free v
    by (simp add: upnp_append_variable_def wp_simps)
      (erule wp_post, auto simp: wp_simps same_call_def restore [simplified])
qed

text \<open>
  Appending a list of variables, stopping at the first failure: the shape of every handler
  that answers a query (\<open>rc = upnp_append_variable (...); if (rc) goto out;\<close>).
\<close>

fun append_variables ::
  "upnp_lib \<Rightarrow> 'z env_scheme action_event \<Rightarrow> (nat \<times> string) list \<Rightarrow> 'z env_scheme
    \<Rightarrow> (int \<times> 'z env_scheme action_event \<times> 'z env_scheme) result" where
  "append_variables L event [] w = Inr (0, event, w)"
| "append_variables L event ((varnum, paramname) # vs) w =
     bindE (upnp_append_variable L event varnum paramname w) (\<lambda>(rc, event, w).
     if rc \<noteq> 0 then Inr (rc, event, w) else append_variables L event vs w)"

definition query_frame :: "mutex \<Rightarrow> 'z env_scheme \<Rightarrow> 'z env_scheme \<Rightarrow> bool" where
  "query_frame m w w' \<longleftrightarrow> (\<exists>R. R \<subseteq> held w \<times> {m} \<and> w' = w\<lparr>lock_order := lock_order w \<union> R\<rparr>)"

lemma query_frame_refl [simp]: "query_frame m w w"
  unfolding query_frame_def by (rule exI [of _ "{}"]) simp

lemma query_frame_trans: "query_frame m u v \<Longrightarrow> query_frame m v w \<Longrightarrow> query_frame m u w"
  unfolding query_frame_def
proof (elim exE conjE)
  fix R S
  assume "R \<subseteq> held u \<times> {m}" "v = u\<lparr>lock_order := lock_order u \<union> R\<rparr>"
    "S \<subseteq> held v \<times> {m}" "w = v\<lparr>lock_order := lock_order v \<union> S\<rparr>"
  then show "\<exists>R. R \<subseteq> held u \<times> {m} \<and> w = u\<lparr>lock_order := lock_order u \<union> R\<rparr>"
    by (intro exI [of _ "R \<union> S"]) (auto simp: Un_assoc)
qed

lemma query_frame_held: "query_frame m w w' \<Longrightarrow> held w' = held w"
  by (auto simp: query_frame_def)

lemma wp_append_variables:
  assumes "service_mutex (event_service ev) = m" and "m \<notin> held w"
  shows "wp (append_variables L ev vs w)
     (\<lambda>(rc, ev', w'). same_call ev ev' \<and> (rc = 0 \<or> rc = - 1) \<and> query_frame m w w')
     (\<lambda>f. f = OutOfBounds)"
  using assms
proof (induction vs arbitrary: ev w)
  case (Cons v vs)
  obtain n k where v: "v = (n, k)" by (cases v)
  have first: "wp (upnp_append_variable L ev n k w)
     (\<lambda>(rc, ev', w'). same_call ev ev' \<and> (rc = 0 \<or> rc = - 1) \<and> query_frame m w w') (\<lambda>f. f = OutOfBounds)"
    using Cons.prems
    by (intro wp_post [OF wp_append_variable]) (auto simp: query_frame_def)
  show ?case
    unfolding v append_variables.simps wp_bindE
  proof (rule wp_post [OF first], clarify)
    fix rc :: int and ev1 w1
    assume s: "same_call ev ev1" "rc = 0 \<or> rc = - 1" "query_frame m w w1"
    have "wp (append_variables L ev1 vs w1)
       (\<lambda>(rc, ev', w'). same_call ev1 ev' \<and> (rc = 0 \<or> rc = - 1) \<and> query_frame m w1 w') (\<lambda>f. f = OutOfBounds)"
      using Cons.prems s by (intro Cons.IH) (auto simp: same_call_def query_frame_held)
    then have "wp (append_variables L ev1 vs w1)
       (\<lambda>(rc, ev', w'). same_call ev ev' \<and> (rc = 0 \<or> rc = - 1) \<and> query_frame m w w') (\<lambda>f. f = OutOfBounds)"
      using s by (auto elim!: wp_post intro: same_call_trans query_frame_trans)
    then show "wp (if rc \<noteq> 0 then Inr (rc, ev1, w1) else append_variables L ev1 vs w1)
       (\<lambda>(rc, ev', w'). same_call ev ev' \<and> (rc = 0 \<or> rc = - 1) \<and> query_frame m w w') (\<lambda>f. f = OutOfBounds)"
      using s by auto
  qed
qed simp

section \<open>The instance id and the reply\<close>

text \<open>
  The guard every action starts with: it passes exactly when the request has an
  InstanceID whose \<open>atoi\<close> is 0, and then the event is unchanged. So the decimal text of
  any \<open>int\<close> but 0 is refused, while text that is no number at all passes like 0.
\<close>

lemma upnp_obtain_instanceid_spec:
  assumes "ActionRequest (request ev) = Some (request_doc act args)"
  shows "upnp_obtain_instanceid L ev =
      (case map_of args ''InstanceID'' of
         Some v \<Rightarrow> Inr (if atoi v = 0 then 0 else - 1, ev)
       | None \<Rightarrow> Inr (- 1, upnp_set_error L ev (UPNP_SOAP_E_INVALID_ARGS L) ''Missing InstanceID''))
    \<and> (\<forall>i. 0 \<le> i \<and> i \<le> INT_MAX \<longrightarrow> (atoi (fmt_d i) = 0 \<longleftrightarrow> i = 0))
    \<and> atoi ''abc'' = 0"
proof (intro conjI)
  have "atoi ''abc'' = to_int 0"
    by (simp add: atoi_def strtol10_def scan_sign_def c_isspace_def digit_value_def)
  then show "atoi ''abc'' = 0"
    by (simp add: to_int_id c_limits)
  show "upnp_obtain_instanceid L ev =
      (case map_of args ''InstanceID'' of
         Some v \<Rightarrow> Inr (if atoi v = 0 then 0 else - 1, ev)
       | None \<Rightarrow> Inr (- 1, upnp_set_error L ev (UPNP_SOAP_E_INVALID_ARGS L) ''Missing InstanceID''))"
    using assms
    by (cases "map_of args ''InstanceID''")
      (auto simp: upnp_obtain_instanceid_def upnp_get_string_def upnp_set_error_def request_doc_def
        find_argument_map arg_node_def atoi_def strtol10_def scan_sign_def to_int_def)
qed (simp add: atoi_fmt_d)

lemma upnp_obtain_instanceid_spec_witness:
  "upnp_obtain_instanceid sample_lib (sample_event sample_service ''Stop'' [(''InstanceID'', fmt_d 1)])
   = Inr (- 1, sample_event sample_service ''Stop'' [(''InstanceID'', fmt_d 1)])"
  using upnp_obtain_instanceid_spec [of
      "sample_event sample_service ''Stop'' [(''InstanceID'', fmt_d 1)]" "''Stop''"
      "[(''InstanceID'', fmt_d 1)]" sample_lib] atoi_fmt_d [of 1]
  by (simp add: INT_MAX_def)

text \<open>
  The reply to an action whose handler returns: the error code is success when the
  handler returned 0, whatever the handler had recorded with \<open>upnp_set_error\<close>, and is
  left as the handler set it otherwise; a missing response document is replaced by an
  empty one; nothing else of the handler's event or of the state changes.
\<close>

lemma handle_action_request_reply:
  assumes srv: "find_service dev (ServiceID ar) = Some s" and ok: "action_table_ok (actions s)"
    and a: "a \<in> set (actions s)" "action_name a = Some (ActionName ar)"
    and cb: "callback a = Some cb"
      "cb \<lparr>request = ar, event_status = 0, event_service = service_vars.truncate s\<rparr> w = Inr (rc, ev, w')"
  shows "handle_action_request L dev ar w = Inr (0, (request ev)
      \<lparr>ErrCode := (if rc = 0 then UPNP_E_SUCCESS L else ErrCode (request ev)),
       ActionResult :=
          (case ActionResult (request ev) of
             Some doc \<Rightarrow> Some doc
           | None \<Rightarrow> UpnpMakeActionResponse L (ActionName (request ev)) (ServiceID (request ev)))\<rparr>, w')"
proof -
  have "find_action (Some s) (ActionName ar) = Inr (Some a)"
    using find_action_loop_member [OF ok a] by (simp add: find_action_def)
  with srv cb show ?thesis
    by (simp add: handle_action_request_def Let_def split: option.split)
qed

definition sample_device :: "unit env_scheme device" where
  "sample_device =
     \<lparr>init_function = None, device_type = ''t'', friendly_name = ''f'', manufacturer = ''m'',
      manufacturer_url = [], model_description = [], model_name = [], model_number = [],
      model_url = [], serial_number = [], udn = ''uuid:1'', upc = [], presentation_url = [],
      icons = Some [],
      services = [service_vars.extend sample_service
        \<lparr>actions = [\<lparr>action_name = Some ''Fail'', callback = Some (\<lambda>ev w.
             Inr (0, upnp_set_error sample_lib ev 701 ''Transition not allowed'', w))\<rparr>,
           \<lparr>action_name = None, callback = None\<rparr>],
         subscription_notify = None\<rparr>]\<rparr>"

lemma handle_action_request_reply_witness:
  "\<exists>reply. handle_action_request sample_lib sample_device (some_request ''s'' ''Fail'' [])
      \<lparr>held = {}, lock_order = {}, notifications = [], subscriptions = []\<rparr>
    = Inr (0, reply, \<lparr>held = {}, lock_order = {}, notifications = [], subscriptions = []\<rparr>)
   \<and> ErrCode reply = 0 \<and> ErrStr reply = ''Transition not allowed''"
proof -
  let ?s = "hd (services sample_device)"
  have s: "find_service sample_device ''s'' = Some ?s"
    by (simp add: sample_device_def find_service_def sample_service_def service_vars.extend_def)
  have t: "action_table_ok (actions ?s)" "hd (actions ?s) \<in> set (actions ?s)"
    "action_name (hd (actions ?s)) = Some ''Fail''"
    "callback (hd (actions ?s)) = Some (\<lambda>ev w. Inr (0, upnp_set_error sample_lib ev 701 ''Transition not allowed'', w))"
    by (simp_all add: sample_device_def action_table_ok_def service_vars.extend_def)
  show ?thesis
    using handle_action_request_reply [of sample_device "some_request ''s'' ''Fail'' []" ?s "hd (actions ?s)",
        simplified, OF s t(1,2,3,4), OF refl, of sample_lib]
    by (simp add: upnp_set_error_def some_request_def sample_lib_def snprintf_def)
qed

lemma handle_action_request_unknown:
  assumes "find_service dev (ServiceID ar) = Some s" "action_table_ok (actions s)"
    and "Some (ActionName ar) \<notin> action_name ` set (actions s)"
  shows "handle_action_request L dev ar w = Inr (- 1, ar\<lparr>ActionResult := None, ErrCode := 401\<rparr>, w)"
  using assms find_action_loop_absent [of "actions s" "ActionName ar"]
  by (simp add: handle_action_request_def find_action_def)

section \<open>Answers to queries\<close>

text \<open>
  When every call of \<open>UpnpAddToActionResponse\<close> succeeds, a list of variables is appended in
  full: each parameter with the current value of its variable or, while that is NULL, its
  default. The service's projection must not depend on the mutexes.
\<close>

definition adds_succeed :: "upnp_lib \<Rightarrow> bool" where
  "adds_succeed L \<longleftrightarrow> (\<forall>doc a t k v. fst (UpnpAddToActionResponse L doc a t k v) = UPNP_E_SUCCESS L)"

definition add_all :: "upnp_lib \<Rightarrow> 'w action_event \<Rightarrow> (string \<times> string) list \<Rightarrow> ixml option \<Rightarrow> ixml option" where
  "add_all L ev kvs doc = fold (\<lambda>(k, v) d. snd (UpnpAddToActionResponse L d
     (ActionName (request ev)) (service_type (event_service ev)) k v)) kvs doc"

definition answered :: "upnp_lib \<Rightarrow> 'w action_event \<Rightarrow> (string \<times> string) list \<Rightarrow> 'w action_event" where
  "answered L ev kvs = ev\<lparr>request := (request ev)\<lparr>ActionResult := add_all L ev kvs (ActionResult (request ev))\<rparr>\<rparr>"

definition mutex_free_vars :: "'z env_scheme service_vars \<Rightarrow> bool" where
  "mutex_free_vars srv \<longleftrightarrow>
     (\<forall>w h lo. variable_values srv (w\<lparr>held := h, lock_order := lo\<rparr>) = variable_values srv w)"

lemma answered_Nil [simp]: "answered L ev [] = ev"
  by (simp add: answered_def add_all_def)

lemma answered_simps [simp]:
  "event_status (answered L ev kvs) = event_status ev"
  "event_service (answered L ev kvs) = event_service ev"
  "ErrCode (request (answered L ev kvs)) = ErrCode (request ev)"
  "ActionResult (request (answered L ev kvs)) = add_all L ev kvs (ActionResult (request ev))"
  by (simp_all add: answered_def)

lemma answered_Cons: "answered L (answered L ev [kv]) kvs = answered L ev (kv # kvs)"
  by (simp add: answered_def add_all_def)

lemma adds_succeed_sample [simp]: "adds_succeed sample_lib"
  by (simp add: adds_succeed_def sample_lib_def)

lemma upnp_add_response_answered:
  "adds_succeed L \<Longrightarrow> event_status ev = 0 \<Longrightarrow> upnp_add_response L ev k v = Inr (0, answered L ev [(k, v)])"
  by (simp add: upnp_add_response_def adds_succeed_def answered_def add_all_def split: prod.split)
    (metis fst_conv)

lemma get_service_var_frame:
  "mutex_free_vars srv \<Longrightarrow> get_service_var srv n (w\<lparr>held := h, lock_order := lo\<rparr>) = get_service_var srv n w"
  "mutex_free_vars srv \<Longrightarrow> get_service_var srv n (w\<lparr>lock_order := lo\<rparr>) = get_service_var srv n w"
  "mutex_free_vars srv \<Longrightarrow> get_service_var srv n (w\<lparr>held := h\<rparr>) = get_service_var srv n w"
proof -
  assume m: "mutex_free_vars srv"
  have v: "variable_values srv (w\<lparr>held := h, lock_order := lo\<rparr>) = variable_values srv w" for h lo
    using m unfolding mutex_free_vars_def by blast
  then show "get_service_var srv n (w\<lparr>held := h, lock_order := lo\<rparr>) = get_service_var srv n w"
    by (simp add: get_service_var_def)
  from v [of "lock_order w" h] show "get_service_var srv n (w\<lparr>held := h\<rparr>) = get_service_var srv n w"
    by (simp add: get_service_var_def)
  from v [of lo "held w"] show "get_service_var srv n (w\<lparr>lock_order := lo\<rparr>) = get_service_var srv n w"
    by (simp add: get_service_var_def)
qed

definition lock_edges :: "mutex \<Rightarrow> 'z env_scheme \<Rightarrow> 'z env_scheme" where
  "lock_edges m w = w\<lparr>lock_order := lock_order w \<union> held w \<times> {m}\<rparr>"

lemma lock_edges_idem [simp]: "lock_edges m (lock_edges m w) = lock_edges m w"
  by (simp add: lock_edges_def)

lemma held_lock_edges [simp]: "held (lock_edges m w) = held w"
  by (simp add: lock_edges_def)

lemma upnp_append_variable_answered:
  assumes L: "adds_succeed L" and ev: "event_status ev = 0" "event_service ev = srv"
    and srv: "mutex_free_vars srv" "service_mutex srv = m" "m \<notin> held w" and n: "n < variable_count srv"
  shows "upnp_append_variable L ev n k w
    = Inr (0, answered L ev [(k, the (get_service_var srv n w))], lock_edges m w)"
proof -
  obtain v where v: "get_service_var srv n w = Some v"
    using get_service_var_not_NULL by fastforce
  have "(held w - {m}) = held w" using srv(3) by simp
  with assms v show ?thesis
    by (simp add: upnp_append_variable_def lock_def unlock_def get_service_var_frame
        upnp_add_response_answered lock_edges_def insert_Diff_if)
qed

lemma append_variables_answered:
  assumes L: "adds_succeed L" and "event_status ev = 0" and "event_service ev = srv"
    and srv: "mutex_free_vars srv" "service_mutex srv = m" and "m \<notin> held w"
    and n: "\<forall>(n, k)\<in>set vs. n < variable_count srv"
  shows "append_variables L ev vs w
    = Inr (0, answered L ev (map (\<lambda>(n, k). (k, the (get_service_var srv n w))) vs),
           if vs = [] then w else lock_edges m w)"
  using assms(2,3,6,7)
proof (induction vs arbitrary: ev w)
  case (Cons v vs)
  obtain n k where v: "v = (n, k)" by (cases v)
  let ?x = "the (get_service_var srv n w)"
  have step: "upnp_append_variable L ev n k w = Inr (0, answered L ev [(k, ?x)], lock_edges m w)"
    using Cons.prems v L srv by (intro upnp_append_variable_answered) auto
  have same: "get_service_var srv i (lock_edges m w) = get_service_var srv i w" for i
    using srv(1) by (simp add: lock_edges_def get_service_var_frame)
  have rest: "append_variables L (answered L ev [(k, ?x)]) vs (lock_edges m w)
    = Inr (0, answered L (answered L ev [(k, ?x)]) (map (\<lambda>(n, k). (k, the (get_service_var srv n w))) vs),
           lock_edges m w)"
    using Cons.IH [of "answered L ev [(k, ?x)]" "lock_edges m w"] Cons.prems v
    by (simp add: same cong: if_cong)
  show ?case
    using step rest by (simp add: v answered_Cons)
qed simp

section \<open>The guard on the instance id\<close>

text \<open>The shape of every handler that starts with it; \<open>code\<close> is the service's own error code.\<close>

definition with_instance ::
  "upnp_lib \<Rightarrow> int \<Rightarrow> 'w action_event \<Rightarrow> 'w
    \<Rightarrow> ('w action_event \<Rightarrow> (int \<times> 'w action_event \<times> 'w) result) \<Rightarrow> (int \<times> 'w action_event \<times> 'w) result" where
  "with_instance L code event w k =
     bindE (upnp_obtain_instanceid L event) (\<lambda>(rc, event).
     if rc \<noteq> 0 then Inr (- 1, upnp_set_error L event code ''ID non-zero invalid'', w) else k event)"

lemma upnp_get_string_arg:
  assumes "ActionRequest (request ev) = Some (request_doc act args)" and "map_of args key = Some v"
  shows "upnp_get_string L ev key = Inr (Some v, ev)"
  using assms by (auto simp: upnp_get_string_def request_doc_def find_argument_map arg_node_def)

lemma upnp_get_string_missing:
  assumes "ActionRequest (request ev) = Some (request_doc act args)" and "map_of args key = None"
  shows "upnp_get_string L ev key = Inr (None, upnp_set_error L ev (UPNP_SOAP_E_INVALID_ARGS L)
    (''Missing action request argument ('' @ key @ '')''))"
  using assms by (auto simp: upnp_get_string_def request_doc_def find_argument_map arg_node_def)

lemma with_instance_pass:
  assumes "ActionRequest (request ev) = Some (request_doc act args)"
    and "map_of args ''InstanceID'' = Some i" and "atoi i = 0"
  shows "with_instance L c ev w k = k ev"
  using assms(3) upnp_get_string_arg [OF assms(1,2)]
  by (simp add: with_instance_def upnp_obtain_instanceid_def)

end
