(* ===== verification/Device_Init.thy ===== *)
theory Device_Init
  imports Upnp_Device
begin

text \<open>
  The start of upnp_device.c: \<open>upnp_device_init\<close> runs the device's own initialisation,
  registers its icons and the description of each of its services with the web server and
  then brings libupnp up, one call after the other, shutting it down again on the first
  failure. From here on the state also holds the web server's directory.
\<close>

record dev_env = env +
  virtual_files :: "virtual_file list"

section \<open>Initialisation\<close>

text \<open>
  The return codes of the two registration functions are ignored by the code.
\<close>

fun register_icons ::
  "file_system \<Rightarrow> string \<Rightarrow> icon list \<Rightarrow> 'z dev_env_scheme \<Rightarrow> 'z dev_env_scheme" where
  "register_icons fs datadir [] w = w"
| "register_icons fs datadir (icon_entry # is) w =
     register_icons fs datadir is
       (w\<lparr>virtual_files := snd (webserver_register_file fs datadir (icon_url icon_entry) ''image/png''
            (virtual_files w))\<rparr>)"

fun register_services ::
  "upnp_lib \<Rightarrow> file_system \<Rightarrow> 'w service list \<Rightarrow> 'z dev_env_scheme \<Rightarrow> 'z dev_env_scheme result" where
  "register_services L fs [] w = Inr w"
| "register_services L fs (srv # ss) w =
     bindE (upnp_get_scpd (ixmlDocumenttoString L) srv) (\<lambda>buf.
     register_services L fs ss
       (w\<lparr>virtual_files := snd (webserver_register_buf (entry_malloc_ok fs) (scpd_url srv) buf ''text/xml''
            (virtual_files w))\<rparr>))"

text \<open>The result: the return code, whether \<open>UpnpFinish\<close> was called, and the state.\<close>

definition upnp_device_init ::
  "upnp_lib \<Rightarrow> file_system \<Rightarrow> string \<Rightarrow> 'z dev_env_scheme device \<Rightarrow> string \<Rightarrow> 'z dev_env_scheme
    \<Rightarrow> (int \<times> bool \<times> 'z dev_env_scheme) result" where
  "upnp_device_init L fs datadir device_def ip_address w =
     bindE (case init_function device_def of None \<Rightarrow> Inr (0, w) | Some f \<Rightarrow> f w) (\<lambda>(rc, w).
     if rc \<noteq> 0 then Inr (- 1, False, w)
     else
       bindE (deref (icons device_def)) (\<lambda>is.
       bindE (register_services L fs (services device_def) (register_icons fs datadir is w)) (\<lambda>w.
       if UpnpInit L ip_address 0 \<noteq> UPNP_E_SUCCESS L then Inr (- 1, True, w)
       else if UpnpEnableWebserver L True \<noteq> UPNP_E_SUCCESS L then Inr (- 1, True, w)
       else if UpnpSetVirtualDirCallbacks L \<noteq> UPNP_E_SUCCESS L then Inr (- 1, True, w)
       else if UpnpAddVirtualDir L ''/upnp'' \<noteq> UPNP_E_SUCCESS L then Inr (- 1, True, w)
       else
         bindE (upnp_get_device_desc (ixmlDocumenttoString L) device_def) (\<lambda>buf.
         if UpnpRegisterRootDevice2 L buf \<noteq> UPNP_E_SUCCESS L then Inr (- 1, True, w)
         else if UpnpSendAdvertisement L 100 \<noteq> UPNP_E_SUCCESS L then Inr (- 1, True, w)
         else Inr (0, False, w)))))"

section \<open>What is served afterwards\<close>

lemma register_icons_files:
  "register_icons fs d is w = w\<lparr>virtual_files := virtual_files (register_icons fs d is w)\<rparr>"
proof (induction "is" arbitrary: w)
  case (Cons i "is")
  show ?case
    unfolding register_icons.simps by (subst Cons.IH) simp
qed simp

lemma webserver_register_buf_files:
  "snd (webserver_register_buf True p c t files) =
     \<lparr>virtual_fname = p, vf_contents = Some (map Some c), content_type = t, vf_len = length c\<rparr> # files"
  by (simp add: webserver_register_buf_def)

lemma register_services_files:
  assumes "entry_malloc_ok fs" and "\<forall>s\<in>set ss. service_tables_ok s"
  shows "register_services L fs ss w = Inr (w\<lparr>virtual_files :=
    rev (map (\<lambda>s. \<lparr>virtual_fname = scpd_url s,
                   vf_contents = Some (map Some (ixmlDocumenttoString L (scpd_tree s))),
                   content_type = ''text/xml'', vf_len = length (ixmlDocumenttoString L (scpd_tree s))\<rparr>) ss)
    @ virtual_files w\<rparr>)"
  using assms
  by (induction ss arbitrary: w)
    (simp_all add: upnp_get_scpd_def generate_scpd_tree webserver_register_buf_files)

text \<open>
  When the device's own initialisation and every call of libupnp succeed,
  \<open>upnp_device_init\<close> returns 0 without shutting libupnp down, and the web server then
  delivers, under the SCPD URL of each service, exactly the description document of that
  service.
\<close>

lemma upnp_device_init_serves:
  assumes init: "(case init_function d of None \<Rightarrow> Inr (0, w) | Some f \<Rightarrow> f w) = Inr (0, w0)"
    and ics: "icons d = Some is"
    and tables: "\<forall>s\<in>set (services d). service_tables_ok s"
    and urls: "distinct (map scpd_url (services d))"
    and lib: "UpnpInit L ip 0 = UPNP_E_SUCCESS L" "UpnpEnableWebserver L True = UPNP_E_SUCCESS L"
      "UpnpSetVirtualDirCallbacks L = UPNP_E_SUCCESS L" "UpnpAddVirtualDir L ''/upnp'' = UPNP_E_SUCCESS L"
      "UpnpRegisterRootDevice2 L (ixmlDocumenttoString L (desc_tree d)) = UPNP_E_SUCCESS L"
      "UpnpSendAdvertisement L 100 = UPNP_E_SUCCESS L"
    and mem: "entry_malloc_ok fs"
  shows "\<exists>w'. upnp_device_init L fs datadir d ip w = Inr (0, False, w')
    \<and> (\<forall>s\<in>set (services d). webserver_open (virtual_files w') (scpd_url s) UPNP_READ
          = Some \<lparr>file_pos = 0, contents = Some (map Some (ixmlDocumenttoString L (scpd_tree s))),
                  file_len = length (ixmlDocumenttoString L (scpd_tree s))\<rparr>)
    \<and> w' = w0\<lparr>virtual_files := virtual_files w'\<rparr>"
proof -
  let ?entry = "\<lambda>s. \<lparr>virtual_fname = scpd_url s,
      vf_contents = Some (map Some (ixmlDocumenttoString L (scpd_tree s))),
      content_type = ''text/xml'', vf_len = length (ixmlDocumenttoString L (scpd_tree s))\<rparr>"
  let ?w = "register_icons fs datadir is w0"
  let ?w' = "?w\<lparr>virtual_files := rev (map ?entry (services d)) @ virtual_files ?w\<rparr>"
  have run: "upnp_device_init L fs datadir d ip w = Inr (0, False, ?w')"
    using assms by (simp add: upnp_device_init_def register_services_files upnp_get_device_desc_def
        generate_desc_tree)
  have found: "find (\<lambda>v. scpd_url s = virtual_fname v) (rev (map ?entry (services d)) @ r) = Some (?entry s)"
    if "s \<in> set (services d)" for s r
  proof -
    have "distinct (map virtual_fname (rev (map ?entry (services d))))"
      using urls by (simp add: rev_map [symmetric] o_def)
    then have "find (\<lambda>v. virtual_fname v = virtual_fname (?entry s)) (rev (map ?entry (services d))) = Some (?entry s)"
      using that by (intro find_distinct_map) simp_all
    then have "find (\<lambda>v. scpd_url s = virtual_fname v) (rev (map ?entry (services d))) = Some (?entry s)"
      by (simp add: eq_commute)
    then show ?thesis
      by (simp add: find_append)
  qed
  have frame: "?w' = w0\<lparr>virtual_files := virtual_files ?w'\<rparr>"
    by (subst register_icons_files) simp
  show ?thesis
    using run found frame by (intro exI [of _ ?w']) (simp add: webserver_open_def)
qed

end
