(* ===== verification/Connmgr.thy ===== *)
theory Connmgr
  imports Device_Init
begin

text \<open>
  upnp_connmgr.c: the ConnectionManager service. Its state is the list of media types the
  player backend registers and the array of variable values; \<open>connmgr_init\<close> turns the
  former into the SinkProtocolInfo string with pointer arithmetic in a growing buffer. The
  lemmas show that the buffer is exactly filled and what the string is.
\<close>

section \<open>Enumerations\<close>

abbreviation (input) CONNMGR_VAR_AAT_CONN_MGR :: nat where "CONNMGR_VAR_AAT_CONN_MGR \<equiv> 0"

abbreviation (input) CONNMGR_VAR_SINK_PROTO_INFO :: nat where "CONNMGR_VAR_SINK_PROTO_INFO \<equiv> 1"

abbreviation (input) CONNMGR_VAR_AAT_CONN_STATUS :: nat where "CONNMGR_VAR_AAT_CONN_STATUS \<equiv> 2"

abbreviation (input) CONNMGR_VAR_AAT_AVT_ID :: nat where "CONNMGR_VAR_AAT_AVT_ID \<equiv> 3"

abbreviation (input) CONNMGR_VAR_AAT_DIR :: nat where "CONNMGR_VAR_AAT_DIR \<equiv> 4"

abbreviation (input) CONNMGR_VAR_AAT_RCS_ID :: nat where "CONNMGR_VAR_AAT_RCS_ID \<equiv> 5"

abbreviation (input) CONNMGR_VAR_AAT_PROTO_INFO :: nat where "CONNMGR_VAR_AAT_PROTO_INFO \<equiv> 6"

abbreviation (input) CONNMGR_VAR_AAT_CONN_ID :: nat where "CONNMGR_VAR_AAT_CONN_ID \<equiv> 7"

abbreviation (input) CONNMGR_VAR_SRC_PROTO_INFO :: nat where "CONNMGR_VAR_SRC_PROTO_INFO \<equiv> 8"

abbreviation (input) CONNMGR_VAR_CUR_CONN_IDS :: nat where "CONNMGR_VAR_CUR_CONN_IDS \<equiv> 9"

abbreviation (input) CONNMGR_VAR_UNKNOWN :: nat where "CONNMGR_VAR_UNKNOWN \<equiv> 10"

abbreviation (input) CONNMGR_VAR_COUNT :: nat where "CONNMGR_VAR_COUNT \<equiv> 11"

abbreviation (input) CONNMGR_CMD_GETCURRENTCONNECTIONIDS :: nat where "CONNMGR_CMD_GETCURRENTCONNECTIONIDS \<equiv> 0"

abbreviation (input) CONNMGR_CMD_SETCURRENTCONNECTIONINFO :: nat where "CONNMGR_CMD_SETCURRENTCONNECTIONINFO \<equiv> 1"

abbreviation (input) CONNMGR_CMD_GETPROTOCOLINFO :: nat where "CONNMGR_CMD_GETPROTOCOLINFO \<equiv> 2"

abbreviation (input) CONNMGR_CMD_UNKNOWN :: nat where "CONNMGR_CMD_UNKNOWN \<equiv> 3"

abbreviation (input) CONNMGR_CMD_COUNT :: nat where "CONNMGR_CMD_COUNT \<equiv> 4"

section \<open>Tables\<close>

definition arguments_getprotocolinfo :: "argument list" where
  "arguments_getprotocolinfo =
     [argument_init ''Source'' PARAM_DIR_OUT CONNMGR_VAR_SRC_PROTO_INFO,
      argument_init ''Sink'' PARAM_DIR_OUT CONNMGR_VAR_SINK_PROTO_INFO]"

definition arguments_getcurrentconnectionids :: "argument list" where
  "arguments_getcurrentconnectionids =
     [argument_init ''ConnectionIDs'' PARAM_DIR_OUT CONNMGR_VAR_CUR_CONN_IDS]"

definition arguments_setcurrentconnectioninfo :: "argument list" where
  "arguments_setcurrentconnectioninfo =
     [argument_init ''ConnectionID'' PARAM_DIR_IN CONNMGR_VAR_AAT_CONN_ID,
      argument_init ''RcsID'' PARAM_DIR_OUT CONNMGR_VAR_AAT_RCS_ID,
      argument_init ''AVTransportID'' PARAM_DIR_OUT CONNMGR_VAR_AAT_AVT_ID,
      argument_init ''ProtocolInfo'' PARAM_DIR_OUT CONNMGR_VAR_AAT_PROTO_INFO,
      argument_init ''PeerConnectionManager'' PARAM_DIR_OUT CONNMGR_VAR_AAT_CONN_MGR,
      argument_init ''PeerConnectionID'' PARAM_DIR_OUT CONNMGR_VAR_AAT_CONN_ID,
      argument_init ''Direction'' PARAM_DIR_OUT CONNMGR_VAR_AAT_DIR,
      argument_init ''Status'' PARAM_DIR_OUT CONNMGR_VAR_AAT_CONN_STATUS]"

definition connmgr_argument_list :: "nat \<Rightarrow> argument list option" where
  "connmgr_argument_list = map_of
     [(CONNMGR_CMD_GETPROTOCOLINFO, arguments_getprotocolinfo),
      (CONNMGR_CMD_GETCURRENTCONNECTIONIDS, arguments_getcurrentconnectionids),
      (CONNMGR_CMD_SETCURRENTCONNECTIONINFO, arguments_setcurrentconnectioninfo)]"

definition connmgr_variables :: "nat \<Rightarrow> string option" where
  "connmgr_variables = map_of
     [(CONNMGR_VAR_SRC_PROTO_INFO, ''SourceProtocolInfo''),
      (CONNMGR_VAR_SINK_PROTO_INFO, ''SinkProtocolInfo''),
      (CONNMGR_VAR_CUR_CONN_IDS, ''CurrentConnectionIDs''),
      (CONNMGR_VAR_AAT_CONN_STATUS, ''A_ARG_TYPE_ConnectionStatus''),
      (CONNMGR_VAR_AAT_CONN_MGR, ''A_ARG_TYPE_ConnectionManager''),
      (CONNMGR_VAR_AAT_DIR, ''A_ARG_TYPE_Direction''),
      (CONNMGR_VAR_AAT_PROTO_INFO, ''A_ARG_TYPE_ProtocolInfo''),
      (CONNMGR_VAR_AAT_CONN_ID, ''A_ARG_TYPE_ConnectionID''),
      (CONNMGR_VAR_AAT_AVT_ID, ''A_ARG_TYPE_AVTransportID''),
      (CONNMGR_VAR_AAT_RCS_ID, ''A_ARG_TYPE_RcsID'')]"

definition connmgr_defaults :: "nat \<Rightarrow> string option" where
  "connmgr_defaults = map_of
     [(CONNMGR_VAR_SRC_PROTO_INFO, []),
      (CONNMGR_VAR_SINK_PROTO_INFO, ''http-get:*:audio/mpeg:*''),
      (CONNMGR_VAR_CUR_CONN_IDS, ''0''),
      (CONNMGR_VAR_AAT_CONN_STATUS, ''Unknown''),
      (CONNMGR_VAR_AAT_CONN_MGR, ''/''),
      (CONNMGR_VAR_AAT_DIR, ''Input''),
      (CONNMGR_VAR_AAT_PROTO_INFO, '':::''),
      (CONNMGR_VAR_AAT_CONN_ID, ''-1''),
      (CONNMGR_VAR_AAT_AVT_ID, ''0''),
      (CONNMGR_VAR_AAT_RCS_ID, ''0'')]"

definition connstatus_values :: "string list" where
  "connstatus_values =
     [''OK'',
      ''ContentFormatMismatch'',
      ''InsufficientBandwidth'',
      ''UnreliableChannel'',
      ''Unknown'']"

definition direction_values :: "string list" where
  "direction_values =
     [''Input'',
      ''Output'']"

definition connmgr_var_meta :: "nat \<Rightarrow> var_meta option" where
  "connmgr_var_meta = map_of
     [(CONNMGR_VAR_SRC_PROTO_INFO, var_meta_init SENDEVENT_YES DATATYPE_STRING None None None),
      (CONNMGR_VAR_SINK_PROTO_INFO, var_meta_init SENDEVENT_YES DATATYPE_STRING None None None),
      (CONNMGR_VAR_CUR_CONN_IDS, var_meta_init SENDEVENT_YES DATATYPE_STRING None None None),
      (CONNMGR_VAR_AAT_CONN_STATUS, var_meta_init SENDEVENT_NO DATATYPE_STRING (Some connstatus_values) None None),
      (CONNMGR_VAR_AAT_CONN_MGR, var_meta_init SENDEVENT_NO DATATYPE_STRING None None None),
      (CONNMGR_VAR_AAT_DIR, var_meta_init SENDEVENT_NO DATATYPE_STRING (Some direction_values) None None),
      (CONNMGR_VAR_AAT_PROTO_INFO, var_meta_init SENDEVENT_NO DATATYPE_STRING None None None),
      (CONNMGR_VAR_AAT_CONN_ID, var_meta_init SENDEVENT_NO DATATYPE_I4 None None None),
      (CONNMGR_VAR_AAT_AVT_ID, var_meta_init SENDEVENT_NO DATATYPE_I4 None None None),
      (CONNMGR_VAR_AAT_RCS_ID, var_meta_init SENDEVENT_NO DATATYPE_I4 None None None),
      (CONNMGR_VAR_UNKNOWN, var_meta_init SENDEVENT_NO DATATYPE_UNKNOWN None None None)]"

section \<open>State and operations\<close>

text \<open>
  \<open>supported_types\<close> is a linked list in C, newest entry first.
\<close>

record connmgr_env = dev_env +
  supported_types :: "string list"
  connmgr_values :: "nat \<Rightarrow> string option"

definition register_mime_type_internal :: "string \<Rightarrow> 'z connmgr_env_scheme \<Rightarrow> 'z connmgr_env_scheme" where
  "register_mime_type_internal mime_type w =
     (if mime_type \<in> set (supported_types w) then w
      else w\<lparr>supported_types := mime_type # supported_types w\<rparr>)"

definition register_mime_type :: "string \<Rightarrow> 'z connmgr_env_scheme \<Rightarrow> 'z connmgr_env_scheme" where
  "register_mime_type mime_type w =
     (let w = register_mime_type_internal mime_type w in
      if mime_type = ''audio/mpeg'' then register_mime_type_internal ''audio/x-mpeg'' w else w)"

text \<open>
  The loop of \<open>connmgr_init\<close>: the buffer (NULL at first), the offset of \<open>p\<close> in it and
  \<open>bufsize\<close>. \<open>alloc n\<close> says whether an allocation of \<open>n\<close> bytes succeeds; when one fails
  the loop ends with \<open>None\<close>. Each \<open>strncpy\<close> copies exactly the characters of its source.
\<close>

fun connmgr_fill ::
  "(int \<Rightarrow> bool) \<Rightarrow> string list \<Rightarrow> buffer option \<Rightarrow> nat \<Rightarrow> int \<Rightarrow> (buffer option \<times> nat) option result" where
  "connmgr_fill alloc [] buf p bufsize = Inr (Some (buf, p))"
| "connmgr_fill alloc (entry # es) buf p bufsize =
     bindE (cint (int (length entry))) (\<lambda>len_type.
     bindE (cint (bufsize + len_type + 1 + 8 + 3 + 2)) (\<lambda>bufsize.
     let offset = (case buf of Some b \<Rightarrow> p | None \<Rightarrow> 0);
         old = (case buf of Some b \<Rightarrow> b | None \<Rightarrow> []);
         b = old @ malloc (nat bufsize - length old)
     in if \<not> alloc bufsize then Inr None
        else
          bindE (memcpy_at b offset ''http-get:*:'') (\<lambda>b.
          bindE (memcpy_at b (offset + 11) entry) (\<lambda>b.
          bindE (memcpy_at b (offset + 11 + length entry) '':*,'') (\<lambda>b.
          connmgr_fill alloc es (Some b) (offset + 11 + length entry + 3) bufsize)))))"

definition connmgr_init ::
  "(int \<Rightarrow> bool) \<Rightarrow> 'z connmgr_env_scheme \<Rightarrow> (int \<times> 'z connmgr_env_scheme) result" where
  "connmgr_init alloc w =
     (let w = w\<lparr>connmgr_values := (\<lambda>_. None)\<rparr> in
      bindE (connmgr_fill alloc (supported_types w) None 0 0) (\<lambda>r.
      case r of
        None \<Rightarrow> Inr (- 1, w)
      | Some (buf, p) \<Rightarrow>
          bindE (case buf of
                   None \<Rightarrow> Inr None
                 | Some b \<Rightarrow> bindE (memcpy_at b (p - 1) [NUL]) (\<lambda>b.
                              bindE (read_cstring b) (\<lambda>s. Inr (Some s)))) (\<lambda>sink.
          Inr (0, w\<lparr>connmgr_values := (connmgr_values w)
            (CONNMGR_VAR_SINK_PROTO_INFO := sink,
             CONNMGR_VAR_SRC_PROTO_INFO := connmgr_defaults CONNMGR_VAR_SRC_PROTO_INFO)\<rparr>))))"

section \<open>Action handlers\<close>

definition get_protocol_info :: "upnp_lib \<Rightarrow> 'z connmgr_env_scheme handler" where
  "get_protocol_info L event w =
     bindE (upnp_append_variable L event CONNMGR_VAR_SRC_PROTO_INFO ''Source'' w) (\<lambda>(_, event, w).
     bindE (upnp_append_variable L event CONNMGR_VAR_SINK_PROTO_INFO ''Sink'' w) (\<lambda>(_, event, w).
     Inr (event_status event, event, w)))"

definition get_current_conn_ids :: "upnp_lib \<Rightarrow> 'z connmgr_env_scheme handler" where
  "get_current_conn_ids L event w =
     bindE (upnp_add_response L event ''ConnectionIDs'' ''0'') (\<lambda>(_, event). Inr (0, event, w))"

definition get_current_conn_info :: "upnp_lib \<Rightarrow> 'z connmgr_env_scheme handler" where
  "get_current_conn_info L event w =
     bindE (upnp_get_string L event ''ConnectionID'') (\<lambda>(v, event).
     case v of
       None \<Rightarrow> Inr (- 1, event, w)
     | Some _ \<Rightarrow> append_variables L event
         [(CONNMGR_VAR_AAT_RCS_ID, ''RcsID''),
          (CONNMGR_VAR_AAT_AVT_ID, ''AVTransportID''),
          (CONNMGR_VAR_AAT_PROTO_INFO, ''ProtocolInfo''),
          (CONNMGR_VAR_AAT_CONN_MGR, ''PeerConnectionManager''),
          (CONNMGR_VAR_AAT_CONN_ID, ''PeerConnectionID''),
          (CONNMGR_VAR_AAT_DIR, ''Direction''),
          (CONNMGR_VAR_AAT_CONN_STATUS, ''Status'')] w)"

abbreviation action_init :: "string \<Rightarrow> 'w handler option \<Rightarrow> 'w action" where
  "action_init n cb \<equiv> \<lparr>action_name = Some n, callback = cb\<rparr>"

abbreviation no_action :: "'w action" where
  "no_action \<equiv> \<lparr>action_name = None, callback = None\<rparr>"

definition connmgr_actions :: "upnp_lib \<Rightarrow> 'z connmgr_env_scheme action list" where
  "connmgr_actions L = array_of (CONNMGR_CMD_UNKNOWN + 1) no_action
     [(CONNMGR_CMD_GETPROTOCOLINFO, action_init ''GetProtocolInfo'' (Some (get_protocol_info L))),
      (CONNMGR_CMD_GETCURRENTCONNECTIONIDS, action_init ''GetCurrentConnectionIDs'' (Some (get_current_conn_ids L))),
      (CONNMGR_CMD_SETCURRENTCONNECTIONINFO, action_init ''GetCurrentConnectionInfo'' (Some (get_current_conn_info L))),
      (CONNMGR_CMD_UNKNOWN, no_action)]"

definition connmgr_vars :: "'z connmgr_env_scheme service_vars" where
  "connmgr_vars =
     \<lparr>service_mutex = ConnmgrMutex,
      service_name = ''urn:schemas-upnp-org:service:ConnectionManager'',
      service_type = ''urn:schemas-upnp-org:service:ConnectionManager:1'',
      scpd_url = ''/upnp/renderconnmgrSCPD.xml'',
      control_url = ''/upnp/control/renderconnmgr1'',
      event_url = ''/upnp/event/renderconnmgr1'',
      action_arguments = connmgr_argument_list,
      variable_names = connmgr_variables,
      variable_values = connmgr_values,
      variable_defaults = Some connmgr_defaults,
      variable_meta = connmgr_var_meta,
      variable_count = CONNMGR_VAR_UNKNOWN,
      command_count = CONNMGR_CMD_UNKNOWN\<rparr>"

definition connmgr_service :: "upnp_lib \<Rightarrow> 'z connmgr_env_scheme service" where
  "connmgr_service L = service_vars.extend connmgr_vars
     \<lparr>actions = connmgr_actions L, subscription_notify = None\<rparr>"

section \<open>The sink protocol list\<close>

definition protocol_entry :: "string \<Rightarrow> string" where
  "protocol_entry t = ''http-get:*:'' @ t @ '':*''"

fun comma_separated :: "string list \<Rightarrow> string" where
  "comma_separated [] = []"
| "comma_separated (x # xs) = (if xs = [] then x else x @ '','' @ comma_separated xs)"

definition entries_text :: "string list \<Rightarrow> string" where
  "entries_text ts = concat (map (\<lambda>t. protocol_entry t @ '','') ts)"

lemma entries_text_simps [simp]:
  "entries_text [] = []"
  "entries_text (t # ts) = ''http-get:*:'' @ t @ '':*,'' @ entries_text ts"
  by (simp_all add: entries_text_def protocol_entry_def)

lemma entries_text_comma_separated:
  "ts \<noteq> [] \<Longrightarrow> entries_text ts = comma_separated (map protocol_entry ts) @ '',''"
  by (induction ts) (auto simp: protocol_entry_def)

lemma comma_separated_NUL:
  "\<forall>t\<in>set ts. NUL \<notin> set t \<Longrightarrow> NUL \<notin> set (comma_separated (map protocol_entry ts))"
  by (induction ts) (auto simp: protocol_entry_def)

lemma malloc_add: "malloc (m + n) = malloc m @ malloc n"
  by (simp add: malloc_def replicate_add)

lemma connmgr_step_buffer:
  assumes "length pre = p"
  shows "bindE (memcpy_at (map Some pre @ malloc (length t + 14)) p ''http-get:*:'') (\<lambda>b.
         bindE (memcpy_at b (p + 11) t) (\<lambda>b.
         bindE (memcpy_at b (p + 11 + length t) '':*,'') k))
      = k (map Some (pre @ ''http-get:*:'' @ t @ '':*,''))"
proof -
  have a: "memcpy_at (map Some pre @ malloc (length t + 14)) p ''http-get:*:''
      = Inr (map Some (pre @ ''http-get:*:'') @ malloc (length t + 3))"
    using assms by (simp add: memcpy_at_tail add.commute)
  have b: "memcpy_at (map Some (pre @ ''http-get:*:'') @ malloc (length t + 3)) (p + 11) t
      = Inr (map Some (pre @ ''http-get:*:'' @ t) @ malloc 3)"
    using assms by (subst memcpy_at_tail) simp_all
  have c: "memcpy_at (map Some (pre @ ''http-get:*:'' @ t) @ malloc 3) (p + 11 + length t) '':*,''
      = Inr (map Some (pre @ ''http-get:*:'' @ t @ '':*,''))"
    using assms by (subst memcpy_at_tail) (simp_all add: malloc_def)
  show ?thesis unfolding a bindE_simps b c by simp
qed

lemma connmgr_fill_text:
  assumes "\<forall>n. alloc n" and "int (length pre) + int (length (entries_text ts)) \<le> INT_MAX"
    and "pre \<noteq> [] \<or> ts \<noteq> []"
  shows "connmgr_fill alloc ts (if pre = [] then None else Some (map Some pre)) (length pre) (int (length pre))
    = Inr (Some (Some (map Some (pre @ entries_text ts)), length (pre @ entries_text ts)))"
  using assms(2,3)
proof (induction ts arbitrary: pre)
  case (Cons t ts)
  let ?pre = "pre @ ''http-get:*:'' @ t @ '':*,''"
  have len: "INT_MIN \<le> int (length t)" "int (length t) \<le> INT_MAX"
    "INT_MIN \<le> int (length pre) + int (length t) + 1 + 8 + 3 + 2"
    "int (length pre) + int (length t) + 1 + 8 + 3 + 2 \<le> INT_MAX"
    using Cons.prems(1) by (auto simp: INT_MIN_def)
  have grown: "nat (int (length pre) + int (length t) + 1 + 8 + 3 + 2) - length pre = length t + 14"
    by linarith
  have step: "connmgr_fill alloc ts (Some (map Some ?pre)) (length pre + 11 + length t + 3)
        (int (length pre) + int (length t) + 1 + 8 + 3 + 2)
      = Inr (Some (Some (map Some (pre @ entries_text (t # ts))), length (pre @ entries_text (t # ts))))"
  proof -
    have "int (length ?pre) + int (length (entries_text ts)) \<le> INT_MAX"
      using Cons.prems(1) by simp
    from Cons.IH [OF this] have "connmgr_fill alloc ts (Some (map Some ?pre)) (length ?pre) (int (length ?pre))
      = Inr (Some (Some (map Some (?pre @ entries_text ts)), length (?pre @ entries_text ts)))"
      by simp
    moreover have "length ?pre = length pre + 11 + length t + 3"
      "int (length ?pre) = int (length pre) + int (length t) + 1 + 8 + 3 + 2"
      "?pre @ entries_text ts = pre @ entries_text (t # ts)"
      by simp_all
    ultimately show ?thesis by (simp only:)
  qed
  have buf: "(case (if pre = [] then None else Some (map Some pre)) of Some b \<Rightarrow> b | None \<Rightarrow> []) = map Some pre"
    "(case (if pre = [] then None else Some (map Some pre)) of Some b \<Rightarrow> length pre | None \<Rightarrow> 0) = length pre"
    by simp_all
  have yes: "alloc (int (length pre) + int (length t) + 1 + 8 + 3 + 2) = True" using assms(1) by simp
  show ?case
    by (simp only: yes connmgr_fill.simps cint_in_range [OF len(1,2)] cint_in_range [OF len(3,4)] bindE_simps
        Let_def buf length_map grown not_True_eq_False if_False connmgr_step_buffer step simp_thms)
qed simp

lemma connmgr_init_run:
  assumes types: "supported_types w \<noteq> []" "\<forall>t\<in>set (supported_types w). NUL \<notin> set t"
    and len: "int (length (entries_text (supported_types w))) \<le> INT_MAX" and alloc: "\<forall>n. alloc n"
  shows "connmgr_init alloc w = Inr (0, w\<lparr>connmgr_values := [CONNMGR_VAR_SINK_PROTO_INFO \<mapsto>
      comma_separated (map protocol_entry (supported_types w)), CONNMGR_VAR_SRC_PROTO_INFO \<mapsto> []]\<rparr>)"
proof -
  let ?ts = "supported_types w" and ?s = "comma_separated (map protocol_entry (supported_types w))"
  have fill: "connmgr_fill alloc ?ts None 0 0 = Inr (Some (Some (map Some (?s @ '','')), length ?s + 1))"
    using connmgr_fill_text [OF alloc, of "[]" ?ts] len types(1)
    by (simp add: entries_text_comma_separated)
  have cut: "memcpy_at (map Some (?s @ '','')) (length ?s) [NUL] = Inr (map Some ?s @ [Some NUL])"
    by (simp add: memcpy_at_def)
  have rd: "read_cstring (map Some ?s @ [Some NUL]) = Inr ?s"
    using read_cstring_map [OF comma_separated_NUL [OF types(2)]] by simp
  show ?thesis
    using fill cut rd by (simp add: connmgr_init_def Let_def connmgr_defaults_def)
qed

text \<open>
  C18. \<open>connmgr_init\<close> never writes outside the buffer it grows and leaves no byte of the
  string unwritten: SinkProtocolInfo becomes the comma-separated list of the entries
  \<open>http-get:*:<type>:*\<close>, one per registered type, newest first, without the trailing
  comma, and SourceProtocolInfo its default.
\<close>

theorem connmgr_init_sink:
  assumes types: "supported_types w \<noteq> []" "\<forall>t\<in>set (supported_types w). NUL \<notin> set t"
    and len: "int (length (entries_text (supported_types w))) \<le> INT_MAX" and alloc: "\<forall>n. alloc n"
  shows "connmgr_init alloc w = Inr (0, w\<lparr>connmgr_values := [CONNMGR_VAR_SINK_PROTO_INFO \<mapsto>
      comma_separated (map protocol_entry (supported_types w)), CONNMGR_VAR_SRC_PROTO_INFO \<mapsto> []]\<rparr>)"
  by (rule connmgr_init_run [OF assms])

definition sample_connmgr :: "string list \<Rightarrow> connmgr_env" where
  "sample_connmgr ts = \<lparr>held = {}, lock_order = {}, notifications = [], subscriptions = [],
     virtual_files = [], supported_types = ts, connmgr_values = (\<lambda>_. None)\<rparr>"

theorem connmgr_init_sink_witness:
  "connmgr_init (\<lambda>_. True) (sample_connmgr [''audio/wav'', ''audio/ogg''])
   = Inr (0, sample_connmgr [''audio/wav'', ''audio/ogg'']\<lparr>connmgr_values :=
       [CONNMGR_VAR_SINK_PROTO_INFO \<mapsto> ''http-get:*:audio/wav:*,http-get:*:audio/ogg:*'',
        CONNMGR_VAR_SRC_PROTO_INFO \<mapsto> []]\<rparr>)"
  using connmgr_init_sink [of "sample_connmgr [''audio/wav'', ''audio/ogg'']" "\<lambda>_. True"]
  by (simp add: sample_connmgr_def protocol_entry_def INT_MAX_def)

section \<open>Registration\<close>

lemma register_mime_type_set:
  "set (supported_types (register_mime_type t w)) =
     set (supported_types w) \<union> {t} \<union> (if t = ''audio/mpeg'' then {''audio/x-mpeg''} else {})"
  by (auto simp: register_mime_type_def register_mime_type_internal_def Let_def)

lemma register_mime_type_distinct:
  "distinct (supported_types w) \<Longrightarrow> distinct (supported_types (register_mime_type t w))"
  by (auto simp: register_mime_type_def register_mime_type_internal_def Let_def)

lemma register_mime_type_fold:
  "set (supported_types (fold register_mime_type ts w)) =
     set (supported_types w) \<union> set ts \<union> (if ''audio/mpeg'' \<in> set ts then {''audio/x-mpeg''} else {})"
proof (induction ts arbitrary: w)
  case (Cons t ts)
  show ?case
    by (simp only: fold_simps Cons.IH register_mime_type_set) auto
qed simp

lemma register_mime_type_fold_distinct:
  "distinct (supported_types w) \<Longrightarrow> distinct (supported_types (fold register_mime_type ts w))"
  by (induction ts arbitrary: w) (simp_all add: register_mime_type_distinct)

section \<open>Replies\<close>

lemma connmgr_vars_simps [simp]:
  "service_mutex connmgr_vars = ConnmgrMutex" "variable_values connmgr_vars = connmgr_values"
  "variable_count connmgr_vars = CONNMGR_VAR_UNKNOWN" "mutex_free_vars connmgr_vars"
  "variable_defaults connmgr_vars = Some connmgr_defaults"
  by (simp_all add: connmgr_vars_def mutex_free_vars_def)

lemma get_service_var_lock_edges [simp]:
  "mutex_free_vars srv \<Longrightarrow> get_service_var srv n (lock_edges m w) = get_service_var srv n w"
  by (simp add: lock_edges_def get_service_var_frame)

text \<open>
  The reply to GetProtocolInfo: the current source and sink lists, in this order,
  with the handler returning 0, the mutex given back and the variables untouched.
\<close>

lemma get_protocol_info_reply:
  assumes "adds_succeed L" and "event_status ev = 0" and "event_service ev = connmgr_vars"
    and "ConnmgrMutex \<notin> held w"
  shows "get_protocol_info L ev w =
    Inr (0, answered L ev
      [(''Source'', the (get_service_var connmgr_vars CONNMGR_VAR_SRC_PROTO_INFO w)),
       (''Sink'', the (get_service_var connmgr_vars CONNMGR_VAR_SINK_PROTO_INFO w))],
     lock_edges ConnmgrMutex w)"
proof -
  let ?ev = "answered L ev [(''Source'', the (get_service_var connmgr_vars CONNMGR_VAR_SRC_PROTO_INFO w))]"
  have a: "upnp_append_variable L ev CONNMGR_VAR_SRC_PROTO_INFO ''Source'' w = Inr (0, ?ev, lock_edges ConnmgrMutex w)"
    using assms by (intro upnp_append_variable_answered [where srv = connmgr_vars]) simp_all
  have b: "upnp_append_variable L ?ev CONNMGR_VAR_SINK_PROTO_INFO ''Sink'' (lock_edges ConnmgrMutex w)
    = Inr (0, answered L ?ev [(''Sink'', the (get_service_var connmgr_vars CONNMGR_VAR_SINK_PROTO_INFO
        (lock_edges ConnmgrMutex w)))], lock_edges ConnmgrMutex (lock_edges ConnmgrMutex w))"
    using assms by (intro upnp_append_variable_answered [where srv = connmgr_vars]) simp_all
  show ?thesis
    using assms(2) by (simp add: get_protocol_info_def a b answered_Cons del: One_nat_def)
qed

lemma get_protocol_info_reply_witness:
  "\<exists>ev w. get_protocol_info sample_lib (sample_event connmgr_vars ''GetProtocolInfo'' []) (sample_connmgr [])
      = Inr (0, ev, w)
    \<and> ActionResult (request ev) = Some (Element ''GetProtocolInfoResponse'' []
        [Element ''Source'' [] [TextNode []],
         Element ''Sink'' [] [TextNode ''http-get:*:audio/mpeg:*'']])"
  using get_protocol_info_reply [of sample_lib "sample_event connmgr_vars ''GetProtocolInfo'' []" "sample_connmgr []"]
  by (simp add: sample_connmgr_def add_all_def get_service_var_def connmgr_defaults_def)
    (simp add: sample_lib_def)

text \<open>
  A failing \<open>UpnpAddToActionResponse\<close> does not show in what GetProtocolInfo returns:
  \<open>upnp_add_response\<close> records the error in the request but not in \<open>event->status\<close>, which
  is what the handler returns, so the caller turns the error into a success.
\<close>

lemma get_protocol_info_masks_failure:
  assumes fails: "\<forall>doc a t k v. fst (UpnpAddToActionResponse L doc a t k v) = e" "e \<noteq> UPNP_E_SUCCESS L"
    and msg: "length (UpnpGetErrorMessage L e) < LINE_SIZE L"
    and ev: "event_status ev = 0" "event_service ev = connmgr_vars" and free: "ConnmgrMutex \<notin> held w"
  shows "\<exists>ev' w'. get_protocol_info L ev w = Inr (0, ev', w')
    \<and> ErrCode (request ev') = UPNP_SOAP_E_ACTION_FAILED L \<and> ActionResult (request ev') = None"
proof -
  let ?bad = "\<lambda>ev :: 'a connmgr_env_scheme action_event. ev\<lparr>request := (request ev)\<lparr>ActionResult := None,
      ErrCode := UPNP_SOAP_E_ACTION_FAILED L, ErrStr := UpnpGetErrorMessage L e\<rparr>\<rparr>"
  have add: "upnp_add_response L ev k v = Inr (- 1, ?bad ev)" if "event_status ev = 0"
    for ev :: "'a connmgr_env_scheme action_event" and k v
    using that fails msg
    by (simp add: upnp_add_response_def split: prod.split) (metis fst_conv)
  have step: "upnp_append_variable L ev n k w = Inr (- 1, ?bad ev, lock_edges ConnmgrMutex w)"
    if "event_status ev = 0" "event_service ev = connmgr_vars" "ConnmgrMutex \<notin> held w" "n < CONNMGR_VAR_UNKNOWN"
    for ev :: "'a connmgr_env_scheme action_event" and n k w
  proof -
    obtain v where "get_service_var connmgr_vars n w = Some v"
      using get_service_var_not_NULL by fastforce
    with that show ?thesis
      by (simp add: upnp_append_variable_def lock_def unlock_def get_service_var_frame add
          lock_edges_def insert_Diff_if)
  qed
  show ?thesis
    using ev free by (simp add: get_protocol_info_def step)
qed

lemma get_protocol_info_masks_failure_witness:
  "\<exists>ev w. get_protocol_info (sample_lib\<lparr>UpnpAddToActionResponse := (\<lambda>doc a t k v. (- 104, None))\<rparr>)
       (sample_event connmgr_vars ''GetProtocolInfo'' []) (sample_connmgr []) = Inr (0, ev, w)
     \<and> ErrCode (request ev) = 501 \<and> ActionResult (request ev) = None"
  using get_protocol_info_masks_failure
    [of "sample_lib\<lparr>UpnpAddToActionResponse := (\<lambda>doc a t k v. (- 104, None))\<rparr>" "- 104"
        "sample_event connmgr_vars ''GetProtocolInfo'' []" "sample_connmgr []"]
  by (simp add: sample_lib_def sample_connmgr_def)

end
