(* ===== verification/Var_Store.thy ===== *)
theory Var_Store
  imports Prelude
begin

text \<open>
  The contract of a service's variable store. AVTransport and RenderingControl each keep an
  array of strings, NULL until a variable is first set, and the same three operations on
  it; everything above them only relies on the laws below. \<open>set_vars\<close> is a run of
  consecutive assignments.
\<close>

locale var_store =
  fixes setv :: "nat \<Rightarrow> string option \<Rightarrow> 's \<Rightarrow> 's result"
    and getv :: "'s \<Rightarrow> nat \<Rightarrow> string option"
    and count :: nat
  assumes setv_ok: "n < count \<Longrightarrow>
      \<exists>s'. setv n v s = Inr s'
         \<and> getv s' n = (case v of None \<Rightarrow> getv s n | Some x \<Rightarrow> Some x)
         \<and> (\<forall>m. m \<noteq> n \<longrightarrow> getv s' m = getv s m)"
    and setv_bad: "count \<le> n \<Longrightarrow> setv n v s = Inl OutOfBounds"

fun set_vars ::
  "(nat \<Rightarrow> string option \<Rightarrow> 's \<Rightarrow> 's result) \<Rightarrow> (nat \<times> string option) list \<Rightarrow> 's \<Rightarrow> 's result" where
  "set_vars setv [] s = Inr s"
| "set_vars setv ((n, v) # vs) s = bindE (setv n v s) (set_vars setv vs)"

text \<open>The value of a variable after the assignments: the last one that is not NULL wins.\<close>

fun final_value :: "(nat \<times> string option) list \<Rightarrow> nat \<Rightarrow> string option \<Rightarrow> string option" where
  "final_value [] m old = old"
| "final_value ((n, v) # vs) m old =
     final_value vs m (if m = n then (case v of None \<Rightarrow> old | Some x \<Rightarrow> Some x) else old)"

lemma final_value_not_NULL: "old \<noteq> None \<Longrightarrow> final_value vs m old \<noteq> None"
  by (induction vs m old rule: final_value.induct) (auto split: option.splits)

context var_store
begin

lemma set_vars_values:
  assumes "\<forall>(n, v)\<in>set vs. n < count"
  shows "\<exists>s'. set_vars setv vs s = Inr s' \<and> (\<forall>m. getv s' m = final_value vs m (getv s m))"
  using assms
proof (induction vs arbitrary: s)
  case (Cons p vs)
  obtain n v where p: "p = (n, v)" by (cases p)
  with Cons.prems obtain s1 where s1: "setv n v s = Inr s1"
      "getv s1 n = (case v of None \<Rightarrow> getv s n | Some x \<Rightarrow> Some x)" "\<forall>m. m \<noteq> n \<longrightarrow> getv s1 m = getv s m"
    using setv_ok [of n v s] by auto
  from Cons obtain s' where "set_vars setv vs s1 = Inr s'" "\<forall>m. getv s' m = final_value vs m (getv s1 m)"
    by fastforce
  with p s1 show ?case
    by (intro exI [of _ s']) auto
qed simp

lemma set_vars_keep:
  assumes "\<forall>(n, v)\<in>set vs. n < count" and "\<forall>m\<in>A. getv s m \<noteq> None"
  shows "wp (set_vars setv vs s) (\<lambda>s'. \<forall>m\<in>A. getv s' m \<noteq> None) (\<lambda>_. False)"
  using set_vars_values [OF assms(1), of s] assms(2) final_value_not_NULL by fastforce

lemma setv_defined_iff: "(\<exists>s'. setv n v s = Inr s') \<longleftrightarrow> n < count"
  using setv_ok [of n v s] setv_bad [of n v s] by (cases "n < count") auto

end

end
