(* ===== verification/Transport_Vars.thy ===== *)
theory Transport_Vars
  imports Connmgr Var_Store
begin

text \<open>
  upnp_transport.c, its tables and its variables: the names, defaults, allowed values and
  descriptions of the AVTransport state variables, the argument lists of its actions, the
  array of current values with \<open>transport_set_var\<close>, \<open>transport_get_var\<close> and
  \<open>transport_set_state\<close>, the LastChange documents and the notification. The enumerations
  of upnp_transport.h are numbers, since the code uses them as array indices; an index
  without an initialiser, and the sentinel's, is NULL.
\<close>

section \<open>Enumerations of upnp_transport.h\<close>

abbreviation (input) TRANSPORT_VAR_TRANSPORT_STATUS :: nat where "TRANSPORT_VAR_TRANSPORT_STATUS \<equiv> 0"

abbreviation (input) TRANSPORT_VAR_NEXT_AV_URI :: nat where "TRANSPORT_VAR_NEXT_AV_URI \<equiv> 1"

abbreviation (input) TRANSPORT_VAR_NEXT_AV_URI_META :: nat where "TRANSPORT_VAR_NEXT_AV_URI_META \<equiv> 2"

abbreviation (input) TRANSPORT_VAR_CUR_TRACK_META :: nat where "TRANSPORT_VAR_CUR_TRACK_META \<equiv> 3"

abbreviation (input) TRANSPORT_VAR_REL_CTR_POS :: nat where "TRANSPORT_VAR_REL_CTR_POS \<equiv> 4"

abbreviation (input) TRANSPORT_VAR_AAT_INSTANCE_ID :: nat where "TRANSPORT_VAR_AAT_INSTANCE_ID \<equiv> 5"

abbreviation (input) TRANSPORT_VAR_AAT_SEEK_TARGET :: nat where "TRANSPORT_VAR_AAT_SEEK_TARGET \<equiv> 6"

abbreviation (input) TRANSPORT_VAR_PLAY_MEDIUM :: nat where "TRANSPORT_VAR_PLAY_MEDIUM \<equiv> 7"

abbreviation (input) TRANSPORT_VAR_REL_TIME_POS :: nat where "TRANSPORT_VAR_REL_TIME_POS \<equiv> 8"

abbreviation (input) TRANSPORT_VAR_REC_MEDIA :: nat where "TRANSPORT_VAR_REC_MEDIA \<equiv> 9"

abbreviation (input) TRANSPORT_VAR_CUR_PLAY_MODE :: nat where "TRANSPORT_VAR_CUR_PLAY_MODE \<equiv> 10"

abbreviation (input) TRANSPORT_VAR_TRANSPORT_PLAY_SPEED :: nat where "TRANSPORT_VAR_TRANSPORT_PLAY_SPEED \<equiv> 11"

abbreviation (input) TRANSPORT_VAR_PLAY_MEDIA :: nat where "TRANSPORT_VAR_PLAY_MEDIA \<equiv> 12"

abbreviation (input) TRANSPORT_VAR_ABS_TIME_POS :: nat where "TRANSPORT_VAR_ABS_TIME_POS \<equiv> 13"

abbreviation (input) TRANSPORT_VAR_CUR_TRACK :: nat where "TRANSPORT_VAR_CUR_TRACK \<equiv> 14"

abbreviation (input) TRANSPORT_VAR_CUR_TRACK_URI :: nat where "TRANSPORT_VAR_CUR_TRACK_URI \<equiv> 15"

abbreviation (input) TRANSPORT_VAR_CUR_TRANSPORT_ACTIONS :: nat where "TRANSPORT_VAR_CUR_TRANSPORT_ACTIONS \<equiv> 16"

abbreviation (input) TRANSPORT_VAR_NR_TRACKS :: nat where "TRANSPORT_VAR_NR_TRACKS \<equiv> 17"

abbreviation (input) TRANSPORT_VAR_AV_URI :: nat where "TRANSPORT_VAR_AV_URI \<equiv> 18"

abbreviation (input) TRANSPORT_VAR_ABS_CTR_POS :: nat where "TRANSPORT_VAR_ABS_CTR_POS \<equiv> 19"

abbreviation (input) TRANSPORT_VAR_CUR_REC_QUAL_MODE :: nat where "TRANSPORT_VAR_CUR_REC_QUAL_MODE \<equiv> 20"

abbreviation (input) TRANSPORT_VAR_CUR_MEDIA_DUR :: nat where "TRANSPORT_VAR_CUR_MEDIA_DUR \<equiv> 21"

abbreviation (input) TRANSPORT_VAR_AAT_SEEK_MODE :: nat where "TRANSPORT_VAR_AAT_SEEK_MODE \<equiv> 22"

abbreviation (input) TRANSPORT_VAR_AV_URI_META :: nat where "TRANSPORT_VAR_AV_URI_META \<equiv> 23"

abbreviation (input) TRANSPORT_VAR_REC_MEDIUM :: nat where "TRANSPORT_VAR_REC_MEDIUM \<equiv> 24"

abbreviation (input) TRANSPORT_VAR_REC_MEDIUM_WR_STATUS :: nat where "TRANSPORT_VAR_REC_MEDIUM_WR_STATUS \<equiv> 25"

abbreviation (input) TRANSPORT_VAR_LAST_CHANGE :: nat where "TRANSPORT_VAR_LAST_CHANGE \<equiv> 26"

abbreviation (input) TRANSPORT_VAR_CUR_TRACK_DUR :: nat where "TRANSPORT_VAR_CUR_TRACK_DUR \<equiv> 27"

abbreviation (input) TRANSPORT_VAR_TRANSPORT_STATE :: nat where "TRANSPORT_VAR_TRANSPORT_STATE \<equiv> 28"

abbreviation (input) TRANSPORT_VAR_POS_REC_QUAL_MODE :: nat where "TRANSPORT_VAR_POS_REC_QUAL_MODE \<equiv> 29"

abbreviation (input) TRANSPORT_VAR_UNKNOWN :: nat where "TRANSPORT_VAR_UNKNOWN \<equiv> 30"

abbreviation (input) TRANSPORT_VAR_COUNT :: nat where "TRANSPORT_VAR_COUNT \<equiv> 31"

abbreviation (input) TRANSPORT_CMD_GETCURRENTTRANSPORTACTIONS :: nat where "TRANSPORT_CMD_GETCURRENTTRANSPORTACTIONS \<equiv> 0"

abbreviation (input) TRANSPORT_CMD_GETDEVICECAPABILITIES :: nat where "TRANSPORT_CMD_GETDEVICECAPABILITIES \<equiv> 1"

abbreviation (input) TRANSPORT_CMD_GETMEDIAINFO :: nat where "TRANSPORT_CMD_GETMEDIAINFO \<equiv> 2"

abbreviation (input) TRANSPORT_CMD_GETPOSITIONINFO :: nat where "TRANSPORT_CMD_GETPOSITIONINFO \<equiv> 3"

abbreviation (input) TRANSPORT_CMD_GETTRANSPORTINFO :: nat where "TRANSPORT_CMD_GETTRANSPORTINFO \<equiv> 4"

abbreviation (input) TRANSPORT_CMD_GETTRANSPORTSETTINGS :: nat where "TRANSPORT_CMD_GETTRANSPORTSETTINGS \<equiv> 5"

abbreviation (input) TRANSPORT_CMD_NEXT :: nat where "TRANSPORT_CMD_NEXT \<equiv> 6"

abbreviation (input) TRANSPORT_CMD_PAUSE :: nat where "TRANSPORT_CMD_PAUSE \<equiv> 7"

abbreviation (input) TRANSPORT_CMD_PLAY :: nat where "TRANSPORT_CMD_PLAY \<equiv> 8"

abbreviation (input) TRANSPORT_CMD_PREVIOUS :: nat where "TRANSPORT_CMD_PREVIOUS \<equiv> 9"

abbreviation (input) TRANSPORT_CMD_SEEK :: nat where "TRANSPORT_CMD_SEEK \<equiv> 10"

abbreviation (input) TRANSPORT_CMD_SETAVTRANSPORTURI :: nat where "TRANSPORT_CMD_SETAVTRANSPORTURI \<equiv> 11"

abbreviation (input) TRANSPORT_CMD_SETPLAYMODE :: nat where "TRANSPORT_CMD_SETPLAYMODE \<equiv> 12"

abbreviation (input) TRANSPORT_CMD_STOP :: nat where "TRANSPORT_CMD_STOP \<equiv> 13"

abbreviation (input) TRANSPORT_CMD_UNKNOWN :: nat where "TRANSPORT_CMD_UNKNOWN \<equiv> 14"

abbreviation (input) TRANSPORT_CMD_COUNT :: nat where "TRANSPORT_CMD_COUNT \<equiv> 15"

definition transport_variables :: "nat \<Rightarrow> string option" where
  "transport_variables = map_of
     [(TRANSPORT_VAR_TRANSPORT_STATE, ''TransportState''),
      (TRANSPORT_VAR_TRANSPORT_STATUS, ''TransportStatus''),
      (TRANSPORT_VAR_PLAY_MEDIUM, ''PlaybackStorageMedium''),
      (TRANSPORT_VAR_REC_MEDIUM, ''RecordStorageMedium''),
      (TRANSPORT_VAR_PLAY_MEDIA, ''PossiblePlaybackStorageMedia''),
      (TRANSPORT_VAR_REC_MEDIA, ''PossibleRecordStorageMedia''),
      (TRANSPORT_VAR_CUR_PLAY_MODE, ''CurrentPlayMode''),
      (TRANSPORT_VAR_TRANSPORT_PLAY_SPEED, ''TransportPlaySpeed''),
      (TRANSPORT_VAR_REC_MEDIUM_WR_STATUS, ''RecordMediumWriteStatus''),
      (TRANSPORT_VAR_CUR_REC_QUAL_MODE, ''CurrentRecordQualityMode''),
      (TRANSPORT_VAR_POS_REC_QUAL_MODE, ''PossibleRecordQualityModes''),
      (TRANSPORT_VAR_NR_TRACKS, ''NumberOfTracks''),
      (TRANSPORT_VAR_CUR_TRACK, ''CurrentTrack''),
      (TRANSPORT_VAR_CUR_TRACK_DUR, ''CurrentTrackDuration''),
      (TRANSPORT_VAR_CUR_MEDIA_DUR, ''CurrentMediaDuration''),
      (TRANSPORT_VAR_CUR_TRACK_META, ''CurrentTrackMetaData''),
      (TRANSPORT_VAR_CUR_TRACK_URI, ''CurrentTrackURI''),
      (TRANSPORT_VAR_AV_URI, ''AVTransportURI''),
      (TRANSPORT_VAR_AV_URI_META, ''AVTransportURIMetaData''),
      (TRANSPORT_VAR_NEXT_AV_URI, ''NextAVTransportURI''),
      (TRANSPORT_VAR_NEXT_AV_URI_META, ''NextAVTransportURIMetaData''),
      (TRANSPORT_VAR_REL_TIME_POS, ''RelativeTimePosition''),
      (TRANSPORT_VAR_ABS_TIME_POS, ''AbsoluteTimePosition''),
      (TRANSPORT_VAR_REL_CTR_POS, ''RelativeCounterPosition''),
      (TRANSPORT_VAR_ABS_CTR_POS, ''AbsoluteCounterPosition''),
      (TRANSPORT_VAR_LAST_CHANGE, ''LastChange''),
      (TRANSPORT_VAR_AAT_SEEK_MODE, ''A_ARG_TYPE_SeekMode''),
      (TRANSPORT_VAR_AAT_SEEK_TARGET, ''A_ARG_TYPE_SeekTarget''),
      (TRANSPORT_VAR_AAT_INSTANCE_ID, ''A_ARG_TYPE_InstanceID''),
      (TRANSPORT_VAR_CUR_TRANSPORT_ACTIONS, ''CurrentTransportActions'')]"

definition transport_defaults :: "nat \<Rightarrow> string option" where
  "transport_defaults = map_of
     [(TRANSPORT_VAR_TRANSPORT_STATE, ''STOPPED''),
      (TRANSPORT_VAR_TRANSPORT_STATUS, ''OK''),
      (TRANSPORT_VAR_PLAY_MEDIUM, ''UNKNOWN''),
      (TRANSPORT_VAR_REC_MEDIUM, ''NOT_IMPLEMENTED''),
      (TRANSPORT_VAR_PLAY_MEDIA, ''NETWORK,UNKNOWN''),
      (TRANSPORT_VAR_REC_MEDIA, ''NOT_IMPLEMENTED''),
      (TRANSPORT_VAR_CUR_PLAY_MODE, ''NORMAL''),
      (TRANSPORT_VAR_TRANSPORT_PLAY_SPEED, ''1''),
      (TRANSPORT_VAR_REC_MEDIUM_WR_STATUS, ''NOT_IMPLEMENTED''),
      (TRANSPORT_VAR_CUR_REC_QUAL_MODE, ''NOT_IMPLEMENTED''),
      (TRANSPORT_VAR_POS_REC_QUAL_MODE, ''NOT_IMPLEMENTED''),
      (TRANSPORT_VAR_NR_TRACKS, ''1''),
      (TRANSPORT_VAR_CUR_TRACK, ''1''),
      (TRANSPORT_VAR_CUR_TRACK_DUR, ''00:00:00''),
      (TRANSPORT_VAR_CUR_MEDIA_DUR, ''00:00:00''),
      (TRANSPORT_VAR_CUR_TRACK_META, []),
      (TRANSPORT_VAR_CUR_TRACK_URI, []),
      (TRANSPORT_VAR_AV_URI, []),
      (TRANSPORT_VAR_AV_URI_META, []),
      (TRANSPORT_VAR_NEXT_AV_URI, []),
      (TRANSPORT_VAR_NEXT_AV_URI_META, []),
      (TRANSPORT_VAR_REL_TIME_POS, ''NOT_IMPLEMENTED''),
      (TRANSPORT_VAR_ABS_TIME_POS, ''NOT_IMPLEMENTED''),
      (TRANSPORT_VAR_REL_CTR_POS, ''2147483647''),
      (TRANSPORT_VAR_ABS_CTR_POS, ''2147483647''),
      (TRANSPORT_VAR_LAST_CHANGE, ''<Event xmlns=\"urn:schemas-upnp-org:metadata-1-0/AVT/\"><InstanceID val=\"0\"></InstanceID></Event>''),
      (TRANSPORT_VAR_AAT_SEEK_MODE, ''TRACK_NR''),
      (TRANSPORT_VAR_AAT_SEEK_TARGET, []),
      (TRANSPORT_VAR_AAT_INSTANCE_ID, ''0''),
      (TRANSPORT_VAR_CUR_TRANSPORT_ACTIONS, ''Play,Stop,Pause'')]"

definition transport_states :: "string list" where
  "transport_states =
     [''STOPPED'',
      ''PAUSED_PLAYBACK'',
      ''PAUSED_RECORDING'',
      ''PLAYING'',
      ''RECORDING'',
      ''TRANSITIONING'',
      ''NO_MEDIA_PRESENT'']"

definition transport_stati :: "string list" where
  "transport_stati =
     [''OK'',
      ''ERROR_OCCURRED'',
      '' vendor-defined '']"

definition media :: "string list" where
  "media =
     [''UNKNOWN'',
      ''DV'',
      ''MINI-DV'',
      ''VHS'',
      ''W-VHS'',
      ''S-VHS'',
      ''D-VHS'',
      ''VHSC'',
      ''VIDEO8'',
      ''HI8'',
      ''CD-ROM'',
      ''CD-DA'',
      ''CD-R'',
      ''CD-RW'',
      ''VIDEO-CD'',
      ''SACD'',
      ''MD-AUDIO'',
      ''MD-PICTURE'',
      ''DVD-ROM'',
      ''DVD-VIDEO'',
      ''DVD-R'',
      ''DVD+RW'',
      ''DVD-RW'',
      ''DVD-RAM'',
      ''DVD-AUDIO'',
      ''DAT'',
      ''LD'',
      ''HDD'',
      ''MICRO-MV'',
      ''NETWORK'',
      ''NONE'',
      ''NOT_IMPLEMENTED'',
      '' vendor-defined '']"

definition playmodi :: "string list" where
  "playmodi =
     [''NORMAL'',
      ''REPEAT_ONE'',
      ''REPEAT_ALL'',
      ''RANDOM'',
      ''DIRECT_1'']"

definition playspeeds :: "string list" where
  "playspeeds =
     [''1'',
      '' vendor-defined '']"

definition rec_write_stati :: "string list" where
  "rec_write_stati =
     [''WRITABLE'',
      ''PROTECTED'',
      ''NOT_WRITABLE'',
      ''UNKNOWN'',
      ''NOT_IMPLEMENTED'']"

definition rec_quality_modi :: "string list" where
  "rec_quality_modi =
     [''0:EP'',
      ''1:LP'',
      ''2:SP'',
      ''0:BASIC'',
      ''1:MEDIUM'',
      ''2:HIGH'',
      ''NOT_IMPLEMENTED'',
      '' vendor-defined '']"

definition aat_seekmodi :: "string list" where
  "aat_seekmodi =
     [''ABS_TIME'',
      ''REL_TIME'',
      ''ABS_COUNT'',
      ''REL_COUNT'',
      ''TRACK_NR'',
      ''CHANNEL_FREQ'',
      ''TAPE-INDEX'',
      ''FRAME'']"

definition track_range :: param_range where
  "track_range = \<lparr>range_min = 0, range_max = 4294967295, range_step = 1\<rparr>"

definition track_nr_range :: param_range where
  "track_nr_range = \<lparr>range_min = 0, range_max = 4294967295, range_step = 0\<rparr>"

definition transport_var_meta :: "nat \<Rightarrow> var_meta option" where
  "transport_var_meta = map_of
     [(TRANSPORT_VAR_TRANSPORT_STATE, var_meta_init SENDEVENT_NO DATATYPE_STRING (Some transport_states) None None),
      (TRANSPORT_VAR_TRANSPORT_STATUS, var_meta_init SENDEVENT_NO DATATYPE_STRING (Some transport_stati) None None),
      (TRANSPORT_VAR_PLAY_MEDIUM, var_meta_init SENDEVENT_NO DATATYPE_STRING (Some media) None None),
      (TRANSPORT_VAR_REC_MEDIUM, var_meta_init SENDEVENT_NO DATATYPE_STRING (Some media) None None),
      (TRANSPORT_VAR_PLAY_MEDIA, var_meta_init SENDEVENT_NO DATATYPE_STRING None None None),
      (TRANSPORT_VAR_REC_MEDIA, var_meta_init SENDEVENT_NO DATATYPE_STRING None None None),
      (TRANSPORT_VAR_CUR_PLAY_MODE, var_meta_init SENDEVENT_NO DATATYPE_STRING (Some playmodi) None (Some ''NORMAL'')),
      (TRANSPORT_VAR_TRANSPORT_PLAY_SPEED, var_meta_init SENDEVENT_NO DATATYPE_STRING (Some playspeeds) None None),
      (TRANSPORT_VAR_REC_MEDIUM_WR_STATUS, var_meta_init SENDEVENT_NO DATATYPE_STRING (Some rec_write_stati) None None),
      (TRANSPORT_VAR_CUR_REC_QUAL_MODE, var_meta_init SENDEVENT_NO DATATYPE_STRING (Some rec_quality_modi) None None),
      (TRANSPORT_VAR_POS_REC_QUAL_MODE, var_meta_init SENDEVENT_NO DATATYPE_STRING None None None),
      (TRANSPORT_VAR_NR_TRACKS, var_meta_init SENDEVENT_NO DATATYPE_UI4 None (Some track_nr_range) None),
      (TRANSPORT_VAR_CUR_TRACK, var_meta_init SENDEVENT_NO DATATYPE_UI4 None (Some track_range) None),
      (TRANSPORT_VAR_CUR_TRACK_DUR, var_meta_init SENDEVENT_NO DATATYPE_STRING None None None),
      (TRANSPORT_VAR_CUR_MEDIA_DUR, var_meta_init SENDEVENT_NO DATATYPE_STRING None None None),
      (TRANSPORT_VAR_CUR_TRACK_META, var_meta_init SENDEVENT_NO DATATYPE_STRING None None None),
      (TRANSPORT_VAR_CUR_TRACK_URI, var_meta_init SENDEVENT_NO DATATYPE_STRING None None None),
      (TRANSPORT_VAR_AV_URI, var_meta_init SENDEVENT_NO DATATYPE_STRING None None None),
      (TRANSPORT_VAR_AV_URI_META, var_meta_init SENDEVENT_NO DATATYPE_STRING None None None),
      (TRANSPORT_VAR_NEXT_AV_URI, var_meta_init SENDEVENT_NO DATATYPE_STRING None None None),
      (TRANSPORT_VAR_NEXT_AV_URI_META, var_meta_init SENDEVENT_NO DATATYPE_STRING None None None),
      (TRANSPORT_VAR_REL_TIME_POS, var_meta_init SENDEVENT_NO DATATYPE_STRING None None None),
      (TRANSPORT_VAR_ABS_TIME_POS, var_meta_init SENDEVENT_NO DATATYPE_STRING None None None),
      (TRANSPORT_VAR_REL_CTR_POS, var_meta_init SENDEVENT_NO DATATYPE_I4 None None None),
      (TRANSPORT_VAR_ABS_CTR_POS, var_meta_init SENDEVENT_NO DATATYPE_I4 None None None),
      (TRANSPORT_VAR_LAST_CHANGE, var_meta_init SENDEVENT_YES DATATYPE_STRING None None None),
      (TRANSPORT_VAR_AAT_SEEK_MODE, var_meta_init SENDEVENT_NO DATATYPE_STRING (Some aat_seekmodi) None None),
      (TRANSPORT_VAR_AAT_SEEK_TARGET, var_meta_init SENDEVENT_NO DATATYPE_STRING None None None),
      (TRANSPORT_VAR_AAT_INSTANCE_ID, var_meta_init SENDEVENT_NO DATATYPE_UI4 None None None),
      (TRANSPORT_VAR_CUR_TRANSPORT_ACTIONS, var_meta_init SENDEVENT_NO DATATYPE_STRING None None None),
      (TRANSPORT_VAR_UNKNOWN, var_meta_init SENDEVENT_NO DATATYPE_UNKNOWN None None None)]"

definition arguments_setavtransporturi :: "argument list" where
  "arguments_setavtransporturi =
     [argument_init ''InstanceID'' PARAM_DIR_IN TRANSPORT_VAR_AAT_INSTANCE_ID,
      argument_init ''CurrentURI'' PARAM_DIR_IN TRANSPORT_VAR_AV_URI,
      argument_init ''CurrentURIMetaData'' PARAM_DIR_IN TRANSPORT_VAR_AV_URI_META]"

definition arguments_getmediainfo :: "argument list" where
  "arguments_getmediainfo =
     [argument_init ''InstanceID'' PARAM_DIR_IN TRANSPORT_VAR_AAT_INSTANCE_ID,
      argument_init ''NrTracks'' PARAM_DIR_OUT TRANSPORT_VAR_NR_TRACKS,
      argument_init ''MediaDuration'' PARAM_DIR_OUT TRANSPORT_VAR_CUR_MEDIA_DUR,
      argument_init ''CurrentURI'' PARAM_DIR_OUT TRANSPORT_VAR_AV_URI,
      argument_init ''CurrentURIMetaData'' PARAM_DIR_OUT TRANSPORT_VAR_AV_URI_META,
      argument_init ''NextURI'' PARAM_DIR_OUT TRANSPORT_VAR_NEXT_AV_URI,
      argument_init ''NextURIMetaData'' PARAM_DIR_OUT TRANSPORT_VAR_NEXT_AV_URI_META,
      argument_init ''PlayMedium'' PARAM_DIR_OUT TRANSPORT_VAR_PLAY_MEDIUM,
      argument_init ''RecordMedium'' PARAM_DIR_OUT TRANSPORT_VAR_REC_MEDIUM,
      argument_init ''WriteStatus'' PARAM_DIR_OUT TRANSPORT_VAR_REC_MEDIUM_WR_STATUS]"

definition arguments_gettransportinfo :: "argument list" where
  "arguments_gettransportinfo =
     [argument_init ''InstanceID'' PARAM_DIR_IN TRANSPORT_VAR_AAT_INSTANCE_ID,
      argument_init ''CurrentTransportState'' PARAM_DIR_OUT TRANSPORT_VAR_TRANSPORT_STATE,
      argument_init ''CurrentTransportStatus'' PARAM_DIR_OUT TRANSPORT_VAR_TRANSPORT_STATUS,
      argument_init ''CurrentSpeed'' PARAM_DIR_OUT TRANSPORT_VAR_TRANSPORT_PLAY_SPEED]"

definition arguments_getpositioninfo :: "argument list" where
  "arguments_getpositioninfo =
     [argument_init ''InstanceID'' PARAM_DIR_IN TRANSPORT_VAR_AAT_INSTANCE_ID,
      argument_init ''Track'' PARAM_DIR_OUT TRANSPORT_VAR_CUR_TRACK,
      argument_init ''TrackDuration'' PARAM_DIR_OUT TRANSPORT_VAR_CUR_TRACK_DUR,
      argument_init ''TrackMetaData'' PARAM_DIR_OUT TRANSPORT_VAR_CUR_TRACK_META,
      argument_init ''TrackURI'' PARAM_DIR_OUT TRANSPORT_VAR_CUR_TRACK_URI,
      argument_init ''RelTime'' PARAM_DIR_OUT TRANSPORT_VAR_REL_TIME_POS,
      argument_init ''AbsTime'' PARAM_DIR_OUT TRANSPORT_VAR_ABS_TIME_POS,
      argument_init ''RelCount'' PARAM_DIR_OUT TRANSPORT_VAR_REL_CTR_POS,
      argument_init ''AbsCount'' PARAM_DIR_OUT TRANSPORT_VAR_ABS_CTR_POS]"

definition arguments_getdevicecapabilities :: "argument list" where
  "arguments_getdevicecapabilities =
     [argument_init ''InstanceID'' PARAM_DIR_IN TRANSPORT_VAR_AAT_INSTANCE_ID,
      argument_init ''PlayMedia'' PARAM_DIR_OUT TRANSPORT_VAR_PLAY_MEDIA,
      argument_init ''RecMedia'' PARAM_DIR_OUT TRANSPORT_VAR_REC_MEDIA,
      argument_init ''RecQualityModes'' PARAM_DIR_OUT TRANSPORT_VAR_POS_REC_QUAL_MODE]"

definition arguments_gettransportsettings :: "argument list" where
  "arguments_gettransportsettings =
     [argument_init ''InstanceID'' PARAM_DIR_IN TRANSPORT_VAR_AAT_INSTANCE_ID,
      argument_init ''PlayMode'' PARAM_DIR_OUT TRANSPORT_VAR_CUR_PLAY_MODE,
      argument_init ''RecQualityMode'' PARAM_DIR_OUT TRANSPORT_VAR_CUR_REC_QUAL_MODE]"

definition arguments_stop :: "argument list" where
  "arguments_stop =
     [argument_init ''InstanceID'' PARAM_DIR_IN TRANSPORT_VAR_AAT_INSTANCE_ID]"

definition arguments_play :: "argument list" where
  "arguments_play =
     [argument_init ''InstanceID'' PARAM_DIR_IN TRANSPORT_VAR_AAT_INSTANCE_ID,
      argument_init ''Speed'' PARAM_DIR_IN TRANSPORT_VAR_TRANSPORT_PLAY_SPEED]"

definition arguments_pause :: "argument list" where
  "arguments_pause =
     [argument_init ''InstanceID'' PARAM_DIR_IN TRANSPORT_VAR_AAT_INSTANCE_ID]"

definition arguments_seek :: "argument list" where
  "arguments_seek =
     [argument_init ''InstanceID'' PARAM_DIR_IN TRANSPORT_VAR_AAT_INSTANCE_ID,
      argument_init ''Unit'' PARAM_DIR_IN TRANSPORT_VAR_AAT_SEEK_MODE,
      argument_init ''Target'' PARAM_DIR_IN TRANSPORT_VAR_AAT_SEEK_TARGET]"

definition arguments_next :: "argument list" where
  "arguments_next =
     [argument_init ''InstanceID'' PARAM_DIR_IN TRANSPORT_VAR_AAT_INSTANCE_ID]"

definition arguments_previous :: "argument list" where
  "arguments_previous =
     [argument_init ''InstanceID'' PARAM_DIR_IN TRANSPORT_VAR_AAT_INSTANCE_ID]"

definition arguments_setplaymode :: "argument list" where
  "arguments_setplaymode =
     [argument_init ''InstanceID'' PARAM_DIR_IN TRANSPORT_VAR_AAT_INSTANCE_ID,
      argument_init ''NewPlayMode'' PARAM_DIR_IN TRANSPORT_VAR_CUR_PLAY_MODE]"

definition arguments_getcurrenttransportactions :: "argument list" where
  "arguments_getcurrenttransportactions =
     [argument_init ''InstanceID'' PARAM_DIR_IN TRANSPORT_VAR_AAT_INSTANCE_ID,
      argument_init ''Actions'' PARAM_DIR_OUT TRANSPORT_VAR_CUR_TRANSPORT_ACTIONS]"

definition transport_argument_list :: "nat \<Rightarrow> argument list option" where
  "transport_argument_list = map_of
     [(TRANSPORT_CMD_SETAVTRANSPORTURI, arguments_setavtransporturi),
      (TRANSPORT_CMD_GETDEVICECAPABILITIES, arguments_getdevicecapabilities),
      (TRANSPORT_CMD_GETMEDIAINFO, arguments_getmediainfo),
      (TRANSPORT_CMD_GETTRANSPORTINFO, arguments_gettransportinfo),
      (TRANSPORT_CMD_GETPOSITIONINFO, arguments_getpositioninfo),
      (TRANSPORT_CMD_GETTRANSPORTSETTINGS, arguments_gettransportsettings),
      (TRANSPORT_CMD_STOP, arguments_stop),
      (TRANSPORT_CMD_PLAY, arguments_play),
      (TRANSPORT_CMD_PAUSE, arguments_pause),
      (TRANSPORT_CMD_SEEK, arguments_seek),
      (TRANSPORT_CMD_NEXT, arguments_next),
      (TRANSPORT_CMD_PREVIOUS, arguments_previous),
      (TRANSPORT_CMD_SETPLAYMODE, arguments_setplaymode),
      (TRANSPORT_CMD_GETCURRENTTRANSPORTACTIONS, arguments_getcurrenttransportactions)]"

section \<open>State\<close>

datatype transport_state =
    TRANSPORT_STOPPED
  | TRANSPORT_PLAYING
  | TRANSPORT_TRANSITIONING
  | TRANSPORT_PAUSED_PLAYBACK
  | TRANSPORT_NO_MEDIA_PRESENT

text \<open>\<open>transport_state\<close> is \<open>None\<close> while it has its initial value -1, which no case names.\<close>

record transport_env = connmgr_env +
  transport_state :: "transport_state option"
  transport_values :: "nat \<Rightarrow> string option"

definition transport_set_var ::
  "nat \<Rightarrow> string option \<Rightarrow> 'z transport_env_scheme \<Rightarrow> 'z transport_env_scheme result" where
  "transport_set_var varnum new w =
     (if \<not> varnum < TRANSPORT_VAR_UNKNOWN then Inl OutOfBounds
      else case new of
        None \<Rightarrow> Inr w
      | Some v \<Rightarrow>
          if transport_values w varnum = Some v then Inr w
          else Inr (w\<lparr>transport_values := (transport_values w)(varnum := Some v)\<rparr>))"

definition transport_get_var :: "nat \<Rightarrow> 'z transport_env_scheme \<Rightarrow> string option result" where
  "transport_get_var varnum w =
     (if \<not> varnum < TRANSPORT_VAR_UNKNOWN then Inl OutOfBounds else Inr (transport_values w varnum))"

definition transport_set_state ::
  "transport_state \<Rightarrow> string \<Rightarrow> 'z transport_env_scheme \<Rightarrow> 'z transport_env_scheme result" where
  "transport_set_state state new w =
     transport_set_var TRANSPORT_VAR_TRANSPORT_STATE (Some new) (w\<lparr>transport_state := Some state\<rparr>)"

definition transport_init :: "'z transport_env_scheme \<Rightarrow> 'z transport_env_scheme" where
  "transport_init w = w\<lparr>transport_values := (\<lambda>_. None)
     (TRANSPORT_VAR_TRANSPORT_STATE := transport_defaults TRANSPORT_VAR_TRANSPORT_STATE,
      TRANSPORT_VAR_TRANSPORT_STATUS := transport_defaults TRANSPORT_VAR_TRANSPORT_STATUS,
      TRANSPORT_VAR_CUR_TRACK_URI := transport_defaults TRANSPORT_VAR_CUR_TRACK_URI,
      TRANSPORT_VAR_CUR_TRACK_META := transport_defaults TRANSPORT_VAR_CUR_TRACK_META,
      TRANSPORT_VAR_CUR_TRACK_DUR := transport_defaults TRANSPORT_VAR_CUR_TRACK_DUR)\<rparr>"

definition transport_vars :: "'z transport_env_scheme service_vars" where
  "transport_vars =
     \<lparr>service_mutex = TransportMutex,
      service_name = ''urn:schemas-upnp-org:service:AVTransport'',
      service_type = ''urn:schemas-upnp-org:service:AVTransport:1'',
      scpd_url = ''/upnp/rendertransportSCPD.xml'',
      control_url = ''/upnp/control/rendertransport1'',
      event_url = ''/upnp/event/rendertransport1'',
      action_arguments = transport_argument_list,
      variable_names = transport_variables,
      variable_values = transport_values,
      variable_defaults = Some transport_defaults,
      variable_meta = transport_var_meta,
      variable_count = TRANSPORT_VAR_UNKNOWN,
      command_count = TRANSPORT_CMD_UNKNOWN\<rparr>"

interpretation transport_store: var_store transport_set_var transport_values TRANSPORT_VAR_UNKNOWN
  by standard (auto simp: transport_set_var_def split: option.splits)

lemma transport_set_var_simps [simp]:
  "n < TRANSPORT_VAR_UNKNOWN \<Longrightarrow> transport_set_var n None w = Inr w"
  "n < TRANSPORT_VAR_UNKNOWN \<Longrightarrow> transport_set_var n (Some v) w
     = Inr (w\<lparr>transport_values := (transport_values w)(n \<mapsto> v)\<rparr>)"
  by (auto simp: transport_set_var_def fun_upd_idem)

lemma transport_get_var_simp [simp]:
  "n < TRANSPORT_VAR_UNKNOWN \<Longrightarrow> transport_get_var n w = Inr (transport_values w n)"
  by (simp add: transport_get_var_def)

lemma transport_set_state_simp [simp]:
  "transport_set_state st v w = Inr (w\<lparr>transport_state := Some st,
     transport_values := (transport_values w)(TRANSPORT_VAR_TRANSPORT_STATE \<mapsto> v)\<rparr>)"
  by (simp add: transport_set_state_def)

section \<open>LastChange\<close>

text \<open>
  The documents are built with \<open>asprintf\<close>, whose allocation is taken to succeed; a value
  is inserted as it is.
\<close>

definition avt_event :: "string \<Rightarrow> string" where
  "avt_event body =
     ''<Event xmlns=\"urn:schemas-upnp-org:metadata-1-0/AVT/\"><InstanceID val=\"0\">'' @ body
       @ ''</InstanceID></Event>''"

definition avt_value :: "nat \<Rightarrow> 'z transport_env_scheme \<Rightarrow> string" where
  "avt_value n w =
     ''<'' @ fmt_s (transport_variables n) @ '' val=\"'' @ fmt_s (transport_values w n) @ ''\"/>''"

definition transport_get_state_lastchange :: "'z transport_env_scheme \<Rightarrow> string result" where
  "transport_get_state_lastchange w =
     bindE (deref (transport_values w TRANSPORT_VAR_CUR_TRACK_URI)) (\<lambda>uri.
     Inr (if uri = [] then
            avt_event (avt_value TRANSPORT_VAR_TRANSPORT_STATE w @ avt_value TRANSPORT_VAR_TRANSPORT_STATUS w)
          else
            avt_event (avt_value TRANSPORT_VAR_TRANSPORT_STATE w @ avt_value TRANSPORT_VAR_TRANSPORT_STATUS w
              @ avt_value TRANSPORT_VAR_CUR_TRACK_URI w @ avt_value TRANSPORT_VAR_CUR_TRACK_META w
              @ avt_value TRANSPORT_VAR_CUR_TRACK_DUR w)))"

definition transport_notify_lastchange ::
  "'w action_event \<Rightarrow> string \<Rightarrow> 'z transport_env_scheme \<Rightarrow> 'z transport_env_scheme result" where
  "transport_notify_lastchange event v w =
     bindE (xmlescape v False) (\<lambda>escaped.
     Inr (w\<lparr>transport_values := (transport_values w)(TRANSPORT_VAR_LAST_CHANGE \<mapsto> v),
            notifications := notifications w @
              [\<lparr>DevUDN_sent = DevUDN (request event), ServiceID_sent = ServiceID (request event),
                VarNames_sent = [''LastChange''], VarValues_sent = [escaped]\<rparr>]\<rparr>))"

definition transport_change_var ::
  "'w action_event \<Rightarrow> nat \<Rightarrow> string option \<Rightarrow> 'z transport_env_scheme \<Rightarrow> 'z transport_env_scheme result" where
  "transport_change_var event varnum new_value w =
     bindE (transport_set_var varnum new_value w) (\<lambda>w.
     transport_notify_lastchange event (avt_event (avt_value varnum w)) w)"

definition transport_get_attr_metadata ::
  "upnp_lib \<Rightarrow> string \<Rightarrow> 'z transport_env_scheme \<Rightarrow> string option result" where
  "transport_get_attr_metadata L key w =
     bindE (transport_get_var TRANSPORT_VAR_AV_URI_META w) (\<lambda>metadata.
     Inr (case metadata of
            None \<Rightarrow> None
          | Some m \<Rightarrow>
              if m = [] then None
              else case ixmlParseBuffer L m of
                None \<Rightarrow> None
              | Some doc \<Rightarrow>
                  (case ixmlDocument_getElementById L doc ''res'' of
                     None \<Rightarrow> None
                   | Some elm \<Rightarrow> ixmlElement_getAttribute L elm key)))"

section \<open>What is always set\<close>

text \<open>
  The variables \<open>transport_init\<close> gives a value (\<open>Some things that we will need early\<close>) are
  those the LastChange document reads. They stay set, and the state variable holds the text
  of the state, through every operation of the store.
\<close>

definition early_vars :: "nat set" where
  "early_vars = {TRANSPORT_VAR_TRANSPORT_STATE, TRANSPORT_VAR_TRANSPORT_STATUS,
     TRANSPORT_VAR_CUR_TRACK_URI, TRANSPORT_VAR_CUR_TRACK_META, TRANSPORT_VAR_CUR_TRACK_DUR}"

fun state_text :: "transport_state option \<Rightarrow> string" where
  "state_text None = ''STOPPED''"
| "state_text (Some TRANSPORT_STOPPED) = ''STOPPED''"
| "state_text (Some TRANSPORT_PLAYING) = ''PLAYING''"
| "state_text (Some TRANSPORT_TRANSITIONING) = ''TRANSITIONING''"
| "state_text (Some TRANSPORT_PAUSED_PLAYBACK) = ''PAUSED_PLAYBACK''"
| "state_text (Some TRANSPORT_NO_MEDIA_PRESENT) = ''NO_MEDIA_PRESENT''"

definition transport_ok :: "'z transport_env_scheme \<Rightarrow> bool" where
  "transport_ok w \<longleftrightarrow>
     (\<forall>n\<in>early_vars. transport_values w n \<noteq> None)
   \<and> transport_values w TRANSPORT_VAR_TRANSPORT_STATE = Some (state_text (transport_state w))
   \<and> transport_state w \<notin> {Some TRANSPORT_TRANSITIONING, Some TRANSPORT_NO_MEDIA_PRESENT}"

lemma transport_init_ok:
  "transport_state w = None \<Longrightarrow> transport_ok (transport_init w)"
  by (simp add: transport_ok_def transport_init_def early_vars_def transport_defaults_def)

lemma transport_ok_upd:
  assumes "transport_ok w" and "n \<noteq> TRANSPORT_VAR_TRANSPORT_STATE"
  shows "transport_ok (w\<lparr>transport_values := (transport_values w)(n \<mapsto> v)\<rparr>)"
  using assms by (auto simp: transport_ok_def)

lemma transport_ok_state:
  assumes "transport_ok w" and "v = state_text (Some st)"
    and "st \<noteq> TRANSPORT_TRANSITIONING" and "st \<noteq> TRANSPORT_NO_MEDIA_PRESENT"
  shows "transport_ok (w\<lparr>transport_state := Some st,
     transport_values := (transport_values w)(TRANSPORT_VAR_TRANSPORT_STATE \<mapsto> v)\<rparr>)"
  using assms by (auto simp: transport_ok_def)

lemma transport_ok_frame [simp]:
  "transport_ok (w\<lparr>held := h\<rparr>) = transport_ok w"
  "transport_ok (w\<lparr>lock_order := lo\<rparr>) = transport_ok w"
  "transport_ok (w\<lparr>notifications := ns\<rparr>) = transport_ok w"
  "transport_ok (w\<lparr>subscriptions := ns\<rparr>) = transport_ok w"
  "transport_ok (w\<lparr>virtual_files := vf\<rparr>) = transport_ok w"
  by (simp_all add: transport_ok_def)

text \<open>
  The LastChange document names the variable and carries its current value; after
  \<open>transport_change_var\<close> it is both stored and sent, in escaped form.
\<close>

lemma transport_change_var_run:
  assumes n: "n < TRANSPORT_VAR_UNKNOWN"
    and s: "s = avt_event (''<'' @ fmt_s (transport_variables n) @ '' val=\"'' @ v @ ''\"/>'')"
    and esc: "xmlescape s False = Inr (xml_text False s)"
  shows "transport_change_var ev n (Some v) w = Inr (w\<lparr>
     transport_values := (transport_values w)(n \<mapsto> v, TRANSPORT_VAR_LAST_CHANGE \<mapsto> s),
     notifications := notifications w @ [\<lparr>DevUDN_sent = DevUDN (request ev),
       ServiceID_sent = ServiceID (request ev), VarNames_sent = [''LastChange''],
       VarValues_sent = [xml_text False s]\<rparr>]\<rparr>)"
  using assms by (simp add: transport_change_var_def transport_notify_lastchange_def avt_value_def)

end
