(* ===== verification/Output_Mpd.thy ===== *)
theory Output_Mpd
  imports Transport_Vars
begin

text \<open>
  output_mpd.c: the player backend. It keeps one connection to the MPD server, the last
  known volume and track length, and translates MPD's status into the variables of
  AVTransport. libmpdclient is a record of functions over the state \<open>'m\<close> of the client
  library and the server, a parameter of every definition; the functions of the library that
  send a command and report success are the one field \<open>mpd_command\<close>, indexed by the
  command. Every call on a NULL connection is a fault. Output to stderr is left out.
\<close>

section \<open>libmpdclient\<close>

datatype mpd_state = MPD_STATE_UNKNOWN | MPD_STATE_STOP | MPD_STATE_PLAY | MPD_STATE_PAUSE

text \<open>\<open>int\<close> and \<open>unsigned\<close> values of the library are 32-bit words.\<close>

record mpd_status =
  status_state :: mpd_state
  status_song_id :: "32 word"
  status_song_pos :: "32 word"
  status_elapsed_time :: "32 word"
  status_total_time :: "32 word"
  status_volume :: "32 word"

record mpd_song =
  song_duration :: "32 word"
  song_uri :: "string option"
  song_tag :: "int \<Rightarrow> string option"

datatype mpd_error = MPD_ERROR_SUCCESS | MPD_ERROR_SERVER | MPD_ERROR_OTHER int

datatype mpd_command_call =
    mpd_run_password string
  | mpd_run_clear
  | mpd_run_add string
  | mpd_run_play
  | mpd_run_stop
  | mpd_run_pause bool
  | mpd_run_next
  | mpd_run_previous
  | mpd_run_seek_id int int
  | mpd_run_set_volume int
  | mpd_command_list_begin bool
  | mpd_command_list_end
  | mpd_send_status
  | mpd_send_list_queue_meta
  | mpd_send_single bool
  | mpd_send_random bool
  | mpd_send_repeat bool
  | mpd_response_next
  | mpd_response_finish

record 'm mpd_lib =
  mpd_connection_new :: "string option \<Rightarrow> int \<Rightarrow> int \<Rightarrow> 'm \<Rightarrow> bool \<times> 'm"
  mpd_connection_get_error :: "'m \<Rightarrow> mpd_error"
  mpd_connection_free :: "'m \<Rightarrow> 'm"
  mpd_command :: "mpd_command_call \<Rightarrow> 'm \<Rightarrow> bool \<times> 'm"
  mpd_run_status :: "'m \<Rightarrow> mpd_status option \<times> 'm"
  mpd_recv_status :: "'m \<Rightarrow> mpd_status option \<times> 'm"
  mpd_recv_song :: "'m \<Rightarrow> mpd_song option \<times> 'm"
  mpd_tag_name_iparse :: "string \<Rightarrow> int"

abbreviation (input) MPD_TAG_UNKNOWN :: int where "MPD_TAG_UNKNOWN \<equiv> - 1"

section \<open>State\<close>

record 'm output_env = transport_env +
  mpd :: 'm
  mpd_conn :: bool
  mpdvolume :: int
  mutevolume :: int
  track_duration :: int
  options_host :: "string option"
  options_port :: int
  options_mpd_timeout :: int
  options_password :: "string option"
  test_mode :: bool

text \<open>The calls of the library on \<open>mpd_conn\<close>.\<close>

definition on_conn ::
  "('m \<Rightarrow> 'a \<times> 'm) \<Rightarrow> ('m, 'z) output_env_scheme \<Rightarrow> ('a \<times> ('m, 'z) output_env_scheme) result" where
  "on_conn f w =
     (if mpd_conn w then (let (r, m) = f (mpd w) in Inr (r, w\<lparr>mpd := m\<rparr>)) else Inl NullPointer)"

abbreviation mpd_do where "mpd_do L c \<equiv> on_conn (mpd_command L c)"

text \<open>A chain \<open>!c1 || !c2 || ...\<close> of commands: true when all of them succeed.\<close>

fun mpd_do_all ::
  "'m mpd_lib \<Rightarrow> mpd_command_call list \<Rightarrow> ('m, 'z) output_env_scheme
    \<Rightarrow> (bool \<times> ('m, 'z) output_env_scheme) result" where
  "mpd_do_all L [] w = Inr (True, w)"
| "mpd_do_all L (c # cs) w =
     bindE (mpd_do L c w) (\<lambda>(ok, w). if ok then mpd_do_all L cs w else Inr (False, w))"

section \<open>Connection\<close>

definition output_printError ::
  "'m mpd_lib \<Rightarrow> ('m, 'z) output_env_scheme \<Rightarrow> ('m, 'z) output_env_scheme" where
  "output_printError L w =
     (if \<not> mpd_conn w then w
      else w\<lparr>mpd := mpd_connection_free L (mpd w), mpd_conn := False\<rparr>)"

text \<open>
  What every operation does when its command failed: an error reported by the server is
  printed, any other one closes the connection.
\<close>

definition command_failed ::
  "'m mpd_lib \<Rightarrow> ('m, 'z) output_env_scheme \<Rightarrow> ('m, 'z) output_env_scheme result" where
  "command_failed L w =
     (if \<not> mpd_conn w then Inl NullPointer
      else if mpd_connection_get_error L (mpd w) = MPD_ERROR_SERVER then Inr w
      else Inr (output_printError L w))"

definition setup_connection ::
  "'m mpd_lib \<Rightarrow> ('m, 'z) output_env_scheme \<Rightarrow> (bool \<times> ('m, 'z) output_env_scheme) result" where
  "setup_connection L w =
     bindE (cint (options_mpd_timeout w * 1000)) (\<lambda>timeout.
     let (conn, m) = mpd_connection_new L (options_host w) (options_port w) timeout (mpd w);
         w = w\<lparr>mpd := m, mpd_conn := conn\<rparr>
     in if \<not> conn then Inr (False, w)
        else if mpd_connection_get_error L (mpd w) \<noteq> MPD_ERROR_SUCCESS
        then Inr (False, output_printError L w)
        else
          bindE (case options_password w of
                   None \<Rightarrow> Inr w
                 | Some p \<Rightarrow> bindE (mpd_do L (mpd_run_password p) w) (\<lambda>(ok, w).
                              Inr (if ok then w else output_printError L w))) (\<lambda>w.
          Inr (mpd_conn w, w)))"

section \<open>Times\<close>

definition parsetimetosecs :: "string option \<Rightarrow> int result" where
  "parsetimetosecs v =
     (case v of
        None \<Rightarrow> Inr 0
      | Some s \<Rightarrow>
          let (hrs, nptr) = strtol10 s in
          bindE (ptr_inc nptr) (\<lambda>nptr.
          let (mins, nptr) = strtol10 nptr in
          bindE (ptr_inc nptr) (\<lambda>nptr.
          let (secs, nptr) = strtol10 nptr in
          bindE (cint (to_int hrs * 3600)) (\<lambda>h.
          bindE (cint (to_int mins * 60)) (\<lambda>m.
          bindE (cint (h + m)) (\<lambda>hm.
          cint (hm + to_int secs)))))))"

definition hh_mm_ss :: "int \<Rightarrow> string" where
  "hh_mm_ss t =
     (let hh = t sdiv 3600; mm = (t - hh * 3600) sdiv 60; ss = t - hh * 3600 - mm * 60
      in snprintf 10 (fmt_02d hh @ '':'' @ fmt_02d mm @ '':'' @ fmt_02d ss))"

section \<open>Status updates\<close>

definition get_song_tag :: "'m mpd_lib \<Rightarrow> mpd_song \<Rightarrow> string \<Rightarrow> string option" where
  "get_song_tag L song tag =
     (let tag_type = mpd_tag_name_iparse L tag in
      if tag_type \<noteq> MPD_TAG_UNKNOWN then song_tag song tag_type else None)"

definition DIDL_LITE ::
  "string \<Rightarrow> string \<Rightarrow> string \<Rightarrow> string \<Rightarrow> string \<Rightarrow> string \<Rightarrow> string \<Rightarrow> string" where
  "DIDL_LITE title album artist track date duration uri =
     ''<DIDL-Lite xmlns=\"urn:schemas-upnp-org:metadata-1-0/DIDL-Lite/\" ''
     @ ''xmlns:upnp=\"urn:schemas-upnp-org:metadata-1-0/upnp/\" ''
     @ ''xmlns:dc=\"http://purl.org/dc/elements/1.1/\" ''
     @ ''xmlns:dlna=\"urn:schemas-dlna-org:metadata-1-0/\">''
     @ ''<item id=\"xyzzy$1$0\" parentID=\"xyzzy$1\" restricted=\"1\">''
     @ ''<upnp:class>object.item.audioItem.musicTrack</upnp:class>''
     @ ''<dc:title>'' @ title @ ''</dc:title>''
     @ ''<upnp:album>'' @ album @ ''</upnp:album>''
     @ ''<upnp:artist>'' @ artist @ ''</upnp:artist>''
     @ ''<upnp:originalTrackNumber>'' @ track @ ''</upnp:originalTrackNumber>''
     @ ''<dc:date>'' @ date @ ''</dc:date>''
     @ ''<res protocolInfo=\"http-get:*:audio/mpeg:DLNA.ORG_PN=MP3\" duration=\"'' @ duration @ ''\"> ''
     @ uri @ ''</res>''
     @ ''</item>''
     @ ''</DIDL-Lite>''"

definition or_default :: "string option \<Rightarrow> string \<Rightarrow> string" where
  "or_default v d = (case v of None \<Rightarrow> d | Some x \<Rightarrow> x)"

definition get_track_metadata ::
  "'m mpd_lib \<Rightarrow> mpd_song \<Rightarrow> ('m, 'z) output_env_scheme \<Rightarrow> ('m, 'z) output_env_scheme result" where
  "get_track_metadata L song w =
     bindE (transport_get_var TRANSPORT_VAR_AV_URI_META w) (\<lambda>meta.
     if meta \<noteq> None \<and> meta \<noteq> Some [] then Inr w
     else
       bindE (transport_get_var TRANSPORT_VAR_AV_URI w) (\<lambda>uri.
       if uri = None \<or> uri = Some [] then Inr w
       else
         let mtitle = get_song_tag L song ''title'';
             malbum = get_song_tag L song ''album'';
             martist = get_song_tag L song ''artist'';
             mtrack = get_song_tag L song ''track'';
             mdate = get_song_tag L song ''date'';
             mname = get_song_tag L song ''name''
         in if mtitle = None \<and> mname = None then Inr w
            else
              let name = or_default mname ''Unknown'';
                  title = or_default mtitle name;
                  album = (if mtitle = None then or_default malbum ''Unknown'' else or_default malbum name)
              in
                bindE (transport_get_var TRANSPORT_VAR_CUR_TRACK_DUR w) (\<lambda>dur.
                let sval = DIDL_LITE title album (or_default martist ''Unknown'') (or_default mtrack ''1'')
                      (or_default mdate ''1980-01-01T00:00:00'') (fmt_s dur) (fmt_s uri)
                in set_vars transport_set_var
                     [(TRANSPORT_VAR_CUR_TRACK_META, Some sval), (TRANSPORT_VAR_AV_URI_META, Some sval)] w)))"

definition update_track_position ::
  "mpd_status \<Rightarrow> ('m, 'z) output_env_scheme \<Rightarrow> ('m, 'z) output_env_scheme result" where
  "update_track_position mstatus w =
     bindE (cint (sint (status_song_pos mstatus) + 1)) (\<lambda>n.
     let track = snprintf 6 (fmt_d n);
         val = sint (status_elapsed_time mstatus);
         counter = snprintf 10 (fmt_d val);
         pos = hh_mm_ss val
     in set_vars transport_set_var
          [(TRANSPORT_VAR_CUR_TRACK, Some track),
           (TRANSPORT_VAR_REL_CTR_POS, Some counter),
           (TRANSPORT_VAR_ABS_CTR_POS, Some counter),
           (TRANSPORT_VAR_REL_TIME_POS, Some pos),
           (TRANSPORT_VAR_ABS_TIME_POS, Some pos)] w)"

definition output_translate_state ::
  "mpd_status \<Rightarrow> ('m, 'z) output_env_scheme \<Rightarrow> ('m, 'z) output_env_scheme result" where
  "output_translate_state mstatus w =
     (case status_state mstatus of
        MPD_STATE_UNKNOWN \<Rightarrow> Inr w
      | MPD_STATE_STOP \<Rightarrow> transport_set_state TRANSPORT_STOPPED ''STOPPED'' w
      | MPD_STATE_PLAY \<Rightarrow> transport_set_state TRANSPORT_PLAYING ''PLAYING'' w
      | MPD_STATE_PAUSE \<Rightarrow> transport_set_state TRANSPORT_PAUSED_PLAYBACK ''PAUSED_PLAYBACK'' w)"

text \<open>The part of \<open>update_mpd_status\<close> that looks at the current song.\<close>

definition update_song ::
  "'m mpd_lib \<Rightarrow> mpd_song \<Rightarrow> mpd_status \<Rightarrow> ('m, 'z) output_env_scheme
    \<Rightarrow> ('m, 'z) output_env_scheme result" where
  "update_song L song mstatus w =
     (let dur = sint (song_duration song);
          dur = (if dur = 0 then sint (status_total_time mstatus) else dur)
      in
        bindE (if dur = 0 then
                 bindE (transport_get_var TRANSPORT_VAR_CUR_TRACK_DUR w) (\<lambda>v.
                 bindE (parsetimetosecs v) (\<lambda>secs.
                 Inr (w\<lparr>track_duration := secs\<rparr>)))
               else transport_set_var TRANSPORT_VAR_CUR_TRACK_DUR (Some (hh_mm_ss dur))
                      (w\<lparr>track_duration := dur\<rparr>)) (\<lambda>w.
        bindE (transport_get_var TRANSPORT_VAR_AV_URI w) (\<lambda>uri.
        if uri \<noteq> None \<and> uri \<noteq> Some [] then Inr w
        else case song_uri song of
          None \<Rightarrow> Inr w
        | Some s \<Rightarrow>
            bindE (set_vars transport_set_var
                     [(TRANSPORT_VAR_CUR_TRACK_URI, Some s), (TRANSPORT_VAR_AV_URI, Some s)] w)
              (get_track_metadata L song))))"

text \<open>A response that went wrong is finished and the connection closed.\<close>

definition finish_and_drop ::
  "'m mpd_lib \<Rightarrow> ('m, 'z) output_env_scheme \<Rightarrow> ('m, 'z) output_env_scheme result" where
  "finish_and_drop L w = bindE (mpd_do L mpd_response_finish w) (\<lambda>(_, w). Inr (output_printError L w))"

definition update_mpd_status ::
  "'m mpd_lib \<Rightarrow> ('m, 'z) output_env_scheme \<Rightarrow> ('m, 'z) output_env_scheme result" where
  "update_mpd_status L w =
     (if \<not> mpd_conn w then Inr w
      else
        bindE (mpd_do_all L [mpd_command_list_begin True, mpd_send_status, mpd_send_list_queue_meta,
                             mpd_command_list_end] w) (\<lambda>(ok, w).
        if \<not> ok then Inr (output_printError L w)
        else
          bindE (on_conn (mpd_recv_status L) w) (\<lambda>(st, w).
          case st of
            None \<Rightarrow> finish_and_drop L w
          | Some mstatus \<Rightarrow>
              bindE (mpd_do L mpd_response_next w) (\<lambda>(ok, w).
              if \<not> ok then finish_and_drop L w
              else
                bindE (on_conn (mpd_recv_song L) w) (\<lambda>(song, w).
                bindE (case song of None \<Rightarrow> Inr w | Some s \<Rightarrow> update_song L s mstatus w) (\<lambda>w.
                bindE (mpd_do L mpd_response_finish w) (\<lambda>(ok, w).
                let w = (if ok then w else output_printError L w);
                    w = w\<lparr>mpdvolume := sint (status_volume mstatus)\<rparr>
                in bindE (output_translate_state mstatus w) (update_track_position mstatus))))))))"

datatype cnx_status = STATUS_TEST | STATUS_OK | STATUS_FAIL

definition check_mpd_connection ::
  "'m mpd_lib \<Rightarrow> bool \<Rightarrow> ('m, 'z) output_env_scheme \<Rightarrow> (cnx_status \<times> ('m, 'z) output_env_scheme) result" where
  "check_mpd_connection L update_status w =
     (if test_mode w then Inr (STATUS_TEST, w)
      else
        bindE (lock MpdMutex w) (\<lambda>w.
        bindE (if \<not> mpd_conn w then
                 bindE (setup_connection L w) (\<lambda>(conn, w).
                 if conn then
                   bindE (if update_status then update_mpd_status L w else Inr w) (\<lambda>w.
                   Inr (STATUS_OK, w))
                 else Inr (STATUS_FAIL, w))
               else Inr (STATUS_OK, w)) (\<lambda>(rc, w).
        bindE (unlock MpdMutex w) (\<lambda>w. Inr (rc, w)))))"

section \<open>Operations\<close>

definition output_set_uri ::
  "'m mpd_lib \<Rightarrow> string \<Rightarrow> ('m, 'z) output_env_scheme \<Rightarrow> ('m, 'z) output_env_scheme result" where
  "output_set_uri L uri w =
     (if \<not> mpd_conn w then Inr w
      else
        bindE (lock MpdMutex w) (\<lambda>w.
        bindE (mpd_do L mpd_run_clear w) (\<lambda>(_, w).
        bindE (mpd_do L (mpd_run_add uri) w) (\<lambda>(ok, w).
        bindE (if ok then Inr w else command_failed L w) (unlock MpdMutex)))))"

text \<open>
  The body \<open>output_play\<close>, \<open>output_stop\<close>, \<open>output_pause\<close>, \<open>output_next\<close> and \<open>output_prev\<close>
  share: one command under the mutex, then a status update.
\<close>

definition run_and_update ::
  "'m mpd_lib \<Rightarrow> mpd_command_call \<Rightarrow> ('m, 'z) output_env_scheme
    \<Rightarrow> (int \<times> ('m, 'z) output_env_scheme) result" where
  "run_and_update L c w =
     bindE (mpd_do L c w) (\<lambda>(ok, w).
     if ok then bindE (update_mpd_status L w) (\<lambda>w. Inr (0, w))
     else bindE (command_failed L w) (\<lambda>w. Inr (- 1, w)))"

definition player_command ::
  "'m mpd_lib \<Rightarrow> mpd_command_call \<Rightarrow> ('m, 'z) output_env_scheme
    \<Rightarrow> (int \<times> ('m, 'z) output_env_scheme) result" where
  "player_command L c w =
     (if test_mode w then Inr (0, w)
      else
        bindE (lock MpdMutex w) (\<lambda>w.
        bindE (run_and_update L c w) (\<lambda>(rc, w).
        bindE (unlock MpdMutex w) (\<lambda>w. Inr (rc, w)))))"

definition output_play where "output_play L = player_command L mpd_run_play"

definition output_stop where "output_stop L = player_command L mpd_run_stop"

definition output_pause where "output_pause L = player_command L (mpd_run_pause True)"

definition output_next where "output_next L = player_command L mpd_run_next"

definition output_prev where "output_prev L = player_command L mpd_run_previous"

text \<open>\<open>seekmode\<close> is not used by the code.\<close>

definition output_seekto ::
  "'m mpd_lib \<Rightarrow> string \<Rightarrow> string \<Rightarrow> ('m, 'z) output_env_scheme
    \<Rightarrow> (int \<times> ('m, 'z) output_env_scheme) result" where
  "output_seekto L seekmode seekpos w =
     (if test_mode w then Inr (0, w)
      else
        bindE (lock MpdMutex w) (\<lambda>w.
        bindE (on_conn (mpd_run_status L) w) (\<lambda>(st, w).
        case st of
          None \<Rightarrow>
            bindE (command_failed L w) (\<lambda>w. bindE (unlock MpdMutex w) (\<lambda>w. Inr (- 1, w)))
        | Some mstatus \<Rightarrow>
            if status_state mstatus = MPD_STATE_STOP
            then bindE (unlock MpdMutex w) (\<lambda>w. Inr (- 1, w))
            else
              bindE (parsetimetosecs (Some seekpos)) (\<lambda>seekto.
              let seekto = (if seekto < 0 then 0 else seekto);
                  seekto = (if seekto > track_duration w then track_duration w else seekto)
              in
                bindE (run_and_update L (mpd_run_seek_id (sint (status_song_id mstatus)) seekto) w)
                  (\<lambda>(rc, w). bindE (unlock MpdMutex w) (\<lambda>w. Inr (rc, w)))))))"

text \<open>The flags a play mode sends: single, random and repeat.\<close>

definition play_mode_flags :: "string \<Rightarrow> (bool \<times> bool \<times> bool) option" where
  "play_mode_flags newmode =
     (if newmode = ''NORMAL'' then Some (False, False, False)
      else if newmode = ''REPEAT-ONE'' then Some (True, False, True)
      else if newmode = ''DIRECT_1'' then Some (True, False, False)
      else if newmode = ''REPEAT-ALL'' then Some (False, False, True)
      else if newmode = ''RANDOM'' then Some (False, True, False)
      else None)"

definition output_playmode ::
  "'m mpd_lib \<Rightarrow> string option \<Rightarrow> ('m, 'z) output_env_scheme
    \<Rightarrow> (int \<times> ('m, 'z) output_env_scheme) result" where
  "output_playmode L newmode w =
     (if test_mode w then Inr (0, w)
      else
        bindE (lock MpdMutex w) (\<lambda>w.
        bindE (deref newmode) (\<lambda>mode.
        bindE (case play_mode_flags mode of
                 None \<Rightarrow> Inr (- 1, w)
               | Some (single, random, rpt) \<Rightarrow>
                   bindE (mpd_do_all L [mpd_command_list_begin False, mpd_send_single single,
                            mpd_send_random random, mpd_send_repeat rpt, mpd_command_list_end] w)
                     (\<lambda>(ok, w).
                     if \<not> ok then bindE (finish_and_drop L w) (\<lambda>w. Inr (- 1, w))
                     else bindE (mpd_do L mpd_response_finish w) (\<lambda>(ok, w).
                          Inr (0, if ok then w else output_printError L w)))) (\<lambda>(rc, w).
        bindE (unlock MpdMutex w) (\<lambda>w. Inr (rc, w))))))"

definition output_set_volume ::
  "'m mpd_lib \<Rightarrow> string option \<Rightarrow> ('m, 'z) output_env_scheme \<Rightarrow> ('m, 'z) output_env_scheme result" where
  "output_set_volume L newvol w =
     (if test_mode w then Inr w
      else case newvol of
        None \<Rightarrow> Inr w
      | Some v \<Rightarrow>
          let val = atoi v; val = (if val < 0 then 0 else val); val = (if val > 100 then 100 else val)
          in
            bindE (lock MpdMutex w) (\<lambda>w.
            bindE (mpd_do L (mpd_run_set_volume val) w) (\<lambda>(ok, w).
            bindE (if ok then Inr (w\<lparr>mpdvolume := val, mutevolume := val\<rparr>)
                   else command_failed L w) (unlock MpdMutex))))"

definition output_set_mute ::
  "'m mpd_lib \<Rightarrow> bool \<Rightarrow> ('m, 'z) output_env_scheme \<Rightarrow> ('m, 'z) output_env_scheme result" where
  "output_set_mute L bmute w =
     (if test_mode w then Inr w
      else
        let w = (if bmute then w\<lparr>mutevolume := mpdvolume w\<rparr> else w);
            newvolume = (if bmute then 0 else mutevolume w)
        in
          bindE (lock MpdMutex w) (\<lambda>w.
          bindE (mpd_do L (mpd_run_set_volume newvolume) w) (\<lambda>(ok, w).
          bindE (if ok then Inr (w\<lparr>mpdvolume := newvolume\<rparr>)
                 else command_failed L w) (unlock MpdMutex))))"

definition output_get_volume :: "('m, 'z) output_env_scheme \<Rightarrow> string" where
  "output_get_volume w = snprintf 6 (fmt_d (mpdvolume w))"

definition output_update_status ::
  "'m mpd_lib \<Rightarrow> ('m, 'z) output_env_scheme \<Rightarrow> ('m, 'z) output_env_scheme result" where
  "output_update_status L w =
     bindE (lock MpdMutex w) (\<lambda>w. bindE (update_mpd_status L w) (unlock MpdMutex))"

definition output_update_position ::
  "'m mpd_lib \<Rightarrow> ('m, 'z) output_env_scheme \<Rightarrow> ('m, 'z) output_env_scheme result" where
  "output_update_position L w =
     bindE (check_mpd_connection L False w) (\<lambda>(st, w).
     if st \<noteq> STATUS_OK then Inr w
     else
       bindE (lock MpdMutex w) (\<lambda>w.
       bindE (on_conn (mpd_run_status L) w) (\<lambda>(st, w).
       bindE (case st of
                None \<Rightarrow> bindE (unlock MpdMutex w) (command_failed L)
              | Some mstatus \<Rightarrow>
                  bindE (output_translate_state mstatus w) (update_track_position mstatus))
         (unlock MpdMutex))))"

end
