(* ===== verification/Handler_Rules.thy ===== *)
theory Handler_Rules
  imports Connmgr
begin

text \<open>
  The lock discipline for action handlers. A handler carries an event besides the state;
  \<open>safe_ev e P m\<close> says that the run \<open>m\<close> of a handler called with the event \<open>e\<close> ends with an
  event of the same call and a state satisfying \<open>P\<close>, or with a fault that is not a misuse
  of a mutex. The rules extend those of theory Locking to the helpers of upnp_device.c.
\<close>

definition safe_ev ::
  "'w action_event \<Rightarrow> ('z env_scheme \<Rightarrow> bool) \<Rightarrow> (int \<times> 'w action_event \<times> 'z env_scheme) result \<Rightarrow> bool" where
  "safe_ev e P m \<longleftrightarrow> wp m (\<lambda>(rc, ev, w). same_call e ev \<and> P w) (\<lambda>f. \<not> lock_fault f)"

named_theorems ev_rules

lemma safe_ev_Inr [ev_rules]: "same_call e ev \<Longrightarrow> P w \<Longrightarrow> safe_ev e P (Inr (rc, ev, w))"
  by (simp add: safe_ev_def)

lemma safe_ev_split [ev_rules]:
  "(c \<Longrightarrow> safe_ev e P x) \<Longrightarrow> (\<not> c \<Longrightarrow> safe_ev e P y) \<Longrightarrow> safe_ev e P (if c then x else y)"
  "(q = None \<Longrightarrow> safe_ev e P u) \<Longrightarrow> (\<And>v. q = Some v \<Longrightarrow> safe_ev e P (g v)) \<Longrightarrow>
     safe_ev e P (case q of None \<Rightarrow> u | Some v \<Rightarrow> g v)"
  by (auto split: option.split)

lemma same_call_rules [ev_rules]:
  "same_call e e"
  "same_call e ev \<Longrightarrow> same_call e (upnp_set_error L ev c m)"
  "(b \<Longrightarrow> same_call e ev) \<Longrightarrow> (\<not> b \<Longrightarrow> same_call e ev') \<Longrightarrow> same_call e (if b then ev else ev')"
  by simp_all

lemma safe_ev_bind:
  "safe_ev e P m \<Longrightarrow> (\<And>r ev w. same_call e ev \<Longrightarrow> P w \<Longrightarrow> safe_ev e Q (k r ev w)) \<Longrightarrow>
     safe_ev e Q (bindE m (\<lambda>(r, ev, w). k r ev w))"
  "safe P n \<Longrightarrow> (\<And>r w. P w \<Longrightarrow> safe_ev e Q (l r w)) \<Longrightarrow> safe_ev e Q (bindE n (\<lambda>(r, w). l r w))"
  "safe_st P s \<Longrightarrow> (\<And>w. P w \<Longrightarrow> safe_ev e Q (j w)) \<Longrightarrow> safe_ev e Q (bindE s j)"
  by (auto simp: safe_ev_def safe_defs wp_bindE elim: wp_post)

lemma safe_ev_benign:
  "benign m \<Longrightarrow> (\<And>r. safe_ev e Q (k r)) \<Longrightarrow> safe_ev e Q (bindE m k)"
  by (auto simp: safe_ev_def safe_defs wp_bindE elim: wp_post)

lemma safe_ev_mono: "safe_ev e P m \<Longrightarrow> (\<And>w. P w \<Longrightarrow> Q w) \<Longrightarrow> safe_ev e Q m"
  by (auto simp: safe_ev_def elim!: wp_post)

lemma safe_ev_get_string [ev_rules]:
  assumes "same_call e ev" and "\<And>v ev'. same_call e ev' \<Longrightarrow> safe_ev e Q (k v ev')"
  shows "safe_ev e Q (bindE (upnp_get_string L ev key) (\<lambda>(v, ev). k v ev))"
  unfolding safe_ev_def wp_bindE
  by (rule wp_mono [OF wp_get_string [of L ev key]])
    (use assms in \<open>auto simp: safe_ev_def dest: same_call_trans\<close>)

lemma safe_ev_obtain_instanceid [ev_rules]:
  assumes "same_call e ev" and "\<And>rc ev'. same_call e ev' \<Longrightarrow> safe_ev e Q (k rc ev')"
  shows "safe_ev e Q (bindE (upnp_obtain_instanceid L ev) (\<lambda>(rc, ev). k rc ev))"
  unfolding safe_ev_def wp_bindE
  by (rule wp_mono [OF wp_obtain_instanceid [of L ev]])
    (use assms in \<open>auto simp: safe_ev_def dest: same_call_trans\<close>)

lemma safe_ev_add_response [ev_rules]:
  assumes "same_call e ev" and "\<And>rc ev'. same_call e ev' \<Longrightarrow> safe_ev e Q (k rc ev')"
  shows "safe_ev e Q (bindE (upnp_add_response L ev key v) (\<lambda>(rc, ev). k rc ev))"
  unfolding safe_ev_def wp_bindE
  by (rule wp_mono [OF wp_add_response [of L ev key v]])
    (use assms in \<open>auto simp: safe_ev_def dest: same_call_trans\<close>)

context lock_relation
begin

lemmas ev_bind = safe_ev_bind [where P = "S b M" and Q = "S b N"] for b M N

lemma safe_ev_append_variable:
  assumes ev: "same_call e ev" "service_mutex (event_service e) = m" and s: "S b M w" and m: "may_lock m M"
  shows "safe_ev e (S b M) (upnp_append_variable L ev n key w)"
proof -
  have held: "held w = M" using S_held [OF s] .
  have "S b (insert m M - {m}) (w\<lparr>held := insert m M, lock_order := lock_order w \<union> M \<times> {m},
      held := insert m M - {m}\<rparr>)"
    by (rule S_unlock [OF S_lock [OF s m]])
  moreover have "insert m M - {m} = M" using may_lock_not_held [OF m] by auto
  moreover have same: "w\<lparr>lock_order := lock_order w \<union> M \<times> {m}, held := M\<rparr> = w\<lparr>lock_order := lock_order w \<union> M \<times> {m}\<rparr>"
    using held by (cases w) simp
  ultimately have s': "S b M (w\<lparr>lock_order := lock_order w \<union> M \<times> {m}\<rparr>)"
    using same by simp
  show ?thesis
    unfolding safe_ev_def
    by (rule wp_mono [OF wp_append_variable])
      (use ev s s' held may_lock_not_held [OF m] in \<open>auto simp: same_call_def\<close>)
qed

lemma safe_ev_append_variables:
  assumes "same_call e ev" "service_mutex (event_service e) = m" "S b M w" "may_lock m M"
  shows "safe_ev e (S b M) (append_variables L ev vs w)"
  using assms(1,3)
proof (induction vs arbitrary: ev w)
  case (Cons v vs)
  obtain n k where v: "v = (n, k)" by (cases v)
  show ?case
    unfolding v append_variables.simps
    by (assumption | rule ev_rules ev_bind safe_ev_append_variable Cons assms)+
qed (simp add: safe_ev_def)

end

end
