(* ===== verification/Output_Facts.thy ===== *)
theory Output_Facts
  imports Output_Mpd Handler_Rules
begin

text \<open>
  What holds of the player backend: it respects the mutexes and leaves the rest of the
  state alone, times are written and read back correctly, volume and seek position stay in
  range, muting restores the volume, and a state reported by MPD is the state the transport
  service shows.
\<close>

section \<open>Frame and mutexes\<close>

definition out_step ::
  "('m, 'z) output_env_scheme \<Rightarrow> mutex set \<Rightarrow> ('m, 'z) output_env_scheme \<Rightarrow> bool" where
  "out_step b M w \<longleftrightarrow>
     held w = M \<and> (ordered b \<longrightarrow> ordered w)
   \<and> notifications w = notifications b \<and> subscriptions w = subscriptions b
   \<and> virtual_files w = virtual_files b \<and> supported_types w = supported_types b
   \<and> connmgr_values w = connmgr_values b
   \<and> (transport_ok b \<longrightarrow> transport_ok w)
   \<and> transport_values w TRANSPORT_VAR_LAST_CHANGE = transport_values b TRANSPORT_VAR_LAST_CHANGE
   \<and> test_mode w = test_mode b \<and> output_env.more w = output_env.more b"

lemma out_step_refl: "held w = M \<Longrightarrow> out_step w M w"
  by (simp add: out_step_def)

lemma transport_ok_output [simp]:
  "transport_ok (w\<lparr>mpd := m\<rparr>) = transport_ok w"
  "transport_ok (w\<lparr>mpd_conn := c\<rparr>) = transport_ok w"
  "transport_ok (w\<lparr>mpdvolume := i\<rparr>) = transport_ok w"
  "transport_ok (w\<lparr>mutevolume := i\<rparr>) = transport_ok w"
  "transport_ok (w\<lparr>track_duration := i\<rparr>) = transport_ok w"
  by (simp_all add: transport_ok_def)

lemma ordered_output [simp]:
  "ordered (w\<lparr>mpd := m\<rparr>) = ordered w"
  "ordered (w\<lparr>mpd_conn := c\<rparr>) = ordered w"
  "ordered (w\<lparr>mpdvolume := i\<rparr>) = ordered w"
  "ordered (w\<lparr>mutevolume := i\<rparr>) = ordered w"
  "ordered (w\<lparr>track_duration := i\<rparr>) = ordered w"
  by (simp_all add: ordered_def)

lemma ordered_transport [simp]:
  "ordered (w\<lparr>transport_values := tv\<rparr>) = ordered w"
  "ordered (w\<lparr>transport_state := st\<rparr>) = ordered w"
  by (simp_all add: ordered_def)

named_theorems out_rules

lemma out_step_upd [out_rules]:
  "out_step b M w \<Longrightarrow> out_step b M (w\<lparr>mpd := m\<rparr>)"
  "out_step b M w \<Longrightarrow> out_step b M (w\<lparr>mpd := m, mpd_conn := c\<rparr>)"
  "out_step b M w \<Longrightarrow> out_step b M (w\<lparr>mpdvolume := i\<rparr>)"
  "out_step b M w \<Longrightarrow> out_step b M (w\<lparr>mutevolume := i\<rparr>)"
  "out_step b M w \<Longrightarrow> out_step b M (w\<lparr>mpdvolume := i, mutevolume := j\<rparr>)"
  "out_step b M w \<Longrightarrow> out_step b M (w\<lparr>track_duration := i\<rparr>)"
  by (simp_all add: out_step_def)

lemma out_step_if [out_rules]:
  "(c \<Longrightarrow> out_step b M v) \<Longrightarrow> (\<not> c \<Longrightarrow> out_step b M w) \<Longrightarrow> out_step b M (if c then v else w)"
  by simp

interpretation out: lock_relation out_step
proof
  fix b w :: "('a, 'b) output_env_scheme" and M m
  show "out_step b M w \<Longrightarrow> held w = M"
    by (simp add: out_step_def)
  show "out_step b (insert m M) (w\<lparr>held := insert m M, lock_order := lock_order w \<union> M \<times> {m}\<rparr>)"
    if s: "out_step b M w" and m: "may_lock m M"
    using s m ordered_lock [of w m "insert m M"] unfolding out_step_def
    by (auto simp: transport_ok_def)
  show "out_step b (M - {m}) (w\<lparr>held := M - {m}\<rparr>)" if "out_step b M w"
    using that by (simp add: out_step_def)
qed

lemma out_on_conn [out_rules]:
  "out_step b M w \<Longrightarrow> safe (out_step b M) (on_conn f w)"
  by (simp add: on_conn_def safe_defs split_beta out_step_upd)

lemma out_mpd_do_all [out_rules]:
  "out_step b M w \<Longrightarrow> safe (out_step b M) (mpd_do_all L cs w)"
proof (induction cs arbitrary: w)
  case (Cons c cs)
  show ?case
    unfolding mpd_do_all.simps by (assumption | rule safe_rules out_rules out.bind Cons.IH Cons.prems)+
qed (simp add: safe_defs)

lemma out_printError [out_rules]:
  "out_step b M w \<Longrightarrow> out_step b M (output_printError L w)"
  by (simp add: output_printError_def out_step_upd)

lemma out_command_failed [out_rules]:
  "out_step b M w \<Longrightarrow> safe_st (out_step b M) (command_failed L w)"
  by (simp add: command_failed_def safe_defs out_printError)

lemma out_setup_connection [out_rules]:
  assumes "out_step b M w"
  shows "safe (out_step b M) (setup_connection L w)"
  unfolding setup_connection_def Let_def
  by (assumption | rule safe_rules out_rules out.bind assms)+

lemma out_set_var [out_rules]:
  assumes "out_step b M w" and "n \<noteq> TRANSPORT_VAR_TRANSPORT_STATE" and "n \<noteq> TRANSPORT_VAR_LAST_CHANGE"
  shows "safe_st (out_step b M) (transport_set_var n v w)"
  using assms transport_ok_upd [of w n]
  by (cases v) (auto simp: transport_set_var_def safe_defs out_step_def)

lemma out_set_vars [out_rules]:
  assumes "out_step b M w"
    and "\<forall>(n, v)\<in>set vs. n \<noteq> TRANSPORT_VAR_TRANSPORT_STATE \<and> n \<noteq> TRANSPORT_VAR_LAST_CHANGE"
  shows "safe_st (out_step b M) (set_vars transport_set_var vs w)"
  using assms
proof (induction vs arbitrary: w)
  case (Cons p vs)
  obtain n v where p: "p = (n, v)" by (cases p)
  have n: "n \<noteq> TRANSPORT_VAR_TRANSPORT_STATE" "n \<noteq> TRANSPORT_VAR_LAST_CHANGE"
    using Cons.prems(2) p by auto
  have IH: "out_step b M w' \<Longrightarrow> safe_st (out_step b M) (set_vars transport_set_var vs w')" for w'
    using Cons by simp
  show ?case
    unfolding p set_vars.simps by (assumption | rule out.bind out_set_var IH n Cons.prems(1))+
qed (simp add: safe_defs)

lemma out_get_var [out_rules]:
  "n < TRANSPORT_VAR_UNKNOWN \<Longrightarrow> (\<And>v. safe Q (k v)) \<Longrightarrow> safe Q (bindE (transport_get_var n w) k)"
  "n < TRANSPORT_VAR_UNKNOWN \<Longrightarrow> (\<And>v. safe_st Q (k' v)) \<Longrightarrow> safe_st Q (bindE (transport_get_var n w) k')"
  by simp_all

lemma out_set_state:
  assumes "out_step b M w" and "v = state_text (Some st)"
    and "st \<noteq> TRANSPORT_TRANSITIONING" and "st \<noteq> TRANSPORT_NO_MEDIA_PRESENT"
  shows "safe_st (out_step b M) (transport_set_state st v w)"
  using assms transport_ok_state [of w v st] by (auto simp: safe_defs out_step_def)

lemma benign_parsetimetosecs: "benign (parsetimetosecs v)"
proof -
  have p: "benign (ptr_inc s)" for s by (cases s) simp_all
  show ?thesis
    unfolding parsetimetosecs_def Let_def
    by (auto intro!: benign_bindE p split: option.split prod.split)
qed

lemma out_parsetime [out_rules]:
  "(\<And>v. safe Q (k v)) \<Longrightarrow> safe Q (bindE (parsetimetosecs s) k)"
  "(\<And>v. safe_st Q (k' v)) \<Longrightarrow> safe_st Q (bindE (parsetimetosecs s) k')"
  by (auto intro: benign_bind benign_parsetimetosecs)

lemma out_translate_state [out_rules]:
  assumes "out_step b M w"
  shows "safe_st (out_step b M) (output_translate_state st w)"
  using assms
  by (auto simp: output_translate_state_def split: mpd_state.split intro!: out_set_state safe_st_Inr
      simp del: transport_set_state_simp)

lemma out_update_track_position [out_rules]:
  assumes "out_step b M w"
  shows "safe_st (out_step b M) (update_track_position st w)"
  unfolding update_track_position_def Let_def
  by (assumption | rule safe_rules out_rules out.bind assms | (simp; fail))+

lemma out_get_track_metadata [out_rules]:
  assumes "out_step b M w"
  shows "safe_st (out_step b M) (get_track_metadata L song w)"
  unfolding get_track_metadata_def Let_def
  by (assumption | rule safe_rules out_rules out.bind assms | (simp; fail))+

lemma out_update_song [out_rules]:
  assumes "out_step b M w"
  shows "safe_st (out_step b M) (update_song L song st w)"
  unfolding update_song_def Let_def
  by (assumption | rule safe_rules out_rules out.bind assms | (simp; fail))+

lemma out_finish_and_drop [out_rules]:
  assumes "out_step b M w"
  shows "safe_st (out_step b M) (finish_and_drop L w)"
  unfolding finish_and_drop_def
  by (assumption | rule safe_rules out_rules out.bind assms)+

lemma out_update_mpd_status [out_rules]:
  assumes "out_step b M w"
  shows "safe_st (out_step b M) (update_mpd_status L w)"
  unfolding update_mpd_status_def Let_def
  by (assumption | rule safe_rules out_rules out.bind assms)+

lemma out_run_and_update [out_rules]:
  assumes "out_step b M w"
  shows "safe (out_step b M) (run_and_update L c w)"
  unfolding run_and_update_def
  by (assumption | rule safe_rules out_rules out.bind assms)+

text \<open>The operations take and give back the connection's mutex.\<close>

lemmas out_lock_rules = safe_rules out_rules out.bind out.safe_lock out.safe_unlock

lemma out_check_mpd_connection [out_rules]:
  assumes "out_step b M w" and "may_lock MpdMutex M"
  shows "safe (out_step b M) (check_mpd_connection L u w)"
  unfolding check_mpd_connection_def
  using may_lock_not_held [OF assms(2)]
  by - (assumption | rule out_lock_rules assms | (simp; fail))+

lemma out_player_command [out_rules]:
  assumes "out_step b M w" and "may_lock MpdMutex M"
  shows "safe (out_step b M) (player_command L c w)"
  unfolding player_command_def
  using may_lock_not_held [OF assms(2)]
  by - (assumption | rule out_lock_rules assms | (simp; fail))+

lemma out_seekto [out_rules]:
  assumes "out_step b M w" and "may_lock MpdMutex M"
  shows "safe (out_step b M) (output_seekto L mode pos w)"
  unfolding output_seekto_def Let_def
  using may_lock_not_held [OF assms(2)]
  by - (assumption | rule out_lock_rules assms | (simp; fail))+

lemma out_playmode [out_rules]:
  assumes "out_step b M w" and "may_lock MpdMutex M"
  shows "safe (out_step b M) (output_playmode L mode w)"
  unfolding output_playmode_def
  using may_lock_not_held [OF assms(2)]
  by - (assumption | rule out_lock_rules assms | (simp; fail))+

lemma out_set_uri [out_rules]:
  assumes "out_step b M w" and "may_lock MpdMutex M"
  shows "safe_st (out_step b M) (output_set_uri L uri w)"
  unfolding output_set_uri_def
  using may_lock_not_held [OF assms(2)]
  by - (assumption | rule out_lock_rules assms | (simp; fail))+

lemma out_set_volume [out_rules]:
  assumes "out_step b M w" and "may_lock MpdMutex M"
  shows "safe_st (out_step b M) (output_set_volume L v w)"
  unfolding output_set_volume_def Let_def
  using may_lock_not_held [OF assms(2)]
  by - (assumption | rule out_lock_rules assms | (simp; fail))+

lemma out_set_mute [out_rules]:
  assumes "out_step b M w" and "may_lock MpdMutex M"
  shows "safe_st (out_step b M) (output_set_mute L v w)"
  unfolding output_set_mute_def Let_def
  using may_lock_not_held [OF assms(2)]
  by - (assumption | rule out_lock_rules assms | (simp; fail))+

lemma out_update_status [out_rules]:
  assumes "out_step b M w" and "may_lock MpdMutex M"
  shows "safe_st (out_step b M) (output_update_status L w)"
  unfolding output_update_status_def
  using may_lock_not_held [OF assms(2)]
  by - (assumption | rule out_lock_rules assms | (simp; fail))+

section \<open>Times\<close>

lemma sdiv_nonneg:
  assumes "0 \<le> (a :: int)" and "0 < b"
  shows "a sdiv b = a div b"
  using assms by (auto simp: signed_divide_int_def sgn_if)

lemma hh_mm_ss_text:
  assumes "0 \<le> t" and "t < 3600000"
  shows "hh_mm_ss t = fmt_02d (t div 3600) @ '':'' @ fmt_02d (t mod 3600 div 60) @ '':'' @ fmt_02d (t mod 60)"
proof -
  let ?s = "fmt_02d (t div 3600) @ '':'' @ fmt_02d (t mod 3600 div 60) @ '':'' @ fmt_02d (t mod 60)"
  have m: "t - t div 3600 * 3600 = t mod 3600" by (simp add: minus_div_mult_eq_mod)
  have s: "t mod 3600 - t mod 3600 div 60 * 60 = t mod 60"
    by (simp add: minus_div_mult_eq_mod mod_mod_cancel)
  have "length (fmt_02d (t div 3600)) \<le> 3"
    using assms by (intro fmt_02d_length) auto
  moreover have "length (fmt_02d (t mod 3600 div 60)) \<le> 2"
    by (intro fmt_02d_length) auto
  moreover have "length (fmt_02d (t mod 60)) \<le> 2"
    by (intro fmt_02d_length) (auto intro: less_trans [OF pos_mod_bound])
  ultimately have "length ?s < 10" by simp
  then show ?thesis
    using assms m s by (simp add: hh_mm_ss_def Let_def sdiv_nonneg snprintf_fits)
qed

lemma hh_mm_ss_length: "length (hh_mm_ss t) < 10"
  unfolding hh_mm_ss_def Let_def by (rule snprintf_length) simp

lemma parsetimetosecs_hh_mm_ss:
  assumes "0 \<le> t" and "t < 3600000"
  shows "parsetimetosecs (Some (hh_mm_ss t)) = Inr t"
proof -
  let ?h = "t div 3600" and ?m = "t mod 3600 div 60" and ?s = "t mod 60"
  have r: "0 \<le> ?h" "?h < 1000" "0 \<le> ?m" "?m < 60" "0 \<le> ?s" "?s < 60"
    using assms by auto
  have colon: "digit_value (CHR '':'') = None" by (simp add: digit_value_def)
  have p1: "strtol10 (fmt_02d ?h @ '':'' @ fmt_02d ?m @ '':'' @ fmt_02d ?s)
      = (?h, '':'' @ fmt_02d ?m @ '':'' @ fmt_02d ?s)"
    using r colon by (intro strtol10_fmt_02d) (auto simp: c_limits)
  have p2: "strtol10 (fmt_02d ?m @ '':'' @ fmt_02d ?s) = (?m, '':'' @ fmt_02d ?s)"
    using r colon by (intro strtol10_fmt_02d) (auto simp: c_limits)
  have p3: "strtol10 (fmt_02d ?s) = (?s, [])"
    using strtol10_fmt_02d [of ?s "[]"] r by (simp add: c_limits)
  have ids: "to_int ?h = ?h" "to_int ?m = ?m" "to_int ?s = ?s"
    using r by (auto intro!: to_int_id simp: c_limits)
  have hm: "?h * 3600 + ?m * 60 = t - ?s"
  proof -
    have "?m * 60 = t mod 3600 - ?s" and "?h * 3600 = t - t mod 3600"
      using mod_mod_cancel [of 60 3600 t] by (simp_all add: minus_mod_eq_div_mult [symmetric])
    then show ?thesis by simp
  qed
  have c: "cint (?h * 3600) = Inr (?h * 3600)" "cint (?m * 60) = Inr (?m * 60)"
    "cint (t - ?s) = Inr (t - ?s)" "cint t = Inr t"
    using r assms by (auto simp: cint_def c_limits)
  show ?thesis
    unfolding hh_mm_ss_text [OF assms] parsetimetosecs_def option.case Let_def p1 prod.case
    by (simp add: p2 [simplified] p3 ids c hm)
qed

text \<open>
  C25. Durations and positions survive the trip through their text form: for every time up
  to 999 hours the \<open>HH:MM:SS\<close> text fits the buffer and \<open>parsetimetosecs\<close> reads back the
  number of seconds it was made from.
\<close>

theorem time_roundtrip:
  assumes "0 \<le> t" and "t < 3600000"
  shows "parsetimetosecs (Some (hh_mm_ss t)) = Inr t \<and> length (hh_mm_ss t) < 10"
  using parsetimetosecs_hh_mm_ss [OF assms] hh_mm_ss_length by blast

theorem time_roundtrip_witness:
  "parsetimetosecs (Some (hh_mm_ss 359999)) = Inr 359999"
  using time_roundtrip [of 359999] by simp

lemma scan_digits_dec_rest: "snd (scan_digits acc (dec_digits n)) = []"
  using scan_digits_dec [of acc n "[]"] by simp

lemma strtol10_dec_rest: "snd (strtol10 (dec_digits n)) = []"
proof -
  obtain c cs where s: "dec_digits n = c # cs" by (cases "dec_digits n") auto
  then have "digit_value c \<noteq> None"
    using dec_digits_digits [of c n] by simp
  with scan_digits_dec_rest [of 0 n] show ?thesis
    by (simp add: s strtol10_digit split: prod.split) (metis snd_conv)
qed

text \<open>
  C39. A seek target or duration without colons, such as a plain number of seconds, makes
  \<open>parsetimetosecs\<close> read past the end of its string: it steps over the terminating NUL
  and goes on from there. A text of the right form can still overflow the computation.
\<close>

theorem parsetimetosecs_unsafe:
  "parsetimetosecs (Some (dec_digits n)) = Inl OutOfBounds
   \<and> parsetimetosecs (Some []) = Inl OutOfBounds
   \<and> parsetimetosecs (Some ''600000:00:00'') = Inl IntOverflow"
proof (intro conjI)
  show "parsetimetosecs (Some (dec_digits n)) = Inl OutOfBounds"
  proof -
    obtain h where "strtol10 (dec_digits n) = (h, [])"
      using strtol10_dec_rest [of n] by (cases "strtol10 (dec_digits n)") auto
    then show ?thesis by (simp add: parsetimetosecs_def)
  qed
  show "parsetimetosecs (Some []) = Inl OutOfBounds"
    by (simp add: parsetimetosecs_def strtol10_def scan_sign_def)
  have a: "strtol10 ''600000:00:00'' = (600000, '':00:00'')"
    by code_simp
  have b: "strtol10 ''00:00'' = (0, '':00'')" "strtol10 ''00'' = (0, [])"
    by code_simp+
  have "to_int 600000 = 600000" "to_int 0 = 0"
    by (simp_all add: to_int_id c_limits)
  then show "parsetimetosecs (Some ''600000:00:00'') = Inl IntOverflow"
    by (simp add: parsetimetosecs_def a b cint_def c_limits)
qed

section \<open>Sample values\<close>

text \<open>
  A server that accepts every command and records it, reporting a playing song, and a state
  connected to it.
\<close>

definition sample_status :: mpd_status where
  "sample_status = \<lparr>status_state = MPD_STATE_PLAY, status_song_id = 7, status_song_pos = 0,
     status_elapsed_time = 65, status_total_time = 200, status_volume = 50\<rparr>"

definition sample_song :: mpd_song where
  "sample_song = \<lparr>song_duration = 200, song_uri = Some ''http://h/a.mp3'', song_tag = (\<lambda>_. None)\<rparr>"

definition sample_mpd :: "mpd_command_call list mpd_lib" where
  "sample_mpd = \<lparr>mpd_connection_new = (\<lambda>h p t m. (True, m)), mpd_connection_get_error = (\<lambda>m. MPD_ERROR_SUCCESS),
     mpd_connection_free = (\<lambda>m. m), mpd_command = (\<lambda>c m. (True, m @ [c])),
     mpd_run_status = (\<lambda>m. (Some sample_status, m)), mpd_recv_status = (\<lambda>m. (Some sample_status, m)),
     mpd_recv_song = (\<lambda>m. (Some sample_song, m)), mpd_tag_name_iparse = (\<lambda>s. - 1)\<rparr>"

definition sample_output :: "mpd_command_call list output_env" where
  "sample_output = \<lparr>held = {}, lock_order = {}, notifications = [], subscriptions = [],
     virtual_files = [], supported_types = [], connmgr_values = (\<lambda>_. None),
     transport_state = None, transport_values = (\<lambda>_. None),
     mpd = [], mpd_conn = True, mpdvolume = 30, mutevolume = 30, track_duration = 200,
     options_host = Some ''localhost'', options_port = 6600, options_mpd_timeout = 5,
     options_password = None, test_mode = False\<rparr>"

text \<open>The state once a mutex is taken.\<close>

definition locked :: "mutex \<Rightarrow> 'z env_scheme \<Rightarrow> 'z env_scheme" where
  "locked m w = w\<lparr>held := insert m (held w), lock_order := lock_order w \<union> held w \<times> {m}\<rparr>"

lemma lock_locked: "m \<notin> held w \<Longrightarrow> lock m w = Inr (locked m w)"
  by (simp add: lock_def locked_def)

lemma locked_simps [simp]:
  "held (locked m w) = insert m (held w)" "notifications (locked m w) = notifications w"
  "transport_values (locked m u) = transport_values u" "transport_state (locked m u) = transport_state u"
  "test_mode (locked m u) = test_mode u"
  "mpd_conn (locked m u) = mpd_conn u" "mpd (locked m u) = mpd u" "mpdvolume (locked m u) = mpdvolume u"
  "mutevolume (locked m u) = mutevolume u"
  by (simp_all add: locked_def)

section \<open>Volume\<close>

text \<open>One volume command under the mutex, when it succeeds.\<close>

definition after_command ::
  "'m mpd_lib \<Rightarrow> mpd_command_call \<Rightarrow> ('m, 'z) output_env_scheme \<Rightarrow> ('m, 'z) output_env_scheme" where
  "after_command L c w = (lock_edges MpdMutex w)\<lparr>mpd := snd (mpd_command L c (mpd w))\<rparr>"

lemma after_command_simps [simp]:
  "held (after_command L c w) = held w" "mpd_conn (after_command L c w) = mpd_conn w"
  "test_mode (after_command L c w) = test_mode w" "mpdvolume (after_command L c w) = mpdvolume w"
  "mutevolume (after_command L c w) = mutevolume w" "transport_values (after_command L c w) = transport_values w"
  "transport_state (after_command L c w) = transport_state w"
  "mpd (after_command L c w) = snd (mpd_command L c (mpd w))"
  by (simp_all add: after_command_def lock_edges_def)

lemma unlock_after_lock:
  "m \<notin> held w \<Longrightarrow> insert m (held w) - {m} = held w"
  by auto

lemma output_set_volume_run:
  assumes "\<not> test_mode w" and "mpd_conn w" and "MpdMutex \<notin> held w"
    and v: "x = max 0 (min 100 (atoi v))" and "fst (mpd_command L (mpd_run_set_volume x) (mpd w))"
  shows "output_set_volume L (Some v) w
    = Inr ((after_command L (mpd_run_set_volume x) w)\<lparr>mpdvolume := x, mutevolume := x\<rparr>)"
proof -
  have "(if 100 < (if atoi v < 0 then 0 else atoi v) then 100 else if atoi v < 0 then 0 else atoi v) = x"
    using v by auto
  with assms show ?thesis
    by (simp add: output_set_volume_def Let_def on_conn_def lock_def unlock_def after_command_def
        lock_edges_def unlock_after_lock split_beta)
qed

lemma output_set_mute_run:
  assumes "\<not> test_mode w" and "mpd_conn w" and "MpdMutex \<notin> held w"
    and x: "x = (if b then 0 else mutevolume w)" and "fst (mpd_command L (mpd_run_set_volume x) (mpd w))"
  shows "output_set_mute L b w = Inr ((after_command L (mpd_run_set_volume x) w)
      \<lparr>mutevolume := (if b then mpdvolume w else mutevolume w), mpdvolume := x\<rparr>)"
  using assms
  by (cases b) (simp_all add: output_set_mute_def Let_def on_conn_def lock_def unlock_def
      after_command_def lock_edges_def unlock_after_lock split_beta)

text \<open>
  Setting the volume: whatever text arrives, the one command sent carries its value
  clamped to 0..100, and once the server accepted it, both the remembered volume and the
  one to restore after a mute are that value; the mutex is given back.
\<close>

lemma output_set_volume_clamps:
  assumes "\<not> test_mode w" and "mpd_conn w" and "MpdMutex \<notin> held w"
    and "\<forall>c m. fst (mpd_command L c m)"
  shows "\<exists>x w'. output_set_volume L (Some v) w = Inr w' \<and> 0 \<le> x \<and> x \<le> 100
    \<and> (0 \<le> atoi v \<and> atoi v \<le> 100 \<longrightarrow> x = atoi v)
    \<and> mpd w' = snd (mpd_command L (mpd_run_set_volume x) (mpd w))
    \<and> mpdvolume w' = x \<and> mutevolume w' = x \<and> output_get_volume w' = fmt_d x \<and> held w' = held w"
proof -
  let ?x = "max 0 (min 100 (atoi v))"
  have "length (dec_digits (nat ?x)) \<le> 3"
    by (intro dec_digits_length) auto
  then have "snprintf 6 (fmt_d ?x) = fmt_d ?x"
    by (intro snprintf_fits) (simp add: fmt_d_def)
  with assms output_set_volume_run [of w ?x v L] show ?thesis
    by (intro exI [of _ ?x]) (simp add: output_get_volume_def)
qed

lemma output_set_volume_clamps_witness:
  "\<exists>w'. output_set_volume sample_mpd (Some (fmt_d 250)) sample_output = Inr w' \<and> 0 \<le> mpdvolume w' \<and> mpdvolume w' \<le> 100"
  using output_set_volume_clamps [of sample_output sample_mpd "fmt_d 250"]
  by (auto simp: sample_output_def sample_mpd_def)

text \<open>
  Unmuting restores what muting silenced: after mute and unmute the server's last two
  volume commands are 0 and the old volume, and both remembered volumes are the old one.
\<close>

lemma mute_unmute_restores:
  assumes w: "\<not> test_mode w" "mpd_conn w" "MpdMutex \<notin> held w" and "\<forall>c m. fst (mpd_command L c m)"
  shows "\<exists>w'. bindE (output_set_mute L True w) (output_set_mute L False) = Inr w'
    \<and> mpdvolume w' = mpdvolume w \<and> mutevolume w' = mpdvolume w
    \<and> mpd w' = snd (mpd_command L (mpd_run_set_volume (mpdvolume w))
                 (snd (mpd_command L (mpd_run_set_volume 0) (mpd w))))"
  using assms
  by (simp add: output_set_mute_run [of w 0 True] output_set_mute_run [OF _ _ _ refl])

lemma mute_unmute_restores_witness:
  "\<exists>w'. bindE (output_set_mute sample_mpd True sample_output) (output_set_mute sample_mpd False) = Inr w'
     \<and> mpdvolume w' = 30 \<and> mpd w' = [mpd_run_set_volume 0, mpd_run_set_volume 30]"
  using mute_unmute_restores [of sample_output sample_mpd]
  by (auto simp: sample_output_def sample_mpd_def)

text \<open>
  A second mute forgets the volume: it saves the silenced volume 0 over the one to be
  restored, so a later unmute sets the volume to 0.
\<close>

lemma double_mute_forgets:
  assumes w: "\<not> test_mode w" "mpd_conn w" "MpdMutex \<notin> held w" and "\<forall>c m. fst (mpd_command L c m)"
  shows "\<exists>w'. bindE (bindE (output_set_mute L True w) (output_set_mute L True)) (output_set_mute L False) = Inr w'
    \<and> mpdvolume w' = 0 \<and> mutevolume w' = 0"
  using assms
  by (simp add: output_set_mute_run [of w 0 True] output_set_mute_run [OF _ _ _ refl])

lemma double_mute_forgets_witness:
  "\<exists>w'. bindE (bindE (output_set_mute sample_mpd True sample_output) (output_set_mute sample_mpd True))
       (output_set_mute sample_mpd False) = Inr w' \<and> mpdvolume w' = 0"
  using double_mute_forgets [of sample_output sample_mpd]
  by (auto simp: sample_output_def sample_mpd_def)

section \<open>Position and state\<close>

lemma set_vars_transport:
  assumes "\<forall>(n, v)\<in>set vs. n < TRANSPORT_VAR_UNKNOWN"
  shows "\<exists>tv. set_vars transport_set_var vs w = Inr (w\<lparr>transport_values := tv\<rparr>)
    \<and> (\<forall>m. tv m = final_value vs m (transport_values w m))"
proof -
  have "\<exists>tv. set_vars transport_set_var vs w = Inr (w\<lparr>transport_values := tv\<rparr>)"
    using assms
  proof (induction vs arbitrary: w)
    case Nil
    show ?case by (rule exI [of _ "transport_values w"]) simp
  next
    case (Cons p vs)
    obtain n v where p: "p = (n, v)" by (cases p)
    have "\<exists>tv. transport_set_var n v w = Inr (w\<lparr>transport_values := tv\<rparr>)"
      using Cons.prems p by (cases v) (auto intro: exI [of _ "transport_values w"])
    then obtain tv where tv: "transport_set_var n v w = Inr (w\<lparr>transport_values := tv\<rparr>)" ..
    obtain tv' where "set_vars transport_set_var vs (w\<lparr>transport_values := tv\<rparr>)
        = Inr (w\<lparr>transport_values := tv, transport_values := tv'\<rparr>)"
      using Cons by fastforce
    with tv p show ?case by auto
  qed
  with transport_store.set_vars_values [OF assms, of w] show ?thesis by auto
qed

definition position_text :: "mpd_status \<Rightarrow> (nat \<times> string option) list" where
  "position_text st =
     [(TRANSPORT_VAR_CUR_TRACK, Some (snprintf 6 (fmt_d (sint (status_song_pos st) + 1)))),
      (TRANSPORT_VAR_REL_CTR_POS, Some (snprintf 10 (fmt_d (sint (status_elapsed_time st))))),
      (TRANSPORT_VAR_ABS_CTR_POS, Some (snprintf 10 (fmt_d (sint (status_elapsed_time st))))),
      (TRANSPORT_VAR_REL_TIME_POS, Some (hh_mm_ss (sint (status_elapsed_time st)))),
      (TRANSPORT_VAR_ABS_TIME_POS, Some (hh_mm_ss (sint (status_elapsed_time st))))]"

lemma update_track_position_run:
  assumes "sint (status_song_pos st) < INT_MAX"
  shows "\<exists>tv. update_track_position st w = Inr (w\<lparr>transport_values := tv\<rparr>)
    \<and> (\<forall>m. tv m = final_value (position_text st) m (transport_values w m))"
proof -
  have c: "cint (sint (status_song_pos st) + 1) = Inr (sint (status_song_pos st) + 1)"
    using assms sint32_range(1) [of "status_song_pos st"] by (intro cint_in_range) auto
  have "update_track_position st w = set_vars transport_set_var (position_text st) w"
    unfolding update_track_position_def c bindE_simps Let_def position_text_def ..
  moreover have "\<forall>(n, v)\<in>set (position_text st). n < TRANSPORT_VAR_UNKNOWN"
    by (simp add: position_text_def)
  ultimately show ?thesis
    using set_vars_transport by metis
qed

definition reported_state :: "mpd_state \<Rightarrow> transport_state option" where
  "reported_state s = (case s of
       MPD_STATE_UNKNOWN \<Rightarrow> None
     | MPD_STATE_STOP \<Rightarrow> Some TRANSPORT_STOPPED
     | MPD_STATE_PLAY \<Rightarrow> Some TRANSPORT_PLAYING
     | MPD_STATE_PAUSE \<Rightarrow> Some TRANSPORT_PAUSED_PLAYBACK)"

lemma output_translate_state_run:
  "output_translate_state st w = Inr (case reported_state (status_state st) of
      None \<Rightarrow> w
    | Some s \<Rightarrow> w\<lparr>transport_state := Some s, transport_values :=
        (transport_values w)(TRANSPORT_VAR_TRANSPORT_STATE \<mapsto> state_text (Some s))\<rparr>)"
  by (cases "status_state st") (simp_all add: output_translate_state_def reported_state_def)

lemma output_update_position_run:
  assumes w: "\<not> test_mode w" "mpd_conn w" "MpdMutex \<notin> held w"
    and st: "mpd_run_status L (mpd w) = (Some st, m)"
    and pos: "sint (status_song_pos st) < INT_MAX"
  shows "\<exists>w'. output_update_position L w = Inr w' \<and> held w' = held w
    \<and> transport_values w' TRANSPORT_VAR_REL_TIME_POS = Some (hh_mm_ss (sint (status_elapsed_time st)))
    \<and> transport_values w' TRANSPORT_VAR_ABS_TIME_POS = transport_values w' TRANSPORT_VAR_REL_TIME_POS
    \<and> transport_values w' TRANSPORT_VAR_CUR_TRACK = Some (snprintf 6 (fmt_d (sint (status_song_pos st) + 1)))
    \<and> (\<forall>s. reported_state (status_state st) = Some s \<longrightarrow> transport_state w' = Some s
         \<and> transport_values w' TRANSPORT_VAR_TRANSPORT_STATE = Some (state_text (Some s)))
    \<and> (reported_state (status_state st) = None \<longrightarrow> transport_state w' = transport_state w)"
proof -
  let ?w1 = "w\<lparr>held := insert MpdMutex (held w),
      lock_order := lock_order w \<union> held w \<times> {MpdMutex}, mpd := m\<rparr>"
  let ?w2 = "case reported_state (status_state st) of
      None \<Rightarrow> ?w1
    | Some s \<Rightarrow> ?w1\<lparr>transport_state := Some s, transport_values :=
        (transport_values ?w1)(TRANSPORT_VAR_TRANSPORT_STATE \<mapsto> state_text (Some s))\<rparr>"
  obtain tv where tv: "update_track_position st ?w2 = Inr (?w2\<lparr>transport_values := tv\<rparr>)"
      "\<forall>m. tv m = final_value (position_text st) m (transport_values ?w2 m)"
    using update_track_position_run [OF pos] by blast
  have "check_mpd_connection L False w = Inr (STATUS_OK, lock_edges MpdMutex w)"
    using w by (simp add: check_mpd_connection_def lock_def unlock_def lock_edges_def unlock_after_lock)
  then have "output_update_position L w = bindE (update_track_position st ?w2) (unlock MpdMutex)"
    using w st
    by (cases "reported_state (status_state st)")
      (simp_all add: output_update_position_def lock_def lock_edges_def on_conn_def output_translate_state_run)
  with tv w(3) show ?thesis
    by (cases "reported_state (status_state st)")
      (simp_all add: unlock_def unlock_after_lock position_text_def)
qed

text \<open>
  C12. A position query against a connected server: the time variables hold the elapsed
  time, as text that reads back to it, the track number counts from one, and the transport
  state and its variable are the ones MPD reports, unless it reports none.
\<close>

theorem output_update_position_reports:
  assumes w: "\<not> test_mode w" "mpd_conn w" "MpdMutex \<notin> held w"
    and st: "mpd_run_status L (mpd w) = (Some st, m)"
    and pos: "sint (status_song_pos st) < INT_MAX"
  shows "\<exists>w'. output_update_position L w = Inr w' \<and> held w' = held w
    \<and> transport_values w' TRANSPORT_VAR_REL_TIME_POS = Some (hh_mm_ss (sint (status_elapsed_time st)))
    \<and> transport_values w' TRANSPORT_VAR_ABS_TIME_POS = transport_values w' TRANSPORT_VAR_REL_TIME_POS
    \<and> transport_values w' TRANSPORT_VAR_CUR_TRACK = Some (snprintf 6 (fmt_d (sint (status_song_pos st) + 1)))
    \<and> (\<forall>s. reported_state (status_state st) = Some s \<longrightarrow> transport_state w' = Some s
         \<and> transport_values w' TRANSPORT_VAR_TRANSPORT_STATE = Some (state_text (Some s)))
    \<and> (reported_state (status_state st) = None \<longrightarrow> transport_state w' = transport_state w)"
  by (rule output_update_position_run [OF assms])

theorem output_update_position_reports_witness:
  "\<exists>w'. output_update_position sample_mpd sample_output = Inr w'
     \<and> transport_values w' TRANSPORT_VAR_REL_TIME_POS = Some (hh_mm_ss 65) \<and> transport_state w' = Some TRANSPORT_PLAYING"
proof -
  have s: "sint (65 :: 32 word) = 65" "sint (0 :: 32 word) = 0" by simp_all
  show ?thesis
    using output_update_position_reports [of sample_output sample_mpd sample_status "[]"]
    by (auto simp: sample_output_def sample_mpd_def sample_status_def s INT_MAX_def reported_state_def)
qed

text \<open>
  C38. When the server does not answer the status query, \<open>output_update_position\<close> gives the
  connection's mutex back twice.
\<close>

theorem output_update_position_double_unlock:
  assumes "\<not> test_mode w" "mpd_conn w" "MpdMutex \<notin> held w" and "fst (mpd_run_status L (mpd w)) = None"
  shows "output_update_position L w = Inl UnlockNotHeld"
proof -
  obtain m where "mpd_run_status L (mpd w) = (None, m)"
    using assms(4) by (cases "mpd_run_status L (mpd w)") auto
  with assms(1-3) show ?thesis
    by (simp add: output_update_position_def check_mpd_connection_def lock_def unlock_def on_conn_def
        command_failed_def output_printError_def)
qed

theorem output_update_position_double_unlock_witness:
  "output_update_position (sample_mpd\<lparr>mpd_run_status := (\<lambda>m. (None, m))\<rparr>) sample_output = Inl UnlockNotHeld"
  using output_update_position_double_unlock [of sample_output "sample_mpd\<lparr>mpd_run_status := (\<lambda>m. (None, m))\<rparr>"]
  by (simp add: sample_output_def)

section \<open>Seeking\<close>

text \<open>
  C32. A seek target is clamped: for the text of a time \<open>t\<close> the song the server reports is
  sought to the smaller of \<open>t\<close> and the track's length, never beyond its end, and when the
  player is stopped no seek is sent and the operation fails.
\<close>

theorem output_seekto_clamps:
  assumes w: "\<not> test_mode w" "mpd_conn w" "MpdMutex \<notin> held w"
    and st: "mpd_run_status L (mpd w) = (Some st, m)"
    and t: "0 \<le> t" "t < 3600000"
  shows "output_seekto L mode (hh_mm_ss t) w =
    (if status_state st = MPD_STATE_STOP then Inr (- 1, (lock_edges MpdMutex w)\<lparr>mpd := m\<rparr>)
     else bindE (run_and_update L (mpd_run_seek_id (sint (status_song_id st)) (min t (track_duration w)))
                   ((locked MpdMutex w)\<lparr>mpd := m\<rparr>))
            (\<lambda>(rc, w). bindE (unlock MpdMutex w) (\<lambda>w. Inr (rc, w))))"
proof -
  have p: "parsetimetosecs (Some (hh_mm_ss t)) = Inr t"
    using parsetimetosecs_hh_mm_ss [OF t] .
  have c: "(if track_duration w < t then track_duration w else t) = min t (track_duration w)"
    by simp
  have n: "\<not> t < 0" using t by simp
  show ?thesis
    using w st p n
    by (simp add: output_seekto_def lock_def unlock_def on_conn_def Let_def locked_def lock_edges_def
        unlock_after_lock c)
qed

theorem output_seekto_clamps_witness:
  "output_seekto sample_mpd ''REL_TIME'' (hh_mm_ss 500) sample_output =
     bindE (run_and_update sample_mpd (mpd_run_seek_id 7 200) (locked MpdMutex sample_output))
       (\<lambda>(rc, w). bindE (unlock MpdMutex w) (\<lambda>w. Inr (rc, w)))"
proof -
  have "sint (7 :: 32 word) = 7" by simp
  moreover have "(locked MpdMutex sample_output)\<lparr>mpd := []\<rparr> = locked MpdMutex sample_output"
    by (simp add: locked_def sample_output_def)
  ultimately show ?thesis
    using output_seekto_clamps [of sample_output sample_mpd sample_status "[]" 500 "''REL_TIME''"]
    by (simp add: sample_mpd_def sample_status_def) (simp add: sample_output_def)
qed

section \<open>Play modes\<close>

definition run_commands :: "'m mpd_lib \<Rightarrow> mpd_command_call list \<Rightarrow> 'm \<Rightarrow> 'm" where
  "run_commands L cs m = fold (\<lambda>c m. snd (mpd_command L c m)) cs m"

lemma mpd_do_all_run:
  assumes "\<forall>c m. fst (mpd_command L c m)" and "mpd_conn w"
  shows "mpd_do_all L cs w = Inr (True, w\<lparr>mpd := run_commands L cs (mpd w)\<rparr>)"
  using assms(2)
proof (induction cs arbitrary: w)
  case (Cons c cs)
  with assms(1) show ?case
    by (simp add: on_conn_def run_commands_def split_beta)
qed (simp add: run_commands_def)

text \<open>
  C33. The five play modes the code knows: NORMAL plays the list once in order, RANDOM
  shuffles, REPEAT-ALL starts over, REPEAT-ONE repeats the current song and DIRECT_1 stops
  after it. For each of them the player is sent the flags single, random and repeat that
  mean this, in one command list, and its response is read; any other text sends nothing and
  fails.
\<close>

theorem output_playmode_sends:
  assumes w: "\<not> test_mode w" "mpd_conn w" "MpdMutex \<notin> held w" and ok: "\<forall>c m. fst (mpd_command L c m)"
  shows "output_playmode L (Some mode) w =
    (case map_of [(''NORMAL'', [mpd_send_single False, mpd_send_random False, mpd_send_repeat False]),
                  (''RANDOM'', [mpd_send_single False, mpd_send_random True, mpd_send_repeat False]),
                  (''REPEAT-ALL'', [mpd_send_single False, mpd_send_random False, mpd_send_repeat True]),
                  (''REPEAT-ONE'', [mpd_send_single True, mpd_send_random False, mpd_send_repeat True]),
                  (''DIRECT_1'', [mpd_send_single True, mpd_send_random False, mpd_send_repeat False])] mode of
       None \<Rightarrow> Inr (- 1, lock_edges MpdMutex w)
     | Some flags \<Rightarrow> Inr (0, (lock_edges MpdMutex w)\<lparr>mpd := run_commands L
         ([mpd_command_list_begin False] @ flags @ [mpd_command_list_end, mpd_response_finish]) (mpd w)\<rparr>))"
proof (cases "play_mode_flags mode")
  case None
  then have "mode \<notin> {''NORMAL'', ''RANDOM'', ''REPEAT-ALL'', ''REPEAT-ONE'', ''DIRECT_1''}"
    by (auto simp: play_mode_flags_def)
  with w None show ?thesis
    by (simp add: output_playmode_def lock_def unlock_def lock_edges_def unlock_after_lock)
next
  case (Some f)
  obtain a b c where f: "f = (a, b, c)" by (cases f)
  let ?cs = "[mpd_command_list_begin False, mpd_send_single a, mpd_send_random b, mpd_send_repeat c,
      mpd_command_list_end]"
  let ?w1 = "locked MpdMutex w"
  have "mpd_do_all L ?cs ?w1 = Inr (True, ?w1\<lparr>mpd := run_commands L ?cs (mpd w)\<rparr>)"
    using mpd_do_all_run [OF ok, of ?w1 ?cs] w by (simp add: locked_def)
  with w ok Some f have "output_playmode L (Some mode) w = Inr (0, (lock_edges MpdMutex w)\<lparr>mpd := run_commands L
      ([mpd_command_list_begin False] @ [mpd_send_single a, mpd_send_random b, mpd_send_repeat c]
       @ [mpd_command_list_end, mpd_response_finish]) (mpd w)\<rparr>)"
    by (simp add: output_playmode_def lock_def locked_def [symmetric] del: mpd_do_all.simps)
      (simp add: locked_def on_conn_def unlock_def lock_edges_def unlock_after_lock run_commands_def split_beta)
  moreover have "map_of [(''NORMAL'', [mpd_send_single False, mpd_send_random False, mpd_send_repeat False]),
        (''RANDOM'', [mpd_send_single False, mpd_send_random True, mpd_send_repeat False]),
        (''REPEAT-ALL'', [mpd_send_single False, mpd_send_random False, mpd_send_repeat True]),
        (''REPEAT-ONE'', [mpd_send_single True, mpd_send_random False, mpd_send_repeat True]),
        (''DIRECT_1'', [mpd_send_single True, mpd_send_random False, mpd_send_repeat False])] mode
      = Some [mpd_send_single a, mpd_send_random b, mpd_send_repeat c]"
    using Some f by (auto simp: play_mode_flags_def split: if_splits)
  ultimately show ?thesis by simp
qed

theorem output_playmode_sends_witness:
  "\<exists>w'. output_playmode sample_mpd (Some ''RANDOM'') sample_output = Inr (0, w')
     \<and> mpd w' = [mpd_command_list_begin False, mpd_send_single False, mpd_send_random True,
          mpd_send_repeat False, mpd_command_list_end, mpd_response_finish]"
  using output_playmode_sends [of sample_output sample_mpd "''RANDOM''"]
  by (auto simp: sample_output_def sample_mpd_def run_commands_def)

text \<open>
  Two of the play modes the service description offers are not among those the code
  compares with: it offers them with an underscore and expects a hyphen.
\<close>

lemma advertised_modes_rejected:
  "{m \<in> set playmodi. play_mode_flags m = None} = {''REPEAT_ONE'', ''REPEAT_ALL''}
   \<and> {m. play_mode_flags m \<noteq> None} - set playmodi = {''REPEAT-ONE'', ''REPEAT-ALL''}"
proof
  have "filter (\<lambda>m. play_mode_flags m = None) playmodi = [''REPEAT_ONE'', ''REPEAT_ALL'']"
    by (simp add: playmodi_def play_mode_flags_def)
  then have "set (filter (\<lambda>m. play_mode_flags m = None) playmodi) = {''REPEAT_ONE'', ''REPEAT_ALL''}"
    by simp
  then show "{m \<in> set playmodi. play_mode_flags m = None} = {''REPEAT_ONE'', ''REPEAT_ALL''}"
    by simp
  have "{m. play_mode_flags m \<noteq> None} = {''NORMAL'', ''REPEAT-ONE'', ''DIRECT_1'', ''REPEAT-ALL'', ''RANDOM''}"
    by (simp add: play_mode_flags_def set_eq_iff del: not_None_eq)
  then show "{m. play_mode_flags m \<noteq> None} - set playmodi = {''REPEAT-ONE'', ''REPEAT-ALL''}"
    by (simp add: playmodi_def insert_Diff_if)
qed

section \<open>The connection check\<close>

text \<open>A server that accepts the connection and then fails every command.\<close>

definition failing_mpd :: "mpd_command_call list mpd_lib" where
  "failing_mpd = sample_mpd\<lparr>mpd_command := (\<lambda>c m. (False, m @ [c]))\<rparr>"

text \<open>
  A successful connection check does not mean there is a connection: when it
  reconnects and the status update that follows fails, the connection is closed again, the
  check reports success all the same, and the command that comes next uses a NULL
  connection.
\<close>

lemma connection_check_stale:
  "\<exists>w. check_mpd_connection failing_mpd True (sample_output\<lparr>mpd_conn := False\<rparr>) = Inr (STATUS_OK, w)
     \<and> \<not> mpd_conn w \<and> output_play failing_mpd w = Inl NullPointer"
  by (simp add: check_mpd_connection_def sample_output_def setup_connection_def failing_mpd_def
      sample_mpd_def cint_def c_limits update_mpd_status_def on_conn_def output_printError_def
      lock_def unlock_def output_play_def player_command_def run_and_update_def)

section \<open>The status query of a position query\<close>

text \<open>
  The query of \<open>output_update_position\<close> fails: the connection check, which may reconnect,
  succeeds, and the player then does not answer. This is the one way into the second unlock;
  in every other case the operation keeps to the lock discipline.
\<close>

definition status_query_fails :: "'m mpd_lib \<Rightarrow> ('m, 'z) output_env_scheme \<Rightarrow> bool" where
  "status_query_fails L w \<longleftrightarrow>
     (\<exists>w'. check_mpd_connection L False w = Inr (STATUS_OK, w') \<and> mpd_conn w' \<and> fst (mpd_run_status L (mpd w')) = None)"

lemma update_position_unlocks_twice:
  assumes "status_query_fails L w" and "MpdMutex \<notin> held w"
  shows "output_update_position L w = Inl UnlockNotHeld"
proof -
  obtain w' where w': "check_mpd_connection L False w = Inr (STATUS_OK, w')" "mpd_conn w'"
      "fst (mpd_run_status L (mpd w')) = None"
    using assms(1) by (auto simp: status_query_fails_def)
  then obtain m where m: "mpd_run_status L (mpd w') = (None, m)"
    by (cases "mpd_run_status L (mpd w')") auto
  have "safe (out_step w (held w)) (check_mpd_connection L False w)" if "may_lock MpdMutex (held w)"
    by (rule out_rules) (simp_all add: out_step_refl that)
  moreover have "may_lock MpdMutex (held w)"
    using assms(2) by (auto simp: may_lock_def)
  ultimately have "MpdMutex \<notin> held w'"
    using w'(1) assms(2) by (simp add: safe_def out_step_def)
  with w' m show ?thesis
    by (simp add: output_update_position_def lock_def unlock_def on_conn_def command_failed_def output_printError_def)
qed

lemma out_update_position:
  assumes s: "out_step b M w" and m: "may_lock MpdMutex M" and ok: "\<not> status_query_fails L w"
  shows "safe_st (out_step b M) (output_update_position L w)"
proof -
  have answered: "safe_st (out_step b M) (bindE (on_conn (mpd_run_status L) v)
      (\<lambda>(st, w). bindE (case st of None \<Rightarrow> f w
        | Some x \<Rightarrow> bindE (output_translate_state x w) (update_track_position x)) (unlock MpdMutex)))"
    if v: "out_step b (insert MpdMutex M) v" and q: "mpd_conn v \<longrightarrow> fst (mpd_run_status L (mpd v)) \<noteq> None" for v f
  proof (cases "mpd_conn v")
    case True
    then obtain x k where st: "mpd_run_status L (mpd v) = (Some x, k)"
      using q by (cases "mpd_run_status L (mpd v)") auto
    have G: "insert MpdMutex M - {MpdMutex} = M" using may_lock_not_held [OF m] by simp
    have "safe_st (out_step b M) (bindE (bindE (output_translate_state x u) (update_track_position x)) (unlock MpdMutex))"
      if "out_step b (insert MpdMutex M) u" for u
      by (assumption | rule out.bind out_rules out.safe_unlock that G insertI1)+
    from this [OF out_step_upd(1) [OF v]] True st show ?thesis by (simp add: on_conn_def)
  qed (simp add: on_conn_def safe_defs)
  have "safe_st (out_step b M) (output_update_position L w)"
    if "safe (out_step b M) (check_mpd_connection L False w)"
  proof (cases "check_mpd_connection L False w")
    case (Inr p)
    obtain st v where p: "p = (st, v)" by (cases p)
    with Inr that have v: "out_step b M v" by (simp add: safe_def)
    have h: "held v = M" by (rule out.S_held [OF v])
    show ?thesis
    proof (cases "st = STATUS_OK")
      case True
      let ?v = "v\<lparr>held := insert MpdMutex M, lock_order := lock_order v \<union> M \<times> {MpdMutex}\<rparr>"
      have q: "mpd_conn ?v \<longrightarrow> fst (mpd_run_status L (mpd ?v)) \<noteq> None"
        using ok Inr p True by (auto simp: status_query_fails_def)
      have "lock MpdMutex v = Inr ?v" using may_lock_not_held [OF m] h by (simp add: lock_def)
      with answered [OF out.S_lock [OF v m] q] Inr p True show ?thesis
        by (simp add: output_update_position_def)
    qed (use Inr p v in \<open>simp add: output_update_position_def safe_st_def\<close>)
  qed (use that in \<open>simp add: output_update_position_def safe_defs\<close>)
  from this [OF out_check_mpd_connection [OF s m]] show ?thesis .
qed

end
