(* ===== verification/Output_Init.thy ===== *)
theory Output_Init
  imports Output_Facts
begin

text \<open>
  The start of output_mpd.c: the MIME types MPD is taken to support, and
  \<open>output_mpd_init\<close>, which registers them, completes the options of the command line from
  the configuration file and the defaults, and opens the connection. A configuration read
  by libconfig is a record of its two lookup functions, whose result is the value when the
  setting exists with the type asked for. The options MPD is reached with are the fields
  the command line may already have set; zero and NULL mean it has not.
\<close>

record config =
  config_lookup_string :: "string \<Rightarrow> string option"
  config_lookup_int :: "string \<Rightarrow> int option"

definition MPD_TIMEOUT_DEFAULT :: int where "MPD_TIMEOUT_DEFAULT = 5"

definition HOST_DEFAULT :: string where "HOST_DEFAULT = ''localhost''"

definition PORT_DEFAULT :: int where "PORT_DEFAULT = 6600"

definition mpd_mime_types :: "string list" where
  "mpd_mime_types =
     [''audio/mpeg'',
      ''audio/mp4'',
      ''audio/m4a'',
      ''audio/mp2'',
      ''audio/mpc'',
      ''audio/ogg'',
      ''audio/AMR'',
      ''audio/AMR-WB'',
      ''audio/amr-nb-sh'',
      ''audio/amr-wb-sh'',
      ''audio/3gpp'',
      ''audio/adpcm'',
      ''audio/L16'',
      ''audio/ape'',
      ''audio/flac'',
      ''audio/wav'',
      ''audio/x-ape'',
      ''audio/x-flac'',
      ''audio/x-ogg'',
      ''audio/x-wave'',
      ''audio/x-wav'',
      ''audio/x-wavpack'',
      ''audio/x-ms-wma'',
      ''audio/x-ms-wmv'',
      ''audio/x-wma'']"

definition output_mpd_init ::
  "'m mpd_lib \<Rightarrow> config \<Rightarrow> ('m, 'z) output_env_scheme \<Rightarrow> (int \<times> ('m, 'z) output_env_scheme) result" where
  "output_mpd_init L cfg w =
     (let w = fold register_mime_type mpd_mime_types w;
          w = (if options_host w = None
               then w\<lparr>options_host := (case config_lookup_string cfg ''host'' of
                        None \<Rightarrow> Some HOST_DEFAULT | Some h \<Rightarrow> Some h)\<rparr> else w);
          w = (if options_port w = 0
               then w\<lparr>options_port := (case config_lookup_int cfg ''port'' of
                        None \<Rightarrow> PORT_DEFAULT | Some p \<Rightarrow> p)\<rparr> else w);
          w = (if options_mpd_timeout w = 0
               then w\<lparr>options_mpd_timeout := (case config_lookup_int cfg ''timeout'' of
                        None \<Rightarrow> MPD_TIMEOUT_DEFAULT | Some t \<Rightarrow> t)\<rparr> else w);
          w = (if options_password w = None
               then w\<lparr>options_password := config_lookup_string cfg ''password''\<rparr> else w)
      in if test_mode w then Inr (0, w)
         else bindE (setup_connection L w) (\<lambda>(conn, w). Inr (if conn then 0 else 1, w)))"

text \<open>
  \<open>output_loop\<close> updates the status once and hands the thread over to GLib's main loop, in
  which the program does nothing of its own; the model ends there.
\<close>

definition output_loop ::
  "'m mpd_lib \<Rightarrow> ('m, 'z) output_env_scheme \<Rightarrow> (int \<times> ('m, 'z) output_env_scheme) result" where
  "output_loop L w = bindE (output_update_status L w) (\<lambda>w. Inr (0, w))"

section \<open>Options\<close>

lemma completed_option:
  "(if b then w\<lparr>options_host := x\<rparr> else w) = w\<lparr>options_host := if b then x else options_host w\<rparr>"
  "(if b then w\<lparr>options_port := i\<rparr> else w) = w\<lparr>options_port := if b then i else options_port w\<rparr>"
  "(if b then w\<lparr>options_mpd_timeout := i\<rparr> else w) = w\<lparr>options_mpd_timeout := if b then i else options_mpd_timeout w\<rparr>"
  "(if b then w\<lparr>options_password := x\<rparr> else w) = w\<lparr>options_password := if b then x else options_password w\<rparr>"
  by simp_all

text \<open>The registered types, the last one first; the new ones are added in front.\<close>

definition mpd_sink_types :: "string list" where
  "mpd_sink_types = rev (''audio/mpeg'' # ''audio/x-mpeg'' # tl mpd_mime_types)"

lemma register_mpd_types:
  "supported_types w = [] \<Longrightarrow> fold register_mime_type mpd_mime_types w = w\<lparr>supported_types := mpd_sink_types\<rparr>"
  by (simp add: mpd_mime_types_def mpd_sink_types_def register_mime_type_def register_mime_type_internal_def)

lemma mpd_sink_types_set: "set mpd_sink_types = insert ''audio/x-mpeg'' (set mpd_mime_types)"
  and mpd_sink_types_distinct: "distinct mpd_sink_types"
  and mpd_sink_types_ok: "mpd_sink_types \<noteq> []" "\<forall>t\<in>set mpd_sink_types. NUL \<notin> set t"
    "int (length (entries_text mpd_sink_types)) \<le> INT_MAX"
  by (auto simp: mpd_sink_types_def mpd_mime_types_def INT_MAX_def)

text \<open>The run in which the connection is opened; \<open>host\<close>, \<open>port\<close> and \<open>timeout\<close> are the settings in force.\<close>

definition host_setting :: "config \<Rightarrow> string option \<Rightarrow> string" where
  "host_setting cfg given = (case given of Some h \<Rightarrow> h | None \<Rightarrow>
     (case config_lookup_string cfg ''host'' of Some h \<Rightarrow> h | None \<Rightarrow> ''localhost''))"

definition int_setting :: "config \<Rightarrow> string \<Rightarrow> int \<Rightarrow> int \<Rightarrow> int" where
  "int_setting cfg key dflt given = (if given \<noteq> 0 then given else
     (case config_lookup_int cfg key of Some p \<Rightarrow> p | None \<Rightarrow> dflt))"

lemma output_mpd_init_run:
  fixes w :: "('m, 'z) output_env_scheme" and cfg :: config
  defines "host \<equiv> host_setting cfg (options_host w)"
    and "port \<equiv> int_setting cfg ''port'' 6600 (options_port w)"
    and "timeout \<equiv> int_setting cfg ''timeout'' 5 (options_mpd_timeout w)"
  assumes password: "options_password w = None" "config_lookup_string cfg ''password'' = None"
    and conn: "\<not> test_mode w" "mpd_connection_new L (Some host) port (timeout * 1000) (mpd w) = (True, m)"
      "mpd_connection_get_error L m = MPD_ERROR_SUCCESS"
    and t: "INT_MIN \<le> timeout * 1000" "timeout * 1000 \<le> INT_MAX" and types: "supported_types w = []"
  shows "output_mpd_init L cfg w = Inr (0, w\<lparr>supported_types := mpd_sink_types, mpd := m, mpd_conn := True,
    options_host := Some host, options_port := port, options_mpd_timeout := timeout, options_password := None\<rparr>)"
proof -
  let ?r = "w\<lparr>supported_types := mpd_sink_types\<rparr>"
  let ?w = "?r\<lparr>options_host := Some host, options_port := port, options_mpd_timeout := timeout, options_password := None\<rparr>"
  have "(if options_host w = None then (case config_lookup_string cfg ''host'' of
      None \<Rightarrow> Some HOST_DEFAULT | Some h \<Rightarrow> Some h) else options_host w) = Some host"
    "(if options_port w = 0 then (case config_lookup_int cfg ''port'' of
      None \<Rightarrow> PORT_DEFAULT | Some p \<Rightarrow> p) else options_port w) = port"
    "(if options_mpd_timeout w = 0 then (case config_lookup_int cfg ''timeout'' of
      None \<Rightarrow> MPD_TIMEOUT_DEFAULT | Some p \<Rightarrow> p) else options_mpd_timeout w) = timeout"
    by (auto simp: host_def port_def timeout_def host_setting_def int_setting_def
        HOST_DEFAULT_def PORT_DEFAULT_def MPD_TIMEOUT_DEFAULT_def split: option.split)
  then have opts: "output_mpd_init L cfg w = bindE (setup_connection L ?w) (\<lambda>(conn, w). Inr (if conn then 0 else 1, w))"
    using password conn(1) unfolding output_mpd_init_def Let_def completed_option register_mpd_types [OF types]
    by (simp split del: if_split cong: if_cong)
  have "setup_connection L ?w = Inr (True, ?w\<lparr>mpd := m, mpd_conn := True\<rparr>)"
    using conn t by (simp add: setup_connection_def)
  then show ?thesis
    unfolding opts by simp
qed

text \<open>
  C29. The start of the backend: every MIME type of the list ends up registered, once, with
  audio/x-mpeg added for audio/mpeg; the command line wins over the configuration file and
  that over the default, for host, port and timeout; and with a server that accepts the
  connection and no password to send, it is opened with these settings and the result is 0.
\<close>

theorem output_mpd_init_connects:
  fixes w :: "('m, 'z) output_env_scheme" and cfg :: config
  defines "host \<equiv> host_setting cfg (options_host w)"
    and "port \<equiv> int_setting cfg ''port'' 6600 (options_port w)"
    and "timeout \<equiv> int_setting cfg ''timeout'' 5 (options_mpd_timeout w)"
  assumes password: "options_password w = None" "config_lookup_string cfg ''password'' = None"
    and conn: "\<not> test_mode w" "mpd_connection_new L (Some host) port (timeout * 1000) (mpd w) = (True, m)"
      "mpd_connection_get_error L m = MPD_ERROR_SUCCESS"
    and t: "INT_MIN \<le> timeout * 1000" "timeout * 1000 \<le> INT_MAX" and types: "supported_types w = []"
  shows "\<exists>w'. output_mpd_init L cfg w = Inr (0, w') \<and> mpd_conn w' \<and> mpd w' = m
    \<and> options_host w' = Some host \<and> options_port w' = port \<and> options_mpd_timeout w' = timeout
    \<and> set (supported_types w') = insert ''audio/x-mpeg'' (set mpd_mime_types) \<and> distinct (supported_types w')"
  using output_mpd_init_run [OF password conn [unfolded host_def port_def timeout_def] t [unfolded timeout_def] types]
  by (simp add: host_def port_def timeout_def mpd_sink_types_set mpd_sink_types_distinct)

theorem output_mpd_init_connects_witness:
  "\<exists>w'. output_mpd_init sample_mpd \<lparr>config_lookup_string = (\<lambda>k. if k = ''host'' then Some ''nas'' else None),
        config_lookup_int = (\<lambda>k. None)\<rparr> (sample_output\<lparr>mpd_conn := False, options_host := None, options_port := 0\<rparr>)
     = Inr (0, w') \<and> mpd_conn w' \<and> options_host w' = Some ''nas'' \<and> options_port w' = 6600"
  using output_mpd_init_connects [of "sample_output\<lparr>mpd_conn := False, options_host := None, options_port := 0\<rparr>"
      "\<lparr>config_lookup_string = (\<lambda>k. if k = ''host'' then Some ''nas'' else None), config_lookup_int = (\<lambda>k. None)\<rparr>"
      sample_mpd "[]"]
  by (auto simp: sample_output_def sample_mpd_def c_limits host_setting_def int_setting_def)

end
