(* ===== verification/Transport.thy ===== *)
theory Transport
  imports Output_Facts
begin

text \<open>
  upnp_transport.c, its action handlers: every action of AVTransport, the notification a
  new subscriber gets, the action table and the service. A handler reads its arguments,
  checks the connection to the player, takes the service's mutex, lets the backend act and
  announces the new state. The error codes of upnp_transport.h are arguments of
  \<open>upnp_set_error\<close>, which does not use them.
\<close>

section \<open>Shapes the handlers share\<close>

abbreviation (input) UPNP_TRANSPORT_E_TRANSITION_NA :: int where "UPNP_TRANSPORT_E_TRANSITION_NA \<equiv> 701"

abbreviation (input) UPNP_TRANSPORT_E_NO_CONTENTS :: int where "UPNP_TRANSPORT_E_NO_CONTENTS \<equiv> 702"

abbreviation (input) UPNP_TRANSPORT_E_ILL_SEEKTARGET :: int where "UPNP_TRANSPORT_E_ILL_SEEKTARGET \<equiv> 711"

abbreviation (input) UPNP_TRANSPORT_E_PLAYMODE_NS :: int where "UPNP_TRANSPORT_E_PLAYMODE_NS \<equiv> 712"

abbreviation (input) UPNP_TRANSPORT_E_INVALID_IID :: int where "UPNP_TRANSPORT_E_INVALID_IID \<equiv> 718"

text \<open>The guard on the connection.\<close>

definition with_connection ::
  "'m mpd_lib \<Rightarrow> ('m, 'z) output_env_scheme action_event \<Rightarrow> ('m, 'z) output_env_scheme
    \<Rightarrow> (('m, 'z) output_env_scheme
          \<Rightarrow> (int \<times> ('m, 'z) output_env_scheme action_event \<times> ('m, 'z) output_env_scheme) result)
    \<Rightarrow> (int \<times> ('m, 'z) output_env_scheme action_event \<times> ('m, 'z) output_env_scheme) result" where
  "with_connection MD event w k =
     bindE (check_mpd_connection MD True w) (\<lambda>(st, w).
     if st = STATUS_FAIL then Inr (- 1, event, w) else k w)"

text \<open>
  A switch on \<open>transport_state\<close> inside the mutex, and the branch that has the player act,
  then enters a state and announces it.
\<close>

definition in_transport ::
  "(('m, 'z) output_env_scheme
      \<Rightarrow> (int \<times> ('m, 'z) output_env_scheme action_event \<times> ('m, 'z) output_env_scheme) result)
    \<Rightarrow> ('m, 'z) output_env_scheme
    \<Rightarrow> (int \<times> ('m, 'z) output_env_scheme action_event \<times> ('m, 'z) output_env_scheme) result" where
  "in_transport body w =
     bindE (lock TransportMutex w) (\<lambda>w.
     bindE (body w) (\<lambda>(rc, event, w).
     bindE (unlock TransportMutex w) (\<lambda>w. Inr (rc, event, w))))"

definition player_transition ::
  "upnp_lib \<Rightarrow> (('m, 'z) output_env_scheme \<Rightarrow> (int \<times> ('m, 'z) output_env_scheme) result) \<Rightarrow> string
    \<Rightarrow> transport_state \<Rightarrow> string \<Rightarrow> ('m, 'z) output_env_scheme action_event \<Rightarrow> ('m, 'z) output_env_scheme
    \<Rightarrow> (int \<times> ('m, 'z) output_env_scheme action_event \<times> ('m, 'z) output_env_scheme) result" where
  "player_transition L op msg state txt event w =
     bindE (op w) (\<lambda>(rc, w).
     if rc \<noteq> 0 then Inr (- 1, upnp_set_error L event UPNP_TRANSPORT_E_NO_CONTENTS msg, w)
     else
       bindE (transport_change_var event TRANSPORT_VAR_TRANSPORT_STATE (Some txt)
                (w\<lparr>transport_state := Some state\<rparr>)) (\<lambda>w.
       Inr (0, event, w)))"

section \<open>Queries\<close>

definition get_media_info :: "upnp_lib \<Rightarrow> ('m, 'z) output_env_scheme handler" where
  "get_media_info L event w =
     with_instance L UPNP_TRANSPORT_E_INVALID_IID event w (\<lambda>event.
     append_variables L event
       [(TRANSPORT_VAR_NR_TRACKS, ''NrTracks''),
        (TRANSPORT_VAR_CUR_MEDIA_DUR, ''MediaDuration''),
        (TRANSPORT_VAR_AV_URI, ''CurrentURI''),
        (TRANSPORT_VAR_AV_URI_META, ''CurrentURIMetaData''),
        (TRANSPORT_VAR_NEXT_AV_URI, ''NextURI''),
        (TRANSPORT_VAR_NEXT_AV_URI_META, ''NextURIMetaData''),
        (TRANSPORT_VAR_REC_MEDIA, ''PlayMedium''),
        (TRANSPORT_VAR_REC_MEDIUM, ''RecordMedium''),
        (TRANSPORT_VAR_REC_MEDIUM_WR_STATUS, ''WriteStatus'')] w)"

text \<open>This one goes on after a bad instance id, with the event in error.\<close>

definition get_transport_info :: "upnp_lib \<Rightarrow> ('m, 'z) output_env_scheme handler" where
  "get_transport_info L event w =
     bindE (upnp_obtain_instanceid L event) (\<lambda>(rc, event).
     let event = (if rc \<noteq> 0 then upnp_set_error L event UPNP_TRANSPORT_E_INVALID_IID ''ID non-zero invalid'' else event)
     in append_variables L event
       [(TRANSPORT_VAR_TRANSPORT_STATE, ''CurrentTransportState''),
        (TRANSPORT_VAR_TRANSPORT_STATUS, ''CurrentTransportStatus''),
        (TRANSPORT_VAR_TRANSPORT_PLAY_SPEED, ''CurrentSpeed'')] w)"

definition get_transport_settings :: "upnp_lib \<Rightarrow> ('m, 'z) output_env_scheme handler" where
  "get_transport_settings L event w =
     with_instance L UPNP_TRANSPORT_E_INVALID_IID event w (\<lambda>event.
     append_variables L event
       [(TRANSPORT_VAR_CUR_PLAY_MODE, ''CurrentPlayMode''),
        (TRANSPORT_VAR_CUR_REC_QUAL_MODE, ''CurrentRecordQualityMode'')] w)"

definition get_position_info :: "upnp_lib \<Rightarrow> 'm mpd_lib \<Rightarrow> ('m, 'z) output_env_scheme handler" where
  "get_position_info L MD event w =
     with_instance L UPNP_TRANSPORT_E_INVALID_IID event w (\<lambda>event.
     bindE (lock TransportMutex w) (\<lambda>w.
     bindE (output_update_position MD w) (\<lambda>w.
     bindE (unlock TransportMutex w) (\<lambda>w.
     append_variables L event
       [(TRANSPORT_VAR_CUR_TRACK, ''Track''),
        (TRANSPORT_VAR_CUR_TRACK_DUR, ''TrackDuration''),
        (TRANSPORT_VAR_CUR_TRACK_META, ''TrackMetaData''),
        (TRANSPORT_VAR_CUR_TRACK_URI, ''TrackURI''),
        (TRANSPORT_VAR_REL_TIME_POS, ''RelTime''),
        (TRANSPORT_VAR_ABS_TIME_POS, ''AbsTime''),
        (TRANSPORT_VAR_REL_CTR_POS, ''RelCount''),
        (TRANSPORT_VAR_ABS_CTR_POS, ''AbsCount'')] w))))"

definition get_device_caps :: "upnp_lib \<Rightarrow> ('m, 'z) output_env_scheme handler" where
  "get_device_caps L event w =
     with_instance L UPNP_TRANSPORT_E_INVALID_IID event w (\<lambda>event. Inr (0, event, w))"

section \<open>Commands\<close>

definition set_avtransport_uri :: "upnp_lib \<Rightarrow> 'm mpd_lib \<Rightarrow> ('m, 'z) output_env_scheme handler" where
  "set_avtransport_uri L MD event w =
     with_instance L UPNP_TRANSPORT_E_INVALID_IID event w (\<lambda>event.
     bindE (upnp_get_string L event ''CurrentURI'') (\<lambda>(v, event).
     case v of
       None \<Rightarrow> Inr (- 1, event, w)
     | Some uri \<Rightarrow>
         bindE (lock TransportMutex w) (\<lambda>w.
         bindE (output_set_uri MD uri w) (\<lambda>w.
         bindE (transport_set_var TRANSPORT_VAR_AV_URI (Some uri) w) (\<lambda>w.
         bindE (upnp_get_string L event ''CurrentURIMetaData'') (\<lambda>(meta, event).
         bindE (case meta of
                  None \<Rightarrow> Inr (- 1, w)
                | Some md \<Rightarrow>
                    bindE (transport_set_var TRANSPORT_VAR_AV_URI_META (Some md) w) (\<lambda>w.
                    bindE (transport_get_attr_metadata L ''duration'' w) (\<lambda>dur.
                    bindE (transport_set_var TRANSPORT_VAR_CUR_TRACK_DUR dur w) (\<lambda>w.
                    Inr (0, w))))) (\<lambda>(rc, w).
         bindE (transport_set_state TRANSPORT_STOPPED ''STOPPED'' w) (\<lambda>w.
         bindE (transport_get_state_lastchange w) (\<lambda>buf.
         bindE (transport_notify_lastchange event buf w) (\<lambda>w.
         bindE (unlock TransportMutex w) (\<lambda>w.
         Inr (rc, event, w))))))))))))"

definition xplaymode :: "upnp_lib \<Rightarrow> 'm mpd_lib \<Rightarrow> ('m, 'z) output_env_scheme handler" where
  "xplaymode L MD event w =
     with_instance L UPNP_TRANSPORT_E_INVALID_IID event w (\<lambda>event.
     bindE (upnp_get_string L event ''NewPlayMode'') (\<lambda>(newmode, event).
     with_connection MD event w (in_transport (\<lambda>w.
       bindE (output_playmode MD newmode w) (\<lambda>(rc, w).
       if rc \<noteq> 0
       then Inr (rc, upnp_set_error L event UPNP_TRANSPORT_E_PLAYMODE_NS ''Set playmode failed'', w)
       else bindE (transport_change_var event TRANSPORT_VAR_CUR_PLAY_MODE newmode w) (\<lambda>w.
            Inr (rc, event, w)))))))"

definition xstop :: "upnp_lib \<Rightarrow> 'm mpd_lib \<Rightarrow> ('m, 'z) output_env_scheme handler" where
  "xstop L MD event w =
     with_instance L UPNP_TRANSPORT_E_INVALID_IID event w (\<lambda>event.
     with_connection MD event w (in_transport (\<lambda>w.
       case transport_state w of
         None \<Rightarrow> Inr (0, event, w)
       | Some s \<Rightarrow>
           (case s of
              TRANSPORT_STOPPED \<Rightarrow> Inr (0, event, w)
            | TRANSPORT_PLAYING \<Rightarrow>
                player_transition L (output_stop MD) ''Player Stop failed'' TRANSPORT_STOPPED ''STOPPED'' event w
            | TRANSPORT_TRANSITIONING \<Rightarrow>
                player_transition L (output_stop MD) ''Player Stop failed'' TRANSPORT_STOPPED ''STOPPED'' event w
            | TRANSPORT_PAUSED_PLAYBACK \<Rightarrow>
                player_transition L (output_stop MD) ''Player Stop failed'' TRANSPORT_STOPPED ''STOPPED'' event w
            | TRANSPORT_NO_MEDIA_PRESENT \<Rightarrow>
                Inr (0, upnp_set_error L event UPNP_TRANSPORT_E_TRANSITION_NA ''Transition not allowed'', w)))))"

definition xpause :: "upnp_lib \<Rightarrow> 'm mpd_lib \<Rightarrow> ('m, 'z) output_env_scheme handler" where
  "xpause L MD event w =
     with_instance L UPNP_TRANSPORT_E_INVALID_IID event w (\<lambda>event.
     with_connection MD event w (in_transport (\<lambda>w.
       case transport_state w of
         None \<Rightarrow> Inr (0, event, w)
       | Some s \<Rightarrow>
           (case s of
              TRANSPORT_STOPPED \<Rightarrow> Inr (0, event, w)
            | TRANSPORT_PLAYING \<Rightarrow>
                player_transition L (output_pause MD) ''Player Pause failed''
                  TRANSPORT_PAUSED_PLAYBACK ''PAUSED_PLAYBACK'' event w
            | TRANSPORT_PAUSED_PLAYBACK \<Rightarrow>
                player_transition L (output_play MD) ''Player Start failed'' TRANSPORT_PLAYING ''PLAYING'' event w
            | TRANSPORT_TRANSITIONING \<Rightarrow>
                Inr (0, upnp_set_error L event UPNP_TRANSPORT_E_TRANSITION_NA ''Transition not allowed'', w)
            | TRANSPORT_NO_MEDIA_PRESENT \<Rightarrow>
                Inr (0, upnp_set_error L event UPNP_TRANSPORT_E_TRANSITION_NA ''Transition not allowed'', w)))))"

definition xplay :: "upnp_lib \<Rightarrow> 'm mpd_lib \<Rightarrow> ('m, 'z) output_env_scheme handler" where
  "xplay L MD event w =
     with_instance L UPNP_TRANSPORT_E_INVALID_IID event w (\<lambda>event.
     with_connection MD event w (in_transport (\<lambda>w.
       case transport_state w of
         None \<Rightarrow> Inr (0, event, w)
       | Some s \<Rightarrow>
           (case s of
              TRANSPORT_PLAYING \<Rightarrow> Inr (0, event, w)
            | TRANSPORT_STOPPED \<Rightarrow>
                player_transition L (output_play MD) ''Player Start failed'' TRANSPORT_PLAYING ''PLAYING'' event w
            | TRANSPORT_PAUSED_PLAYBACK \<Rightarrow>
                player_transition L (output_play MD) ''Player Start failed'' TRANSPORT_PLAYING ''PLAYING'' event w
            | TRANSPORT_NO_MEDIA_PRESENT \<Rightarrow>
                Inr (- 1, upnp_set_error L event UPNP_TRANSPORT_E_TRANSITION_NA ''Transition not allowed'', w)
            | TRANSPORT_TRANSITIONING \<Rightarrow>
                Inr (- 1, upnp_set_error L event UPNP_TRANSPORT_E_TRANSITION_NA ''Transition not allowed'', w)))))"

definition xseek :: "upnp_lib \<Rightarrow> 'm mpd_lib \<Rightarrow> ('m, 'z) output_env_scheme handler" where
  "xseek L MD event w =
     with_instance L UPNP_TRANSPORT_E_INVALID_IID event w (\<lambda>event.
     bindE (upnp_get_string L event ''Unit'') (\<lambda>(mode, event).
     case mode of
       None \<Rightarrow> Inr (- 1, event, w)
     | Some md \<Rightarrow>
         bindE (upnp_get_string L event ''Target'') (\<lambda>(v, event).
         case v of
           None \<Rightarrow> Inr (- 1, event, w)
         | Some target \<Rightarrow>
             with_connection MD event w (\<lambda>w.
             bindE (output_seekto MD md target w) (\<lambda>(rc, w).
             if rc \<noteq> 0
             then Inr (- 1, upnp_set_error L event UPNP_TRANSPORT_E_ILL_SEEKTARGET ''Player Seek failed'', w)
             else Inr (rc, event, w))))))"

definition xnext :: "upnp_lib \<Rightarrow> 'm mpd_lib \<Rightarrow> ('m, 'z) output_env_scheme handler" where
  "xnext L MD event w =
     with_instance L UPNP_TRANSPORT_E_INVALID_IID event w (\<lambda>event.
     with_connection MD event w (\<lambda>w.
     bindE (output_next MD w) (\<lambda>(rc, w).
     if rc \<noteq> 0
     then Inr (- 1, upnp_set_error L event UPNP_TRANSPORT_E_TRANSITION_NA ''Player Next failed'', w)
     else Inr (0, event, w))))"

definition xprevious :: "upnp_lib \<Rightarrow> 'm mpd_lib \<Rightarrow> ('m, 'z) output_env_scheme handler" where
  "xprevious L MD event w =
     with_instance L UPNP_TRANSPORT_E_INVALID_IID event w (\<lambda>event.
     with_connection MD event w (\<lambda>w.
     bindE (output_prev MD w) (\<lambda>(rc, w).
     if rc \<noteq> 0
     then Inr (- 1, upnp_set_error L event UPNP_TRANSPORT_E_TRANSITION_NA ''Player Previous failed'', w)
     else Inr (0, event, w))))"

definition transport_notify_subscription ::
  "'m mpd_lib \<Rightarrow> ('m, 'z) output_env_scheme \<Rightarrow> (int \<times> ('m, 'z) output_env_scheme) result" where
  "transport_notify_subscription MD w =
     bindE (lock TransportMutex w) (\<lambda>w.
     bindE (output_update_status MD w) (\<lambda>w.
     bindE (transport_get_state_lastchange w) (\<lambda>buf.
     bindE (transport_set_var TRANSPORT_VAR_LAST_CHANGE (Some buf) w) (\<lambda>w.
     bindE (unlock TransportMutex w) (\<lambda>w. Inr (0, w))))))"

section \<open>The service\<close>

definition transport_actions :: "upnp_lib \<Rightarrow> 'm mpd_lib \<Rightarrow> ('m, 'z) output_env_scheme action list" where
  "transport_actions L MD = array_of (TRANSPORT_CMD_UNKNOWN + 1) no_action
     [(TRANSPORT_CMD_GETCURRENTTRANSPORTACTIONS, action_init ''GetCurrentTransportActions'' None),
      (TRANSPORT_CMD_GETDEVICECAPABILITIES, action_init ''GetDeviceCapabilities'' (Some (get_device_caps L))),
      (TRANSPORT_CMD_GETMEDIAINFO, action_init ''GetMediaInfo'' (Some (get_media_info L))),
      (TRANSPORT_CMD_SETAVTRANSPORTURI, action_init ''SetAVTransportURI'' (Some (set_avtransport_uri L MD))),
      (TRANSPORT_CMD_GETTRANSPORTINFO, action_init ''GetTransportInfo'' (Some (get_transport_info L))),
      (TRANSPORT_CMD_GETPOSITIONINFO, action_init ''GetPositionInfo'' (Some (get_position_info L MD))),
      (TRANSPORT_CMD_GETTRANSPORTSETTINGS, action_init ''GetTransportSettings'' (Some (get_transport_settings L))),
      (TRANSPORT_CMD_STOP, action_init ''Stop'' (Some (xstop L MD))),
      (TRANSPORT_CMD_PLAY, action_init ''Play'' (Some (xplay L MD))),
      (TRANSPORT_CMD_PAUSE, action_init ''Pause'' (Some (xpause L MD))),
      (TRANSPORT_CMD_SEEK, action_init ''Seek'' (Some (xseek L MD))),
      (TRANSPORT_CMD_NEXT, action_init ''Next'' (Some (xnext L MD))),
      (TRANSPORT_CMD_PREVIOUS, action_init ''Previous'' (Some (xprevious L MD))),
      (TRANSPORT_CMD_SETPLAYMODE, action_init ''SetPlayMode'' (Some (xplaymode L MD))),
      (TRANSPORT_CMD_UNKNOWN, no_action)]"

definition transport_service :: "upnp_lib \<Rightarrow> 'm mpd_lib \<Rightarrow> ('m, 'z) output_env_scheme service" where
  "transport_service L MD = service_vars.extend transport_vars
     \<lparr>actions = transport_actions L MD, subscription_notify = Some (transport_notify_subscription MD)\<rparr>"

end
