(* ===== verification/Transport_Facts.thy ===== *)
theory Transport_Facts
  imports Transport
begin

text \<open>
  What holds of the AVTransport handlers: lock discipline and the invariant of the store
  through every action, the transitions of the transport state machine, the notification
  each transition sends, and the documents the queries answer with.
\<close>

section \<open>Lock discipline and invariant\<close>

text \<open>
  What an action may do to the state, seen from where it starts: own the same mutexes when
  it is done, respect the order of acquisition, keep the invariant of the transport
  variables, and only add to the notifications.
\<close>

definition action_step ::
  "'z transport_env_scheme \<Rightarrow> mutex set \<Rightarrow> 'z transport_env_scheme \<Rightarrow> bool" where
  "action_step b M w \<longleftrightarrow>
     held w = M \<and> (ordered b \<longrightarrow> ordered w) \<and> (transport_ok b \<longrightarrow> transport_ok w)
   \<and> (\<exists>ns. notifications w = notifications b @ ns) \<and> subscriptions w = subscriptions b"

lemma action_step_refl: "held w = M \<Longrightarrow> action_step w M w"
  by (simp add: action_step_def)

interpretation act: lock_relation action_step
proof
  fix b w :: "'a transport_env_scheme" and M m
  show "action_step b M w \<Longrightarrow> held w = M"
    by (simp add: action_step_def)
  show "action_step b (insert m M) (w\<lparr>held := insert m M, lock_order := lock_order w \<union> M \<times> {m}\<rparr>)"
    if s: "action_step b M w" and m: "may_lock m M"
    using s m ordered_lock [of w m "insert m M"] unfolding action_step_def
    by (auto simp: transport_ok_def)
  show "action_step b (M - {m}) (w\<lparr>held := M - {m}\<rparr>)" if "action_step b M w"
    using that by (simp add: action_step_def)
qed

lemma action_step_out:
  "action_step b M v \<Longrightarrow> out_step v N w \<Longrightarrow> action_step b N w"
  by (auto simp: action_step_def out_step_def)

text \<open>Every operation of the player backend is such a step.\<close>

lemma act_of_out:
  "action_step b M w \<Longrightarrow> (out_step w M w \<Longrightarrow> safe (out_step w M) m) \<Longrightarrow> safe (action_step b M) m"
  "action_step b M w \<Longrightarrow> (out_step w M w \<Longrightarrow> safe_st (out_step w M) n) \<Longrightarrow> safe_st (action_step b M) n"
proof -
  assume s: "action_step b M w"
  then have r: "out_step w M w"
    by (intro out_step_refl act.S_held)
  show "safe (action_step b M) m" if "out_step w M w \<Longrightarrow> safe (out_step w M) m"
    using safe_mono [OF that [OF r]] action_step_out [OF s] by blast
  show "safe_st (action_step b M) n" if "out_step w M w \<Longrightarrow> safe_st (out_step w M) n"
    using safe_st_mono [OF that [OF r]] action_step_out [OF s] by blast
qed

named_theorems act_rules

lemma act_out_ops [act_rules]:
  assumes "action_step b M w" and "may_lock MpdMutex M"
  shows "safe (action_step b M) (check_mpd_connection MD u w)"
    and "safe (action_step b M) (output_play MD w)"
    and "safe (action_step b M) (output_stop MD w)"
    and "safe (action_step b M) (output_pause MD w)"
    and "safe (action_step b M) (output_next MD w)"
    and "safe (action_step b M) (output_prev MD w)"
    and "safe (action_step b M) (output_seekto MD mode pos w)"
    and "safe (action_step b M) (output_playmode MD newmode w)"
    and "safe_st (action_step b M) (output_set_uri MD uri w)"
    and "safe_st (action_step b M) (output_set_volume MD vol w)"
    and "safe_st (action_step b M) (output_set_mute MD mute w)"
    and "safe_st (action_step b M) (output_update_status MD w)"
  unfolding output_play_def output_stop_def output_pause_def output_next_def output_prev_def
  by (rule act_of_out [OF assms(1)], rule out_rules, assumption, rule assms(2))+

lemma act_set_var [act_rules]:
  assumes "action_step b M w" and "n \<noteq> TRANSPORT_VAR_TRANSPORT_STATE"
  shows "safe_st (action_step b M) (transport_set_var n v w)"
  using assms transport_ok_upd [of w n]
  by (cases v) (auto simp: transport_set_var_def safe_defs action_step_def)

lemma act_set_state [act_rules]:
  assumes "action_step b M w" and "v = state_text (Some st)"
    and "st \<noteq> TRANSPORT_TRANSITIONING" and "st \<noteq> TRANSPORT_NO_MEDIA_PRESENT"
  shows "safe_st (action_step b M) (transport_set_state st v w)"
  using assms transport_ok_state [of w v st] by (auto simp: safe_defs action_step_def)

lemma benign_memcpy_at [simp]: "benign (memcpy_at b i s)"
  by (simp add: memcpy_at_def)

lemma benign_read_cstring: "benign (read_cstring b)"
  by (induction b rule: read_cstring.induct) (auto intro: benign_bindE)

lemma benign_xmlescape: "benign (xmlescape s a)"
proof -
  have c: "benign (xmlescape_count a s n)" for n
    by (induction s arbitrary: n) (auto intro!: benign_bindE)
  have wr: "benign (xmlescape_write a s t n)" for t n
    by (induction s arbitrary: t n) (auto intro!: benign_bindE)
  show ?thesis
    unfolding xmlescape_def xmlescape_real_def
    by (auto intro!: benign_bindE c wr benign_read_cstring split: option.split)
qed

lemma act_notify [act_rules]:
  assumes "action_step b M w"
  shows "safe_st (action_step b M) (transport_notify_lastchange ev v w)"
proof -
  have "action_step b M (w\<lparr>transport_values := (transport_values w)(TRANSPORT_VAR_LAST_CHANGE \<mapsto> v),
      notifications := notifications w @ [n]\<rparr>)" for n
    using assms transport_ok_upd [of w TRANSPORT_VAR_LAST_CHANGE v] by (auto simp: action_step_def)
  then show ?thesis
    unfolding transport_notify_lastchange_def
    by (intro benign_bind [OF benign_xmlescape] safe_st_Inr)
qed

lemma act_change_var [act_rules]:
  assumes "action_step b M w" and "n \<noteq> TRANSPORT_VAR_TRANSPORT_STATE"
  shows "safe_st (action_step b M) (transport_change_var ev n v w)"
  unfolding transport_change_var_def
  by (assumption | rule act.bind act_rules assms)+

lemma act_enter_state [act_rules]:
  assumes "action_step b M w" and "v = state_text (Some st)"
    and "st \<noteq> TRANSPORT_TRANSITIONING" and "st \<noteq> TRANSPORT_NO_MEDIA_PRESENT"
  shows "safe_st (action_step b M) (transport_change_var ev TRANSPORT_VAR_TRANSPORT_STATE (Some v)
      (w\<lparr>transport_state := Some st\<rparr>))"
proof -
  have eq: "transport_change_var ev TRANSPORT_VAR_TRANSPORT_STATE (Some v) (w\<lparr>transport_state := Some st\<rparr>)
    = bindE (transport_set_state st v w) (\<lambda>w. transport_notify_lastchange ev
        (avt_event (avt_value TRANSPORT_VAR_TRANSPORT_STATE w)) w)"
    by (simp add: transport_change_var_def)
  show ?thesis
    unfolding eq by (assumption | rule act.bind act_rules assms)+
qed

lemma act_get_attr [act_rules]:
  "(\<And>v. safe Q (k v)) \<Longrightarrow> safe Q (bindE (transport_get_attr_metadata L key w) k)"
  "(\<And>v. safe_st Q (k' v)) \<Longrightarrow> safe_st Q (bindE (transport_get_attr_metadata L key w) k')"
  by (simp_all add: transport_get_attr_metadata_def)

lemma benign_lastchange: "benign (transport_get_state_lastchange w)"
  unfolding transport_get_state_lastchange_def by (auto intro!: benign_bindE)

section \<open>The handlers\<close>

lemma with_instance_safe [act_rules]:
  assumes "same_call e ev" and "P w" and "\<And>ev. same_call e ev \<Longrightarrow> safe_ev e P (k ev)"
  shows "safe_ev e P (with_instance L c ev w k)"
  unfolding with_instance_def by (assumption | rule ev_rules assms)+

lemma with_connection_safe [act_rules]:
  assumes "same_call e ev" and "action_step b M w" and "may_lock MpdMutex M"
    and "\<And>w. action_step b M w \<Longrightarrow> safe_ev e (action_step b M) (k w)"
  shows "safe_ev e (action_step b M) (with_connection MD ev w k)"
  unfolding with_connection_def by (assumption | rule ev_rules act.ev_bind act_rules assms)+

lemma in_transport_safe [act_rules]:
  assumes "action_step b M w" and "may_lock TransportMutex M"
    and "\<And>w. action_step b (insert TransportMutex M) w \<Longrightarrow>
      safe_ev e (action_step b (insert TransportMutex M)) (k w)"
  shows "safe_ev e (action_step b M) (in_transport k w)"
  unfolding in_transport_def
  using may_lock_not_held [OF assms(2)]
  by - (assumption | rule ev_rules act.ev_bind act.safe_lock act.safe_unlock assms | (simp; fail))+

lemma player_transition_safe [act_rules]:
  assumes "same_call e ev" and "action_step b M w" and "safe (action_step b M) (op w)"
    and "txt = state_text (Some st)" "st \<noteq> TRANSPORT_TRANSITIONING" "st \<noteq> TRANSPORT_NO_MEDIA_PRESENT"
  shows "safe_ev e (action_step b M) (player_transition L op msg st txt ev w)"
  unfolding player_transition_def
  by (assumption | rule ev_rules act.ev_bind act_rules assms)+

lemma state_split [act_rules]:
  assumes "safe_ev ev P a" "safe_ev ev P b" "safe_ev ev P c" "safe_ev ev P d" "safe_ev ev P e"
  shows "safe_ev ev P (case s of TRANSPORT_STOPPED \<Rightarrow> a | TRANSPORT_PLAYING \<Rightarrow> b | TRANSPORT_TRANSITIONING \<Rightarrow> c
      | TRANSPORT_PAUSED_PLAYBACK \<Rightarrow> d | TRANSPORT_NO_MEDIA_PRESENT \<Rightarrow> e)"
  using assms by (simp split: transport_state.split)

lemma act_lock_conn:
  assumes "transport_ok b" "action_step b M w"
  shows "transport_ok w"
  using assms by (simp add: action_step_def)

lemma transport_queries_safe:
  assumes e: "same_call e ev" "service_mutex (event_service e) = TransportMutex"
    and s: "action_step b M w" and m: "may_lock TransportMutex M"
  shows "safe_ev e (action_step b M) (get_media_info L ev w)"
    and "safe_ev e (action_step b M) (get_transport_info L ev w)"
    and "safe_ev e (action_step b M) (get_transport_settings L ev w)"
    and "safe_ev e (action_step b M) (get_device_caps L ev w)"
  unfolding get_media_info_def get_transport_info_def get_transport_settings_def get_device_caps_def Let_def
  by ((assumption | rule act_rules ev_rules act.ev_bind act.safe_ev_append_variables e s m)+)

lemma xcommands_safe:
  assumes e: "same_call e ev" and s: "action_step b M w" and M: "M \<subseteq> {DeviceMutex}"
  shows "safe_ev e (action_step b M) (xplay L MD ev w)"
    and "safe_ev e (action_step b M) (xpause L MD ev w)"
    and "safe_ev e (action_step b M) (xstop L MD ev w)"
    and "safe_ev e (action_step b M) (xplaymode L MD ev w)"
    and "safe_ev e (action_step b M) (xseek L MD ev w)"
    and "safe_ev e (action_step b M) (xnext L MD ev w)"
    and "safe_ev e (action_step b M) (xprevious L MD ev w)"
proof -
  have m: "may_lock MpdMutex M" "may_lock TransportMutex M" "may_lock MpdMutex (insert TransportMutex M)"
    using M by (auto simp: may_lock_def)
  note rules = act_rules ev_rules act.ev_bind e s m
  show "safe_ev e (action_step b M) (xplay L MD ev w)"
    unfolding xplay_def by (assumption | rule rules | (simp; fail))+
  show "safe_ev e (action_step b M) (xpause L MD ev w)"
    unfolding xpause_def by (assumption | rule rules | (simp; fail))+
  show "safe_ev e (action_step b M) (xstop L MD ev w)"
    unfolding xstop_def by (assumption | rule rules | (simp; fail))+
  show "safe_ev e (action_step b M) (xplaymode L MD ev w)"
    unfolding xplaymode_def by (assumption | rule rules | (simp; fail))+
  show "safe_ev e (action_step b M) (xseek L MD ev w)"
    unfolding xseek_def by (assumption | rule rules | (simp; fail))+
  show "safe_ev e (action_step b M) (xnext L MD ev w)"
    unfolding xnext_def by (assumption | rule rules | (simp; fail))+
  show "safe_ev e (action_step b M) (xprevious L MD ev w)"
    unfolding xprevious_def by (assumption | rule rules | (simp; fail))+
qed

lemma act_lastchange [act_rules]:
  "(\<And>v. safe Q (k v)) \<Longrightarrow> safe Q (bindE (transport_get_state_lastchange w) k)"
  "(\<And>v. safe_ev e Q (k'' v)) \<Longrightarrow> safe_ev e Q (bindE (transport_get_state_lastchange w) k'')"
  by (auto intro: benign_bind safe_ev_benign benign_lastchange)

lemma set_avtransport_uri_safe:
  assumes e: "same_call e ev" and s: "action_step b M w" and M: "M \<subseteq> {DeviceMutex}"
  shows "safe_ev e (action_step b M) (set_avtransport_uri L MD ev w)"
proof -
  have m: "may_lock TransportMutex M" "may_lock MpdMutex (insert TransportMutex M)"
    "insert TransportMutex M - {TransportMutex} = M"
    using M by (auto simp: may_lock_def)
  show ?thesis
    unfolding set_avtransport_uri_def
    by (assumption | rule act_rules ev_rules safe_rules act.bind act.ev_bind act.safe_lock act.safe_unlock e s m
        | (simp; fail))+
qed

lemma get_position_info_safe:
  assumes e: "same_call e ev" "service_mutex (event_service e) = TransportMutex"
    and s: "action_step b M w" and M: "M \<subseteq> {DeviceMutex}"
    and ok: "\<not> (\<exists>ev'. upnp_obtain_instanceid L ev = Inr (0, ev')) \<or> \<not> status_query_fails MD (locked TransportMutex w)"
  shows "safe_ev e (action_step b M) (get_position_info L MD ev w)"
proof (cases "\<exists>ev'. upnp_obtain_instanceid L ev = Inr (0, ev')")
  case True
  have m: "may_lock TransportMutex M" "may_lock MpdMutex (insert TransportMutex M)"
    "insert TransportMutex M - {TransportMutex} = M"
    using M by (auto simp: may_lock_def)
  have h: "held w = M" by (rule act.S_held [OF s])
  have l: "lock TransportMutex w = Inr (locked TransportMutex w)"
    using may_lock_not_held [OF m(1)] h by (simp add: lock_locked)
  have "action_step b (insert TransportMutex M) (locked TransportMutex w)"
    using act.S_lock [OF s m(1)] h by (simp add: locked_def)
  from act_of_out(2) [OF this]
  have pos: "safe_st (action_step b (insert TransportMutex M)) (output_update_position MD (locked TransportMutex w))"
    using True ok by (blast intro: out_update_position [OF _ m(2)])
  show ?thesis
    unfolding get_position_info_def l bindE_simps
    by (rule with_instance_safe [where P = "action_step b M", OF e(1) s], rule act.ev_bind, rule pos, rule act.ev_bind, rule act.safe_unlock, assumption,
        rule insertI1, rule m, rule act.safe_ev_append_variables) (use e m in simp_all)
next
  case False
  then have "with_instance L c ev w k = with_instance L c ev w (\<lambda>ev. Inr (0, ev, w))"
    for c and k :: "('a, 'b) output_env_scheme action_event \<Rightarrow> _"
    by (auto simp: with_instance_def bindE_def split: sum.split)
  then have "get_position_info L MD ev w = with_instance L UPNP_TRANSPORT_E_INVALID_IID ev w (\<lambda>ev. Inr (0, ev, w))"
    unfolding get_position_info_def .
  then show ?thesis
    by simp (assumption | rule act_rules ev_rules e s)+
qed

lemma get_position_info_unlocks_twice:
  assumes "upnp_obtain_instanceid L ev = Inr (0, ev')" and "held w \<subseteq> {DeviceMutex}"
    and "status_query_fails MD (locked TransportMutex w)"
  shows "get_position_info L MD ev w = Inl UnlockNotHeld"
proof -
  have "TransportMutex \<notin> held w" "MpdMutex \<notin> held (locked TransportMutex w)"
    using assms(2) by (auto simp: locked_def)
  with assms show ?thesis
    by (simp add: get_position_info_def with_instance_def lock_locked update_position_unlocks_twice)
qed

lemma transport_notify_subscription_safe:
  assumes s: "action_step b M w" and M: "M \<subseteq> {DeviceMutex}"
  shows "safe (action_step b M) (transport_notify_subscription MD w)"
proof -
  have m: "may_lock TransportMutex M" "may_lock MpdMutex (insert TransportMutex M)"
    "insert TransportMutex M - {TransportMutex} = M"
    using M by (auto simp: may_lock_def)
  show ?thesis
    unfolding transport_notify_subscription_def
    by (assumption | rule act_rules safe_rules act.bind act.safe_lock act.safe_unlock s m | (simp; fail))+
qed

lemma connmgr_handlers_safe:
  assumes e: "same_call e ev" "service_mutex (event_service e) = ConnmgrMutex"
    and s: "action_step b M w" and m: "may_lock ConnmgrMutex M"
  shows "safe_ev e (action_step b M) (get_protocol_info L ev w)"
    and "safe_ev e (action_step b M) (get_current_conn_ids L ev w)"
    and "safe_ev e (action_step b M) (get_current_conn_info L ev w)"
  unfolding get_protocol_info_def get_current_conn_ids_def get_current_conn_info_def
  by ((assumption | rule ev_rules act.ev_bind act.safe_ev_append_variable act.safe_ev_append_variables e s m)+)

section \<open>The transport state machine\<close>

text \<open>
  What Play, Pause and Stop are to do, as a machine on the transport state: the state they
  lead to, the player operation they need for it, and whether they are refused. Before any
  state is known (\<open>None\<close>) they do nothing.
\<close>

datatype player_cmd = Play | Pause | Stop

fun next_state :: "player_cmd \<Rightarrow> transport_state option \<Rightarrow> transport_state option" where
  "next_state Play (Some TRANSPORT_STOPPED) = Some TRANSPORT_PLAYING"
| "next_state Play (Some TRANSPORT_PAUSED_PLAYBACK) = Some TRANSPORT_PLAYING"
| "next_state Pause (Some TRANSPORT_PLAYING) = Some TRANSPORT_PAUSED_PLAYBACK"
| "next_state Pause (Some TRANSPORT_PAUSED_PLAYBACK) = Some TRANSPORT_PLAYING"
| "next_state Stop (Some TRANSPORT_PLAYING) = Some TRANSPORT_STOPPED"
| "next_state Stop (Some TRANSPORT_TRANSITIONING) = Some TRANSPORT_STOPPED"
| "next_state Stop (Some TRANSPORT_PAUSED_PLAYBACK) = Some TRANSPORT_STOPPED"
| "next_state c s = s"

definition player_op ::
  "'m mpd_lib \<Rightarrow> player_cmd \<Rightarrow> transport_state option \<Rightarrow> ('m, 'z) output_env_scheme
    \<Rightarrow> (int \<times> ('m, 'z) output_env_scheme) result" where
  "player_op MD c s = (case c of
       Play \<Rightarrow> output_play MD
     | Pause \<Rightarrow> if s = Some TRANSPORT_PLAYING then output_pause MD else output_play MD
     | Stop \<Rightarrow> output_stop MD)"

definition refused :: "player_cmd \<Rightarrow> transport_state option \<Rightarrow> bool" where
  "refused c s \<longleftrightarrow> s = Some TRANSPORT_NO_MEDIA_PRESENT \<or> s = Some TRANSPORT_TRANSITIONING \<and> c \<noteq> Stop"

fun player_handler :: "upnp_lib \<Rightarrow> 'm mpd_lib \<Rightarrow> player_cmd \<Rightarrow> ('m, 'z) output_env_scheme handler" where
  "player_handler L MD Play = xplay L MD"
| "player_handler L MD Pause = xpause L MD"
| "player_handler L MD Stop = xstop L MD"

definition state_notification :: "'w action_event \<Rightarrow> string \<Rightarrow> notification" where
  "state_notification ev txt = \<lparr>DevUDN_sent = DevUDN (request ev), ServiceID_sent = ServiceID (request ev),
     VarNames_sent = [''LastChange''],
     VarValues_sent = [xml_text False (avt_event (''<TransportState val=\"'' @ txt @ ''\"/>''))]\<rparr>"

lemma state_document_escapes:
  assumes "st \<in> {TRANSPORT_STOPPED, TRANSPORT_PLAYING, TRANSPORT_PAUSED_PLAYBACK}"
  shows "xmlescape (avt_event (''<TransportState val=\"'' @ state_text (Some st) @ ''\"/>'')) False
    = Inr (xml_text False (avt_event (''<TransportState val=\"'' @ state_text (Some st) @ ''\"/>'')))"
proof (rule xmlescape_correct_bound)
  show "NUL \<notin> set (avt_event (''<TransportState val=\"'' @ state_text (Some st) @ ''\"/>''))"
    using assms by (auto simp: avt_event_def)
  show "5 * int (length (avt_event (''<TransportState val=\"'' @ state_text (Some st) @ ''\"/>''))) < INT_MAX"
    using assms by (auto simp: avt_event_def INT_MAX_def)
qed

lemma player_transition_run:
  assumes "op w = Inr (0, w1)"
    and st: "st \<in> {TRANSPORT_STOPPED, TRANSPORT_PLAYING, TRANSPORT_PAUSED_PLAYBACK}"
    and tx: "txt = state_text (Some st)"
  shows "player_transition L op msg st txt ev w = Inr (0, ev, w1\<lparr>transport_state := Some st,
     transport_values := (transport_values w1)(TRANSPORT_VAR_TRANSPORT_STATE \<mapsto> txt,
       TRANSPORT_VAR_LAST_CHANGE \<mapsto> avt_event (''<TransportState val=\"'' @ txt @ ''\"/>'')),
     notifications := notifications w1 @ [state_notification ev txt]\<rparr>)"
proof -
  have name: "fmt_s (transport_variables TRANSPORT_VAR_TRANSPORT_STATE) = ''TransportState''"
    by (simp add: transport_variables_def)
  show ?thesis
    using assms(1) transport_change_var_run [of TRANSPORT_VAR_TRANSPORT_STATE
        "avt_event (''<TransportState val=\"'' @ txt @ ''\"/>'')" "txt" ev "w1\<lparr>transport_state := Some st\<rparr>"]
      state_document_escapes [OF st]
    by (simp add: player_transition_def name tx state_notification_def)
qed

text \<open>Inside the mutex, once the connection is checked.\<close>

definition transport_switch ::
  "upnp_lib \<Rightarrow> 'm mpd_lib \<Rightarrow> player_cmd \<Rightarrow> ('m, 'z) output_env_scheme action_event \<Rightarrow> ('m, 'z) output_env_scheme
    \<Rightarrow> (int \<times> ('m, 'z) output_env_scheme action_event \<times> ('m, 'z) output_env_scheme) result" where
  "transport_switch L MD c ev w =
     (let s = transport_state w in
      if refused c s then
        Inr (if c = Play then - 1 else 0, upnp_set_error L ev 701 ''Transition not allowed'', w)
      else if next_state c s = s then Inr (0, ev, w)
      else player_transition L (player_op MD c s)
        (if c = Stop then ''Player Stop failed''
         else if c = Pause \<and> s = Some TRANSPORT_PLAYING then ''Player Pause failed''
         else ''Player Start failed'')
        (the (next_state c s)) (state_text (next_state c s)) ev w)"

lemma player_handler_switch:
  "player_handler L MD c ev w = with_instance L 718 ev w (\<lambda>ev.
     with_connection MD ev w (in_transport (transport_switch L MD c ev)))"
proof -
  have "(\<lambda>w. case transport_state w of None \<Rightarrow> Inr (0, ev, w) | Some s \<Rightarrow> f w s) = transport_switch L MD c ev"
    if "\<And>w. transport_state w = None \<Longrightarrow> transport_switch L MD c ev w = Inr (0, ev, w)"
      and "\<And>w s. transport_state w = Some s \<Longrightarrow> transport_switch L MD c ev w = f w s" for ev f
    using that by (auto simp: fun_eq_iff split: option.split)
  note switch = this
  have none: "transport_switch L MD c ev w = Inr (0, ev, w)" if "transport_state w = None" for ev w
    using that by (cases c) (simp_all add: transport_switch_def refused_def)
  show ?thesis
  proof (cases c)
    case Play
    show ?thesis unfolding Play player_handler.simps xplay_def
      by (subst switch [OF none, unfolded Play])
        (auto simp: transport_switch_def refused_def player_op_def split: transport_state.split)
  next
    case Pause
    show ?thesis unfolding Pause player_handler.simps xpause_def
      by (subst switch [OF none, unfolded Pause])
        (auto simp: transport_switch_def refused_def player_op_def split: transport_state.split)
  next
    case Stop
    show ?thesis unfolding Stop player_handler.simps xstop_def
      by (subst switch [OF none, unfolded Stop])
        (auto simp: transport_switch_def refused_def player_op_def split: transport_state.split)
  qed
qed

lemma next_state_moved:
  assumes "next_state c s \<noteq> s"
  shows "\<not> refused c s" "\<exists>st\<in>{TRANSPORT_STOPPED, TRANSPORT_PLAYING, TRANSPORT_PAUSED_PLAYBACK}. next_state c s = Some st"
  using assms by (cases "(c, s)" rule: next_state.cases; simp add: refused_def)+

lemma in_transport_run:
  assumes "TransportMutex \<notin> held w" and "body (locked TransportMutex w) = Inr (rc, ev, w')"
    and "TransportMutex \<in> held w'"
  shows "in_transport body w = Inr (rc, ev, w'\<lparr>held := held w' - {TransportMutex}\<rparr>)"
  using assms by (simp add: in_transport_def lock_def unlock_def locked_def)

lemma player_op_out:
  assumes "player_op MD c s w = Inr (rc, w')" and "may_lock MpdMutex (held w)"
  shows "out_step w (held w) w'"
proof -
  have "safe (out_step w (held w)) (player_op MD c s w)"
    unfolding player_op_def output_play_def output_pause_def output_stop_def
    using out_player_command [OF out_step_refl [OF refl] assms(2)] by (auto split: player_cmd.split)
  with assms(1) show ?thesis by (simp add: safe_def)
qed

text \<open>
  C5. Play, Pause and Stop implement the transport state machine: with an accepted
  instance id and a player that carries the command out, the state afterwards is the one
  the machine prescribes, its text is in the TransportState variable, exactly one
  LastChange notification with that text is sent when the state moves and none when it does
  not, a command the state does not allow leaves the event in error, and no mutex stays
  locked. Only Play returns an error for a refused command, Pause and Stop return success.
\<close>

theorem player_commands_refine:
  assumes req: "ActionRequest (request ev) = Some (request_doc act args)"
      "map_of args ''InstanceID'' = Some i" "atoi i = 0"
    and conn: "check_mpd_connection MD True w = Inr (st, w1)" "st \<noteq> STATUS_FAIL" and held: "held w = {}"
    and op: "next_state c (transport_state w1) \<noteq> transport_state w1 \<Longrightarrow>
      player_op MD c (transport_state w1) (locked TransportMutex w1) = Inr (0, w2)"
  shows "\<exists>ev' w'. player_handler L MD c ev w
        = Inr (if refused c (transport_state w1) \<and> c = Play then - 1 else 0, ev', w')
    \<and> held w' = {}
    \<and> transport_state w' = next_state c (transport_state w1)
    \<and> event_status ev' = (if refused c (transport_state w1) then - 1 else event_status ev)
    \<and> (if next_state c (transport_state w1) = transport_state w1
       then notifications w' = notifications w \<and> transport_values w' = transport_values w1
       else notifications w' = notifications w
              @ [state_notification ev (state_text (next_state c (transport_state w1)))]
         \<and> transport_values w' TRANSPORT_VAR_TRANSPORT_STATE
              = Some (state_text (next_state c (transport_state w1))))"
proof -
  have "safe (out_step w {}) (check_mpd_connection MD True w)"
    by (rule out_check_mpd_connection [OF out_step_refl [OF held]]) simp
  then have w1: "held w1 = {}" "notifications w1 = notifications w"
    using conn(1) by (simp_all add: safe_def out_step_def)
  have run: "player_handler L MD c ev w = in_transport (transport_switch L MD c ev) w1"
    unfolding player_handler_switch with_instance_pass [OF req] with_connection_def conn(1)
    using conn(2) by simp
  let ?u = "locked TransportMutex w1" and ?s = "transport_state w1"
  have s: "transport_state ?u = ?s" "notifications ?u = notifications w" "transport_values ?u = transport_values w1"
    "held ?u = {TransportMutex}"
    using w1 by (simp_all add: locked_def)
  show ?thesis
  proof (cases "next_state c ?s = ?s")
    case True
    then have "transport_switch L MD c ev ?u = Inr (if refused c ?s \<and> c = Play then - 1 else 0,
        if refused c ?s then upnp_set_error L ev 701 ''Transition not allowed'' else ev, ?u)"
      unfolding transport_switch_def Let_def s by auto
    with in_transport_run [where body = "transport_switch L MD c ev", OF _ this] w1 s True show ?thesis
      unfolding run by simp
  next
    case False
    obtain q where q: "next_state c ?s = Some q"
        "q \<in> {TRANSPORT_STOPPED, TRANSPORT_PLAYING, TRANSPORT_PAUSED_PLAYBACK}"
      using next_state_moved(2) [OF False] by blast
    have w2: "held w2 = {TransportMutex}" "notifications w2 = notifications w"
      using player_op_out [OF op [OF False]] w1 by (simp_all add: out_step_def)
    have "transport_switch L MD c ev ?u = Inr (0, ev, w2\<lparr>transport_state := Some q,
       transport_values := (transport_values w2)(TRANSPORT_VAR_TRANSPORT_STATE \<mapsto> state_text (Some q),
         TRANSPORT_VAR_LAST_CHANGE \<mapsto> avt_event (''<TransportState val=\"'' @ state_text (Some q) @ ''\"/>'')),
       notifications := notifications w2 @ [state_notification ev (state_text (Some q))]\<rparr>)"
      using player_transition_run [where op = "player_op MD c ?s", OF op [OF False] q(2) refl]
        next_state_moved(1) [OF False] False
      by (simp add: transport_switch_def s q(1))
    from in_transport_run [where body = "transport_switch L MD c ev", OF _ this] w1 w2 q False next_state_moved(1) [OF False] show ?thesis
      unfolding run by simp
  qed
qed

theorem player_commands_refine_witness:
  "\<exists>ev' w'. player_handler sample_lib sample_mpd Pause
       (sample_event transport_vars ''Pause'' [(''InstanceID'', ''0'')])
       (sample_output\<lparr>transport_state := Some TRANSPORT_PLAYING, test_mode := True\<rparr>) = Inr (0, ev', w')
     \<and> transport_state w' = Some TRANSPORT_PAUSED_PLAYBACK \<and> length (notifications w') = 1"
proof -
  let ?w = "sample_output\<lparr>transport_state := Some TRANSPORT_PLAYING, test_mode := True\<rparr>"
  have "atoi ''0'' = 0" using atoi_fmt_d [of 0] by (simp add: fmt_d_def dec_digits_small digit_char_def INT_MAX_def)
  then show ?thesis
    using player_commands_refine [of "sample_event transport_vars ''Pause'' [(''InstanceID'', ''0'')]"
        "''Pause''" "[(''InstanceID'', ''0'')]" "''0''" sample_mpd ?w STATUS_TEST ?w Pause
        "locked TransportMutex ?w" sample_lib]
    by (auto simp: check_mpd_connection_def sample_output_def player_op_def output_pause_def
        player_command_def locked_def refused_def)
qed

end
