(* ===== verification/Transport_Replies.thy ===== *)
theory Transport_Replies
  imports Transport_Facts
begin

text \<open>
  The replies of AVTransport and the effect of SetAVTransportURI: what each query answers
  with, what a request with a bad instance id does, and what setting a track stores, sends
  to the player and announces.
\<close>

section \<open>Queries\<close>

lemma transport_vars_simps [simp]:
  "service_mutex transport_vars = TransportMutex" "variable_values transport_vars = transport_values"
  "variable_count transport_vars = TRANSPORT_VAR_UNKNOWN" "mutex_free_vars transport_vars"
  "variable_defaults transport_vars = Some transport_defaults"
  by (simp_all add: transport_vars_def mutex_free_vars_def)

text \<open>The value a reply gives a variable: the current one, or the default.\<close>

definition tvalue :: "nat \<Rightarrow> ('m, 'z) output_env_scheme \<Rightarrow> string" where
  "tvalue n w = the (get_service_var transport_vars n w)"

lemma tvalue_set: "transport_values w n = Some v \<Longrightarrow> tvalue n w = v"
  by (simp add: tvalue_def get_service_var_def)

declare append_variables.simps [simp del]

lemma append_transport_variables:
  assumes "adds_succeed L" and "event_status ev = 0" "event_service ev = transport_vars"
    and "TransportMutex \<notin> held w" and "\<forall>(n, k)\<in>set vs. n < TRANSPORT_VAR_UNKNOWN" and "vs \<noteq> []"
  shows "append_variables L ev vs w
    = Inr (0, answered L ev (map (\<lambda>(n, k). (k, tvalue n w)) vs), lock_edges TransportMutex w)"
  using assms append_variables_answered [of L ev transport_vars TransportMutex w vs]
  by (simp add: tvalue_def)

text \<open>
  C28. GetMediaInfo answers with nine variables, in the order of its declared arguments, and
  changes none. Eight are the declared ones; PlayMedium is answered with the possible
  recording media instead of the playback medium it is declared as.
\<close>

theorem get_media_info_reply:
  assumes req: "ActionRequest (request ev) = Some (request_doc act args)"
      "map_of args ''InstanceID'' = Some i" "atoi i = 0"
    and ev: "event_status ev = 0" "event_service ev = transport_vars"
    and L: "adds_succeed L" and w: "TransportMutex \<notin> held w"
  shows "get_media_info L ev w = Inr (0, answered L ev
       (map (\<lambda>a. (arg_name a, tvalue (if arg_name a = ''PlayMedium'' then TRANSPORT_VAR_REC_MEDIA else statevar a) w))
          (tl arguments_getmediainfo)),
     lock_edges TransportMutex w)
   \<and> statevar (arguments_getmediainfo ! 7) = TRANSPORT_VAR_PLAY_MEDIUM"
  unfolding get_media_info_def with_instance_pass [OF req]
  using assms(4-) by (simp add: append_transport_variables del: One_nat_def) (simp add: arguments_getmediainfo_def)

theorem get_media_info_reply_witness:
  "\<exists>ev w. get_media_info sample_lib (sample_event transport_vars ''GetMediaInfo'' [(''InstanceID'', ''0'')]) sample_output
      = Inr (0, ev, w)
    \<and> child_nodes (the (ActionResult (request ev))) ! 6 = Element ''PlayMedium'' [] [TextNode ''NOT_IMPLEMENTED'']"
proof -
  have a: "atoi ''0'' = 0" by code_simp
  show ?thesis
    using get_media_info_reply [of "sample_event transport_vars ''GetMediaInfo'' [(''InstanceID'', ''0'')]" "''GetMediaInfo''"
        "[(''InstanceID'', ''0'')]" "''0''" sample_lib sample_output]
    by (simp add: a sample_output_def tvalue_def get_service_var_def transport_defaults_def add_all_def arguments_getmediainfo_def)
      (simp add: sample_lib_def)
qed

text \<open>
  GetTransportSettings names neither of its arguments as declared: it answers with
  CurrentPlayMode and CurrentRecordQualityMode, the description declares PlayMode and
  RecQualityMode.
\<close>

lemma get_transport_settings_reply:
  assumes req: "ActionRequest (request ev) = Some (request_doc act args)"
      "map_of args ''InstanceID'' = Some i" "atoi i = 0"
    and ev: "event_status ev = 0" "event_service ev = transport_vars"
    and L: "adds_succeed L" and w: "TransportMutex \<notin> held w"
  shows "get_transport_settings L ev w = Inr (0, answered L ev
      [(''CurrentPlayMode'', tvalue TRANSPORT_VAR_CUR_PLAY_MODE w),
       (''CurrentRecordQualityMode'', tvalue TRANSPORT_VAR_CUR_REC_QUAL_MODE w)], lock_edges TransportMutex w)
   \<and> {''CurrentPlayMode'', ''CurrentRecordQualityMode''} \<inter> arg_name ` set arguments_gettransportsettings = {}"
  unfolding get_transport_settings_def with_instance_pass [OF req]
  using assms(4-) by (simp add: append_transport_variables del: One_nat_def) (simp add: arguments_gettransportsettings_def)

lemma get_transport_settings_reply_witness:
  "\<exists>ev w. get_transport_settings sample_lib
        (sample_event transport_vars ''GetTransportSettings'' [(''InstanceID'', ''0'')]) sample_output = Inr (0, ev, w)
    \<and> ActionResult (request ev) = Some (Element ''GetTransportSettingsResponse'' []
        [Element ''CurrentPlayMode'' [] [TextNode ''NORMAL''],
         Element ''CurrentRecordQualityMode'' [] [TextNode ''NOT_IMPLEMENTED'']])"
proof -
  have a: "atoi ''0'' = 0" by code_simp
  show ?thesis
    using get_transport_settings_reply [of "sample_event transport_vars ''GetTransportSettings'' [(''InstanceID'', ''0'')]"
        "''GetTransportSettings''" "[(''InstanceID'', ''0'')]" "''0''" sample_lib sample_output]
    by (simp add: a sample_output_def tvalue_def get_service_var_def transport_defaults_def add_all_def)
      (simp add: sample_lib_def)
qed

text \<open>
  C19. GetPositionInfo, asked while MPD answers: the reply carries the elapsed time MPD
  reports as RelTime and AbsTime, text that reads back to it, the number of the track
  counted from one, and the transport state follows MPD. All mutexes are given back.
\<close>

theorem get_position_info_reply:
  assumes req: "ActionRequest (request ev) = Some (request_doc act args)"
      "map_of args ''InstanceID'' = Some i" "atoi i = 0"
    and ev: "event_status ev = 0" "event_service ev = transport_vars" and L: "adds_succeed L"
    and w: "\<not> test_mode w" "mpd_conn w" "held w = {}"
    and st: "mpd_run_status MD (mpd w) = (Some st, m)" and pos: "sint (status_song_pos st) < INT_MAX"
  shows "\<exists>w' kvs. get_position_info L MD ev w = Inr (0, answered L ev kvs, w') \<and> held w' = {}
    \<and> map fst kvs = map arg_name (tl arguments_getpositioninfo)
    \<and> map_of kvs ''Track'' = Some (snprintf 6 (fmt_d (sint (status_song_pos st) + 1)))
    \<and> map_of kvs ''RelTime'' = Some (hh_mm_ss (sint (status_elapsed_time st)))
    \<and> map_of kvs ''AbsTime'' = map_of kvs ''RelTime''
    \<and> (\<forall>s. reported_state (status_state st) = Some s \<longrightarrow> transport_state w' = Some s)"
proof -
  let ?u = "locked TransportMutex w"
  obtain u where u: "output_update_position MD ?u = Inr u" "held u = {TransportMutex}"
      "transport_values u TRANSPORT_VAR_REL_TIME_POS = Some (hh_mm_ss (sint (status_elapsed_time st)))"
      "transport_values u TRANSPORT_VAR_ABS_TIME_POS = transport_values u TRANSPORT_VAR_REL_TIME_POS"
      "transport_values u TRANSPORT_VAR_CUR_TRACK = Some (snprintf 6 (fmt_d (sint (status_song_pos st) + 1)))"
      "\<forall>s. reported_state (status_state st) = Some s \<longrightarrow> transport_state u = Some s"
    using output_update_position_run [of ?u MD st m, OF _ _ _ _ pos] w st by auto
  let ?v = "u\<lparr>held := {}\<rparr>"
  let ?vs = "[(TRANSPORT_VAR_CUR_TRACK, ''Track''), (TRANSPORT_VAR_CUR_TRACK_DUR, ''TrackDuration''),
      (TRANSPORT_VAR_CUR_TRACK_META, ''TrackMetaData''), (TRANSPORT_VAR_CUR_TRACK_URI, ''TrackURI''),
      (TRANSPORT_VAR_REL_TIME_POS, ''RelTime''), (TRANSPORT_VAR_ABS_TIME_POS, ''AbsTime''),
      (TRANSPORT_VAR_REL_CTR_POS, ''RelCount''), (TRANSPORT_VAR_ABS_CTR_POS, ''AbsCount'')]"
  have run: "get_position_info L MD ev w
      = Inr (0, answered L ev (map (\<lambda>(n, k). (k, tvalue n ?v)) ?vs), lock_edges TransportMutex ?v)"
    unfolding get_position_info_def with_instance_pass [OF req]
    using w u(1,2) append_transport_variables [OF L ev, of ?v ?vs]
    by (simp add: lock_locked unlock_def del: One_nat_def)
  have vals: "tvalue TRANSPORT_VAR_CUR_TRACK ?v = snprintf 6 (fmt_d (sint (status_song_pos st) + 1))"
    "tvalue TRANSPORT_VAR_REL_TIME_POS ?v = hh_mm_ss (sint (status_elapsed_time st))"
    "tvalue TRANSPORT_VAR_ABS_TIME_POS ?v = hh_mm_ss (sint (status_elapsed_time st))"
    using u(3-5) by (simp_all add: tvalue_set)
  show ?thesis
    by (rule exI [of _ "lock_edges TransportMutex ?v"], rule exI [of _ "map (\<lambda>(n, k). (k, tvalue n ?v)) ?vs"])
      (use run u(6) vals in \<open>simp add: arguments_getpositioninfo_def lock_edges_def\<close>)
qed

theorem get_position_info_reply_witness:
  "\<exists>ev w. get_position_info sample_lib sample_mpd
        (sample_event transport_vars ''GetPositionInfo'' [(''InstanceID'', ''0'')]) sample_output = Inr (0, ev, w)
    \<and> transport_state w = Some TRANSPORT_PLAYING"
proof -
  have a: "atoi ''0'' = 0" by code_simp
  have s: "sint (65 :: 32 word) = 65" "sint (0 :: 32 word) = 0" by simp_all
  show ?thesis
    using get_position_info_reply [of "sample_event transport_vars ''GetPositionInfo'' [(''InstanceID'', ''0'')]"
        "''GetPositionInfo''" "[(''InstanceID'', ''0'')]" "''0''" sample_lib sample_output sample_mpd sample_status "[]"] a
    by (auto simp: sample_output_def sample_mpd_def sample_status_def s INT_MAX_def reported_state_def)
qed

section \<open>Refused instances\<close>

definition instance_refused :: "(string \<times> string) list \<Rightarrow> bool" where
  "instance_refused args \<longleftrightarrow> (case map_of args ''InstanceID'' of None \<Rightarrow> True | Some i \<Rightarrow> atoi i \<noteq> 0)"

lemma obtain_instanceid_refused:
  assumes "ActionRequest (request ev) = Some (request_doc act args)" and "instance_refused args"
  shows "\<exists>ev'. upnp_obtain_instanceid L ev = Inr (- 1, ev') \<and> same_call ev ev'"
proof (cases "map_of args ''InstanceID''")
  case None
  then show ?thesis
    using upnp_get_string_missing [OF assms(1) None]
    by (simp add: upnp_obtain_instanceid_def)
next
  case (Some i)
  then show ?thesis
    using assms(2) upnp_get_string_arg [OF assms(1) Some]
    by (simp add: upnp_obtain_instanceid_def instance_refused_def)
qed

text \<open>How a handler refuses: an error, no reply document, the state as it was.\<close>

definition refuses ::
  "upnp_lib \<Rightarrow> 'z env_scheme action_event \<Rightarrow> 'z env_scheme \<Rightarrow> (int \<times> 'z env_scheme action_event \<times> 'z env_scheme) result \<Rightarrow> bool" where
  "refuses L ev w m \<longleftrightarrow> (\<exists>ev' w'. m = Inr (- 1, ev', w') \<and> same_call ev ev' \<and> event_status ev' = - 1
     \<and> ErrCode (request ev') = UPNP_SOAP_E_ACTION_FAILED L
     \<and> ErrStr (request ev') \<noteq> [] \<and> ActionResult (request ev') = None \<and> w'\<lparr>lock_order := lock_order w\<rparr> = w)"

lemma set_error_refuses:
  assumes "same_call ev ev'" and "msg \<noteq> []" and "1 < LINE_SIZE L"
  shows "refuses L ev w (Inr (- 1, upnp_set_error L ev' c msg, w))"
proof -
  have "same_call ev (upnp_set_error L ev' c msg)" using assms(1) by simp
  with assms(2,3) show ?thesis by (auto simp: refuses_def) (auto simp: upnp_set_error_def snprintf_def)
qed

lemma with_instance_refuses:
  assumes "ActionRequest (request ev) = Some (request_doc act args)" and "instance_refused args"
    and "1 < LINE_SIZE L"
  shows "refuses L ev w (with_instance L c ev w k)"
proof -
  obtain ev' where "upnp_obtain_instanceid L ev = Inr (- 1, ev')" "same_call ev ev'"
    using obtain_instanceid_refused [OF assms(1,2)] by blast
  then show ?thesis
    using set_error_refuses [of ev ev' "''ID non-zero invalid''" L w c] assms(3)
    by (simp add: with_instance_def)
qed

lemma get_transport_info_refuses:
  assumes "ActionRequest (request ev) = Some (request_doc act args)" and "instance_refused args"
    and "event_service ev = transport_vars" and "TransportMutex \<notin> held w" and "1 < LINE_SIZE L"
  shows "refuses L ev w (get_transport_info L ev w)"
proof -
  obtain ev' where ev': "upnp_obtain_instanceid L ev = Inr (- 1, ev')" "same_call ev ev'"
    using obtain_instanceid_refused [OF assms(1,2)] by blast
  let ?e = "upnp_set_error L ev' 718 ''ID non-zero invalid''"
  have e: "event_status ?e \<noteq> 0" "event_service ?e = transport_vars"
    using ev'(2) assms(3) by (simp_all add: upnp_set_error_def same_call_def)
  obtain v where "get_service_var transport_vars TRANSPORT_VAR_TRANSPORT_STATE (locked TransportMutex w) = Some v"
    using get_service_var_not_NULL by fastforce
  then have "get_transport_info L ev w = Inr (- 1, ?e, lock_edges TransportMutex w)"
    using ev'(1) e assms(4)
    by (simp add: get_transport_info_def Let_def append_variables.simps upnp_append_variable_def lock_locked
        upnp_add_response_def unlock_def lock_edges_def locked_def unlock_after_lock)
  then show ?thesis
    using set_error_refuses [OF ev'(2), of "''ID non-zero invalid''" L w 718] assms(5)
    by (auto simp: refuses_def lock_edges_def)
qed

lemma transport_callbacks:
  "{cb. \<exists>a\<in>set (transport_actions L MD). callback a = Some cb} = {get_media_info L, get_transport_info L,
     get_transport_settings L, get_position_info L MD, get_device_caps L, set_avtransport_uri L MD, xplaymode L MD,
     xstop L MD, xplay L MD, xpause L MD, xseek L MD, xnext L MD, xprevious L MD}"
  by (simp add: transport_actions_def array_of_def upt_rec) blast

lemma transport_handlers_refuse:
  assumes "ActionRequest (request ev) = Some (request_doc act args)" and "instance_refused args"
    and "event_service ev = transport_vars" and "TransportMutex \<notin> held w" and "1 < LINE_SIZE L"
    and "a \<in> set (transport_actions L MD)" and "callback a = Some cb"
  shows "refuses L ev w (cb ev w)"
proof -
  note r = with_instance_refuses [OF assms(1,2,5)] get_transport_info_refuses [OF assms(1-5)]
  have "refuses L ev w (get_media_info L ev w)" "refuses L ev w (get_transport_settings L ev w)"
    "refuses L ev w (get_position_info L MD ev w)" "refuses L ev w (get_device_caps L ev w)"
    "refuses L ev w (set_avtransport_uri L MD ev w)" "refuses L ev w (xplaymode L MD ev w)"
    "refuses L ev w (xstop L MD ev w)" "refuses L ev w (xplay L MD ev w)" "refuses L ev w (xpause L MD ev w)"
    "refuses L ev w (xseek L MD ev w)" "refuses L ev w (xnext L MD ev w)" "refuses L ev w (xprevious L MD ev w)"
    unfolding get_media_info_def get_transport_settings_def get_position_info_def get_device_caps_def
      set_avtransport_uri_def xplaymode_def xstop_def xplay_def xpause_def xseek_def xnext_def xprevious_def
    by (rule r)+
  moreover have "cb \<in> {get_media_info L, get_transport_info L, get_transport_settings L, get_position_info L MD,
      get_device_caps L, set_avtransport_uri L MD, xplaymode L MD, xstop L MD, xplay L MD, xpause L MD,
      xseek L MD, xnext L MD, xprevious L MD}"
    using assms(6,7) by (subst transport_callbacks [of L MD, symmetric]) blast
  ultimately show ?thesis using r(2) by auto
qed

section \<open>Setting the track\<close>

text \<open>A text short enough that a document of five of them can be escaped.\<close>

definition plain :: "string \<Rightarrow> bool" where
  "plain v \<longleftrightarrow> NUL \<notin> set v \<and> length v \<le> 1000000"

definition state_document :: "'z transport_env_scheme \<Rightarrow> string" where
  "state_document w =
     (if transport_values w TRANSPORT_VAR_CUR_TRACK_URI = Some [] then
        avt_event (avt_value TRANSPORT_VAR_TRANSPORT_STATE w @ avt_value TRANSPORT_VAR_TRANSPORT_STATUS w)
      else
        avt_event (avt_value TRANSPORT_VAR_TRANSPORT_STATE w @ avt_value TRANSPORT_VAR_TRANSPORT_STATUS w
          @ avt_value TRANSPORT_VAR_CUR_TRACK_URI w @ avt_value TRANSPORT_VAR_CUR_TRACK_META w
          @ avt_value TRANSPORT_VAR_CUR_TRACK_DUR w))"

lemma early_name:
  assumes "n \<in> early_vars"
  shows "NUL \<notin> set (fmt_s (transport_variables n)) \<and> length (fmt_s (transport_variables n)) \<le> 30"
  using assms by (auto simp: early_vars_def transport_variables_def)

lemma avt_value_plain:
  assumes "n \<in> early_vars" and "\<exists>v. transport_values w n = Some v \<and> plain v"
  shows "NUL \<notin> set (avt_value n w) \<and> length (avt_value n w) \<le> 1000040"
  using assms(2) early_name [OF assms(1)] by (auto simp: avt_value_def plain_def)

lemma state_document_ready:
  assumes vals: "\<forall>n\<in>early_vars. \<exists>v. transport_values w n = Some v \<and> plain v"
  shows "transport_get_state_lastchange w = Inr (state_document w)"
    and "xmlescape (state_document w) False = Inr (xml_text False (state_document w))"
proof -
  have e: "{TRANSPORT_VAR_TRANSPORT_STATE, TRANSPORT_VAR_TRANSPORT_STATUS, TRANSPORT_VAR_CUR_TRACK_URI,
      TRANSPORT_VAR_CUR_TRACK_META, TRANSPORT_VAR_CUR_TRACK_DUR} \<subseteq> early_vars"
    by (simp add: early_vars_def)
  obtain u where "transport_values w TRANSPORT_VAR_CUR_TRACK_URI = Some u"
    using vals e by blast
  then show "transport_get_state_lastchange w = Inr (state_document w)"
    by (simp add: transport_get_state_lastchange_def state_document_def)
  have v: "NUL \<notin> set (avt_value n w) \<and> length (avt_value n w) \<le> 1000040" if "n \<in> early_vars" for n
    using avt_value_plain [OF that] vals that by blast
  note vs = v [of TRANSPORT_VAR_TRANSPORT_STATE] v [of TRANSPORT_VAR_TRANSPORT_STATUS]
    v [of TRANSPORT_VAR_CUR_TRACK_URI] v [of TRANSPORT_VAR_CUR_TRACK_META] v [of TRANSPORT_VAR_CUR_TRACK_DUR]
  show "xmlescape (state_document w) False = Inr (xml_text False (state_document w))"
  proof (rule xmlescape_correct_bound)
    show "NUL \<notin> set (state_document w)"
      using vs e by (auto simp: state_document_def avt_event_def)
    have "length (state_document w) \<le> 5001000"
      using vs e by (auto simp: state_document_def avt_event_def)
    then show "5 * int (length (state_document w)) < INT_MAX"
      by (simp add: INT_MAX_def)
  qed
qed

text \<open>The attribute \<open>transport_get_attr_metadata\<close> reads from a metadata text.\<close>

definition metadata_attr :: "upnp_lib \<Rightarrow> string \<Rightarrow> string \<Rightarrow> string option" where
  "metadata_attr L key md =
     (if md = [] then None
      else Option.bind (ixmlParseBuffer L md) (\<lambda>doc.
           Option.bind (ixmlDocument_getElementById L doc ''res'') (\<lambda>elm. ixmlElement_getAttribute L elm key)))"

lemma transport_get_attr_metadata_eq:
  "transport_values w TRANSPORT_VAR_AV_URI_META = Some md \<Longrightarrow>
     transport_get_attr_metadata L key w = Inr (metadata_attr L key md)"
  by (simp add: transport_get_attr_metadata_def metadata_attr_def split: option.split)

lemma output_set_uri_run:
  assumes "MpdMutex \<notin> held w" and "mpd_conn w \<Longrightarrow> \<forall>c m. fst (mpd_command MD c m)"
  shows "output_set_uri MD uri w = Inr (if mpd_conn w then (lock_edges MpdMutex w)\<lparr>mpd :=
      snd (mpd_command MD (mpd_run_add uri) (snd (mpd_command MD mpd_run_clear (mpd w))))\<rparr> else w)"
  using assms
  by (simp add: output_set_uri_def on_conn_def lock_def unlock_def lock_edges_def unlock_after_lock split_beta)

lemma set_var_option:
  "n < TRANSPORT_VAR_UNKNOWN \<Longrightarrow> transport_set_var n v w = Inr (w\<lparr>transport_values :=
     (transport_values w)(n := (case v of None \<Rightarrow> transport_values w n | Some x \<Rightarrow> Some x))\<rparr>)"
  by (cases v) simp_all

text \<open>
  C20. SetAVTransportURI: the URI and its metadata are stored, the track's duration is taken
  from the metadata when they have one, the transport is stopped, and one LastChange
  notification with the new state goes out. The player's queue is cleared and gets the URI,
  but only if there is a connection; without one the action succeeds all the same and the
  player never learns of it. The current track's URI, which the notification carries, is
  not updated.
\<close>

theorem set_avtransport_uri_spec:
  assumes req: "ActionRequest (request ev) = Some (request_doc act args)"
      "map_of args ''InstanceID'' = Some i" "atoi i = 0"
      "map_of args ''CurrentURI'' = Some uri" "map_of args ''CurrentURIMetaData'' = Some md"
    and w: "held w = {}" "mpd_conn w \<Longrightarrow> \<forall>c m. fst (mpd_command MD c m)"
    and vals: "\<forall>n\<in>early_vars. \<exists>v. transport_values w n = Some v \<and> plain v"
    and dur: "\<And>d. metadata_attr L ''duration'' md = Some d \<Longrightarrow> plain d"
  shows "\<exists>w'. set_avtransport_uri L MD ev w = Inr (0, ev, w') \<and> held w' = {}
    \<and> mpd w' = (if mpd_conn w
        then snd (mpd_command MD (mpd_run_add uri) (snd (mpd_command MD mpd_run_clear (mpd w)))) else mpd w)
    \<and> transport_state w' = Some TRANSPORT_STOPPED
    \<and> transport_values w' = (transport_values w)
        (TRANSPORT_VAR_AV_URI \<mapsto> uri, TRANSPORT_VAR_AV_URI_META \<mapsto> md,
         TRANSPORT_VAR_CUR_TRACK_DUR := (case metadata_attr L ''duration'' md of
            None \<Rightarrow> transport_values w TRANSPORT_VAR_CUR_TRACK_DUR | Some d \<Rightarrow> Some d),
         TRANSPORT_VAR_TRANSPORT_STATE \<mapsto> ''STOPPED'', TRANSPORT_VAR_LAST_CHANGE \<mapsto> state_document w')
    \<and> notifications w' = notifications w
        @ [\<lparr>DevUDN_sent = DevUDN (request ev), ServiceID_sent = ServiceID (request ev),
            VarNames_sent = [''LastChange''], VarValues_sent = [xml_text False (state_document w')]\<rparr>]"
proof -
  let ?u = "locked TransportMutex w"
  define w1 where "w1 = (if mpd_conn w then (lock_edges MpdMutex ?u)\<lparr>mpd :=
      snd (mpd_command MD (mpd_run_add uri) (snd (mpd_command MD mpd_run_clear (mpd w))))\<rparr> else ?u)"
  have set_uri: "output_set_uri MD uri ?u = Inr w1"
    using output_set_uri_run [of ?u MD uri] w by (simp add: w1_def)
  have w1: "held w1 = {TransportMutex}" "transport_values w1 = transport_values w"
    "notifications w1 = notifications w"
    "mpd w1 = (if mpd_conn w
        then snd (mpd_command MD (mpd_run_add uri) (snd (mpd_command MD mpd_run_clear (mpd w)))) else mpd w)"
    using w(1) by (simp_all add: w1_def lock_edges_def)
  let ?tv = "(transport_values w)
        (TRANSPORT_VAR_AV_URI \<mapsto> uri, TRANSPORT_VAR_AV_URI_META \<mapsto> md,
         TRANSPORT_VAR_CUR_TRACK_DUR := (case metadata_attr L ''duration'' md of
            None \<Rightarrow> transport_values w TRANSPORT_VAR_CUR_TRACK_DUR | Some d \<Rightarrow> Some d),
         TRANSPORT_VAR_TRANSPORT_STATE \<mapsto> ''STOPPED'')"
  let ?w3 = "w1\<lparr>transport_state := Some TRANSPORT_STOPPED, transport_values := ?tv\<rparr>"
  have "\<forall>n\<in>early_vars. \<exists>v. transport_values ?w3 n = Some v \<and> plain v"
    using vals dur by (auto simp: plain_def early_vars_def split: option.split)
  note doc = state_document_ready [OF this]
  let ?w4 = "?w3\<lparr>held := {}, notifications := notifications w @
        [\<lparr>DevUDN_sent = DevUDN (request ev), ServiceID_sent = ServiceID (request ev),
          VarNames_sent = [''LastChange''], VarValues_sent = [xml_text False (state_document ?w3)]\<rparr>],
      transport_values := ?tv(TRANSPORT_VAR_LAST_CHANGE \<mapsto> state_document ?w3)\<rparr>"
  have same: "state_document ?w4 = state_document ?w3"
    by (simp add: state_document_def avt_value_def)
  have "set_avtransport_uri L MD ev w = Inr (0, ev, ?w4)"
    unfolding set_avtransport_uri_def with_instance_pass [OF req(1-3)]
    using w(1) w1 set_uri doc upnp_get_string_arg [OF req(1,4)] upnp_get_string_arg [OF req(1,5)]
    by (simp add: lock_locked transport_get_attr_metadata_eq set_var_option unlock_def
        transport_notify_lastchange_def fun_upd_twist cong: option.case_cong)
  with w1 same show ?thesis
    by (intro exI [of _ ?w4]) simp
qed

lemma transport_init_plain:
  "\<forall>n\<in>early_vars. \<exists>v. transport_values (transport_init w) n = Some v \<and> plain v"
  by (simp add: transport_init_def early_vars_def transport_defaults_def plain_def)

theorem set_avtransport_uri_spec_witness:
  "\<exists>w'. set_avtransport_uri sample_lib sample_mpd
        (sample_event transport_vars ''SetAVTransportURI''
          [(''InstanceID'', ''0''), (''CurrentURI'', ''http://h/b.mp3''), (''CurrentURIMetaData'', [])])
        (transport_init sample_output)
      = Inr (0, sample_event transport_vars ''SetAVTransportURI''
          [(''InstanceID'', ''0''), (''CurrentURI'', ''http://h/b.mp3''), (''CurrentURIMetaData'', [])], w')
    \<and> mpd w' = [mpd_run_clear, mpd_run_add ''http://h/b.mp3'']
    \<and> transport_values w' TRANSPORT_VAR_AV_URI = Some ''http://h/b.mp3''
    \<and> transport_values w' TRANSPORT_VAR_CUR_TRACK_URI = Some []"
proof -
  let ?args = "[(''InstanceID'', ''0''), (''CurrentURI'', ''http://h/b.mp3''), (''CurrentURIMetaData'', [])]"
  have a: "atoi ''0'' = 0" by code_simp
  have m: "metadata_attr sample_lib ''duration'' [] = None" by (simp add: metadata_attr_def)
  show ?thesis
    using set_avtransport_uri_spec [of "sample_event transport_vars ''SetAVTransportURI'' ?args" "''SetAVTransportURI''"
        ?args "''0''" "''http://h/b.mp3''" "[]" "transport_init sample_output" sample_mpd sample_lib]
      a m transport_init_plain [of sample_output]
    by (auto simp: transport_init_def sample_output_def sample_mpd_def transport_defaults_def)
qed

lemma xplaymode_without_mode:
  assumes req: "ActionRequest (request ev) = Some (request_doc act args)"
      "map_of args ''InstanceID'' = Some i" "atoi i = 0" "map_of args ''NewPlayMode'' = None"
    and w: "\<not> test_mode w" "mpd_conn w" "held w = {}"
  shows "xplaymode L MD ev w = Inl NullPointer"
proof -
  have "check_mpd_connection MD True w = Inr (STATUS_OK, lock_edges MpdMutex w)"
    using w by (simp add: check_mpd_connection_def lock_def unlock_def lock_edges_def)
  then show ?thesis
    unfolding xplaymode_def with_instance_pass [OF req(1-3)]
    using w upnp_get_string_missing [OF req(1,4), of L]
    by (simp add: with_connection_def in_transport_def lock_def lock_edges_def output_playmode_def)
qed

text \<open>
  SetPlayMode does not check that it got a mode: without the NewPlayMode argument it
  compares a NULL string, while it holds both mutexes.
\<close>

lemma xplaymode_missing_mode:
  assumes req: "ActionRequest (request ev) = Some (request_doc act args)"
      "map_of args ''InstanceID'' = Some i" "atoi i = 0" "map_of args ''NewPlayMode'' = None"
    and w: "\<not> test_mode w" "mpd_conn w" "held w = {}"
  shows "xplaymode L MD ev w = Inl NullPointer"
  by (rule xplaymode_without_mode [OF assms])

lemma xplaymode_missing_mode_witness:
  "xplaymode sample_lib sample_mpd (sample_event transport_vars ''SetPlayMode'' [(''InstanceID'', ''0'')]) sample_output
   = Inl NullPointer"
proof -
  have a: "atoi ''0'' = 0" by code_simp
  show ?thesis
    using xplaymode_missing_mode [of "sample_event transport_vars ''SetPlayMode'' [(''InstanceID'', ''0'')]" "''SetPlayMode''"
        "[(''InstanceID'', ''0'')]" "''0''" sample_output sample_lib sample_mpd] a
    by (simp add: sample_output_def)
qed

end
