(* ===== verification/Control.thy ===== *)
theory Control
  imports Output_Mpd
begin

text \<open>
  upnp_control.c, as it is compiled for an audio device (without \<open>UPNP_VIDEO\<close>): the
  RenderingControl service, its tables, the array of its variables, and the handlers for
  volume and mute, which drive the player backend and announce the new value.
\<close>

section \<open>Enumerations of upnp_control.h\<close>

abbreviation (input) UPNP_CONTROL_E_INVALID_IID :: int where "UPNP_CONTROL_E_INVALID_IID \<equiv> 702"

abbreviation (input) CONTROL_VAR_VOLUME :: nat where "CONTROL_VAR_VOLUME \<equiv> 0"

abbreviation (input) CONTROL_VAR_LOUDNESS :: nat where "CONTROL_VAR_LOUDNESS \<equiv> 1"

abbreviation (input) CONTROL_VAR_AAT_INSTANCE_ID :: nat where "CONTROL_VAR_AAT_INSTANCE_ID \<equiv> 2"

abbreviation (input) CONTROL_VAR_AAT_PRESET_NAME :: nat where "CONTROL_VAR_AAT_PRESET_NAME \<equiv> 3"

abbreviation (input) CONTROL_VAR_MUTE :: nat where "CONTROL_VAR_MUTE \<equiv> 4"

abbreviation (input) CONTROL_VAR_LAST_CHANGE :: nat where "CONTROL_VAR_LAST_CHANGE \<equiv> 5"

abbreviation (input) CONTROL_VAR_AAT_CHANNEL :: nat where "CONTROL_VAR_AAT_CHANNEL \<equiv> 6"

abbreviation (input) CONTROL_VAR_VOLUME_DB :: nat where "CONTROL_VAR_VOLUME_DB \<equiv> 7"

abbreviation (input) CONTROL_VAR_PRESET_NAME_LIST :: nat where "CONTROL_VAR_PRESET_NAME_LIST \<equiv> 8"

abbreviation (input) CONTROL_VAR_UNKNOWN :: nat where "CONTROL_VAR_UNKNOWN \<equiv> 9"

abbreviation (input) CONTROL_VAR_COUNT :: nat where "CONTROL_VAR_COUNT \<equiv> 10"

abbreviation (input) CONTROL_CMD_GET_LOUDNESS :: nat where "CONTROL_CMD_GET_LOUDNESS \<equiv> 0"

abbreviation (input) CONTROL_CMD_GET_MUTE :: nat where "CONTROL_CMD_GET_MUTE \<equiv> 1"

abbreviation (input) CONTROL_CMD_GET_VOL :: nat where "CONTROL_CMD_GET_VOL \<equiv> 2"

abbreviation (input) CONTROL_CMD_GET_VOL_DB :: nat where "CONTROL_CMD_GET_VOL_DB \<equiv> 3"

abbreviation (input) CONTROL_CMD_GET_VOL_DBRANGE :: nat where "CONTROL_CMD_GET_VOL_DBRANGE \<equiv> 4"

abbreviation (input) CONTROL_CMD_LIST_PRESETS :: nat where "CONTROL_CMD_LIST_PRESETS \<equiv> 5"

abbreviation (input) CONTROL_CMD_SELECT_PRESET :: nat where "CONTROL_CMD_SELECT_PRESET \<equiv> 6"

abbreviation (input) CONTROL_CMD_SET_LOUDNESS :: nat where "CONTROL_CMD_SET_LOUDNESS \<equiv> 7"

abbreviation (input) CONTROL_CMD_SET_MUTE :: nat where "CONTROL_CMD_SET_MUTE \<equiv> 8"

abbreviation (input) CONTROL_CMD_SET_VOL :: nat where "CONTROL_CMD_SET_VOL \<equiv> 9"

abbreviation (input) CONTROL_CMD_SET_VOL_DB :: nat where "CONTROL_CMD_SET_VOL_DB \<equiv> 10"

abbreviation (input) CONTROL_CMD_UNKNOWN :: nat where "CONTROL_CMD_UNKNOWN \<equiv> 11"

abbreviation (input) CONTROL_CMD_COUNT :: nat where "CONTROL_CMD_COUNT \<equiv> 12"

section \<open>Tables\<close>

definition control_variables :: "nat \<Rightarrow> string option" where
  "control_variables = map_of
     [(CONTROL_VAR_LAST_CHANGE, ''LastChange''),
      (CONTROL_VAR_PRESET_NAME_LIST, ''PresetNameList''),
      (CONTROL_VAR_AAT_CHANNEL, ''A_ARG_TYPE_Channel''),
      (CONTROL_VAR_AAT_INSTANCE_ID, ''A_ARG_TYPE_InstanceID''),
      (CONTROL_VAR_AAT_PRESET_NAME, ''A_ARG_TYPE_PresetName''),
      (CONTROL_VAR_MUTE, ''Mute''),
      (CONTROL_VAR_VOLUME, ''Volume''),
      (CONTROL_VAR_VOLUME_DB, ''VolumeDB''),
      (CONTROL_VAR_LOUDNESS, ''Loudness'')]"

definition aat_presetnames :: "string list" where
  "aat_presetnames =
     [''FactoryDefaults'',
      ''InstallationDefaults'',
      ''Vendor defined'']"

definition aat_channels :: "string list" where
  "aat_channels =
     [''Master'',
      ''LF'',
      ''RF'']"

definition volume_range :: param_range where
  "volume_range = \<lparr>range_min = 0, range_max = 100, range_step = 1\<rparr>"

definition volume_db_range :: param_range where
  "volume_db_range = \<lparr>range_min = - 32768, range_max = 32767, range_step = 0\<rparr>"

definition control_var_meta :: "nat \<Rightarrow> var_meta option" where
  "control_var_meta = map_of
     [(CONTROL_VAR_LAST_CHANGE, var_meta_init SENDEVENT_YES DATATYPE_STRING None None None),
      (CONTROL_VAR_PRESET_NAME_LIST, var_meta_init SENDEVENT_NO DATATYPE_STRING None None None),
      (CONTROL_VAR_AAT_CHANNEL, var_meta_init SENDEVENT_NO DATATYPE_STRING (Some aat_channels) None None),
      (CONTROL_VAR_AAT_INSTANCE_ID, var_meta_init SENDEVENT_NO DATATYPE_UI4 None None None),
      (CONTROL_VAR_AAT_PRESET_NAME, var_meta_init SENDEVENT_NO DATATYPE_STRING (Some aat_presetnames) None None),
      (CONTROL_VAR_MUTE, var_meta_init SENDEVENT_NO DATATYPE_BOOLEAN None None None),
      (CONTROL_VAR_VOLUME, var_meta_init SENDEVENT_NO DATATYPE_UI2 None (Some volume_range) None),
      (CONTROL_VAR_VOLUME_DB, var_meta_init SENDEVENT_NO DATATYPE_I2 None (Some volume_db_range) None),
      (CONTROL_VAR_LOUDNESS, var_meta_init SENDEVENT_NO DATATYPE_BOOLEAN None None None),
      (CONTROL_VAR_UNKNOWN, var_meta_init SENDEVENT_NO DATATYPE_UNKNOWN None None None)]"

definition control_defaults :: "nat \<Rightarrow> string option" where
  "control_defaults = map_of
     [(CONTROL_VAR_LAST_CHANGE, ''<Event xmlns=\"urn:schemas-upnp-org:metadata-1-0/RCS/\"><InstanceID val=\"0\"></InstanceID></Event>''),
      (CONTROL_VAR_PRESET_NAME_LIST, []),
      (CONTROL_VAR_AAT_CHANNEL, ''Master''),
      (CONTROL_VAR_AAT_INSTANCE_ID, ''0''),
      (CONTROL_VAR_AAT_PRESET_NAME, []),
      (CONTROL_VAR_MUTE, ''0''),
      (CONTROL_VAR_VOLUME, ''100''),
      (CONTROL_VAR_VOLUME_DB, ''0''),
      (CONTROL_VAR_LOUDNESS, ''0'')]"

definition arguments_list_presets :: "argument list" where
  "arguments_list_presets =
     [argument_init ''InstanceID'' PARAM_DIR_IN CONTROL_VAR_AAT_INSTANCE_ID,
      argument_init ''CurrentPresetNameList'' PARAM_DIR_OUT CONTROL_VAR_PRESET_NAME_LIST]"

definition arguments_select_preset :: "argument list" where
  "arguments_select_preset =
     [argument_init ''InstanceID'' PARAM_DIR_IN CONTROL_VAR_AAT_INSTANCE_ID,
      argument_init ''PresetName'' PARAM_DIR_IN CONTROL_VAR_AAT_PRESET_NAME]"

definition arguments_get_mute :: "argument list" where
  "arguments_get_mute =
     [argument_init ''InstanceID'' PARAM_DIR_IN CONTROL_VAR_AAT_INSTANCE_ID,
      argument_init ''Channel'' PARAM_DIR_IN CONTROL_VAR_AAT_CHANNEL,
      argument_init ''CurrentMute'' PARAM_DIR_OUT CONTROL_VAR_MUTE]"

definition arguments_set_mute :: "argument list" where
  "arguments_set_mute =
     [argument_init ''InstanceID'' PARAM_DIR_IN CONTROL_VAR_AAT_INSTANCE_ID,
      argument_init ''Channel'' PARAM_DIR_IN CONTROL_VAR_AAT_CHANNEL,
      argument_init ''DesiredMute'' PARAM_DIR_IN CONTROL_VAR_MUTE]"

definition arguments_get_vol :: "argument list" where
  "arguments_get_vol =
     [argument_init ''InstanceID'' PARAM_DIR_IN CONTROL_VAR_AAT_INSTANCE_ID,
      argument_init ''Channel'' PARAM_DIR_IN CONTROL_VAR_AAT_CHANNEL,
      argument_init ''CurrentVolume'' PARAM_DIR_OUT CONTROL_VAR_VOLUME]"

definition arguments_set_vol :: "argument list" where
  "arguments_set_vol =
     [argument_init ''InstanceID'' PARAM_DIR_IN CONTROL_VAR_AAT_INSTANCE_ID,
      argument_init ''Channel'' PARAM_DIR_IN CONTROL_VAR_AAT_CHANNEL,
      argument_init ''DesiredVolume'' PARAM_DIR_IN CONTROL_VAR_VOLUME]"

definition arguments_get_vol_db :: "argument list" where
  "arguments_get_vol_db =
     [argument_init ''InstanceID'' PARAM_DIR_IN CONTROL_VAR_AAT_INSTANCE_ID,
      argument_init ''Channel'' PARAM_DIR_IN CONTROL_VAR_AAT_CHANNEL,
      argument_init ''CurrentVolume'' PARAM_DIR_OUT CONTROL_VAR_VOLUME_DB]"

definition arguments_set_vol_db :: "argument list" where
  "arguments_set_vol_db =
     [argument_init ''InstanceID'' PARAM_DIR_IN CONTROL_VAR_AAT_INSTANCE_ID,
      argument_init ''Channel'' PARAM_DIR_IN CONTROL_VAR_AAT_CHANNEL,
      argument_init ''DesiredVolume'' PARAM_DIR_IN CONTROL_VAR_VOLUME_DB]"

definition arguments_get_vol_dbrange :: "argument list" where
  "arguments_get_vol_dbrange =
     [argument_init ''InstanceID'' PARAM_DIR_IN CONTROL_VAR_AAT_INSTANCE_ID,
      argument_init ''Channel'' PARAM_DIR_IN CONTROL_VAR_AAT_CHANNEL,
      argument_init ''MinValue'' PARAM_DIR_OUT CONTROL_VAR_VOLUME_DB,
      argument_init ''MaxValue'' PARAM_DIR_OUT CONTROL_VAR_VOLUME_DB]"

definition arguments_get_loudness :: "argument list" where
  "arguments_get_loudness =
     [argument_init ''InstanceID'' PARAM_DIR_IN CONTROL_VAR_AAT_INSTANCE_ID,
      argument_init ''Channel'' PARAM_DIR_IN CONTROL_VAR_AAT_CHANNEL,
      argument_init ''CurrentLoudness'' PARAM_DIR_OUT CONTROL_VAR_LOUDNESS]"

definition arguments_set_loudness :: "argument list" where
  "arguments_set_loudness =
     [argument_init ''InstanceID'' PARAM_DIR_IN CONTROL_VAR_AAT_INSTANCE_ID,
      argument_init ''Channel'' PARAM_DIR_IN CONTROL_VAR_AAT_CHANNEL,
      argument_init ''DesiredLoudness'' PARAM_DIR_IN CONTROL_VAR_LOUDNESS]"

definition control_argument_list :: "nat \<Rightarrow> argument list option" where
  "control_argument_list = map_of
     [(CONTROL_CMD_LIST_PRESETS, arguments_list_presets),
      (CONTROL_CMD_SELECT_PRESET, arguments_select_preset),
      (CONTROL_CMD_GET_MUTE, arguments_get_mute),
      (CONTROL_CMD_SET_MUTE, arguments_set_mute),
      (CONTROL_CMD_GET_VOL, arguments_get_vol),
      (CONTROL_CMD_SET_VOL, arguments_set_vol),
      (CONTROL_CMD_GET_VOL_DB, arguments_get_vol_db),
      (CONTROL_CMD_SET_VOL_DB, arguments_set_vol_db),
      (CONTROL_CMD_GET_VOL_DBRANGE, arguments_get_vol_dbrange),
      (CONTROL_CMD_GET_LOUDNESS, arguments_get_loudness),
      (CONTROL_CMD_SET_LOUDNESS, arguments_set_loudness)]"

section \<open>State\<close>

record 'm control_env = "'m output_env" +
  control_values :: "nat \<Rightarrow> string option"

definition control_set_var ::
  "nat \<Rightarrow> string option \<Rightarrow> ('m, 'z) control_env_scheme \<Rightarrow> ('m, 'z) control_env_scheme result" where
  "control_set_var varnum new w =
     (if \<not> varnum < CONTROL_VAR_UNKNOWN then Inl OutOfBounds
      else case new of
        None \<Rightarrow> Inr w
      | Some v \<Rightarrow>
          if control_values w varnum = Some v then Inr w
          else Inr (w\<lparr>control_values := (control_values w)(varnum := Some v)\<rparr>))"

definition control_get_var :: "nat \<Rightarrow> ('m, 'z) control_env_scheme \<Rightarrow> string option result" where
  "control_get_var varnum w =
     (if \<not> varnum < CONTROL_VAR_UNKNOWN then Inl OutOfBounds else Inr (control_values w varnum))"

definition control_init :: "('m, 'z) control_env_scheme \<Rightarrow> ('m, 'z) control_env_scheme" where
  "control_init w = w\<lparr>control_values := (\<lambda>_. None)\<rparr>"

definition control_vars :: "('m, 'z) control_env_scheme service_vars" where
  "control_vars =
     \<lparr>service_mutex = ControlMutex,
      service_name = ''urn:schemas-upnp-org:service:RenderingControl'',
      service_type = ''urn:schemas-upnp-org:service:RenderingControl:1'',
      scpd_url = ''/upnp/rendercontrolSCPD.xml'',
      control_url = ''/upnp/control/rendercontrol1'',
      event_url = ''/upnp/event/rendercontrol1'',
      action_arguments = control_argument_list,
      variable_names = control_variables,
      variable_values = control_values,
      variable_defaults = Some control_defaults,
      variable_meta = control_var_meta,
      variable_count = CONTROL_VAR_UNKNOWN,
      command_count = CONTROL_CMD_UNKNOWN\<rparr>"

interpretation control_store: var_store control_set_var control_values CONTROL_VAR_UNKNOWN
  by standard (auto simp: control_set_var_def split: option.splits)

lemma control_set_var_simps [simp]:
  "n < CONTROL_VAR_UNKNOWN \<Longrightarrow> control_set_var n None w = Inr w"
  "n < CONTROL_VAR_UNKNOWN \<Longrightarrow> control_set_var n (Some v) w
     = Inr (w\<lparr>control_values := (control_values w)(n \<mapsto> v)\<rparr>)"
  by (auto simp: control_set_var_def fun_upd_idem)

section \<open>LastChange\<close>

definition rcs_event :: "string \<Rightarrow> string" where
  "rcs_event body =
     ''<Event xmlns=\"urn:schemas-upnp-org:metadata-1-0/RCS/\"><InstanceID val=\"0\">'' @ body
       @ ''</InstanceID></Event>''"

definition rcs_value :: "nat \<Rightarrow> ('m, 'z) control_env_scheme \<Rightarrow> string" where
  "rcs_value n w =
     ''<'' @ fmt_s (control_variables n) @ '' Channel=\"Master\" val=\"'' @ fmt_s (control_values w n) @ ''\"/>''"

definition control_notify_lastchange ::
  "'w action_event \<Rightarrow> string \<Rightarrow> ('m, 'z) control_env_scheme \<Rightarrow> ('m, 'z) control_env_scheme result" where
  "control_notify_lastchange event v w =
     bindE (xmlescape v False) (\<lambda>escaped.
     Inr (w\<lparr>notifications := notifications w @
              [\<lparr>DevUDN_sent = DevUDN (request event), ServiceID_sent = ServiceID (request event),
                VarNames_sent = [''LastChange''], VarValues_sent = [escaped]\<rparr>],
            control_values := (control_values w)(CONTROL_VAR_LAST_CHANGE \<mapsto> v)\<rparr>))"

definition control_change_var ::
  "'w action_event \<Rightarrow> nat \<Rightarrow> string option \<Rightarrow> ('m, 'z) control_env_scheme \<Rightarrow> ('m, 'z) control_env_scheme result" where
  "control_change_var event varnum new_value w =
     bindE (control_set_var varnum new_value w) (\<lambda>w.
     control_notify_lastchange event (rcs_event (rcs_value varnum w)) w)"

section \<open>Volume and mute from the player\<close>

definition control_update_settings ::
  "('m, 'z) control_env_scheme \<Rightarrow> ('m, 'z) control_env_scheme result" where
  "control_update_settings w =
     (let curvol = output_get_volume w in
      bindE (control_set_var CONTROL_VAR_VOLUME (Some curvol) w) (\<lambda>w.
      if curvol \<noteq> [] \<and> hd curvol = CHR ''0''
      then control_set_var CONTROL_VAR_MUTE (Some ''1'') w
      else control_set_var CONTROL_VAR_MUTE (Some ''0'') w))"

definition control_notify_subscription ::
  "('m, 'z) control_env_scheme \<Rightarrow> (int \<times> ('m, 'z) control_env_scheme) result" where
  "control_notify_subscription w =
     bindE (lock ControlMutex w) (\<lambda>w.
     bindE (control_update_settings w) (\<lambda>w.
     bindE (control_set_var CONTROL_VAR_LAST_CHANGE
              (Some (rcs_event (rcs_value CONTROL_VAR_VOLUME w @ rcs_value CONTROL_VAR_MUTE w))) w) (\<lambda>w.
     bindE (unlock ControlMutex w) (\<lambda>w. Inr (0, w)))))"

section \<open>Action handlers\<close>

definition cmd_obtain_variable :: "upnp_lib \<Rightarrow> nat \<Rightarrow> string \<Rightarrow> ('m, 'z) control_env_scheme handler" where
  "cmd_obtain_variable L varnum paramname event w =
     with_instance L UPNP_CONTROL_E_INVALID_IID event w (\<lambda>event.
     upnp_append_variable L event varnum paramname w)"

definition list_presets where
  "list_presets L = cmd_obtain_variable L CONTROL_VAR_PRESET_NAME_LIST ''CurrentPresetNameList''"

definition get_mute where
  "get_mute L = cmd_obtain_variable L CONTROL_VAR_MUTE ''CurrentMute''"

definition set_mute :: "upnp_lib \<Rightarrow> 'm mpd_lib \<Rightarrow> ('m, 'z) control_env_scheme handler" where
  "set_mute L MD event w =
     with_instance L UPNP_CONTROL_E_INVALID_IID event w (\<lambda>event.
     bindE (upnp_get_string L event ''DesiredMute'') (\<lambda>(v, event).
     case v of
       None \<Rightarrow> Inr (- 1, event, w)
     | Some desired \<Rightarrow>
         bindE (lock ControlMutex w) (\<lambda>w.
         bindE (if desired = ''1'' then output_set_mute MD True w
                else if desired = ''0'' then
                  bindE (output_set_mute MD False w) (\<lambda>w.
                  control_change_var event CONTROL_VAR_VOLUME (Some (output_get_volume w)) w)
                else Inr w) (\<lambda>w.
         bindE (control_change_var event CONTROL_VAR_MUTE (Some desired) w) (\<lambda>w.
         bindE (unlock ControlMutex w) (\<lambda>w. Inr (0, event, w)))))))"

definition get_volume :: "upnp_lib \<Rightarrow> ('m, 'z) control_env_scheme handler" where
  "get_volume L event w =
     bindE (lock ControlMutex w) (\<lambda>w.
     bindE (control_set_var CONTROL_VAR_VOLUME (Some (output_get_volume w)) w) (\<lambda>w.
     bindE (unlock ControlMutex w) (\<lambda>w.
     cmd_obtain_variable L CONTROL_VAR_VOLUME ''CurrentVolume'' event w)))"

definition set_volume :: "upnp_lib \<Rightarrow> 'm mpd_lib \<Rightarrow> ('m, 'z) control_env_scheme handler" where
  "set_volume L MD event w =
     with_instance L UPNP_CONTROL_E_INVALID_IID event w (\<lambda>event.
     bindE (upnp_get_string L event ''DesiredVolume'') (\<lambda>(v, event).
     case v of
       None \<Rightarrow> Inr (- 1, event, w)
     | Some desired \<Rightarrow>
         bindE (lock ControlMutex w) (\<lambda>w.
         bindE (output_set_volume MD (Some desired) w) (\<lambda>w.
         bindE (control_change_var event CONTROL_VAR_VOLUME (Some desired) w) (\<lambda>w.
         bindE (control_change_var event CONTROL_VAR_MUTE (Some ''0'') w) (\<lambda>w.
         bindE (unlock ControlMutex w) (\<lambda>w. Inr (0, event, w))))))))"

definition get_volume_db where
  "get_volume_db L = cmd_obtain_variable L CONTROL_VAR_VOLUME_DB ''CurrentVolumeDB''"

definition get_loudness where
  "get_loudness L = cmd_obtain_variable L CONTROL_VAR_LOUDNESS ''CurrentLoudness''"

section \<open>The service\<close>

definition control_actions :: "upnp_lib \<Rightarrow> 'm mpd_lib \<Rightarrow> ('m, 'z) control_env_scheme action list" where
  "control_actions L MD = array_of (CONTROL_CMD_UNKNOWN + 1) no_action
     [(CONTROL_CMD_LIST_PRESETS, action_init ''ListPresets'' (Some (list_presets L))),
      (CONTROL_CMD_SELECT_PRESET, action_init ''SelectPreset'' None),
      (CONTROL_CMD_GET_MUTE, action_init ''GetMute'' (Some (get_mute L))),
      (CONTROL_CMD_SET_MUTE, action_init ''SetMute'' (Some (set_mute L MD))),
      (CONTROL_CMD_GET_VOL, action_init ''GetVolume'' (Some (get_volume L))),
      (CONTROL_CMD_SET_VOL, action_init ''SetVolume'' (Some (set_volume L MD))),
      (CONTROL_CMD_GET_VOL_DB, action_init ''GetVolumeDB'' (Some (get_volume_db L))),
      (CONTROL_CMD_SET_VOL_DB, action_init ''SetVolumeDB'' None),
      (CONTROL_CMD_GET_VOL_DBRANGE, action_init ''GetVolumeDBRange'' None),
      (CONTROL_CMD_GET_LOUDNESS, action_init ''GetLoudness'' (Some (get_loudness L))),
      (CONTROL_CMD_SET_LOUDNESS, action_init ''SetLoudness'' None),
      (CONTROL_CMD_UNKNOWN, no_action)]"

definition control_service :: "upnp_lib \<Rightarrow> 'm mpd_lib \<Rightarrow> ('m, 'z) control_env_scheme service" where
  "control_service L MD = service_vars.extend control_vars
     \<lparr>actions = control_actions L MD, subscription_notify = Some control_notify_subscription\<rparr>"

end
