(* ===== verification/Control_Facts.thy ===== *)
theory Control_Facts
  imports Control Transport_Facts
begin

text \<open>
  What holds of RenderingControl: its operations keep the lock discipline and the invariant
  of the transport variables, a volume or mute command reaches the player and is announced,
  the queries answer with the player's volume, and where the announced and the actual
  volume part.
\<close>

section \<open>Lock discipline\<close>

lemma ordered_control [simp]: "ordered (w\<lparr>control_values := cv\<rparr>) = ordered w"
  by (simp add: ordered_def)

lemma transport_ok_control [simp]: "transport_ok (w\<lparr>control_values := cv\<rparr>) = transport_ok w"
  by (simp add: transport_ok_def)

lemma act_control_set_var [act_rules]:
  "action_step b M w \<Longrightarrow> safe_st (action_step b M) (control_set_var n v w)"
  by (cases v) (auto simp: control_set_var_def safe_defs action_step_def)

lemma act_control_notify [act_rules]:
  assumes "action_step b M w"
  shows "safe_st (action_step b M) (control_notify_lastchange ev v w)"
proof -
  have "action_step b M (w\<lparr>notifications := notifications w @ [n], control_values := cv\<rparr>)" for n cv
    using assms by (auto simp: action_step_def)
  then show ?thesis
    unfolding control_notify_lastchange_def
    by (intro benign_bind [OF benign_xmlescape] safe_st_Inr)
qed

lemma act_control_change_var [act_rules]:
  "action_step b M w \<Longrightarrow> safe_st (action_step b M) (control_change_var ev n v w)"
  unfolding control_change_var_def by (assumption | rule act.bind act_rules)+

lemma act_control_update_settings [act_rules]:
  "action_step b M w \<Longrightarrow> safe_st (action_step b M) (control_update_settings w)"
  unfolding control_update_settings_def Let_def by (assumption | rule safe_rules act.bind act_rules)+

lemma control_notify_subscription_safe:
  assumes s: "action_step b M w" and M: "M \<subseteq> {DeviceMutex}"
  shows "safe (action_step b M) (control_notify_subscription w)"
proof -
  have m: "may_lock ControlMutex M" "insert ControlMutex M - {ControlMutex} = M"
    using M by (auto simp: may_lock_def)
  show ?thesis
    unfolding control_notify_subscription_def
    by (assumption | rule act_rules safe_rules act.bind act.safe_lock act.safe_unlock s m | (simp; fail))+
qed

lemma cmd_obtain_variable_safe:
  assumes "same_call e ev" "service_mutex (event_service e) = ControlMutex"
    and "action_step b M w" and "may_lock ControlMutex M"
  shows "safe_ev e (action_step b M) (cmd_obtain_variable L n key ev w)"
  unfolding cmd_obtain_variable_def
  by (assumption | rule act_rules ev_rules act.ev_bind act.safe_ev_append_variable assms)+

lemma control_handlers_safe:
  assumes e: "same_call e ev" "service_mutex (event_service e) = ControlMutex"
    and s: "action_step b M w" and M: "M \<subseteq> {DeviceMutex}"
  shows "safe_ev e (action_step b M) (list_presets L ev w)"
    and "safe_ev e (action_step b M) (get_mute L ev w)"
    and "safe_ev e (action_step b M) (get_volume_db L ev w)"
    and "safe_ev e (action_step b M) (get_loudness L ev w)"
    and "safe_ev e (action_step b M) (get_volume L ev w)"
    and "safe_ev e (action_step b M) (set_mute L MD ev w)"
    and "safe_ev e (action_step b M) (set_volume L MD ev w)"
proof -
  have m: "may_lock ControlMutex M" "may_lock MpdMutex (insert ControlMutex M)"
    "insert ControlMutex M - {ControlMutex} = M"
    using M by (auto simp: may_lock_def)
  note q = cmd_obtain_variable_safe [OF e s m(1)]
  show "safe_ev e (action_step b M) (list_presets L ev w)" "safe_ev e (action_step b M) (get_mute L ev w)"
    "safe_ev e (action_step b M) (get_volume_db L ev w)" "safe_ev e (action_step b M) (get_loudness L ev w)"
    unfolding list_presets_def get_mute_def get_volume_db_def get_loudness_def by (rule q)+
  note rules = act_rules ev_rules safe_rules act.bind act.ev_bind act.safe_lock act.safe_unlock
    cmd_obtain_variable_safe e s m
  show "safe_ev e (action_step b M) (get_volume L ev w)"
    unfolding get_volume_def by (assumption | rule rules | (simp; fail))+
  show "safe_ev e (action_step b M) (set_mute L MD ev w)"
    unfolding set_mute_def by (assumption | rule rules | (simp; fail))+
  show "safe_ev e (action_step b M) (set_volume L MD ev w)"
    unfolding set_volume_def by (assumption | rule rules | (simp; fail))+
qed

section \<open>Announcements\<close>

text \<open>The LastChange document with the value of one variable, and its notification.\<close>

definition control_element :: "nat \<Rightarrow> string \<Rightarrow> string" where
  "control_element n v =
     ''<'' @ fmt_s (control_variables n) @ '' Channel=\"Master\" val=\"'' @ v @ ''\"/>''"

lemma rcs_value_element: "rcs_value n w = control_element n (fmt_s (control_values w n))"
  by (simp add: rcs_value_def control_element_def)

definition control_notification :: "'w action_event \<Rightarrow> nat \<Rightarrow> string \<Rightarrow> notification" where
  "control_notification ev n v =
     \<lparr>DevUDN_sent = DevUDN (request ev), ServiceID_sent = ServiceID (request ev),
      VarNames_sent = [''LastChange''], VarValues_sent = [xml_text False (rcs_event (control_element n v))]\<rparr>"

text \<open>Texts whose document \<open>xmlescape\<close> can handle.\<close>

definition announceable :: "string \<Rightarrow> bool" where
  "announceable v \<longleftrightarrow> NUL \<notin> set v \<and> 5 * (int (length v) + 200) < INT_MAX"

lemma fmt_d_no_NUL: "NUL \<notin> set (fmt_d k)"
proof -
  have "digit_value NUL = None" by (simp add: digit_value_def)
  then have "NUL \<notin> set (dec_digits n)" for n
    using dec_digits_digits [of NUL n] by auto
  then show ?thesis by (simp add: fmt_d_def)
qed

lemma announceable_short: "NUL \<notin> set v \<Longrightarrow> length v < 1000 \<Longrightarrow> announceable v"
  by (simp add: announceable_def INT_MAX_def)

lemma control_document_escapes:
  assumes "n = CONTROL_VAR_VOLUME \<or> n = CONTROL_VAR_MUTE" and "announceable v"
  shows "xmlescape (rcs_event (control_element n v)) False
    = Inr (xml_text False (rcs_event (control_element n v)))"
proof (rule xmlescape_correct_bound)
  show "NUL \<notin> set (rcs_event (control_element n v))"
    using assms by (auto simp: rcs_event_def control_element_def announceable_def control_variables_def)
  have "length (rcs_event (control_element n v)) \<le> length v + 200"
    using assms(1) by (auto simp: rcs_event_def control_element_def control_variables_def)
  with assms(2) show "5 * int (length (rcs_event (control_element n v))) < INT_MAX"
    by (simp add: announceable_def)
qed

lemma control_change_var_run:
  assumes n: "n = CONTROL_VAR_VOLUME \<or> n = CONTROL_VAR_MUTE" and v: "announceable v"
  shows "control_change_var ev n (Some v) w = Inr (w\<lparr>
     notifications := notifications w @ [control_notification ev n v],
     control_values := (control_values w)(n \<mapsto> v, CONTROL_VAR_LAST_CHANGE \<mapsto> rcs_event (control_element n v))\<rparr>)"
proof -
  have "n < CONTROL_VAR_UNKNOWN" using n by auto
  then show ?thesis
    using control_document_escapes [OF assms]
    by (simp add: control_change_var_def control_notify_lastchange_def rcs_value_element
        control_notification_def)
qed

section \<open>Volume and mute commands\<close>

definition clamped :: "string \<Rightarrow> int" where
  "clamped v = max 0 (min 100 (atoi v))"

lemma locked_control [simp]: "control_values (locked m w) = control_values w"
  by (simp add: locked_def)

lemma after_command_frame [simp]:
  "notifications (after_command MD c w) = notifications w"
  "control_values (after_command MD c v) = control_values v"
  by (simp_all add: after_command_def lock_edges_def)

definition sample_control :: "mpd_command_call list control_env" where
  "sample_control = output_env.extend sample_output \<lparr>control_values = (\<lambda>_. None)\<rparr>"

lemma set_volume_run:
  assumes req: "ActionRequest (request ev) = Some (request_doc act args)"
      "map_of args ''InstanceID'' = Some i" "atoi i = 0" "map_of args ''DesiredVolume'' = Some v"
    and conn: "\<not> test_mode w" "mpd_conn w" "held w = {}" "\<forall>c m. fst (mpd_command MD c m)"
    and v: "announceable v"
  shows "\<exists>w'. set_volume L MD ev w = Inr (0, ev, w')
    \<and> mpd w' = snd (mpd_command MD (mpd_run_set_volume (clamped v)) (mpd w))
    \<and> mpdvolume w' = clamped v \<and> mutevolume w' = clamped v
    \<and> control_values w' CONTROL_VAR_VOLUME = Some v \<and> control_values w' CONTROL_VAR_MUTE = Some ''0''
    \<and> notifications w' = notifications w
        @ [control_notification ev CONTROL_VAR_VOLUME v, control_notification ev CONTROL_VAR_MUTE ''0'']
    \<and> held w' = {}"
proof -
  have run: "output_set_volume MD (Some v) (locked ControlMutex w)
    = Inr ((after_command MD (mpd_run_set_volume (clamped v)) (locked ControlMutex w))
        \<lparr>mpdvolume := clamped v, mutevolume := clamped v\<rparr>)"
    using conn by (intro output_set_volume_run) (simp_all add: clamped_def)
  have z: "announceable ''0''" by (simp add: announceable_short)
  show ?thesis
    unfolding set_volume_def with_instance_pass [OF req(1-3)]
    using conn(3) upnp_get_string_arg [OF req(1,4)] run v z
    by (simp add: lock_locked control_change_var_run unlock_def)
qed

text \<open>
  C22. SetVolume: the player is sent the value of the text clamped to 0..100, while the
  variable and the event subscribers get carry the text of the request as it came, and the
  mute variable is reset and announced after it. So a client that asks for 250 is told the
  volume is 250 while the player is at 100.
\<close>

theorem set_volume_announces:
  assumes req: "ActionRequest (request ev) = Some (request_doc act args)"
      "map_of args ''InstanceID'' = Some i" "atoi i = 0" "map_of args ''DesiredVolume'' = Some v"
    and conn: "\<not> test_mode w" "mpd_conn w" "held w = {}" "\<forall>c m. fst (mpd_command MD c m)"
    and v: "announceable v"
  shows "\<exists>w'. set_volume L MD ev w = Inr (0, ev, w')
    \<and> mpd w' = snd (mpd_command MD (mpd_run_set_volume (clamped v)) (mpd w))
    \<and> mpdvolume w' = clamped v \<and> mutevolume w' = clamped v
    \<and> control_values w' CONTROL_VAR_VOLUME = Some v \<and> control_values w' CONTROL_VAR_MUTE = Some ''0''
    \<and> notifications w' = notifications w
        @ [control_notification ev CONTROL_VAR_VOLUME v, control_notification ev CONTROL_VAR_MUTE ''0'']
    \<and> held w' = {}"
  by (rule set_volume_run [OF assms])

theorem set_volume_announces_witness:
  "\<exists>ev' w'. set_volume sample_lib sample_mpd
       (sample_event control_vars ''SetVolume'' [(''InstanceID'', ''0''), (''DesiredVolume'', ''250'')])
       sample_control = Inr (0, ev', w')
     \<and> mpdvolume w' = 100 \<and> control_values w' CONTROL_VAR_VOLUME = Some ''250''"
proof -
  have a: "atoi ''0'' = 0" "atoi ''250'' = 250"
    by code_simp+
  show ?thesis
    using set_volume_announces [of "sample_event control_vars ''SetVolume'' [(''InstanceID'', ''0''), (''DesiredVolume'', ''250'')]"
        "''SetVolume''" "[(''InstanceID'', ''0''), (''DesiredVolume'', ''250'')]" "''0''" "''250''"
        sample_control sample_mpd sample_lib] a
    by (auto simp: sample_control_def sample_output_def output_env.defs sample_mpd_def clamped_def announceable_short)
qed

text \<open>
  C21. SetMute: ``1'' silences the player, remembers its volume and announces the mute; ``0''
  restores the remembered volume and announces the volume and then the mute; any other text
  leaves the player alone, but is stored and announced all the same.
\<close>

theorem set_mute_announces:
  assumes req: "ActionRequest (request ev) = Some (request_doc act args)"
      "map_of args ''InstanceID'' = Some i" "atoi i = 0" "map_of args ''DesiredMute'' = Some v"
    and conn: "\<not> test_mode w" "mpd_conn w" "held w = {}" "\<forall>c m. fst (mpd_command MD c m)"
    and v: "announceable v"
  shows "\<exists>w'. set_mute L MD ev w = Inr (0, ev, w') \<and> held w' = {}
    \<and> control_values w' CONTROL_VAR_MUTE = Some v
    \<and> (if v = ''1'' then
         mpd w' = snd (mpd_command MD (mpd_run_set_volume 0) (mpd w))
         \<and> mpdvolume w' = 0 \<and> mutevolume w' = mpdvolume w
         \<and> notifications w' = notifications w @ [control_notification ev CONTROL_VAR_MUTE v]
       else if v = ''0'' then
         mpd w' = snd (mpd_command MD (mpd_run_set_volume (mutevolume w)) (mpd w))
         \<and> mpdvolume w' = mutevolume w \<and> mutevolume w' = mutevolume w
         \<and> notifications w' = notifications w
             @ [control_notification ev CONTROL_VAR_VOLUME (snprintf 6 (fmt_d (mutevolume w))),
                control_notification ev CONTROL_VAR_MUTE v]
       else
         mpd w' = mpd w \<and> mpdvolume w' = mpdvolume w \<and> mutevolume w' = mutevolume w
         \<and> notifications w' = notifications w @ [control_notification ev CONTROL_VAR_MUTE v])"
proof -
  have run: "output_set_mute MD b (locked ControlMutex w)
    = Inr ((after_command MD (mpd_run_set_volume (if b then 0 else mutevolume w)) (locked ControlMutex w))
        \<lparr>mutevolume := (if b then mpdvolume w else mutevolume w),
         mpdvolume := (if b then 0 else mutevolume w)\<rparr>)" for b
    using conn output_set_mute_run [of "locked ControlMutex w" "if b then 0 else mutevolume w" b]
    by simp
  have vol: "announceable (snprintf 6 (fmt_d k))" for k
  proof (rule announceable_short)
    show "NUL \<notin> set (snprintf 6 (fmt_d k))"
      using fmt_d_no_NUL [of k] by (auto simp: snprintf_def dest: in_set_takeD)
    show "length (snprintf 6 (fmt_d k)) < 1000"
      by (simp add: snprintf_def)
  qed
  note rules = lock_locked control_change_var_run unlock_def v vol output_get_volume_def
    announceable_short [of "''0''", simplified] announceable_short [of "''1''", simplified]
  show ?thesis
    unfolding set_mute_def with_instance_pass [OF req(1-3)]
    using conn(3) upnp_get_string_arg [OF req(1,4)] run
    by (cases "v = ''1''"; cases "v = ''0''") (simp_all add: rules)
qed

theorem set_mute_announces_witness:
  "\<exists>ev' w'. set_mute sample_lib sample_mpd
       (sample_event control_vars ''SetMute'' [(''InstanceID'', ''0''), (''DesiredMute'', ''true'')])
       sample_control = Inr (0, ev', w')
     \<and> mpdvolume w' = 30 \<and> control_values w' CONTROL_VAR_MUTE = Some ''true''"
proof -
  have a: "atoi ''0'' = 0" by code_simp
  show ?thesis
    using set_mute_announces [of "sample_event control_vars ''SetMute'' [(''InstanceID'', ''0''), (''DesiredMute'', ''true'')]"
        "''SetMute''" "[(''InstanceID'', ''0''), (''DesiredMute'', ''true'')]" "''0''" "''true''"
        sample_control sample_mpd sample_lib] a
    by (auto simp: sample_control_def sample_output_def output_env.defs sample_mpd_def announceable_short)
qed

text \<open>
  C37. RenderingControl never checks its connection: once it is gone, SetVolume and a mute
  or unmute use a NULL connection while they hold both mutexes.
\<close>

theorem volume_commands_without_connection:
  assumes req: "ActionRequest (request ev) = Some (request_doc act args)"
      "map_of args ''InstanceID'' = Some i" "atoi i = 0"
      "map_of args ''DesiredVolume'' = Some v" "map_of args ''DesiredMute'' = Some m"
    and w: "\<not> test_mode w" "\<not> mpd_conn w" "held w = {}" and m: "m = ''0'' \<or> m = ''1''"
  shows "set_volume L MD ev w = Inl NullPointer \<and> set_mute L MD ev w = Inl NullPointer"
proof
  show "set_volume L MD ev w = Inl NullPointer"
    unfolding set_volume_def with_instance_pass [OF req(1-3)]
    using w upnp_get_string_arg [OF req(1,4)]
    by (simp add: lock_def output_set_volume_def Let_def on_conn_def)
  show "set_mute L MD ev w = Inl NullPointer"
    unfolding set_mute_def with_instance_pass [OF req(1-3)]
    using w m upnp_get_string_arg [OF req(1,5)]
    by (auto simp: lock_def output_set_mute_def Let_def on_conn_def)
qed

theorem volume_commands_without_connection_witness:
  "set_volume sample_lib sample_mpd
     (sample_event control_vars ''SetVolume'' [(''InstanceID'', ''0''), (''DesiredVolume'', ''50''), (''DesiredMute'', ''0'')])
     (sample_control\<lparr>mpd_conn := False\<rparr>) = Inl NullPointer"
proof -
  have a: "atoi ''0'' = 0" by code_simp
  show ?thesis
    using volume_commands_without_connection [of
        "sample_event control_vars ''SetVolume'' [(''InstanceID'', ''0''), (''DesiredVolume'', ''50''), (''DesiredMute'', ''0'')]"
        "''SetVolume''" "[(''InstanceID'', ''0''), (''DesiredVolume'', ''50''), (''DesiredMute'', ''0'')]"
        "''0''" "''50''" "''0''" "sample_control\<lparr>mpd_conn := False\<rparr>" sample_lib sample_mpd]
    by (simp add: a sample_control_def sample_output_def output_env.defs)
qed

text \<open>
  Values go into the LastChange document as they are: a desired volume that closes the
  attribute makes SetVolume announce whatever element follows in it, here a mute the
  player does not have.
\<close>

lemma set_volume_announces_foreign_element:
  assumes req: "ActionRequest (request ev) = Some (request_doc act args)"
      "map_of args ''InstanceID'' = Some i" "atoi i = 0"
      "map_of args ''DesiredVolume'' = Some (x @ ''\"/><Mute Channel=\"Master\" val=\"'' @ y)"
    and conn: "\<not> test_mode w" "mpd_conn w" "held w = {}" "\<forall>c m. fst (mpd_command MD c m)"
    and v: "announceable (x @ ''\"/><Mute Channel=\"Master\" val=\"'' @ y)"
  shows "\<exists>w'. set_volume L MD ev w = Inr (0, ev, w') \<and> mpdvolume w' = clamped x
    \<and> VarValues_sent (notifications w' ! length (notifications w))
        = [xml_text False (rcs_event (control_element CONTROL_VAR_VOLUME x @ control_element CONTROL_VAR_MUTE y))]"
proof -
  let ?v = "x @ ''\"/><Mute Channel=\"Master\" val=\"'' @ y"
  have val: "atoi ?v = atoi x"
    by (simp add: atoi_append_stop digit_value_def c_isspace_def)
  obtain w' where "set_volume L MD ev w = Inr (0, ev, w')" "mpdvolume w' = clamped ?v"
      "notifications w' = notifications w
        @ [control_notification ev CONTROL_VAR_VOLUME ?v, control_notification ev CONTROL_VAR_MUTE ''0'']"
    using set_volume_run [OF req conn v] by blast
  moreover have "control_element CONTROL_VAR_VOLUME ?v
      = control_element CONTROL_VAR_VOLUME x @ control_element CONTROL_VAR_MUTE y"
    by (simp add: control_element_def control_variables_def)
  ultimately show ?thesis
    using val by (simp add: nth_append control_notification_def clamped_def)
qed

lemma set_volume_announces_foreign_element_witness:
  "\<exists>w'. set_volume sample_lib sample_mpd
       (sample_event control_vars ''SetVolume'' [(''InstanceID'', ''0''),
          (''DesiredVolume'', ''5\"/><Mute Channel=\"Master\" val=\"1'')])
       sample_control
     = Inr (0, sample_event control_vars ''SetVolume'' [(''InstanceID'', ''0''),
          (''DesiredVolume'', ''5\"/><Mute Channel=\"Master\" val=\"1'')], w')
     \<and> mpdvolume w' = 5"
proof -
  let ?args = "[(''InstanceID'', ''0''), (''DesiredVolume'', ''5\"/><Mute Channel=\"Master\" val=\"1'')]"
  have a: "atoi ''0'' = 0" "atoi ''5'' = 5"
    by code_simp+
  show ?thesis
    using set_volume_announces_foreign_element [of "sample_event control_vars ''SetVolume'' ?args"
        "''SetVolume''" ?args "''0''" "''5''" "''1''" sample_control sample_mpd sample_lib] a
    by (auto simp: sample_control_def sample_output_def output_env.defs sample_mpd_def clamped_def announceable_short)
qed

section \<open>Queries and subscriptions\<close>

lemma control_vars_simps [simp]:
  "service_mutex control_vars = ControlMutex" "variable_values control_vars = control_values"
  "variable_count control_vars = CONTROL_VAR_UNKNOWN" "mutex_free_vars control_vars"
  "variable_defaults control_vars = Some control_defaults"
  by (simp_all add: control_vars_def mutex_free_vars_def)

lemma cmd_obtain_variable_answers:
  assumes req: "ActionRequest (request ev) = Some (request_doc act args)"
      "map_of args ''InstanceID'' = Some i" "atoi i = 0"
    and ev: "event_status ev = 0" "event_service ev = control_vars"
    and "adds_succeed L" and "ControlMutex \<notin> held w" and "n < CONTROL_VAR_UNKNOWN"
  shows "cmd_obtain_variable L n key ev w
    = Inr (0, answered L ev [(key, the (get_service_var control_vars n w))], lock_edges ControlMutex w)"
  unfolding cmd_obtain_variable_def with_instance_pass [OF req]
  using assms(4-) by (intro upnp_append_variable_answered [where srv = control_vars]) simp_all

lemma get_volume_run:
  assumes req: "ActionRequest (request ev) = Some (request_doc act args)"
      "map_of args ''InstanceID'' = Some i" "atoi i = 0"
    and ev: "event_status ev = 0" "event_service ev = control_vars"
    and L: "adds_succeed L" and w: "ControlMutex \<notin> held w"
  shows "get_volume L ev w = Inr (0, answered L ev [(''CurrentVolume'', output_get_volume w)],
    (lock_edges ControlMutex w)\<lparr>control_values := (control_values w)(CONTROL_VAR_VOLUME \<mapsto> output_get_volume w)\<rparr>)"
proof -
  let ?w = "(lock_edges ControlMutex w)\<lparr>control_values := (control_values w)(CONTROL_VAR_VOLUME \<mapsto> output_get_volume w)\<rparr>"
  have "get_volume L ev w = cmd_obtain_variable L CONTROL_VAR_VOLUME ''CurrentVolume'' ev ?w"
    using w by (simp add: get_volume_def lock_def unlock_def lock_edges_def unlock_after_lock output_get_volume_def)
  also have "\<dots> = Inr (0, answered L ev [(''CurrentVolume'', output_get_volume w)], lock_edges ControlMutex ?w)"
    using w by (subst cmd_obtain_variable_answers [OF req ev L]) (simp_all add: lock_edges_def get_service_var_def)
  also have "lock_edges ControlMutex ?w = ?w"
    by (simp add: lock_edges_def)
  finally show ?thesis .
qed

text \<open>
  GetVolume answers with the player's volume, whatever was announced before, and brings
  the variable up to date with it.
\<close>

lemma get_volume_reply:
  assumes req: "ActionRequest (request ev) = Some (request_doc act args)"
      "map_of args ''InstanceID'' = Some i" "atoi i = 0"
    and ev: "event_status ev = 0" "event_service ev = control_vars"
    and L: "adds_succeed L" and w: "ControlMutex \<notin> held w"
  shows "get_volume L ev w = Inr (0, answered L ev [(''CurrentVolume'', output_get_volume w)],
    (lock_edges ControlMutex w)\<lparr>control_values := (control_values w)(CONTROL_VAR_VOLUME \<mapsto> output_get_volume w)\<rparr>)"
  by (rule get_volume_run [OF assms])

lemma get_volume_reply_witness:
  "\<exists>ev w. get_volume sample_lib (sample_event control_vars ''GetVolume'' [(''InstanceID'', ''0'')]) sample_control
      = Inr (0, ev, w)
    \<and> ActionResult (request ev) = Some (Element ''GetVolumeResponse'' [] [Element ''CurrentVolume'' [] [TextNode ''30'']])"
proof -
  have a: "atoi ''0'' = 0" "snprintf 6 (fmt_d 30) = ''30''"
    by code_simp+
  show ?thesis
    using get_volume_reply [of "sample_event control_vars ''GetVolume'' [(''InstanceID'', ''0'')]" "''GetVolume''"
        "[(''InstanceID'', ''0'')]" "''0''" sample_lib sample_control]
    by (simp add: a sample_control_def sample_output_def output_env.defs output_get_volume_def add_all_def)
      (simp add: sample_lib_def)
qed

lemma dec_digits_hd_zero: "hd (dec_digits n) = CHR ''0'' \<longleftrightarrow> n = 0"
proof (induction n rule: dec_digits.induct)
  case (1 n)
  show ?case
  proof (cases "n < 10")
    case True
    then have "n \<in> {0, 1, 2, 3, 4, 5, 6, 7, 8, 9}" by auto
    then show ?thesis by (auto simp: dec_digits_small digit_char_def)
  next
    case False
    with 1 show ?thesis by (simp add: dec_digits_big)
  qed
qed

lemma output_get_volume_zero:
  "output_get_volume w \<noteq> [] \<and> hd (output_get_volume w) = CHR ''0'' \<longleftrightarrow> mpdvolume w = 0"
proof -
  have "hd (take 5 (fmt_d k)) = hd (fmt_d k) \<and> take 5 (fmt_d k) \<noteq> []" for k
    by (cases "fmt_d k") (auto simp: fmt_d_def split: if_splits)
  moreover have "hd (fmt_d k) = CHR ''0'' \<longleftrightarrow> k = 0" for k
    using dec_digits_hd_zero [of "nat k"] by (auto simp: fmt_d_def)
  ultimately show ?thesis
    by (simp add: output_get_volume_def snprintf_def)
qed

text \<open>
  What a new subscriber of RenderingControl gets: the player's volume and a mute that is
  on exactly when that volume is 0, both in the variables and in the LastChange document;
  the mutex is given back and nobody else is notified.
\<close>

lemma control_notify_subscription_spec:
  assumes "ControlMutex \<notin> held w"
  shows "\<exists>w'. control_notify_subscription w = Inr (0, w')
    \<and> control_values w' = (control_values w)
        (CONTROL_VAR_VOLUME \<mapsto> output_get_volume w,
         CONTROL_VAR_MUTE \<mapsto> (if mpdvolume w = 0 then ''1'' else ''0''),
         CONTROL_VAR_LAST_CHANGE \<mapsto> rcs_event (control_element CONTROL_VAR_VOLUME (output_get_volume w)
            @ control_element CONTROL_VAR_MUTE (if mpdvolume w = 0 then ''1'' else ''0'')))
    \<and> held w' = held w \<and> notifications w' = notifications w"
proof -
  have same: "output_get_volume (locked ControlMutex w) = output_get_volume w"
    by (simp add: output_get_volume_def)
  let ?mute = "if mpdvolume w = 0 then ''1'' else ''0''"
  have "control_update_settings (locked ControlMutex w) = Inr ((locked ControlMutex w)
      \<lparr>control_values := (control_values w)(CONTROL_VAR_VOLUME \<mapsto> output_get_volume w, CONTROL_VAR_MUTE \<mapsto> ?mute)\<rparr>)"
    using output_get_volume_zero [of w]
    by (auto simp: control_update_settings_def Let_def same)
  then show ?thesis
    using assms
    by (simp add: control_notify_subscription_def lock_locked rcs_value_element unlock_def fun_upd_twist)
qed

lemma control_notify_subscription_spec_witness:
  "\<exists>w'. control_notify_subscription (sample_control\<lparr>mpdvolume := 0\<rparr>) = Inr (0, w')
     \<and> control_values w' CONTROL_VAR_MUTE = Some ''1''"
  using control_notify_subscription_spec [of "sample_control\<lparr>mpdvolume := 0\<rparr>"]
  by (auto simp: sample_control_def sample_output_def output_env.defs)

text \<open>
  GetVolumeDB answers with an argument its own description does not declare: the reply
  carries CurrentVolumeDB, the action's one output argument is called CurrentVolume.
\<close>

lemma get_volume_db_reply_undeclared:
  assumes req: "ActionRequest (request ev) = Some (request_doc act args)"
      "map_of args ''InstanceID'' = Some i" "atoi i = 0"
    and ev: "event_status ev = 0" "event_service ev = control_vars"
    and L: "adds_succeed L" and w: "ControlMutex \<notin> held w"
  shows "get_volume_db L ev w = Inr (0, answered L ev
      [(''CurrentVolumeDB'', the (get_service_var control_vars CONTROL_VAR_VOLUME_DB w))], lock_edges ControlMutex w)
    \<and> (\<forall>a \<in> set arguments_get_vol_db. direction a = PARAM_DIR_OUT \<longrightarrow> arg_name a \<noteq> ''CurrentVolumeDB'')"
  using cmd_obtain_variable_answers [OF req ev L w, of CONTROL_VAR_VOLUME_DB "''CurrentVolumeDB''"]
  by (simp add: get_volume_db_def arguments_get_vol_db_def)

lemma get_volume_db_reply_undeclared_witness:
  "\<exists>ev w. get_volume_db sample_lib (sample_event control_vars ''GetVolumeDB'' [(''InstanceID'', ''0'')]) sample_control
      = Inr (0, ev, w)
    \<and> ActionResult (request ev) = Some (Element ''GetVolumeDBResponse'' [] [Element ''CurrentVolumeDB'' [] [TextNode ''0'']])"
proof -
  have a: "atoi ''0'' = 0"
    by code_simp
  show ?thesis
    using get_volume_db_reply_undeclared [of "sample_event control_vars ''GetVolumeDB'' [(''InstanceID'', ''0'')]"
        "''GetVolumeDB''" "[(''InstanceID'', ''0'')]" "''0''" sample_lib sample_control]
    by (simp add: a sample_control_def sample_output_def output_env.defs get_service_var_def control_defaults_def add_all_def)
      (simp add: sample_lib_def)
qed

end
