(* ===== verification/Renderer.thy ===== *)
theory Renderer
  imports Output_Init Device_Init Transport_Replies Control_Facts
begin

text \<open>
  upnp_renderer.c: the media renderer, the device with the three services. Its state is the
  state of all components, the record \<open>control_env\<close>. \<open>upnp_renderer_new\<close>, which in C
  overwrites the members of the static \<open>render_device\<close>, takes the device and returns it
  updated.
\<close>

section \<open>The device\<close>

definition upnp_services :: "upnp_lib \<Rightarrow> 'm mpd_lib \<Rightarrow> ('m, 'z) control_env_scheme service list" where
  "upnp_services L MD = [transport_service L MD, connmgr_service L, control_service L MD]"

definition icon1 :: icon where
  "icon1 = \<lparr>icon_width = 64, icon_height = 64, icon_depth = 24, icon_url = ''/upnp/upnpmpd-64x64.png'',
     icon_mimetype = ''image/png''\<rparr>"

definition icon2 :: icon where
  "icon2 = \<lparr>icon_width = 128, icon_height = 128, icon_depth = 24, icon_url = ''/upnp/upnpmpd-128x128.png'',
     icon_mimetype = ''image/png''\<rparr>"

definition renderer_icon :: "icon list" where
  "renderer_icon = [icon1, icon2]"

text \<open>\<open>alloc\<close> says which of the allocations of \<open>connmgr_init\<close> succeed.\<close>

definition upnp_renderer_init ::
  "(int \<Rightarrow> bool) \<Rightarrow> ('m, 'z) control_env_scheme \<Rightarrow> (int \<times> ('m, 'z) control_env_scheme) result" where
  "upnp_renderer_init alloc w = connmgr_init alloc (control_init (transport_init w))"

text \<open>The name and version autoconf writes into config.h.\<close>

definition PACKAGE_NAME :: string where "PACKAGE_NAME = ''UPnPMPD''"

definition PACKAGE_VERSION :: string where "PACKAGE_VERSION = ''1.1.3''"

definition render_device ::
  "upnp_lib \<Rightarrow> 'm mpd_lib \<Rightarrow> (int \<Rightarrow> bool) \<Rightarrow> ('m, 'z) control_env_scheme device" where
  "render_device L MD alloc =
     \<lparr>init_function = Some (upnp_renderer_init alloc),
      device_type = ''urn:schemas-upnp-org:device:MediaRenderer:1'',
      friendly_name = PACKAGE_NAME,
      manufacturer = ''Kitschensync'',
      manufacturer_url = ''http://www.kitschensync.com'',
      model_description = ''UPnP MPD Interface Service'',
      model_name = ''KS '' @ PACKAGE_NAME,
      model_number = PACKAGE_VERSION,
      model_url = ''http://www.kitschensync.com/upnpmpd'',
      serial_number = ''KSMPD-12345678'',
      udn = ''uuid:1b42696d-0d62-4af2-adb8--aabbccddeeff'',
      upc = [],
      presentation_url = ''/upnp/upnpmpd.html'',
      icons = Some renderer_icon,
      services = upnp_services L MD\<rparr>"

text \<open>What the three dump functions print.\<close>

definition upnp_renderer_dump_connmgr_scpd :: "upnp_lib \<Rightarrow> string result" where
  "upnp_renderer_dump_connmgr_scpd L =
     upnp_get_scpd (ixmlDocumenttoString L) (connmgr_service L :: unit connmgr_env_scheme service)"

definition upnp_renderer_dump_control_scpd :: "upnp_lib \<Rightarrow> 'm mpd_lib \<Rightarrow> string result" where
  "upnp_renderer_dump_control_scpd L MD =
     upnp_get_scpd (ixmlDocumenttoString L) (control_service L MD :: ('m, unit) control_env_scheme service)"

definition upnp_renderer_dump_transport_scpd :: "upnp_lib \<Rightarrow> 'm mpd_lib \<Rightarrow> string result" where
  "upnp_renderer_dump_transport_scpd L MD =
     upnp_get_scpd (ixmlDocumenttoString L) (transport_service L MD :: ('m, unit) output_env_scheme service)"

section \<open>Configuration\<close>

definition config_override :: "config \<Rightarrow> string \<Rightarrow> string \<Rightarrow> string" where
  "config_override cfg key old = (case config_lookup_string cfg key of None \<Rightarrow> old | Some v \<Rightarrow> v)"

text \<open>Storing a character of the copied UDN; \<open>mac_addr\<close> is the whole array, with its NUL.\<close>

definition set_char :: "string \<Rightarrow> nat \<Rightarrow> char \<Rightarrow> string result" where
  "set_char s i c = (if i < length s then Inr (s[i := c]) else Inl OutOfBounds)"

fun merge_mac :: "nat list \<Rightarrow> string \<Rightarrow> string \<Rightarrow> string result" where
  "merge_mac [] mac_addr u = Inr u"
| "merge_mac (k # ks) mac_addr u =
     (let k2 = 2 * k in
      bindE (nthE mac_addr 0) (\<lambda>a.
      bindE (set_char u (29 + k2) a) (\<lambda>u.
      bindE (nthE mac_addr 1) (\<lambda>b.
      bindE (set_char u (29 + k2 + 1) b) (\<lambda>u.
      merge_mac ks (drop 3 mac_addr) u)))))"

definition upnp_renderer_new ::
  "string option \<Rightarrow> string \<Rightarrow> config \<Rightarrow> 'w device \<Rightarrow> 'w device result" where
  "upnp_renderer_new name mac_addr cfg d =
     (let d = d\<lparr>friendly_name := (case name of
                None \<Rightarrow> config_override cfg ''friendly-name'' (friendly_name d) | Some n \<Rightarrow> n)\<rparr>;
          d = d\<lparr>manufacturer := config_override cfg ''manufacturer'' (manufacturer d)\<rparr>;
          d = d\<lparr>manufacturer_url := config_override cfg ''manufacturerURL'' (manufacturer_url d)\<rparr>;
          d = d\<lparr>model_name := config_override cfg ''model-name'' (model_name d)\<rparr>;
          d = d\<lparr>model_description := config_override cfg ''model-desc'' (model_description d)\<rparr>;
          d = d\<lparr>model_url := config_override cfg ''model-URL'' (model_url d)\<rparr>;
          d = d\<lparr>model_number := config_override cfg ''model-number'' (model_number d)\<rparr>
      in bindE (merge_mac [0..<6] mac_addr (udn d)) (\<lambda>u. Inr (d\<lparr>udn := u\<rparr>)))"

section \<open>The tables of the services\<close>

lemma transport_table: "action_table_ok (transport_actions L MD)"
  and connmgr_table: "action_table_ok (connmgr_actions L)"
  and control_table: "action_table_ok (control_actions L MD)"
  by (simp_all add: action_table_ok_def transport_actions_def connmgr_actions_def control_actions_def array_of_def upt_rec)

lemma transport_length: "length (transport_actions L MD) = Suc TRANSPORT_CMD_UNKNOWN"
  and connmgr_length: "length (connmgr_actions L) = Suc CONNMGR_CMD_UNKNOWN"
  and control_length: "length (control_actions L MD) = Suc CONTROL_CMD_UNKNOWN"
  by (simp_all add: transport_actions_def connmgr_actions_def control_actions_def)

lemma transport_tables_ok: "service_tables_ok (transport_service L MD)"
proof -
  let ?s = "transport_service L MD"
  have a: "actions ?s = transport_actions L MD" "command_count ?s = TRANSPORT_CMD_UNKNOWN"
    "variable_count ?s = TRANSPORT_VAR_UNKNOWN" "variable_names ?s = transport_variables"
    "variable_meta ?s = transport_var_meta" "action_arguments ?s = transport_argument_list"
    by (simp_all add: transport_service_def transport_vars_def service_vars.extend_def)
  have "\<forall>i\<in>set [0..<TRANSPORT_VAR_UNKNOWN]. transport_variables i \<noteq> None
      \<and> (case transport_var_meta i of None \<Rightarrow> False | Some m \<Rightarrow> datatype_of m \<noteq> DATATYPE_UNKNOWN)"
    by (simp add: upt_rec transport_variables_def transport_var_meta_def)
  moreover have "\<forall>i\<in>set [0..<TRANSPORT_CMD_UNKNOWN]. case transport_argument_list i of
      None \<Rightarrow> True | Some as \<Rightarrow> \<forall>a\<in>set as. statevar a < TRANSPORT_VAR_UNKNOWN"
    by (simp add: upt_rec transport_argument_list_def arguments_setavtransporturi_def arguments_getmediainfo_def
      arguments_gettransportinfo_def arguments_getpositioninfo_def arguments_getdevicecapabilities_def
      arguments_gettransportsettings_def arguments_stop_def arguments_play_def arguments_pause_def
      arguments_seek_def arguments_next_def arguments_previous_def arguments_setplaymode_def
      arguments_getcurrenttransportactions_def)
  ultimately show ?thesis
    unfolding service_tables_ok_def a using transport_table [of L MD] transport_length [of L MD] by simp
qed

lemma connmgr_tables_ok: "service_tables_ok (connmgr_service L)"
proof -
  let ?s = "connmgr_service L"
  have a: "actions ?s = connmgr_actions L" "command_count ?s = CONNMGR_CMD_UNKNOWN"
    "variable_count ?s = CONNMGR_VAR_UNKNOWN" "variable_names ?s = connmgr_variables"
    "variable_meta ?s = connmgr_var_meta" "action_arguments ?s = connmgr_argument_list"
    by (simp_all add: connmgr_service_def connmgr_vars_def service_vars.extend_def)
  have "\<forall>i\<in>set [0..<CONNMGR_VAR_UNKNOWN]. connmgr_variables i \<noteq> None
      \<and> (case connmgr_var_meta i of None \<Rightarrow> False | Some m \<Rightarrow> datatype_of m \<noteq> DATATYPE_UNKNOWN)"
    by (simp add: upt_rec connmgr_variables_def connmgr_var_meta_def)
  moreover have "\<forall>i\<in>set [0..<CONNMGR_CMD_UNKNOWN]. case connmgr_argument_list i of
      None \<Rightarrow> True | Some as \<Rightarrow> \<forall>a\<in>set as. statevar a < CONNMGR_VAR_UNKNOWN"
    by (simp add: upt_rec connmgr_argument_list_def arguments_getprotocolinfo_def
      arguments_getcurrentconnectionids_def arguments_setcurrentconnectioninfo_def)
  ultimately show ?thesis
    unfolding service_tables_ok_def a using connmgr_table [of L] connmgr_length [of L] by simp
qed

lemma control_tables_ok: "service_tables_ok (control_service L MD)"
proof -
  let ?s = "control_service L MD"
  have a: "actions ?s = control_actions L MD" "command_count ?s = CONTROL_CMD_UNKNOWN"
    "variable_count ?s = CONTROL_VAR_UNKNOWN" "variable_names ?s = control_variables"
    "variable_meta ?s = control_var_meta" "action_arguments ?s = control_argument_list"
    by (simp_all add: control_service_def control_vars_def service_vars.extend_def)
  have "\<forall>i\<in>set [0..<CONTROL_VAR_UNKNOWN]. control_variables i \<noteq> None
      \<and> (case control_var_meta i of None \<Rightarrow> False | Some m \<Rightarrow> datatype_of m \<noteq> DATATYPE_UNKNOWN)"
    by (simp add: upt_rec control_variables_def control_var_meta_def)
  moreover have "\<forall>i\<in>set [0..<CONTROL_CMD_UNKNOWN]. case control_argument_list i of
      None \<Rightarrow> True | Some as \<Rightarrow> \<forall>a\<in>set as. statevar a < CONTROL_VAR_UNKNOWN"
    by (simp add: upt_rec control_argument_list_def arguments_list_presets_def arguments_select_preset_def
      arguments_get_mute_def arguments_set_mute_def arguments_get_vol_def arguments_set_vol_def
      arguments_get_vol_db_def arguments_set_vol_db_def arguments_get_vol_dbrange_def
      arguments_get_loudness_def arguments_set_loudness_def)
  ultimately show ?thesis
    unfolding service_tables_ok_def a using control_table [of L MD] control_length [of L MD] by simp
qed

lemma renderer_tables_ok: "s \<in> set (upnp_services L MD) \<Longrightarrow> service_tables_ok s"
  by (auto simp: upnp_services_def transport_tables_ok connmgr_tables_ok control_tables_ok)

text \<open>
  C16. The description of each service is generated without a fault; it lists the actions of
  its table, in order, every action it lists is one the dispatcher finds, and every state
  variable an argument refers to is declared in the state table.
\<close>

theorem renderer_descriptions:
  "\<forall>s\<in>set (upnp_services L MD). \<exists>doc. generate_scpd s = Inr doc
    \<and> texts [''scpd'', ''actionList'', ''action'', ''name''] doc
        = map (\<lambda>a. the (action_name a)) (butlast (actions s))
    \<and> (\<forall>n\<in>set (texts [''scpd'', ''actionList'', ''action'', ''name''] doc).
         \<exists>a. find_action (Some s) n = Inr (Some a) \<and> action_name a = Some n)
    \<and> set (texts [''scpd'', ''actionList'', ''action'', ''argumentList'', ''argument'', ''relatedStateVariable''] doc)
        \<subseteq> set (texts [''scpd'', ''serviceStateTable'', ''stateVariable'', ''name''] doc)"
  by (intro ballI service_described renderer_tables_ok)

theorem renderer_descriptions_witness:
  "\<exists>doc. generate_scpd (connmgr_service sample_lib :: (mpd_command_call list, unit) control_env_scheme service) = Inr doc
     \<and> texts [''scpd'', ''actionList'', ''action'', ''name''] doc
       = [''GetCurrentConnectionIDs'', ''GetCurrentConnectionInfo'', ''GetProtocolInfo'']"
proof -
  have "(connmgr_service sample_lib :: (mpd_command_call list, unit) control_env_scheme service)
      \<in> set (upnp_services sample_lib sample_mpd)"
    by (simp add: upnp_services_def)
  from renderer_descriptions [of sample_lib sample_mpd, THEN bspec, OF this] show ?thesis
    by (auto simp: connmgr_service_def service_vars.extend_def connmgr_actions_def array_of_def upt_rec)
qed

section \<open>Dispatch\<close>

lemma service_names [simp]:
  "service_name (transport_service L MD) = ''urn:schemas-upnp-org:service:AVTransport''"
  "service_name (connmgr_service L) = ''urn:schemas-upnp-org:service:ConnectionManager''"
  "service_name (control_service L MD) = ''urn:schemas-upnp-org:service:RenderingControl''"
  by (simp_all add: transport_service_def transport_vars_def connmgr_service_def connmgr_vars_def
      control_service_def control_vars_def service_vars.extend_def)

lemma service_actions [simp]:
  "actions (transport_service L MD) = transport_actions L MD"
  "actions (connmgr_service L) = connmgr_actions L"
  "actions (control_service L MD) = control_actions L MD"
  by (simp_all add: transport_service_def connmgr_service_def control_service_def service_vars.extend_def)

lemma scpd_urls [simp]:
  "scpd_url (transport_service L MD) = ''/upnp/rendertransportSCPD.xml''"
  "scpd_url (connmgr_service L) = ''/upnp/renderconnmgrSCPD.xml''"
  "scpd_url (control_service L MD) = ''/upnp/rendercontrolSCPD.xml''"
  by (simp_all add: transport_service_def transport_vars_def connmgr_service_def connmgr_vars_def
      control_service_def control_vars_def service_vars.extend_def)

lemma service_truncate [simp]:
  "service_vars.truncate (transport_service L MD) = transport_vars"
  "service_vars.truncate (connmgr_service L) = connmgr_vars"
  "service_vars.truncate (control_service L MD) = control_vars"
  by (simp_all add: transport_service_def transport_vars_def connmgr_service_def connmgr_vars_def
      control_service_def control_vars_def service_vars.extend_def service_vars.truncate_def)

lemma find_service_renderer:
  assumes "services d = upnp_services L MD"
  shows "find_service d ''urn:schemas-upnp-org:service:AVTransport'' = Some (transport_service L MD)"
    and "find_service d ''urn:schemas-upnp-org:service:ConnectionManager'' = Some (connmgr_service L)"
    and "find_service d ''urn:schemas-upnp-org:service:RenderingControl'' = Some (control_service L MD)"
  using assms by (simp_all add: find_service_def upnp_services_def)

text \<open>
  Five actions are advertised and have no handler; a request for one of them is answered
  as a success, without any effect and without the response document.
\<close>

lemma unimplemented_actions_succeed:
  assumes dev: "services d = upnp_services L MD"
    and act: "(ServiceID ar, ActionName ar) \<in>
      {(''urn:schemas-upnp-org:service:AVTransport'', ''GetCurrentTransportActions''),
       (''urn:schemas-upnp-org:service:RenderingControl'', ''SelectPreset''),
       (''urn:schemas-upnp-org:service:RenderingControl'', ''SetVolumeDB''),
       (''urn:schemas-upnp-org:service:RenderingControl'', ''GetVolumeDBRange''),
       (''urn:schemas-upnp-org:service:RenderingControl'', ''SetLoudness'')}"
  shows "handle_action_request L d ar w = Inr (0, ar\<lparr>ErrCode := UPNP_E_SUCCESS L\<rparr>, w)"
proof -
  have t: "action_init ''GetCurrentTransportActions'' None \<in> set (transport_actions L MD)"
    by (simp add: transport_actions_def array_of_def upt_rec)
  have c: "action_init ''SelectPreset'' None \<in> set (control_actions L MD)"
    "action_init ''SetVolumeDB'' None \<in> set (control_actions L MD)"
    "action_init ''GetVolumeDBRange'' None \<in> set (control_actions L MD)"
    "action_init ''SetLoudness'' None \<in> set (control_actions L MD)"
    by (simp_all add: control_actions_def array_of_def upt_rec)
  note found = find_action_loop_member [OF transport_table t] c [THEN find_action_loop_member [OF control_table]]
  show ?thesis
    using act by (auto simp: handle_action_request_def find_service_renderer [OF dev] find_action_def found)
qed

lemma unimplemented_actions_succeed_witness:
  "handle_action_request sample_lib (render_device sample_lib sample_mpd (\<lambda>_. True))
     (some_request ''urn:schemas-upnp-org:service:RenderingControl'' ''SetLoudness'' []) sample_control
   = Inr (0, some_request ''urn:schemas-upnp-org:service:RenderingControl'' ''SetLoudness'' []\<lparr>ErrCode := 0\<rparr>, sample_control)"
  using unimplemented_actions_succeed [of "render_device sample_lib sample_mpd (\<lambda>_. True)" sample_lib sample_mpd
      "some_request ''urn:schemas-upnp-org:service:RenderingControl'' ''SetLoudness'' []" sample_control]
  by (simp add: render_device_def sample_lib_def)

section \<open>Identity\<close>

lemma upnp_renderer_new_run:
  assumes mac: "18 \<le> length mac" and d: "udn d = ''uuid:1b42696d-0d62-4af2-adb8--aabbccddeeff''"
  shows "\<exists>d'. upnp_renderer_new name mac cfg d = Inr d'
    \<and> udn d' = ''uuid:1b42696d-0d62-4af2-adb8-'' @ concat (map (\<lambda>k. [mac ! (3 * k), mac ! (3 * k + 1)]) [0..<6]) @ ''f''
    \<and> friendly_name d' = (case name of Some n \<Rightarrow> n
        | None \<Rightarrow> (case config_lookup_string cfg ''friendly-name'' of Some n \<Rightarrow> n | None \<Rightarrow> friendly_name d))
    \<and> services d' = services d \<and> icons d' = icons d \<and> init_function d' = init_function d"
proof -
  have mac_ne: "mac \<noteq> []"
    using mac by auto
  have "merge_mac [0..<6] mac ''uuid:1b42696d-0d62-4af2-adb8--aabbccddeeff''
      = Inr (''uuid:1b42696d-0d62-4af2-adb8-'' @ concat (map (\<lambda>k. [mac ! (3 * k), mac ! (3 * k + 1)]) [0..<6]) @ ''f'')"
    using mac mac_ne by (simp add: upt_rec set_char_def nth_drop)
  with d show ?thesis
    by (auto simp: upnp_renderer_new_def Let_def config_override_def split: option.split)
qed

text \<open>
  C36. The UDN of the device: the template's first 29 characters, the twelve digits of the
  MAC address, and the last character of the template, which nothing overwrites. The
  template already has a second hyphen at the place the address goes to, so the result is
  one character too long for a UUID: its last group has thirteen digits. The name comes from
  the command line, or else the configuration file, or else the package.
\<close>

theorem upnp_renderer_udn:
  assumes mac: "18 \<le> length mac" and d: "udn d = ''uuid:1b42696d-0d62-4af2-adb8--aabbccddeeff''"
  shows "\<exists>d'. upnp_renderer_new name mac cfg d = Inr d'
    \<and> udn d' = ''uuid:1b42696d-0d62-4af2-adb8-'' @ concat (map (\<lambda>k. [mac ! (3 * k), mac ! (3 * k + 1)]) [0..<6]) @ ''f''
    \<and> friendly_name d' = (case name of Some n \<Rightarrow> n
        | None \<Rightarrow> (case config_lookup_string cfg ''friendly-name'' of Some n \<Rightarrow> n | None \<Rightarrow> friendly_name d))
    \<and> services d' = services d \<and> icons d' = icons d \<and> init_function d' = init_function d"
  by (rule upnp_renderer_new_run [OF assms])

theorem upnp_renderer_udn_witness:
  "\<exists>d'. upnp_renderer_new None (''00:1f:2e:3d:4c:5b'' @ [NUL])
       \<lparr>config_lookup_string = (\<lambda>_. None), config_lookup_int = (\<lambda>_. None)\<rparr>
       (render_device sample_lib sample_mpd (\<lambda>_. True)) = Inr d'
     \<and> udn d' = ''uuid:1b42696d-0d62-4af2-adb8-001f2e3d4c5bf'' \<and> friendly_name d' = ''UPnPMPD''"
  using upnp_renderer_udn [of "''00:1f:2e:3d:4c:5b'' @ [NUL]" "render_device sample_lib sample_mpd (\<lambda>_. True)" None
      "\<lparr>config_lookup_string = (\<lambda>_. None), config_lookup_int = (\<lambda>_. None)\<rparr>"]
  by (auto simp: render_device_def PACKAGE_NAME_def upt_rec)

section \<open>Start\<close>

text \<open>\<open>upnp_device_init\<close> on the renderer: only the variables and the web server's directory change.\<close>

lemma upnp_device_init_renderer:
  fixes w :: "('m, 'z) control_env_scheme"
  assumes dev: "services d = upnp_services L MD" "icons d = Some renderer_icon"
      "init_function d = Some (upnp_renderer_init alloc)"
    and types: "supported_types w \<noteq> []" "\<forall>t\<in>set (supported_types w). NUL \<notin> set t"
      "int (length (entries_text (supported_types w))) \<le> INT_MAX"
    and mem: "\<forall>n. alloc n" "entry_malloc_ok fs" and st: "transport_state w = None"
    and lib: "UpnpInit L ip 0 = UPNP_E_SUCCESS L" "UpnpEnableWebserver L True = UPNP_E_SUCCESS L"
      "UpnpSetVirtualDirCallbacks L = UPNP_E_SUCCESS L" "UpnpAddVirtualDir L ''/upnp'' = UPNP_E_SUCCESS L"
      "UpnpRegisterRootDevice2 L (ixmlDocumenttoString L (desc_tree d)) = UPNP_E_SUCCESS L"
      "UpnpSendAdvertisement L 100 = UPNP_E_SUCCESS L"
  shows "\<exists>w'. upnp_device_init L fs datadir d ip w = Inr (0, False, w') \<and> transport_ok w'
    \<and> w' = (control_init (transport_init w))\<lparr>connmgr_values := [CONNMGR_VAR_SINK_PROTO_INFO \<mapsto>
            comma_separated (map protocol_entry (supported_types w)), CONNMGR_VAR_SRC_PROTO_INFO \<mapsto> []],
          virtual_files := virtual_files w'\<rparr>
    \<and> (\<forall>s\<in>set (services d). webserver_open (virtual_files w') (scpd_url s) UPNP_READ
          = Some \<lparr>file_pos = 0, contents = Some (map Some (ixmlDocumenttoString L (scpd_tree s))),
                  file_len = length (ixmlDocumenttoString L (scpd_tree s))\<rparr>)"
proof -
  let ?u = "control_init (transport_init w)"
  let ?w0 = "?u\<lparr>connmgr_values := [CONNMGR_VAR_SINK_PROTO_INFO \<mapsto>
      comma_separated (map protocol_entry (supported_types w)), CONNMGR_VAR_SRC_PROTO_INFO \<mapsto> []]\<rparr>"
  have u: "supported_types ?u = supported_types w" "held ?u = held w"
    by (simp_all add: control_init_def transport_init_def)
  have init: "upnp_renderer_init alloc w = Inr (0, ?w0)"
    unfolding upnp_renderer_init_def
    using connmgr_init_run [of ?u alloc] types mem(1) u by simp
  have ok: "transport_ok ?w0"
    using transport_init_ok [OF st] by (simp add: control_init_def transport_ok_def)
  have init': "(case init_function d of None \<Rightarrow> Inr (0, w) | Some f \<Rightarrow> f w) = Inr (0, ?w0)"
    by (simp add: dev(3) init)
  have tables: "\<forall>s\<in>set (services d). service_tables_ok s"
    using dev(1) renderer_tables_ok by auto
  have urls: "distinct (map scpd_url (services d))"
    by (simp add: dev(1) upnp_services_def)
  obtain w' where w': "upnp_device_init L fs datadir d ip w = Inr (0, False, w')"
      "\<forall>s\<in>set (services d). webserver_open (virtual_files w') (scpd_url s) UPNP_READ
          = Some \<lparr>file_pos = 0, contents = Some (map Some (ixmlDocumenttoString L (scpd_tree s))),
                  file_len = length (ixmlDocumenttoString L (scpd_tree s))\<rparr>"
      "w' = ?w0\<lparr>virtual_files := virtual_files w'\<rparr>"
    using upnp_device_init_serves [OF init' dev(2) tables urls lib mem(2), of datadir] by blast
  have "transport_ok w' = transport_ok ?w0" by (subst w'(3)) simp
  with ok have "transport_ok w'" by simp
  then show ?thesis
    using w' by blast
qed

text \<open>
  C9. Bringing the renderer up, with every call of libupnp succeeding: the sink list is
  that of the registered types, the transport variables are initialised, \<open>UpnpFinish\<close> is not
  called, and every description URL the device description advertises is served with the
  description of its service.
\<close>

theorem renderer_starts:
  fixes w :: "('m, 'z) control_env_scheme"
  assumes dev: "services d = upnp_services L MD" "icons d = Some renderer_icon"
      "init_function d = Some (upnp_renderer_init alloc)"
    and types: "supported_types w \<noteq> []" "\<forall>t\<in>set (supported_types w). NUL \<notin> set t"
      "int (length (entries_text (supported_types w))) \<le> INT_MAX"
    and mem: "\<forall>n. alloc n" "entry_malloc_ok fs" and st: "transport_state w = None"
    and lib: "UpnpInit L ip 0 = UPNP_E_SUCCESS L" "UpnpEnableWebserver L True = UPNP_E_SUCCESS L"
      "UpnpSetVirtualDirCallbacks L = UPNP_E_SUCCESS L" "UpnpAddVirtualDir L ''/upnp'' = UPNP_E_SUCCESS L"
      "UpnpRegisterRootDevice2 L (ixmlDocumenttoString L (desc_tree d)) = UPNP_E_SUCCESS L"
      "UpnpSendAdvertisement L 100 = UPNP_E_SUCCESS L"
  shows "\<exists>w'. upnp_device_init L fs datadir d ip w = Inr (0, False, w')
    \<and> connmgr_values w' CONNMGR_VAR_SINK_PROTO_INFO
        = Some (comma_separated (map protocol_entry (supported_types w)))
    \<and> transport_ok w' \<and> held w' = held w
    \<and> (\<forall>url\<in>set (texts [''root'', ''device'', ''serviceList'', ''service'', ''SCPDURL''] (desc_tree d)).
        \<exists>s\<in>set (services d). scpd_url s = url
          \<and> webserver_open (virtual_files w') url UPNP_READ
            = Some \<lparr>file_pos = 0, contents = Some (map Some (ixmlDocumenttoString L (scpd_tree s))),
                    file_len = length (ixmlDocumenttoString L (scpd_tree s))\<rparr>)"
proof -
  obtain w' where w': "upnp_device_init L fs datadir d ip w = Inr (0, False, w')" "transport_ok w'"
      "w' = (control_init (transport_init w))\<lparr>connmgr_values := [CONNMGR_VAR_SINK_PROTO_INFO \<mapsto>
            comma_separated (map protocol_entry (supported_types w)), CONNMGR_VAR_SRC_PROTO_INFO \<mapsto> []],
          virtual_files := virtual_files w'\<rparr>"
      "\<forall>s\<in>set (services d). webserver_open (virtual_files w') (scpd_url s) UPNP_READ
          = Some \<lparr>file_pos = 0, contents = Some (map Some (ixmlDocumenttoString L (scpd_tree s))),
                  file_len = length (ixmlDocumenttoString L (scpd_tree s))\<rparr>"
    using upnp_device_init_renderer [OF dev types mem st lib] by blast
  have "connmgr_values w' CONNMGR_VAR_SINK_PROTO_INFO
        = Some (comma_separated (map protocol_entry (supported_types w)))" "held w' = held w"
    by (subst w'(3), simp add: control_init_def transport_init_def)+
  with w' show ?thesis
    by (intro exI [of _ w']) (auto simp: desc_texts)
qed

definition sample_fs :: file_system where
  "sample_fs = \<lparr>fs_stat = (\<lambda>_. None), fs_fopen = (\<lambda>_. None), entry_malloc_ok = True, contents_malloc_ok = True\<rparr>"

theorem renderer_starts_witness:
  "\<exists>w'. upnp_device_init sample_lib sample_fs ''/usr/share'' (render_device sample_lib sample_mpd (\<lambda>_. True)) ''10.0.0.2''
        (sample_control\<lparr>supported_types := [''audio/ogg'', ''audio/mpeg'']\<rparr>) = Inr (0, False, w')
     \<and> connmgr_values w' CONNMGR_VAR_SINK_PROTO_INFO = Some ''http-get:*:audio/ogg:*,http-get:*:audio/mpeg:*''"
proof -
  let ?w = "sample_control\<lparr>supported_types := [''audio/ogg'', ''audio/mpeg'']\<rparr>"
  have "comma_separated (map protocol_entry [''audio/ogg'', ''audio/mpeg'']) = ''http-get:*:audio/ogg:*,http-get:*:audio/mpeg:*''"
    by (simp add: protocol_entry_def)
  then show ?thesis
    using renderer_starts [of "render_device sample_lib sample_mpd (\<lambda>_. True)" sample_lib sample_mpd "\<lambda>_. True" ?w sample_fs
        "''10.0.0.2''" "''/usr/share''"]
    by (auto simp: render_device_def sample_control_def sample_output_def output_env.defs sample_fs_def sample_lib_def
        entries_text_def protocol_entry_def INT_MAX_def)
qed

end
