(* ===== verification/System.thy ===== *)
theory System
  imports Renderer
begin

text \<open>
  The renderer as a whole: libupnp hands it one event after the other, and what it does is
  the composition of the dispatcher of upnp_device.c with the handlers of the three
  services and the player backend. This theory states what holds of every state such a
  sequence of events can lead to, and of runs that go through several components.
\<close>

section \<open>What one event may do\<close>

definition dev_step ::
  "'z transport_env_scheme \<Rightarrow> mutex set \<Rightarrow> 'z transport_env_scheme \<Rightarrow> bool" where
  "dev_step b M w \<longleftrightarrow>
     held w = M \<and> (ordered b \<longrightarrow> ordered w) \<and> (transport_ok b \<longrightarrow> transport_ok w)
   \<and> (\<exists>ns. notifications w = notifications b @ ns) \<and> (\<exists>ss. subscriptions w = subscriptions b @ ss)"

interpretation dev: lock_relation dev_step
proof
  fix b w :: "'a transport_env_scheme" and M m
  show "dev_step b M w \<Longrightarrow> held w = M"
    by (simp add: dev_step_def)
  show "dev_step b (insert m M) (w\<lparr>held := insert m M, lock_order := lock_order w \<union> M \<times> {m}\<rparr>)"
    if s: "dev_step b M w" and m: "may_lock m M"
    using s m ordered_lock [of w m "insert m M"] unfolding dev_step_def
    by (auto simp: transport_ok_def)
  show "dev_step b (M - {m}) (w\<lparr>held := M - {m}\<rparr>)" if "dev_step b M w"
    using that by (simp add: dev_step_def)
qed

lemma dev_step_refl: "held w = M \<Longrightarrow> dev_step w M w"
  by (simp add: dev_step_def)

lemma dev_step_action: "dev_step b M v \<Longrightarrow> action_step v N w \<Longrightarrow> dev_step b N w"
  by (auto simp: dev_step_def action_step_def)

lemma dev_step_trans: "dev_step a M b \<Longrightarrow> dev_step b N c \<Longrightarrow> dev_step a N c"
  by (auto simp: dev_step_def)

section \<open>Every handler\<close>

text \<open>
  The one misuse of a mutex the program is capable of, the second unlock in
  \<open>output_update_position\<close>, takes an accepted GetPositionInfo, the only action that goes
  there, and a status query that fails. Everything below holds without assuming that the
  player answers; where the misuse matters it is these two predicates that say when.
\<close>

definition position_query :: "upnp_lib \<Rightarrow> ('m, 'z) control_env_scheme device \<Rightarrow> upnp_event \<Rightarrow> bool" where
  "position_query L d e \<longleftrightarrow> (case e of
       UPNP_CONTROL_ACTION_REQUEST ar \<Rightarrow>
         ServiceID ar = ''urn:schemas-upnp-org:service:AVTransport'' \<and> ActionName ar = ''GetPositionInfo''
         \<and> (case find_service d (ServiceID ar) of
              None \<Rightarrow> False
            | Some s \<Rightarrow> \<exists>ev'. upnp_obtain_instanceid L
                \<lparr>request = ar, event_status = 0, event_service = service_vars.truncate s\<rparr> = Inr (0, ev'))
     | _ \<Rightarrow> False)"

definition unlocks_twice ::
  "upnp_lib \<Rightarrow> 'm mpd_lib \<Rightarrow> ('m, 'z) control_env_scheme device \<Rightarrow> upnp_event \<Rightarrow> ('m, 'z) control_env_scheme \<Rightarrow> bool" where
  "unlocks_twice L MD d e w \<longleftrightarrow> position_query L d e \<and> status_query_fails MD (locked TransportMutex w)"

lemma connmgr_callbacks:
  "{cb. \<exists>a\<in>set (connmgr_actions L). callback a = Some cb}
     = {get_protocol_info L, get_current_conn_ids L, get_current_conn_info L}"
  by (simp add: connmgr_actions_def array_of_def upt_rec) blast

lemma control_callbacks:
  "{cb. \<exists>a\<in>set (control_actions L MD). callback a = Some cb}
     = {list_presets L, get_mute L, set_mute L MD, get_volume L, set_volume L MD, get_volume_db L, get_loudness L}"
  by (simp add: control_actions_def array_of_def upt_rec) blast

lemma transport_position_action:
  "a \<in> set (transport_actions L MD) \<Longrightarrow> action_name a = Some ''GetPositionInfo'' \<Longrightarrow> callback a = Some (get_position_info L MD)"
  by (simp add: transport_actions_def array_of_def upt_rec) (elim disjE; simp)

lemma transport_other_callbacks:
  "a \<in> set (transport_actions L MD) \<Longrightarrow> callback a = Some cb \<Longrightarrow> action_name a \<noteq> Some ''GetPositionInfo'' \<Longrightarrow>
     cb \<in> {get_media_info L, get_transport_info L, get_transport_settings L,
          get_device_caps L, set_avtransport_uri L MD, xplaymode L MD, xstop L MD, xplay L MD, xpause L MD,
          xseek L MD, xnext L MD, xprevious L MD}"
  by (simp add: transport_actions_def array_of_def upt_rec) (elim disjE; clarsimp)

lemma renderer_handler_safe:
  fixes w :: "('m, 'z) control_env_scheme"
  assumes srv: "s \<in> set (upnp_services L MD)" and a: "a \<in> set (actions s)" "callback a = Some cb"
    and ev: "event_service ev = service_vars.truncate s" and w: "held w = {}"
    and pos: "s = transport_service L MD \<Longrightarrow> action_name a = Some ''GetPositionInfo'' \<Longrightarrow>
      \<not> (\<exists>ev'. upnp_obtain_instanceid L ev = Inr (0, ev')) \<or> \<not> status_query_fails MD (locked TransportMutex w)"
  shows "safe_ev ev (action_step w {}) (cb ev w)"
proof -
  have r: "action_step w {} w" by (rule action_step_refl [OF w])
  note refl = same_call_refl [of ev]
  consider "s = transport_service L MD" | "s = connmgr_service L" | "s = control_service L MD"
    using srv by (auto simp: upnp_services_def)
  then show ?thesis
  proof cases
    case 1
    have m: "service_mutex (event_service ev) = TransportMutex" using ev 1 by simp
    show ?thesis
    proof (cases "action_name a = Some ''GetPositionInfo''")
      case True
      have "a \<in> set (transport_actions L MD)" using a(1) 1 by simp
      from transport_position_action [OF this True] a(2) have "cb = get_position_info L MD" by simp
      with get_position_info_safe [OF refl m r empty_subsetI pos [OF 1 True]] show ?thesis by simp
    next
      case False
      have "a \<in> set (transport_actions L MD)" using a(1) 1 by simp
      from transport_other_callbacks [OF this a(2) False]
      have "cb \<in> {get_media_info L, get_transport_info L, get_transport_settings L,
          get_device_caps L, set_avtransport_uri L MD, xplaymode L MD, xstop L MD, xplay L MD, xpause L MD,
          xseek L MD, xnext L MD, xprevious L MD}" .
      then show ?thesis
        using transport_queries_safe [OF refl m r may_lock_empty] xcommands_safe [OF refl r empty_subsetI]
          set_avtransport_uri_safe [OF refl r empty_subsetI]
        by (elim insertE emptyE; hypsubst) assumption+
    qed
  next
    case 2
    have m: "service_mutex (event_service ev) = ConnmgrMutex" using ev 2 by simp
    have "cb \<in> {get_protocol_info L, get_current_conn_ids L, get_current_conn_info L}"
      using a 2 by (subst connmgr_callbacks [of L, symmetric]) auto
    then show ?thesis
      using connmgr_handlers_safe [OF refl m r may_lock_empty] by (elim insertE emptyE; hypsubst) assumption+
  next
    case 3
    have m: "service_mutex (event_service ev) = ControlMutex" using ev 3 by simp
    have "cb \<in> {list_presets L, get_mute L, set_mute L MD, get_volume L, set_volume L MD, get_volume_db L, get_loudness L}"
      using a 3 by (subst control_callbacks [of L MD, symmetric]) auto
    then show ?thesis
      using control_handlers_safe [OF refl m r empty_subsetI] by (elim insertE emptyE; hypsubst) assumption+
  qed
qed

section \<open>Requests\<close>

lemma find_service_member: "find_service d n = Some s \<Longrightarrow> s \<in> set (services d)"
  by (auto simp: find_service_def find_service_loop_conv dest: find_SomeD)

text \<open>What may go wrong with a mutex while an event is handled.\<close>

definition event_fault ::
  "upnp_lib \<Rightarrow> 'm mpd_lib \<Rightarrow> ('m, 'z) control_env_scheme device \<Rightarrow> upnp_event \<Rightarrow> ('m, 'z) control_env_scheme \<Rightarrow> fault \<Rightarrow> bool" where
  "event_fault L MD d e w f \<longleftrightarrow> f \<noteq> SelfDeadlock \<and> (f = UnlockNotHeld \<longrightarrow> unlocks_twice L MD d e w)"

lemma event_fault_no_lock: "\<not> lock_fault f \<Longrightarrow> event_fault L MD d e w f"
  by (auto simp: event_fault_def)

lemma action_request_safe:
  assumes dev: "services d = upnp_services L MD" and w: "held w = {}"
  shows "wp (handle_action_request L d ar w) (\<lambda>(rc, ar', w'). dev_step w {} w')
    (event_fault L MD d (UPNP_CONTROL_ACTION_REQUEST ar) w)"
proof (cases "find_service d (ServiceID ar)")
  case None
  then show ?thesis
    by (simp add: handle_action_request_def find_action_def dev_step_refl [OF w])
next
  case (Some s)
  then have s: "s \<in> set (upnp_services L MD)"
    using find_service_member dev by metis
  then have t: "action_table_ok (actions s)"
    using renderer_tables_ok by (auto simp: service_tables_ok_def)
  show ?thesis
  proof (cases "find_action_loop (actions s) (ActionName ar) = Inr None")
    case True
    with Some show ?thesis
      by (simp add: handle_action_request_def find_action_def dev_step_refl [OF w])
  next
    case False
    then obtain a where a: "find_action_loop (actions s) (ActionName ar) = Inr (Some a)" "a \<in> set (actions s)"
      using find_action_loop_in_range [OF t] by metis
    have name: "action_name a = Some (ActionName ar)"
      using find_action_loop_SomeD [OF a(1)] by simp
    show ?thesis
    proof (cases "callback a")
      case None
      with Some a show ?thesis
        by (simp add: handle_action_request_def find_action_def dev_step_refl [OF w])
    next
      case (Some cb)
      let ?e = "\<lparr>request = ar, event_status = 0, event_service = service_vars.truncate s\<rparr>"
      note found = \<open>find_service d (ServiceID ar) = Some s\<close>
      have run: "wp (handle_action_request L d ar w) (\<lambda>(rc, ar', w'). dev_step w {} w') F"
        if "wp (cb ?e w) (\<lambda>(rc, ev, w'). dev_step w {} w') F" for F
        using that found a(1) Some
        by (simp add: handle_action_request_def find_action_def wp_bindE Let_def) (erule wp_post, clarsimp)
      have safe: "wp (cb ?e w) (\<lambda>(rc, ev, w'). dev_step w {} w') (event_fault L MD d (UPNP_CONTROL_ACTION_REQUEST ar) w)"
        if "safe_ev ?e (action_step w {}) (cb ?e w)"
        by (rule wp_mono [OF that [unfolded safe_ev_def]])
          (auto intro: dev_step_action [OF dev_step_refl [OF w]] event_fault_no_lock)
      show ?thesis
      proof (cases "s = transport_service L MD \<and> action_name a = Some ''GetPositionInfo''
          \<and> (\<exists>ev'. upnp_obtain_instanceid L ?e = Inr (0, ev')) \<and> status_query_fails MD (locked TransportMutex w)")
        case True
        then obtain ev' where ev': "upnp_obtain_instanceid L ?e = Inr (0, ev')" by blast
        have "a \<in> set (transport_actions L MD)" using True a(2) by simp
        with True Some have "cb = get_position_info L MD" by (auto dest: transport_position_action)
        with get_position_info_unlocks_twice [OF ev'] w True have "cb ?e w = Inl UnlockNotHeld" by simp
        moreover have "ServiceID ar = ''urn:schemas-upnp-org:service:AVTransport''"
          using found True by (auto simp: find_service_def find_service_loop_conv service_names dest: find_SomeD)
        then have "unlocks_twice L MD d (UPNP_CONTROL_ACTION_REQUEST ar) w"
          using True found ev' name by (auto simp: unlocks_twice_def position_query_def)
        ultimately show ?thesis by (intro run) (simp add: event_fault_def)
      next
        case False
        then show ?thesis
          by (intro run safe renderer_handler_safe [OF s a(2) Some _ w]) auto
      qed
    qed
  qed
qed

lemma benign_filterE: "(\<And>x. benign (P x)) \<Longrightarrow> benign (filterE P xs)"
  by (induction xs) (auto intro!: benign_bindE)

lemma benign_is_evented: "benign (is_evented srv i)"
  unfolding is_evented_def by (auto intro!: benign_bindE)

lemma subscription_notify_safe:
  fixes w :: "('m, 'z) control_env_scheme"
  assumes s: "s \<in> set (upnp_services L MD)" and f: "subscription_notify s = Some f"
    and w: "dev_step b {DeviceMutex} w"
  shows "safe (dev_step b {DeviceMutex}) (f w)"
proof -
  have r: "action_step w {DeviceMutex} w"
    by (rule action_step_refl [OF dev.S_held [OF w]])
  consider "f = transport_notify_subscription MD" | "f = control_notify_subscription"
    using s f by (auto simp: upnp_services_def transport_service_def connmgr_service_def control_service_def
        service_vars.extend_def)
  then have "safe (action_step w {DeviceMutex}) (f w)"
    by cases (use transport_notify_subscription_safe [OF r] control_notify_subscription_safe [OF r] in auto)
  then show ?thesis
    by (rule safe_mono) (rule dev_step_action [OF w])
qed

lemma dev_step_subscribed:
  "dev_step b M w \<Longrightarrow> dev_step b M (w\<lparr>subscriptions := subscriptions w @ [n]\<rparr>)"
  by (auto simp: dev_step_def)

lemma subscription_request_safe:
  fixes w :: "('m, 'z) control_env_scheme"
  assumes dev: "services d = upnp_services L MD" and w: "held w = {}"
  shows "safe (dev_step w {}) (handle_subscription_request L d sr w)"
proof (cases "find_service d (sr_ServiceId sr)")
  case None
  then show ?thesis
    by (simp add: handle_subscription_request_def safe_Inr dev_step_refl [OF w])
next
  case (Some s)
  then have s: "s \<in> set (upnp_services L MD)"
    using find_service_member dev by metis
  note r = dev_step_refl [OF w]
  have n: "safe_st (dev_step w {DeviceMutex}) (case subscription_notify s of
      None \<Rightarrow> Inr v | Some f \<Rightarrow> bindE (f v) (\<lambda>(_, w). Inr w))" if "dev_step w {DeviceMutex} v" for v
  proof (cases "subscription_notify s")
    case (Some f)
    show ?thesis
      using Some by simp
        (rule safe_bind(2) [OF subscription_notify_safe [OF s Some that]], rule safe_st_Inr)
  qed (simp add: safe_st_Inr that)
  have d: "{DeviceMutex} - {DeviceMutex} = {}" by simp
  show ?thesis
    unfolding handle_subscription_request_def Some option.case Let_def
    by (assumption | rule safe_bind(3) [OF dev.safe_lock] safe_bind(3) [OF n] safe_bind(3) [OF dev.safe_unlock]
        benign_bind(1) benign_filterE benign_is_evented benign_mapE benign_bindE benign_xmlescape safe_Inr
        dev_step_subscribed r d may_lock_empty | (simp; fail))+
qed

lemma event_handler_safe:
  fixes w :: "('m, 'z) control_env_scheme"
  assumes dev: "services d = upnp_services L MD" and w: "held w = {}"
  shows "wp (event_handler L d e w) (\<lambda>(rc, e', w'). rc = 0 \<and> dev_step w {} w') (event_fault L MD d e w)"
proof (cases e)
  case (UPNP_CONTROL_ACTION_REQUEST ar)
  show ?thesis
    unfolding UPNP_CONTROL_ACTION_REQUEST event_handler_def upnp_event.case wp_bindE
    by (rule wp_post [OF action_request_safe [OF dev w]]) auto
next
  case (UPNP_EVENT_SUBSCRIPTION_REQUEST sr)
  show ?thesis
    unfolding UPNP_EVENT_SUBSCRIPTION_REQUEST event_handler_def upnp_event.case wp_bindE
    by (rule wp_mono [OF subscription_request_safe [OF dev w, unfolded safe_def]]) (auto intro: event_fault_no_lock)
qed (simp_all add: event_handler_def dev_step_refl [OF w])

section \<open>Sequences of events\<close>

text \<open>
  The states a sequence of events leads to, one event handled after the other as libupnp
  delivers them, and the same as a function of the list of events.
\<close>

inductive reachable ::
  "upnp_lib \<Rightarrow> ('m, 'z) control_env_scheme device \<Rightarrow> ('m, 'z) control_env_scheme \<Rightarrow> ('m, 'z) control_env_scheme \<Rightarrow> bool"
  for L :: upnp_lib and d :: "('m, 'z) control_env_scheme device" and b :: "('m, 'z) control_env_scheme" where
  reachable_start: "reachable L d b b"
| reachable_event: "reachable L d b w \<Longrightarrow> event_handler L d e w = Inr (rc, e', w') \<Longrightarrow> reachable L d b w'"

inductive_cases reachable_elim: "reachable L d b w"

fun run_events ::
  "upnp_lib \<Rightarrow> 'z env_scheme device \<Rightarrow> upnp_event list \<Rightarrow> 'z env_scheme \<Rightarrow> 'z env_scheme result" where
  "run_events L d [] w = Inr w"
| "run_events L d (e # es) w = bindE (event_handler L d e w) (\<lambda>(rc, e', w). run_events L d es w)"

lemma run_events_append:
  "run_events L d (es @ fs) w = bindE (run_events L d es w) (run_events L d fs)"
  by (induction es arbitrary: w) (simp_all add: bindE_def split: sum.split prod.split)

lemma reachable_iff_run: "reachable L d b w \<longleftrightarrow> (\<exists>es. run_events L d es b = Inr w)"
proof
  assume "reachable L d b w"
  then show "\<exists>es. run_events L d es b = Inr w"
  proof induction
    case reachable_start
    have "run_events L d [] b = Inr b" by simp
    then show ?case ..
  next
    case (reachable_event w e rc e' w')
    then obtain es where "run_events L d es b = Inr w" by blast
    with reachable_event have "run_events L d (es @ [e]) b = Inr w'"
      by (simp add: run_events_append)
    then show ?case ..
  qed
next
  assume "\<exists>es. run_events L d es b = Inr w"
  then obtain es where "run_events L d es b = Inr w" ..
  then show "reachable L d b w"
  proof (induction es arbitrary: w rule: rev_induct)
    case (snoc e es)
    then obtain v where v: "run_events L d es b = Inr v" "run_events L d [e] v = Inr w"
      by (auto simp: run_events_append bindE_Inr_conv)
    then obtain rc e' where "event_handler L d e v = Inr (rc, e', w)"
      by (auto simp: bindE_Inr_conv)
    with snoc.IH [OF v(1)] show ?case by (rule reachable_event)
  qed (auto intro: reachable_start)
qed

lemma reachable_dev_step:
  assumes dev: "services d = upnp_services L MD" and b: "held b = {}"
    and "reachable L d b w"
  shows "dev_step b {} w"
  using assms(3)
proof induction
  case reachable_start
  show ?case by (rule dev_step_refl [OF b])
next
  case (reachable_event w e rc e' w')
  have "held w = {}" by (rule dev.S_held [OF reachable_event.IH])
  from wp_returns [OF event_handler_safe [OF dev this] reachable_event.hyps(2)]
  show ?case using dev_step_trans [OF reachable_event.IH] by auto
qed

lemma reachable_clean:
  assumes "services d = upnp_services L MD"
    and init: "held b = {}" "lock_order b = {}" "transport_ok b"
    and "reachable L d b w"
  shows "held w = {}" and "ordered w" and "transport_ok w" and "\<exists>ns. notifications w = notifications b @ ns"
proof -
  have "dev_step b {} w" by (rule reachable_dev_step) fact+
  moreover have "ordered b" using init(2) by (simp add: ordered_def)
  ultimately show "held w = {}" "ordered w" "transport_ok w" "\<exists>ns. notifications w = notifications b @ ns"
    using init(3) by (auto simp: dev_step_def)
qed

definition started :: "mpd_command_call list control_env" where
  "started = transport_init sample_control"

lemma started_simps [simp]:
  "held started = {}" "lock_order started = {}" "transport_ok started" "test_mode started = False"
  "mpd_conn started" "mpd started = []" "notifications started = []"
proof -
  show "transport_ok started"
    unfolding started_def by (rule transport_init_ok) (simp add: sample_control_def sample_output_def output_env.defs)
qed (simp_all add: started_def transport_init_def sample_control_def sample_output_def output_env.defs)

section \<open>Runs through several components\<close>

text \<open>
  C26. An action of AVTransport that has a handler refuses a request whose InstanceID is
  absent or is not read as 0 by \<open>atoi\<close>: the reply carries the error code of a failed action
  and a response without arguments. An action without a handler, of which the table has
  GetCurrentTransportActions, does not look at the instance and is answered with success and
  the result it came with. In both cases the player, the variables and the notifications are
  as before.
\<close>

theorem bad_instance_refused:
  fixes w :: "('m, 'z) control_env_scheme" and a :: "('m, 'z) control_env_scheme action"
  assumes dev: "services d = upnp_services L MD"
    and req: "ActionRequest ar = Some (request_doc act args)" "instance_refused args"
      "ServiceID ar = ''urn:schemas-upnp-org:service:AVTransport''"
    and a: "a \<in> set (transport_actions L MD)" "action_name a = Some (ActionName ar)"
    and w: "held w = {}" and L: "1 < LINE_SIZE L"
  shows "\<exists>ar' w'. handle_action_request L d ar w = Inr (0, ar', w')
    \<and> ErrCode ar' = (if callback a = None then UPNP_E_SUCCESS L else UPNP_SOAP_E_ACTION_FAILED L)
    \<and> ActionResult ar' = (if callback a = None then ActionResult ar
        else UpnpMakeActionResponse L (ActionName ar) (ServiceID ar))
    \<and> w'\<lparr>lock_order := lock_order w\<rparr> = w"
proof -
  let ?e = "\<lparr>request = ar, event_status = 0, event_service = transport_vars :: ('m, 'z) control_env_scheme service_vars\<rparr>"
  note found = find_service_renderer(1) [OF dev] find_action_loop_member [OF transport_table a(1,2)] req(3)
  show ?thesis
  proof (cases "callback a")
    case None
    with found show ?thesis by (simp add: handle_action_request_def find_action_def Let_def)
  next
    case (Some cb)
    have "refuses L ?e w (cb ?e w)"
      using req w L a(1) Some by (intro transport_handlers_refuse) simp_all
    then obtain ev' w' where r: "cb ?e w = Inr (- 1, ev', w')" "same_call ?e ev'"
        "ErrCode (request ev') = UPNP_SOAP_E_ACTION_FAILED L" "ActionResult (request ev') = None"
        "w'\<lparr>lock_order := lock_order w\<rparr> = w"
      by (auto simp: refuses_def)
    with found Some show ?thesis
      by (simp add: handle_action_request_def find_action_def Let_def same_call_def)
  qed
qed

theorem bad_instance_refused_witness:
  "(\<exists>ar' w'. handle_action_request sample_lib (render_device sample_lib sample_mpd (\<lambda>_. True))
       (some_request ''urn:schemas-upnp-org:service:AVTransport'' ''Stop'' [(''InstanceID'', ''1'')]) started = Inr (0, ar', w')
     \<and> ErrCode ar' = 501 \<and> mpd w' = mpd started)
   \<and> (\<exists>ar' w'. handle_action_request sample_lib (render_device sample_lib sample_mpd (\<lambda>_. True))
       (some_request ''urn:schemas-upnp-org:service:AVTransport'' ''GetCurrentTransportActions'' []) started = Inr (0, ar', w')
     \<and> ErrCode ar' = 0 \<and> mpd w' = mpd started)"
proof -
  have m: "action_init ''Stop'' (Some (xstop sample_lib sample_mpd)) \<in> set (transport_actions sample_lib sample_mpd)"
    "action_init ''GetCurrentTransportActions'' None \<in> set (transport_actions sample_lib sample_mpd)"
    by (simp_all add: transport_actions_def array_of_def upt_rec)
  have s: "services (render_device sample_lib sample_mpd (\<lambda>_. True)) = upnp_services sample_lib sample_mpd"
    by (simp add: render_device_def)
  have e: "UPNP_SOAP_E_ACTION_FAILED sample_lib = 501" "UPNP_E_SUCCESS sample_lib = 0" "1 < LINE_SIZE sample_lib"
    by (simp_all add: sample_lib_def)
  have "atoi ''1'' = 1" by code_simp
  then have n: "instance_refused [(''InstanceID'', ''1'')]" "instance_refused []"
    by (simp_all add: instance_refused_def)
  have same: "mpd w' = mpd started" if "w'\<lparr>lock_order := lock_order started\<rparr> = started" for w'
  proof -
    have "mpd w' = mpd (w'\<lparr>lock_order := lock_order started\<rparr>)" by simp
    also have "\<dots> = mpd started" by (simp only: that)
    finally show ?thesis .
  qed
  note stop = bad_instance_refused [OF s _ n(1) _ m(1) _ _ e(3), of
      "some_request ''urn:schemas-upnp-org:service:AVTransport'' ''Stop'' [(''InstanceID'', ''1'')]" "''Stop''" started]
  note ignored = bad_instance_refused [OF s _ n(2) _ m(2) _ _ e(3), of
      "some_request ''urn:schemas-upnp-org:service:AVTransport'' ''GetCurrentTransportActions'' []"
      "''GetCurrentTransportActions''" started]
  show ?thesis
    using stop ignored same by (simp add: e) blast
qed

text \<open>
  C15. Setting the volume and asking for it: what GetVolume answers after an accepted
  SetVolume is the clamped volume the player has, not the text the variable was set to and
  the subscribers were told; the query brings the variable in line with the player.
\<close>

theorem set_volume_then_get_volume:
  assumes req: "ActionRequest (request ev) = Some (request_doc act args)"
      "map_of args ''InstanceID'' = Some i" "atoi i = 0" "map_of args ''DesiredVolume'' = Some v"
    and ask: "ActionRequest (request ev2) = Some (request_doc act2 args2)"
      "map_of args2 ''InstanceID'' = Some j" "atoi j = 0" "event_status ev2 = 0" "event_service ev2 = control_vars"
    and conn: "\<not> test_mode w" "mpd_conn w" "held w = {}" "\<forall>c m. fst (mpd_command MD c m)"
    and v: "announceable v" and L: "adds_succeed L"
  shows "\<exists>w1 w2. set_volume L MD ev w = Inr (0, ev, w1) \<and> control_values w1 CONTROL_VAR_VOLUME = Some v
    \<and> get_volume L ev2 w1 = Inr (0, answered L ev2 [(''CurrentVolume'', fmt_d (clamped v))], w2)
    \<and> control_values w2 CONTROL_VAR_VOLUME = Some (fmt_d (clamped v))"
proof -
  obtain w1 where w1: "set_volume L MD ev w = Inr (0, ev, w1)" "control_values w1 CONTROL_VAR_VOLUME = Some v"
      "mpdvolume w1 = clamped v" "held w1 = {}"
    using set_volume_run [OF req conn v, of L] by blast
  have "length (dec_digits (nat (clamped v))) \<le> 3"
    by (intro dec_digits_length) (auto simp: clamped_def)
  then have "output_get_volume w1 = fmt_d (clamped v)"
    unfolding output_get_volume_def w1(3) by (intro snprintf_fits) (simp add: fmt_d_def clamped_def)
  with w1(4) have w2: "get_volume L ev2 w1 = Inr (0, answered L ev2 [(''CurrentVolume'', fmt_d (clamped v))],
      w1\<lparr>control_values := (control_values w1)(CONTROL_VAR_VOLUME \<mapsto> fmt_d (clamped v))\<rparr>)"
    using get_volume_run [OF ask L, of w1] by (simp add: lock_edges_def)
  show ?thesis
    by (intro exI [of _ w1] exI conjI, rule w1(1), rule w1(2), rule w2, simp)
qed

theorem set_volume_then_get_volume_witness:
  "\<exists>ev w1 ev' w2.
     set_volume sample_lib sample_mpd
       (sample_event control_vars ''SetVolume'' [(''InstanceID'', ''0''), (''DesiredVolume'', ''250'')])
       sample_control = Inr (0, ev, w1) \<and> control_values w1 CONTROL_VAR_VOLUME = Some ''250''
   \<and> get_volume sample_lib (sample_event control_vars ''GetVolume'' [(''InstanceID'', ''0'')]) w1 = Inr (0, ev', w2)
   \<and> control_values w2 CONTROL_VAR_VOLUME = Some ''100''"
proof -
  have a: "atoi ''0'' = 0" "atoi ''250'' = 250" "fmt_d 100 = ''100''"
    by code_simp+
  have l: "adds_succeed sample_lib" by simp
  show ?thesis
    using set_volume_then_get_volume [where L = sample_lib and ?MD = sample_mpd and v = "''250''" and i = "''0''" and j = "''0''"
        and ev = "sample_event control_vars ''SetVolume'' [(''InstanceID'', ''0''), (''DesiredVolume'', ''250'')]"
        and act = "''SetVolume''" and args = "[(''InstanceID'', ''0''), (''DesiredVolume'', ''250'')]"
        and ?ev2.0 = "sample_event control_vars ''GetVolume'' [(''InstanceID'', ''0'')]" and ?act2.0 = "''GetVolume''"
        and ?args2.0 = "[(''InstanceID'', ''0'')]" and w = sample_control] a l
    by (fastforce simp: sample_control_def sample_output_def output_env.defs sample_mpd_def clamped_def announceable_short)
qed

text \<open>The document a new subscriber of RenderingControl is sent.\<close>

definition control_document :: "('m, 'z) control_env_scheme \<Rightarrow> string" where
  "control_document w = rcs_event (control_element CONTROL_VAR_VOLUME (output_get_volume w)
     @ control_element CONTROL_VAR_MUTE (if mpdvolume w = 0 then ''1'' else ''0''))"

lemma control_document_escaped:
  "xmlescape (control_document w) False = Inr (xml_text False (control_document w))"
proof (rule xmlescape_correct_bound)
  have n: "NUL \<notin> set (output_get_volume w)"
    using fmt_d_no_NUL [of "mpdvolume w"] set_take_subset [of 5 "fmt_d (mpdvolume w)"]
    by (auto simp: output_get_volume_def snprintf_def)
  then show "NUL \<notin> set (control_document w)"
    by (auto simp: control_document_def rcs_event_def control_element_def control_variables_def)
  have "length (output_get_volume w) \<le> 5"
    by (simp add: output_get_volume_def snprintf_def)
  then have "length (control_document w) \<le> 400"
    by (simp add: control_document_def rcs_event_def control_element_def control_variables_def)
  then show "5 * int (length (control_document w)) < INT_MAX"
    by (simp add: INT_MAX_def)
qed

lemma control_notify_subscription_run:
  assumes "held w = {DeviceMutex}"
  shows "control_notify_subscription w = Inr (0, w\<lparr>
      lock_order := lock_order w \<union> {(DeviceMutex, ControlMutex)},
      control_values := (control_values w)
        (CONTROL_VAR_VOLUME \<mapsto> output_get_volume w,
         CONTROL_VAR_MUTE \<mapsto> (if mpdvolume w = 0 then ''1'' else ''0''),
         CONTROL_VAR_LAST_CHANGE \<mapsto> control_document w)\<rparr>)"
proof -
  have same: "output_get_volume (locked ControlMutex w) = output_get_volume w"
    by (simp add: output_get_volume_def)
  let ?mute = "if mpdvolume w = 0 then ''1'' else ''0''"
  have "control_update_settings (locked ControlMutex w) = Inr ((locked ControlMutex w)
      \<lparr>control_values := (control_values w)(CONTROL_VAR_VOLUME \<mapsto> output_get_volume w, CONTROL_VAR_MUTE \<mapsto> ?mute)\<rparr>)"
    using output_get_volume_zero [of w]
    by (auto simp: control_update_settings_def Let_def same)
  then show ?thesis
    using assms
    by (simp add: control_notify_subscription_def lock_locked rcs_value_element unlock_def fun_upd_twist
        control_document_def)
      (simp add: locked_def)
qed

lemma filterE_filter: "\<forall>x \<in> set xs. P x = Inr (Q x) \<Longrightarrow> filterE P xs = Inr (filter Q xs)"
  by (induction xs) simp_all

lemma control_evented:
  "filterE (is_evented (control_vars :: ('m, 'z) control_env_scheme service_vars)) [0..<CONTROL_VAR_UNKNOWN] = Inr [CONTROL_VAR_LAST_CHANGE]"
proof -
  have "is_evented (control_vars :: ('m, 'z) control_env_scheme service_vars) n = Inr (n = CONTROL_VAR_LAST_CHANGE)" if "n < CONTROL_VAR_UNKNOWN" for n
    using that by (auto simp: is_evented_def control_vars_def control_var_meta_def var_meta_init_def less_Suc_eq numeral_eq_Suc)
  then have "filterE (is_evented (control_vars :: ('m, 'z) control_env_scheme service_vars)) [0..<CONTROL_VAR_UNKNOWN]
      = Inr (filter (\<lambda>n. n = CONTROL_VAR_LAST_CHANGE) [0..<CONTROL_VAR_UNKNOWN])"
    by (intro filterE_filter) simp
  then show ?thesis by (simp add: upt_rec)
qed

lemma control_get_service_var:
  "control_values w n = Some v \<Longrightarrow> get_service_var control_vars n w = Some v"
  by (simp add: get_service_var_def control_vars_def)

lemma control_subscription_run:
  fixes w :: "('m, 'z) control_env_scheme"
  assumes dev: "services d = upnp_services L MD"
    and srv: "sr_ServiceId sr = ''urn:schemas-upnp-org:service:RenderingControl''"
    and w: "held w = {}"
  shows "\<exists>rc w'. handle_subscription_request L d sr w = Inr (rc, w')
    \<and> subscriptions w' = subscriptions w @
        [\<lparr>DevUDN_sent = sr_UDN sr, ServiceID_sent = sr_ServiceId sr, VarNames_sent = [''LastChange''],
          VarValues_sent = [xml_text False (control_document w)]\<rparr>]
    \<and> held w' = {} \<and> notifications w' = notifications w \<and> lock_order w' = lock_order w \<union> {(DeviceMutex, ControlMutex)}"
proof -
  let ?w = "locked DeviceMutex w"
  have d: "control_document ?w = control_document w" "held ?w = {DeviceMutex}"
      "subscriptions ?w = subscriptions w" "lock_order ?w = lock_order w"
    using w by (simp_all add: control_document_def output_get_volume_def locked_def)
  have t: "service_vars.truncate (control_service L MD) = control_vars"
    "subscription_notify (control_service L MD) = Some control_notify_subscription"
    "variable_count (control_service L MD) = CONTROL_VAR_UNKNOWN"
    "variable_names (control_service L MD) = control_variables"
    by (simp_all add: control_service_def service_vars.defs control_vars_def)
  show ?thesis
    using find_service_renderer(3) [OF dev] srv w control_notify_subscription_run [OF d(2)]
    by (simp add: handle_subscription_request_def lock_locked t control_evented control_get_service_var
        control_variables_def d unlock_def control_document_escaped Let_def)
qed

text \<open>
  C23. Subscribing to RenderingControl: the one evented variable is LastChange, the subscriber
  is handed the player's volume and mute as they are at that moment, escaped, under the
  service's name, nobody else is notified, and both mutexes have been given back, whatever
  the library makes of the acceptance.
\<close>

theorem control_subscription:
  fixes w :: "('m, 'z) control_env_scheme"
  assumes dev: "services d = upnp_services L MD"
    and srv: "sr_ServiceId sr = ''urn:schemas-upnp-org:service:RenderingControl''"
    and w: "held w = {}"
  shows "\<exists>rc w'. handle_subscription_request L d sr w = Inr (rc, w')
    \<and> subscriptions w' = subscriptions w @
        [\<lparr>DevUDN_sent = sr_UDN sr, ServiceID_sent = sr_ServiceId sr, VarNames_sent = [''LastChange''],
          VarValues_sent = [xml_text False (control_document w)]\<rparr>]
    \<and> held w' = {} \<and> notifications w' = notifications w"
  using control_subscription_run [OF assms] by blast

theorem control_subscription_witness:
  "\<exists>rc w' v. handle_subscription_request sample_lib (render_device sample_lib sample_mpd (\<lambda>_. True))
       \<lparr>sr_UDN = ''uuid:1'', sr_ServiceId = ''urn:schemas-upnp-org:service:RenderingControl'', sr_Sid = ''sid''\<rparr>
       sample_control = Inr (rc, w') \<and> map VarNames_sent (subscriptions w') = [[''LastChange'']] \<and> held w' = {}"
proof -
  have e: "services (render_device sample_lib sample_mpd (\<lambda>_. True)) = upnp_services sample_lib sample_mpd"
    by (simp add: render_device_def)
  have "held sample_control = {}" "subscriptions sample_control = []"
    by (simp_all add: sample_control_def sample_output_def output_env.defs)
  then show ?thesis
    using control_subscription [OF e, of "\<lparr>sr_UDN = ''uuid:1'',
        sr_ServiceId = ''urn:schemas-upnp-org:service:RenderingControl'', sr_Sid = ''sid''\<rparr>" sample_control]
    by auto
qed

section \<open>Every reachable state\<close>

abbreviation "sample_renderer \<equiv> render_device sample_lib sample_mpd (\<lambda>_. True) :: mpd_command_call list control_env device"

abbreviation "sample_subscription \<equiv> \<lparr>sr_UDN = ''uuid:1'', sr_ServiceId = ''urn:schemas-upnp-org:service:RenderingControl'',
  sr_Sid = ''sid''\<rparr>"

lemma sample_renderer_services: "services sample_renderer = upnp_services sample_lib sample_mpd"
  by (simp add: render_device_def)

lemma sample_subscription_run:
  "\<exists>w'. event_handler sample_lib sample_renderer (UPNP_EVENT_SUBSCRIPTION_REQUEST sample_subscription) started
      = Inr (0, UPNP_EVENT_SUBSCRIPTION_REQUEST sample_subscription, w')
    \<and> map VarNames_sent (subscriptions w') = [[''LastChange'']] \<and> lock_order w' = {(DeviceMutex, ControlMutex)}"
proof -
  have s: "subscriptions started = []"
    by (simp add: started_def transport_init_def sample_control_def sample_output_def output_env.defs)
  show ?thesis
    using control_subscription_run [OF sample_renderer_services, of sample_subscription started] s
    by (auto simp: event_handler_def)
qed

text \<open>
  C4. Whatever events the renderer is sent, in whatever order, in every state in which it has
  handled all of them no mutex is held; the order in which mutexes have been acquired one
  inside the other is acyclic; the transport variables the LastChange documents read are
  set, and the state variable holds the text of the state; and the notifications sent are
  only ever added to. Nothing is assumed of the player: an event whose handler faults ends
  the process, so there is no state after it.
\<close>

theorem reachable_invariant:
  assumes "services d = upnp_services L MD"
    and init: "held b = {}" "lock_order b = {}" "transport_ok b"
    and "reachable L d b w"
  shows "held w = {} \<and> acyclic (lock_order w) \<and> transport_ok w
    \<and> (\<exists>ns. notifications w = notifications b @ ns)"
  using reachable_clean [OF assms] by (simp add: ordered_acyclic)

theorem reachable_invariant_witness:
  "\<exists>w. reachable sample_lib sample_renderer started w \<and> lock_order w = {(DeviceMutex, ControlMutex)}
     \<and> map VarNames_sent (subscriptions w) = [[''LastChange'']] \<and> held w = {} \<and> acyclic (lock_order w) \<and> transport_ok w"
proof -
  obtain w where w: "event_handler sample_lib sample_renderer (UPNP_EVENT_SUBSCRIPTION_REQUEST sample_subscription) started
        = Inr (0, UPNP_EVENT_SUBSCRIPTION_REQUEST sample_subscription, w)
      \<and> map VarNames_sent (subscriptions w) = [[''LastChange'']] \<and> lock_order w = {(DeviceMutex, ControlMutex)}"
    using sample_subscription_run ..
  have r: "reachable sample_lib sample_renderer started w"
    by (rule reachable_event [OF reachable_start w [THEN conjunct1]])
  from reachable_invariant [OF sample_renderer_services started_simps(1,2,3) r] r w [THEN conjunct2] show ?thesis
    by (intro exI [of _ w]) simp
qed

lemma position_query_unlocks_twice:
  fixes w :: "('m, 'z) control_env_scheme"
  assumes dev: "services d = upnp_services L MD" and w: "held w = {}" and e: "unlocks_twice L MD d e w"
  shows "event_handler L d e w = Inl UnlockNotHeld"
proof -
  obtain ar where ar: "e = UPNP_CONTROL_ACTION_REQUEST ar"
    using e by (auto simp: unlocks_twice_def position_query_def split: upnp_event.splits)
  let ?e = "\<lparr>request = ar, event_status = 0, event_service = transport_vars :: ('m, 'z) control_env_scheme service_vars\<rparr>"
  obtain ev' where q: "ServiceID ar = ''urn:schemas-upnp-org:service:AVTransport''" "ActionName ar = ''GetPositionInfo''"
      "upnp_obtain_instanceid L ?e = Inr (0, ev')" "status_query_fails MD (locked TransportMutex w)"
    using e find_service_renderer(1) [OF dev] by (auto simp: ar unlocks_twice_def position_query_def split: option.splits)
  have a: "(action_init ''GetPositionInfo'' (Some (get_position_info L MD)) :: ('m, 'z) control_env_scheme action)
      \<in> set (transport_actions L MD)"
    by (simp add: transport_actions_def array_of_def upt_rec)
  have "get_position_info L MD ?e w = Inl UnlockNotHeld"
    by (rule get_position_info_unlocks_twice [OF q(3) _ q(4)]) (simp add: w)
  with find_service_renderer(1) [OF dev] find_action_loop_member [OF transport_table a] q(1,2) show ?thesis
    by (simp add: ar event_handler_def handle_action_request_def find_action_def Let_def)
qed

text \<open>
  C8. Exactly one event misuses a mutex, in any state the renderer can get to. No event
  blocks on a mutex its own thread has. One that gives back a mutex it does not have is a
  GetPositionInfo for instance 0, when the connection check succeeds and the status query
  after it fails; and every such event does.
\<close>

theorem events_respect_mutexes:
  assumes dev: "services d = upnp_services L MD" and b: "held b = {}" and w: "reachable L d b w"
  shows "event_handler L d e w \<noteq> Inl SelfDeadlock
    \<and> (event_handler L d e w = Inl UnlockNotHeld \<longleftrightarrow>
         position_query L d e \<and> status_query_fails MD (locked TransportMutex w))"
proof -
  have h: "held w = {}"
    using reachable_dev_step [OF dev b w] by (rule dev.S_held)
  note fault = wp_faults [OF event_handler_safe [OF dev h], of e, unfolded event_fault_def]
  have "event_handler L d e w \<noteq> Inl SelfDeadlock"
    using fault by blast
  moreover have "unlocks_twice L MD d e w" if "event_handler L d e w = Inl UnlockNotHeld"
    using fault [OF that] by blast
  ultimately show ?thesis
    using position_query_unlocks_twice [OF dev h] unfolding unlocks_twice_def [symmetric] by blast
qed

text \<open>A player that answers commands, and no status query.\<close>

definition mute_mpd :: "mpd_command_call list mpd_lib" where
  "mute_mpd = sample_mpd\<lparr>mpd_run_status := (\<lambda>m. (None, m))\<rparr>"

abbreviation "sample_position_request \<equiv>
  some_request ''urn:schemas-upnp-org:service:AVTransport'' ''GetPositionInfo'' [(''InstanceID'', ''0'')]"

theorem events_respect_mutexes_witness:
  "event_handler sample_lib (render_device sample_lib mute_mpd (\<lambda>_. True))
     (UPNP_CONTROL_ACTION_REQUEST sample_position_request) started = Inl UnlockNotHeld
   \<and> event_handler sample_lib sample_renderer (UPNP_CONTROL_ACTION_REQUEST sample_position_request) started
     \<noteq> Inl UnlockNotHeld"
proof -
  let ?d = "\<lambda>MD. render_device sample_lib MD (\<lambda>_. True) :: mpd_command_call list control_env device"
  have d: "services (?d MD) = upnp_services sample_lib MD" for MD
    by (simp add: render_device_def)
  have a: "atoi ''0'' = 0" by code_simp
  have q: "position_query sample_lib (?d MD) (UPNP_CONTROL_ACTION_REQUEST sample_position_request)" for MD
    using find_service_renderer(1) [OF d, of MD] a
    by (simp add: position_query_def upnp_obtain_instanceid_def upnp_get_string_arg)
  have "status_query_fails mute_mpd (locked TransportMutex started)"
    by (simp add: status_query_fails_def check_mpd_connection_def lock_def unlock_def locked_def mute_mpd_def)
  moreover have "\<not> status_query_fails sample_mpd (locked TransportMutex started)"
    by (simp add: status_query_fails_def sample_mpd_def)
  ultimately show ?thesis
    using events_respect_mutexes [OF d _ reachable_start, where b = started and e = "UPNP_CONTROL_ACTION_REQUEST sample_position_request"] q
    by (simp add: started_simps)
qed

section \<open>Deadlock\<close>

text \<open>
  Threads that handle events do not block each other for good: take any runs of the
  event handler and any set of threads each of which owns some mutexes and waits for
  another one as one of these runs does; there is no circular wait among them.
\<close>

lemma events_no_circular_wait:
  fixes R :: "(('m, 'z) control_env_scheme \<times> upnp_event \<times> ('m, 'z) control_env_scheme) set"
  assumes "services d = upnp_services L MD"
    and runs: "\<forall>(w, e, w')\<in>R. held w = {} \<and> lock_order w = {} \<and> (\<exists>rc e'. event_handler L d e w = Inr (rc, e', w'))"
    and waits: "\<forall>(H, m)\<in>T. \<exists>(w, e, w')\<in>R. H \<times> {m} \<subseteq> lock_order w'"
  shows "\<not> circular_wait T"
proof (rule no_circular_wait, clarify)
  fix H m
  assume "(H, m) \<in> T"
  then obtain w e w' where r: "(w, e, w') \<in> R" "H \<times> {m} \<subseteq> lock_order w'"
    using waits by fast
  then obtain rc e' where "held w = {}" "lock_order w = {}" "event_handler L d e w = Inr (rc, e', w')"
    using runs by fast
  then have "ordered w'"
    using wp_returns [OF event_handler_safe [OF assms(1)], of w e] by (auto simp: dev_step_def ordered_def)
  with r(2) show "may_lock m H" by (auto simp: ordered_def may_lock_def)
qed

lemma events_no_circular_wait_witness:
  "\<exists>w'. (DeviceMutex, ControlMutex) \<in> lock_order w'
     \<and> (\<exists>rc e'. event_handler sample_lib (render_device sample_lib sample_mpd (\<lambda>_. True)) (UPNP_EVENT_SUBSCRIPTION_REQUEST
          \<lparr>sr_UDN = ''uuid:1'', sr_ServiceId = ''urn:schemas-upnp-org:service:RenderingControl'', sr_Sid = ''sid''\<rparr>) sample_control
          = Inr (rc, e', w'))
     \<and> \<not> circular_wait {({DeviceMutex}, ControlMutex), ({}, DeviceMutex)}"
proof -
  let ?d = "render_device sample_lib sample_mpd (\<lambda>_. True) :: mpd_command_call list control_env device"
  let ?sr = "\<lparr>sr_UDN = ''uuid:1'', sr_ServiceId = ''urn:schemas-upnp-org:service:RenderingControl'', sr_Sid = ''sid''\<rparr>"
  have e: "services ?d = upnp_services sample_lib sample_mpd"
    by (simp add: render_device_def)
  have c: "held sample_control = {}" "lock_order sample_control = {}"
    by (simp_all add: sample_control_def sample_output_def output_env.defs)
  obtain rc w' where "handle_subscription_request sample_lib ?d ?sr sample_control = Inr (rc, w')"
      "lock_order w' = {(DeviceMutex, ControlMutex)}"
    using control_subscription_run [OF e, of ?sr sample_control] c by auto
  then have r: "event_handler sample_lib ?d (UPNP_EVENT_SUBSCRIPTION_REQUEST ?sr) sample_control
        = Inr (0, UPNP_EVENT_SUBSCRIPTION_REQUEST ?sr, w')" and o: "(DeviceMutex, ControlMutex) \<in> lock_order w'"
    by (simp_all add: event_handler_def)
  have "\<not> circular_wait {({DeviceMutex}, ControlMutex), ({}, DeviceMutex)}"
    by (rule events_no_circular_wait [OF e, of "{(sample_control, UPNP_EVENT_SUBSCRIPTION_REQUEST ?sr, w')}"])
      (use c r o in auto)
  with r o show ?thesis by blast
qed

end
