(* ===== verification/Main_Program.thy ===== *)
theory Main_Program
  imports System
begin

text \<open>
  main.c: the command line, the configuration file, the search for the network interface
  whose hardware address goes into the device's identity (\<open>find_mac\<close>) and for the address it
  is advertised at (\<open>getIfInfo\<close>), and \<open>main\<close>, which brings the backend and the device up, one
  after the other, and enters the loop. What the process asks of the system (files, the
  interface list, libconfig, GLib's option parser) are parameters; the result of \<open>main\<close> is the
  exit code and the state, which also holds what was printed.
\<close>

record 'm main_env = "'m control_env" +
  gIF_NAME :: string
  gIF_IPV4 :: string
  stdout_text :: string
  stderr_text :: string

definition newline :: string where "newline = [CHR 0x0A]"

definition EXIT_SUCCESS :: int where "EXIT_SUCCESS = 0"

definition EXIT_FAILURE :: int where "EXIT_FAILURE = 1"

definition printf :: "string \<Rightarrow> ('m, 'z) main_env_scheme \<Rightarrow> ('m, 'z) main_env_scheme" where
  "printf s w = w\<lparr>stdout_text := stdout_text w @ s\<rparr>"

definition eprintf :: "string \<Rightarrow> ('m, 'z) main_env_scheme \<Rightarrow> ('m, 'z) main_env_scheme" where
  "eprintf s w = w\<lparr>stderr_text := stderr_text w @ s\<rparr>"

section \<open>The system\<close>

datatype sockaddr = AF_INET "8 word" "8 word" "8 word" "8 word" | AF_OTHER nat

record ifreq =
  ifr_name :: string
  ifr_addr :: sockaddr

datatype if_flag = IFF_UP | IFF_LOOPBACK | IFF_MULTICAST | IFF_OTHER nat

datatype config_read = CONFIG_TRUE config | CONFIG_FALSE int string

text \<open>
  \<open>SIOCGIFCONF n\<close> is the interface list as far as it fits into \<open>n\<close> entries, \<open>SIOCGIFFLAGS\<close>
  the flags of an interface, \<open>fopen_read\<close> the content of a file; None is a failure. A
  configuration that could not be read has its line and its message, the line being 0 when
  the file could not be opened.
\<close>

record os_lib =
  daemon_rc :: int
  config_read_file :: "string \<Rightarrow> config_read"
  fopen_read :: "string \<Rightarrow> string option"
  socket_rc :: int
  SIOCGIFCONF :: "nat \<Rightarrow> ifreq list option"
  SIOCGIFFLAGS :: "string \<Rightarrow> if_flag list option"

text \<open>\<open>strncpy\<close> into an array of \<open>n\<close> characters; the padding with NULs is left out.\<close>

definition strncpy :: "nat \<Rightarrow> string \<Rightarrow> string" where
  "strncpy n s = take n s"

definition strncmp_eq :: "nat \<Rightarrow> string \<Rightarrow> string \<Rightarrow> bool" where
  "strncmp_eq n s t \<longleftrightarrow> take n s = take n t"

definition sprintfE :: "nat \<Rightarrow> string \<Rightarrow> string result" where
  "sprintfE n s = (if length s < n then Inr s else Inl OutOfBounds)"

definition inet_ntop :: "8 word \<Rightarrow> 8 word \<Rightarrow> 8 word \<Rightarrow> 8 word \<Rightarrow> string" where
  "inet_ntop a b c d = fmt_d (uint a) @ ''.'' @ fmt_d (uint b) @ ''.'' @ fmt_d (uint c) @ ''.'' @ fmt_d (uint d)"

section \<open>The address of an interface\<close>

definition MAX_INTERFACES :: nat where "MAX_INTERFACES = 4"

definition if_usable :: "if_flag list \<Rightarrow> bool" where
  "if_usable flags \<longleftrightarrow> \<not> (IFF_LOOPBACK \<in> set flags \<or> IFF_UP \<notin> set flags \<or> IFF_MULTICAST \<notin> set flags)"

text \<open>
  The loop over the interfaces: \<open>n\<close> is the size of \<open>gIF_NAME\<close>, \<open>found\<close> is \<open>ifname_found\<close>; the
  result is None for the early return, or else \<open>ifname_found\<close> and \<open>valid_addr_found\<close>.
\<close>

fun interfaces_loop ::
  "os_lib \<Rightarrow> nat \<Rightarrow> ifreq list \<Rightarrow> bool \<Rightarrow> ('m, 'z) main_env_scheme
    \<Rightarrow> (bool \<times> bool) option \<times> ('m, 'z) main_env_scheme" where
  "interfaces_loop S n [] found w = (Some (found, False), w)"
| "interfaces_loop S n (r # rs) found w =
     (case SIOCGIFFLAGS S (ifr_name r) of
        None \<Rightarrow> (None, printf (''Can't get interface flags for '' @ ifr_name r @ '':'' @ newline) w)
      | Some flags \<Rightarrow>
          if \<not> if_usable flags then interfaces_loop S n rs found w
          else if found \<and> \<not> strncmp_eq n (gIF_NAME w) (ifr_name r) then interfaces_loop S n rs found w
          else
            let w = (if found then w else w\<lparr>gIF_NAME := strncpy n (ifr_name r)\<rparr>) in
            case ifr_addr r of
              AF_INET a b c d \<Rightarrow>
                (Some (True, True), w\<lparr>gIF_NAME := strncpy n (ifr_name r), gIF_IPV4 := inet_ntop a b c d\<rparr>)
            | AF_OTHER _ \<Rightarrow> interfaces_loop S n rs False w)"

definition getIfInfo ::
  "os_lib \<Rightarrow> upnp_lib \<Rightarrow> string option \<Rightarrow> ('m, 'z) main_env_scheme \<Rightarrow> int \<times> ('m, 'z) main_env_scheme" where
  "getIfInfo S L IfName w =
     (if (case IfName of None \<Rightarrow> False | Some s \<Rightarrow> length s > LINE_SIZE L) then (- 1, w)
      else
        let w = (case IfName of None \<Rightarrow> w | Some s \<Rightarrow> w\<lparr>gIF_NAME := strncpy (LINE_SIZE L) s\<rparr>) in
        if socket_rc S < 0 then (- 1, printf (''Can't create addrlist socket'' @ newline) w)
        else case SIOCGIFCONF S MAX_INTERFACES of
          None \<Rightarrow> (- 1, printf (''DiscoverInterfaces: SIOCGIFCONF returned error'' @ newline) w)
        | Some ifs \<Rightarrow>
            (case interfaces_loop S (LINE_SIZE L) ifs (IfName \<noteq> None) w of
               (None, w) \<Rightarrow> (- 1, w)
             | (Some (ifname_found, valid_addr_found), w) \<Rightarrow>
                 if \<not> ifname_found \<or> \<not> valid_addr_found
                 then (- 1, printf (''Failed to find an adapter with valid IP addresses for use.'' @ newline) w)
                 else (0, w)))"

section \<open>The command line and the configuration\<close>

record options =
  show_version :: bool
  show_devicedesc :: bool
  show_connmgr_scpd :: bool
  show_control_scpd :: bool
  show_transport_scpd :: bool
  run_as_daemon :: bool
  if_name :: "string option"
  opt_friendly_name :: "string option"
  config_file :: "string option"
  opt_host :: "string option"
  opt_port :: int
  opt_password :: "string option"
  opt_timeout :: int
  opt_testmode :: bool

text \<open>
  What GLib's parser made of the arguments is given: its message, or the options' values. The
  options of the backend, of which output_mpd.c hands the parser a table, go into its state.
\<close>

definition output_options :: "options \<Rightarrow> ('m, 'z) output_env_scheme \<Rightarrow> ('m, 'z) output_env_scheme" where
  "output_options opts w =
     w\<lparr>options_host := opt_host opts, options_port := opt_port opts,
       options_mpd_timeout := opt_timeout opts, options_password := opt_password opts,
       test_mode := opt_testmode opts\<rparr>"

definition process_cmdline ::
  "string + options \<Rightarrow> ('m, 'z) main_env_scheme \<Rightarrow> options option \<times> ('m, 'z) main_env_scheme" where
  "process_cmdline parsed w =
     (case parsed of
        Inl message \<Rightarrow> (None, printf (''Failed to initialize: '' @ message @ newline) w)
      | Inr opts \<Rightarrow> (Some opts, output_options opts w))"

definition do_show_version :: "('m, 'z) main_env_scheme \<Rightarrow> ('m, 'z) main_env_scheme" where
  "do_show_version w = printf
     (PACKAGE_NAME @ '' '' @ PACKAGE_VERSION @ newline
      @ ''This is free software. ''
      @ ''You may redistribute copies of it under the terms of'' @ newline
      @ ''the GNU General Public License ''
      @ ''<http://www.gnu.org/licenses/gpl.html>.'' @ newline
      @ ''There is NO WARRANTY, to the extent permitted by law.'' @ newline) w"

text \<open>The first part of \<open>main\<close>: the exit code, when an option or a failure ends the program here.\<close>

definition info_commands ::
  "os_lib \<Rightarrow> upnp_lib \<Rightarrow> 'm mpd_lib \<Rightarrow> options \<Rightarrow> ('m, 'z) main_env_scheme
    \<Rightarrow> (int option \<times> ('m, 'z) main_env_scheme) result" where
  "info_commands S L MD opts w =
     (if \<not> run_as_daemon opts then
        if show_version opts then Inr (Some EXIT_SUCCESS, do_show_version w)
        else if show_connmgr_scpd opts then
          bindE (upnp_renderer_dump_connmgr_scpd L) (\<lambda>t. Inr (Some EXIT_SUCCESS, printf t w))
        else if show_control_scpd opts then
          bindE (upnp_renderer_dump_control_scpd L MD) (\<lambda>t. Inr (Some EXIT_SUCCESS, printf t w))
        else if show_transport_scpd opts then
          bindE (upnp_renderer_dump_transport_scpd L MD) (\<lambda>t. Inr (Some EXIT_SUCCESS, printf t w))
        else Inr (None, w)
      else if show_version opts \<or> show_control_scpd opts \<or> show_connmgr_scpd opts
           \<or> show_transport_scpd opts \<or> show_devicedesc opts
      then Inr (Some EXIT_FAILURE, eprintf (''Info options incompatible with daemon'' @ newline) w)
      else if daemon_rc S \<noteq> 0
      then Inr (Some EXIT_FAILURE, eprintf (''Failed to detach process'' @ newline) w)
      else Inr (None, w))"

definition CFG_FILE_NAME :: string where "CFG_FILE_NAME = ''/etc/upnpmpd.conf''"

definition empty_config :: config where
  "empty_config = \<lparr>config_lookup_string = (\<lambda>_. None), config_lookup_int = (\<lambda>_. None)\<rparr>"

definition read_config ::
  "os_lib \<Rightarrow> options \<Rightarrow> ('m, 'z) main_env_scheme \<Rightarrow> config option \<times> ('m, 'z) main_env_scheme" where
  "read_config S opts w =
     (let path = (case config_file opts of None \<Rightarrow> CFG_FILE_NAME | Some f \<Rightarrow> f) in
      case config_read_file S path of
        CONFIG_TRUE cfg \<Rightarrow> (Some cfg, w)
      | CONFIG_FALSE line text \<Rightarrow>
          if line = 0 then (Some empty_config, printf (''Config not found ('' @ path @ ''), continuing...'' @ newline) w)
          else (None, printf (''Error parsing config file: '' @ path @ newline @ ''Line '' @ fmt_d line @ '': '' @ text) w))"

section \<open>The hardware address\<close>

definition ethers :: "string list" where
  "ethers = [''wlan0'', ''eth0'', ''eth1'']"

definition ether_tmpl :: "string \<Rightarrow> string" where
  "ether_tmpl eth = ''/sys/class/net/'' @ eth @ ''/address''"

text \<open>The size of \<open>eth_name\<close>: the template with its conversion and its NUL, and 10.\<close>

definition eth_name_size :: nat where
  "eth_name_size = length ''/sys/class/net/%s/address'' + 1 + 10"

fun open_ether :: "os_lib \<Rightarrow> string list \<Rightarrow> string option result" where
  "open_ether S [] = Inr None"
| "open_ether S (eth # es) =
     bindE (sprintfE eth_name_size (ether_tmpl eth)) (\<lambda>eth_name.
     case fopen_read S eth_name of
       Some content \<Rightarrow> Inr (Some content)
     | None \<Rightarrow> open_ether S es)"

text \<open>The number of whole items \<open>fread\<close> gets.\<close>

definition fread_count :: "nat \<Rightarrow> nat \<Rightarrow> string \<Rightarrow> nat" where
  "fread_count sz n content = min n (length content div sz)"

text \<open>The result is the array \<open>mac_addr\<close>, all 18 characters of it.\<close>

definition find_mac ::
  "os_lib \<Rightarrow> options \<Rightarrow> ('m, 'z) main_env_scheme \<Rightarrow> (string option \<times> ('m, 'z) main_env_scheme) result" where
  "find_mac S opts w =
     bindE (open_ether S (case if_name opts of Some n \<Rightarrow> [n] | None \<Rightarrow> ethers)) (\<lambda>fh.
     case fh of
       None \<Rightarrow> Inr (None, eprintf (''No usable network interface found'' @ newline) w)
     | Some content \<Rightarrow>
         let cnt = fread_count 3 6 content in
         if cnt \<noteq> 6 then Inr (None, eprintf (''Bad MAC address '' @ fmt_d (int cnt) @ newline) w)
         else Inr (Some ((take 18 content)[17 := NUL]), w))"

section \<open>main\<close>

text \<open>From the device to the loop.\<close>

definition run_renderer ::
  "os_lib \<Rightarrow> upnp_lib \<Rightarrow> 'm mpd_lib \<Rightarrow> file_system \<Rightarrow> string \<Rightarrow> options \<Rightarrow> config
    \<Rightarrow> ('m, 'z) main_env_scheme device \<Rightarrow> ('m, 'z) main_env_scheme \<Rightarrow> (int \<times> ('m, 'z) main_env_scheme) result" where
  "run_renderer S L MD fs datadir opts cfg upnp_renderer w =
     (if show_devicedesc opts then
        bindE (upnp_get_device_desc (ixmlDocumenttoString L) upnp_renderer) (\<lambda>t. Inr (EXIT_SUCCESS, printf t w))
      else
        bindE (output_mpd_init MD cfg w) (\<lambda>(rc, w).
        if rc \<noteq> 0 then Inr (EXIT_FAILURE, w)
        else
          let (rc, w) = getIfInfo S L (if_name opts) w in
          if rc \<noteq> 0 then Inr (EXIT_FAILURE, w)
          else
            bindE (upnp_device_init L fs datadir upnp_renderer (gIF_IPV4 w) w) (\<lambda>(rc, _, w).
            if rc \<noteq> 0 then Inr (EXIT_FAILURE, w)
            else
              bindE (output_loop MD (printf (''UPnPMPD ready at IP: '' @ gIF_IPV4 w @ newline) w)) (\<lambda>(_, w).
              Inr (EXIT_SUCCESS, w)))))"

definition main_program ::
  "os_lib \<Rightarrow> upnp_lib \<Rightarrow> 'm mpd_lib \<Rightarrow> file_system \<Rightarrow> string \<Rightarrow> (int \<Rightarrow> bool) \<Rightarrow> string + options
    \<Rightarrow> ('m, 'z) main_env_scheme \<Rightarrow> (int \<times> ('m, 'z) main_env_scheme) result" where
  "main_program S L MD fs datadir alloc parsed w =
     (case process_cmdline parsed w of
        (None, w) \<Rightarrow> Inr (EXIT_FAILURE, w)
      | (Some opts, w) \<Rightarrow>
          bindE (info_commands S L MD opts w) (\<lambda>(code, w).
          case code of
            Some rc \<Rightarrow> Inr (rc, w)
          | None \<Rightarrow>
              (case read_config S opts w of
                 (None, w) \<Rightarrow> Inr (EXIT_FAILURE, w)
               | (Some cfg, w) \<Rightarrow>
                   bindE (find_mac S opts w) (\<lambda>(mac, w).
                   case mac of
                     None \<Rightarrow> Inr (EXIT_FAILURE, w)
                   | Some mac_addr \<Rightarrow>
                       bindE (upnp_renderer_new (opt_friendly_name opts) mac_addr cfg (render_device L MD alloc)) (\<lambda>d.
                       run_renderer S L MD fs datadir opts cfg d w)))))"

section \<open>Which interface is used\<close>

fun dotted :: "sockaddr \<Rightarrow> string" where
  "dotted (AF_INET a b c d) = inet_ntop a b c d"
| "dotted (AF_OTHER _) = []"

fun is_AF_INET :: "sockaddr \<Rightarrow> bool" where
  "is_AF_INET (AF_INET _ _ _ _) = True"
| "is_AF_INET (AF_OTHER _) = False"

text \<open>An interface with an address the program can use.\<close>

definition candidate :: "os_lib \<Rightarrow> ifreq \<Rightarrow> bool" where
  "candidate S r \<longleftrightarrow> (case SIOCGIFFLAGS S (ifr_name r) of None \<Rightarrow> False
     | Some flags \<Rightarrow> IFF_UP \<in> set flags \<and> IFF_MULTICAST \<in> set flags \<and> IFF_LOOPBACK \<notin> set flags)"

lemma interfaces_loop_inet:
  assumes "\<forall>r\<in>set ifs. is_AF_INET (ifr_addr r) \<and> SIOCGIFFLAGS S (ifr_name r) \<noteq> None"
  shows "interfaces_loop S n ifs found w =
    (case find (\<lambda>r. candidate S r \<and> (found \<longrightarrow> strncmp_eq n (gIF_NAME w) (ifr_name r))) ifs of
       None \<Rightarrow> (Some (found, False), w)
     | Some r \<Rightarrow> (Some (True, True), w\<lparr>gIF_NAME := strncpy n (ifr_name r), gIF_IPV4 := dotted (ifr_addr r)\<rparr>))"
  using assms
proof (induction ifs)
  case (Cons r rs)
  then obtain flags where "SIOCGIFFLAGS S (ifr_name r) = Some flags" by auto
  moreover obtain a b c d where "ifr_addr r = AF_INET a b c d"
    using Cons.prems by (cases "ifr_addr r") auto
  ultimately show ?case
    using Cons by (auto simp: candidate_def if_usable_def Let_def)
qed simp

lemma getIfInfo_run:
  assumes os: "0 \<le> socket_rc S" "SIOCGIFCONF S MAX_INTERFACES = Some ifs"
    and ifs: "\<forall>r\<in>set ifs. is_AF_INET (ifr_addr r) \<and> SIOCGIFFLAGS S (ifr_name r) \<noteq> None"
      "\<forall>r\<in>set ifs. length (ifr_name r) < LINE_SIZE L"
    and name: "\<forall>s. IfName = Some s \<longrightarrow> length s \<le> LINE_SIZE L"
  shows "case find (\<lambda>r. candidate S r \<and> (IfName = None \<or> IfName = Some (ifr_name r))) ifs of
      None \<Rightarrow> fst (getIfInfo S L IfName w) = - 1
    | Some r \<Rightarrow> getIfInfo S L IfName w = (0, w\<lparr>gIF_NAME := ifr_name r, gIF_IPV4 := dotted (ifr_addr r)\<rparr>)"
proof -
  let ?n = "LINE_SIZE L"
  let ?w = "case IfName of None \<Rightarrow> w | Some s \<Rightarrow> w\<lparr>gIF_NAME := strncpy ?n s\<rparr>"
  have "(IfName \<noteq> None \<longrightarrow> strncmp_eq ?n (gIF_NAME ?w) (ifr_name r)) \<longleftrightarrow> (IfName = None \<or> IfName = Some (ifr_name r))"
    if "r \<in> set ifs" for r
    using name ifs(2) that by (auto simp: strncmp_eq_def strncpy_def split: option.split)
  then have f: "find (\<lambda>r. candidate S r \<and> (IfName \<noteq> None \<longrightarrow> strncmp_eq ?n (gIF_NAME ?w) (ifr_name r))) ifs
      = find (\<lambda>r. candidate S r \<and> (IfName = None \<or> IfName = Some (ifr_name r))) ifs"
    by (intro find_cong) auto
  have short: "strncpy ?n (ifr_name r) = ifr_name r" if "find P ifs = Some r" for P r
    using find_SomeD [OF that] ifs(2) by (auto simp: strncpy_def)
  have pass: "\<not> (case IfName of None \<Rightarrow> False | Some s \<Rightarrow> length s > ?n)"
    using name by (auto split: option.split)
  show ?thesis
    using os interfaces_loop_inet [OF ifs(1), of ?n "IfName \<noteq> None" ?w, unfolded f] pass short
    by (auto simp: getIfInfo_def Let_def split: option.split)
qed

text \<open>
  C30. \<open>getIfInfo\<close>, on the address families SIOCGIFCONF reports: it takes the first interface
  that is up, multicast capable and not a loopback, of the name asked for if one is, stores
  its name and its dotted address and returns 0; when there is none it returns -1. A name
  that is as long as the buffer, which then holds no NUL, is still compared correctly.
\<close>

theorem getIfInfo_first:
  assumes os: "0 \<le> socket_rc S" "SIOCGIFCONF S MAX_INTERFACES = Some ifs"
    and ifs: "\<forall>r\<in>set ifs. is_AF_INET (ifr_addr r) \<and> SIOCGIFFLAGS S (ifr_name r) \<noteq> None"
      "\<forall>r\<in>set ifs. length (ifr_name r) < LINE_SIZE L"
    and name: "\<forall>s. IfName = Some s \<longrightarrow> length s \<le> LINE_SIZE L"
  shows "case find (\<lambda>r. candidate S r \<and> (IfName = None \<or> IfName = Some (ifr_name r))) ifs of
      None \<Rightarrow> fst (getIfInfo S L IfName w) = - 1
    | Some r \<Rightarrow> getIfInfo S L IfName w = (0, w\<lparr>gIF_NAME := ifr_name r, gIF_IPV4 := dotted (ifr_addr r)\<rparr>)"
  by (rule getIfInfo_run [OF assms])

definition sample_os :: os_lib where
  "sample_os = \<lparr>daemon_rc = 0, config_read_file = (\<lambda>_. CONFIG_FALSE 0 []),
     fopen_read = (\<lambda>p. if p = ''/sys/class/net/eth0/address'' then Some (''00:1f:2e:3d:4c:5b'' @ newline) else None),
     socket_rc = 3,
     SIOCGIFCONF = (\<lambda>n. Some (take n
       [\<lparr>ifr_name = ''lo'', ifr_addr = AF_INET 127 0 0 1\<rparr>, \<lparr>ifr_name = ''eth0'', ifr_addr = AF_INET 192 168 0 7\<rparr>])),
     SIOCGIFFLAGS = (\<lambda>s. if s = ''lo'' then Some [IFF_UP, IFF_LOOPBACK]
       else if s = ''eth0'' then Some [IFF_UP, IFF_MULTICAST] else None)\<rparr>"

definition sample_main :: "mpd_command_call list main_env" where
  "sample_main = control_env.extend (sample_control\<lparr>mpd_conn := False, options_host := None, options_port := 0\<rparr>)
     \<lparr>gIF_NAME = [], gIF_IPV4 = [], stdout_text = [], stderr_text = []\<rparr>"

lemma sample_address: "inet_ntop 192 168 0 7 = ''192.168.0.7''"
  by code_simp

theorem getIfInfo_first_witness:
  "getIfInfo sample_os sample_lib None sample_main
     = (0, sample_main\<lparr>gIF_NAME := ''eth0'', gIF_IPV4 := ''192.168.0.7''\<rparr>)"
  using getIfInfo_first [of sample_os "[\<lparr>ifr_name = ''lo'', ifr_addr = AF_INET 127 0 0 1\<rparr>,
      \<lparr>ifr_name = ''eth0'', ifr_addr = AF_INET 192 168 0 7\<rparr>]" sample_lib None sample_main]
  by (simp add: sample_os_def sample_lib_def MAX_INTERFACES_def candidate_def sample_address)

section \<open>The hardware address\<close>

lemma open_ether_ethers: "\<exists>r. open_ether S ethers = Inr r"
  by (simp add: ethers_def sprintfE_def eth_name_size_def ether_tmpl_def split: option.split)

text \<open>
  C31. Looking for the hardware address goes wrong in one case only: a name given on the
  command line of more than 12 characters overflows the array the path is printed into.
  Linux allows 15, and the names it gives to USB adapters after their address have 15.
\<close>

theorem find_mac_overflow:
  "find_mac S opts w = Inl f \<longleftrightarrow> f = OutOfBounds \<and> (\<exists>n. if_name opts = Some n \<and> 12 < length n)"
proof (cases "if_name opts")
  case None
  then show ?thesis
    using open_ether_ethers [of S] by (auto simp: find_mac_def Let_def split: option.splits if_splits)
next
  case (Some n)
  then show ?thesis
    by (auto simp: find_mac_def Let_def sprintfE_def eth_name_size_def ether_tmpl_def split: option.splits if_splits)
qed

lemma find_mac_found:
  assumes "open_ether S (case if_name opts of Some n \<Rightarrow> [n] | None \<Rightarrow> ethers) = Inr (Some content)"
    and "18 \<le> length content"
  shows "find_mac S opts w = Inr (Some ((take 18 content)[17 := NUL]), w)"
proof -
  have "6 \<le> length content div 3"
    using div_le_mono [OF assms(2), of 3] by simp
  then show ?thesis
    using assms(1) by (simp add: find_mac_def Let_def fread_count_def)
qed

section \<open>Information options\<close>

text \<open>
  The options that ask for a description print it, without reading the configuration or
  looking for an interface or for MPD, and end the program; the version goes before the
  descriptions and these go in the order of the services. For a daemon each of the
  information options is an error, before the process detaches.
\<close>

lemma information_options:
  "(\<not> run_as_daemon opts \<and> show_version opts
     \<longrightarrow> main_program S L MD fs datadir alloc (Inr opts) w
       = Inr (EXIT_SUCCESS, do_show_version (snd (process_cmdline (Inr opts) w))))
   \<and> (\<not> run_as_daemon opts \<and> \<not> show_version opts \<and> (show_connmgr_scpd opts \<or> show_control_scpd opts \<or> show_transport_scpd opts)
     \<longrightarrow> main_program S L MD fs datadir alloc (Inr opts) w = Inr (EXIT_SUCCESS,
       printf (ixmlDocumenttoString L
          (if show_connmgr_scpd opts then scpd_tree (connmgr_service L :: unit connmgr_env_scheme service)
           else if show_control_scpd opts then scpd_tree (control_service L MD :: ('m, unit) control_env_scheme service)
           else scpd_tree (transport_service L MD :: ('m, unit) output_env_scheme service)))
         (snd (process_cmdline (Inr opts) w))))
   \<and> (run_as_daemon opts
        \<and> (show_version opts \<or> show_connmgr_scpd opts \<or> show_control_scpd opts \<or> show_transport_scpd opts \<or> show_devicedesc opts)
     \<longrightarrow> main_program S L MD fs datadir alloc (Inr opts) w = Inr (EXIT_FAILURE,
       eprintf (''Info options incompatible with daemon'' @ newline) (snd (process_cmdline (Inr opts) w))))"
proof -
  have scpd: "upnp_renderer_dump_connmgr_scpd L
        = Inr (ixmlDocumenttoString L (scpd_tree (connmgr_service L :: unit connmgr_env_scheme service)))"
    "upnp_renderer_dump_control_scpd L MD
        = Inr (ixmlDocumenttoString L (scpd_tree (control_service L MD :: ('m, unit) control_env_scheme service)))"
    "upnp_renderer_dump_transport_scpd L MD
        = Inr (ixmlDocumenttoString L (scpd_tree (transport_service L MD :: ('m, unit) output_env_scheme service)))"
    by (simp_all add: upnp_renderer_dump_connmgr_scpd_def upnp_renderer_dump_control_scpd_def
        upnp_renderer_dump_transport_scpd_def upnp_get_scpd_def generate_scpd_tree
        connmgr_tables_ok control_tables_ok transport_tables_ok)
  show ?thesis
    by (auto simp: main_program_def process_cmdline_def output_options_def info_commands_def scpd)
qed

definition sample_options :: options where
  "sample_options = \<lparr>show_version = False, show_devicedesc = False, show_connmgr_scpd = False,
     show_control_scpd = False, show_transport_scpd = False, run_as_daemon = False, if_name = None,
     opt_friendly_name = None, config_file = None, opt_host = None, opt_port = 0, opt_password = None,
     opt_timeout = 0, opt_testmode = False\<rparr>"

lemma information_options_witness:
  "\<exists>w. main_program sample_os sample_lib sample_mpd sample_fs [] (\<lambda>_. True)
     (Inr (sample_options\<lparr>show_version := True, run_as_daemon := True\<rparr>)) sample_main = Inr (EXIT_FAILURE, w)
     \<and> stderr_text w = ''Info options incompatible with daemon'' @ newline"
  using information_options [of "sample_options\<lparr>show_version := True, run_as_daemon := True\<rparr>" sample_os sample_lib sample_mpd
      sample_fs "[]" "\<lambda>_. True" sample_main]
  by (simp add: sample_options_def process_cmdline_def output_options_def eprintf_def sample_main_def control_env.defs)

section \<open>The whole start\<close>

lemma main_frame [simp]:
  "gIF_IPV4 (control_init u) = gIF_IPV4 u" "stdout_text (control_init u) = stdout_text u"
  "gIF_IPV4 (transport_init u) = gIF_IPV4 u" "stdout_text (transport_init u) = stdout_text u"
  "mpd_conn (control_init u) = mpd_conn u" "mpd_conn (transport_init u) = mpd_conn u"
  "held (control_init u) = held u" "held (transport_init u) = held u"
  "lock_order (control_init u) = lock_order u" "lock_order (transport_init u) = lock_order u"
  by (simp_all add: control_init_def transport_init_def)

lemma run_renderer_starts:
  fixes w :: "('m, 'z) main_env_scheme"
  assumes opts: "\<not> show_devicedesc opts"
    and mpd: "output_mpd_init MD cfg w = Inr (0, w1)" and addr: "getIfInfo S L (if_name opts) w1 = (0, w2)"
    and up: "upnp_device_init L fs datadir d (gIF_IPV4 w2) w2 = Inr (0, fin, w3)"
  shows "run_renderer S L MD fs datadir opts cfg d w =
    bindE (output_loop MD (printf (''UPnPMPD ready at IP: '' @ gIF_IPV4 w3 @ newline) w3)) (\<lambda>(_, w). Inr (EXIT_SUCCESS, w))"
  using opts mpd addr up by (simp add: run_renderer_def)

text \<open>A configuration file that is there, or none: the path that was tried, and what is printed.\<close>

definition config_path :: "options \<Rightarrow> string" where
  "config_path opts = (case config_file opts of None \<Rightarrow> CFG_FILE_NAME | Some f \<Rightarrow> f)"

definition configured :: "os_lib \<Rightarrow> options \<Rightarrow> config \<Rightarrow> string \<Rightarrow> bool" where
  "configured S opts cfg note \<longleftrightarrow>
     config_read_file S (config_path opts) = CONFIG_TRUE cfg \<and> note = []
   \<or> (\<exists>text. config_read_file S (config_path opts) = CONFIG_FALSE 0 text) \<and> cfg = empty_config
     \<and> note = ''Config not found ('' @ config_path opts @ ''), continuing...'' @ newline"

lemma read_config_configured: "configured S opts cfg note \<Longrightarrow> read_config S opts w = (Some cfg, printf note w)"
  for w :: "('m, 'z) main_env_scheme"
  by (auto simp: configured_def config_path_def read_config_def printf_def Let_def)

text \<open>The first status update keeps what a start has established.\<close>

lemma output_loop_keeps:
  fixes w :: "('m, 'z) main_env_scheme"
  assumes "held w = {}"
  shows "wp (output_loop MD w) (\<lambda>(rc, v). rc = 0 \<and> held v = {} \<and> (ordered w \<longrightarrow> ordered v) \<and> (transport_ok w \<longrightarrow> transport_ok v))
    (\<lambda>f. \<not> lock_fault f)"
proof -
  have "safe_st (out_step w {}) (output_update_status MD w)"
    by (rule out_rules) (simp_all add: out_step_refl assms)
  then show ?thesis
    unfolding safe_st_def output_loop_def wp_bindE by (rule wp_post) (simp add: out_step_def)
qed

text \<open>
  C1. A start in the foreground, without a password, in which everything the program needs is
  there, with a configuration file or without one: the run comes down to the loop, from a state in which MPD is connected, the
  address of the chosen interface has been announced on the terminal, the sink list has the
  types of MPD and every service's description is served. libupnp is running by then, so
  events may come before and after the status update \<open>output_loop\<close> starts with: neither that
  update nor any sequence of them leads to a state with a mutex held, a cyclic lock order or
  an inconsistent transport state, and the update does not misuse a mutex. Nothing is assumed
  of the player but that it accepts the connection.
\<close>

theorem main_comes_up:
  fixes w :: "('m, 'z) main_env_scheme"
  assumes opts: "\<not> run_as_daemon opts" "\<not> show_version opts" "\<not> show_connmgr_scpd opts"
      "\<not> show_control_scpd opts" "\<not> show_transport_scpd opts" "\<not> show_devicedesc opts"
    and cfg: "configured S opts cfg note"
    and mac: "open_ether S (case if_name opts of Some n \<Rightarrow> [n] | None \<Rightarrow> ethers) = Inr (Some content)" "18 \<le> length content"
    and password: "opt_password opts = None" "config_lookup_string cfg ''password'' = None" "\<not> opt_testmode opts"
    and mpd: "mpd_connection_new MD (Some (host_setting cfg (opt_host opts))) (int_setting cfg ''port'' 6600 (opt_port opts))
        (int_setting cfg ''timeout'' 5 (opt_timeout opts) * 1000) (mpd w) = (True, m)"
      "mpd_connection_get_error MD m = MPD_ERROR_SUCCESS"
      "INT_MIN \<le> int_setting cfg ''timeout'' 5 (opt_timeout opts) * 1000"
      "int_setting cfg ''timeout'' 5 (opt_timeout opts) * 1000 \<le> INT_MAX"
    and net: "0 \<le> socket_rc S" "SIOCGIFCONF S MAX_INTERFACES = Some ifs"
      "\<forall>r\<in>set ifs. is_AF_INET (ifr_addr r) \<and> SIOCGIFFLAGS S (ifr_name r) \<noteq> None"
      "\<forall>r\<in>set ifs. length (ifr_name r) < LINE_SIZE L" "\<forall>s. if_name opts = Some s \<longrightarrow> length s \<le> LINE_SIZE L"
      "find (\<lambda>r. candidate S r \<and> (if_name opts = None \<or> if_name opts = Some (ifr_name r))) ifs = Some r"
    and lib: "UpnpInit L (dotted (ifr_addr r)) 0 = UPNP_E_SUCCESS L" "UpnpEnableWebserver L True = UPNP_E_SUCCESS L"
      "UpnpSetVirtualDirCallbacks L = UPNP_E_SUCCESS L" "UpnpAddVirtualDir L ''/upnp'' = UPNP_E_SUCCESS L"
      "\<forall>doc. UpnpRegisterRootDevice2 L doc = UPNP_E_SUCCESS L" "UpnpSendAdvertisement L 100 = UPNP_E_SUCCESS L"
    and mem: "\<forall>n. alloc n" "entry_malloc_ok fs"
    and st: "supported_types w = []" "transport_state w = None" "held w = {}" "lock_order w = {}"
  shows "\<exists>d w'. upnp_renderer_new (opt_friendly_name opts) ((take 18 content)[17 := NUL]) cfg (render_device L MD alloc) = Inr d
    \<and> main_program S L MD fs datadir alloc (Inr opts) w = bindE (output_loop MD w') (\<lambda>(_, w). Inr (EXIT_SUCCESS, w))
    \<and> mpd_conn w' \<and> stdout_text w' = stdout_text w @ note @ ''UPnPMPD ready at IP: '' @ dotted (ifr_addr r) @ newline
    \<and> connmgr_values w' CONNMGR_VAR_SINK_PROTO_INFO = Some (comma_separated (map protocol_entry mpd_sink_types))
    \<and> (\<forall>s\<in>set (services d). webserver_open (virtual_files w') (scpd_url s) UPNP_READ
          = Some \<lparr>file_pos = 0, contents = Some (map Some (ixmlDocumenttoString L (scpd_tree s))),
                  file_len = length (ixmlDocumenttoString L (scpd_tree s))\<rparr>)
    \<and> output_loop MD w' \<notin> {Inl SelfDeadlock, Inl UnlockNotHeld}
    \<and> (\<forall>v w''. (v = w' \<or> output_loop MD w' = Inr (0, v)) \<and> reachable L d v w'' \<longrightarrow>
          held w'' = {} \<and> acyclic (lock_order w'') \<and> transport_ok w'')"
proof -
  let ?u = "printf note (snd (process_cmdline (Inr opts) w))"
  obtain d :: "('m, 'z) main_env_scheme device" where d: "upnp_renderer_new (opt_friendly_name opts) ((take 18 content)[17 := NUL]) cfg (render_device L MD alloc) = Inr d"
      "services d = upnp_services L MD" "icons d = Some renderer_icon" "init_function d = Some (upnp_renderer_init alloc)"
    using upnp_renderer_new_run [of "(take 18 content)[17 := NUL]" "render_device L MD alloc" "opt_friendly_name opts" cfg] mac(2)
    by (auto simp: render_device_def)
  have w0: "options_host ?u = opt_host opts" "options_port ?u = opt_port opts" "options_mpd_timeout ?u = opt_timeout opts"
      "options_password ?u = None" "\<not> test_mode ?u" "mpd ?u = mpd w" "supported_types ?u = []" "transport_state ?u = None"
      "held ?u = {}" "lock_order ?u = {}" "stdout_text ?u = stdout_text w @ note"
    using password st by (simp_all add: process_cmdline_def output_options_def printf_def)
  obtain w1 where w1: "output_mpd_init MD cfg ?u = Inr (0, w1)" "mpd_conn w1" "supported_types w1 = mpd_sink_types"
      "transport_state w1 = None" "held w1 = {}" "lock_order w1 = {}" "stdout_text w1 = stdout_text w @ note"
    using output_mpd_init_run [of ?u cfg MD m] w0 password mpd by simp
  obtain w2 where w2: "getIfInfo S L (if_name opts) w1 = (0, w2)" "gIF_IPV4 w2 = dotted (ifr_addr r)"
      "mpd_conn w2" "supported_types w2 = mpd_sink_types" "transport_state w2 = None" "held w2 = {}" "lock_order w2 = {}"
      "stdout_text w2 = stdout_text w @ note"
    using getIfInfo_run [OF net(1-5), of w1] net(6) w1 by simp
  obtain w3 where w3: "upnp_device_init L fs datadir d (gIF_IPV4 w2) w2 = Inr (0, False, w3)" "transport_ok w3"
      "w3 = (control_init (transport_init w2))\<lparr>connmgr_values := [CONNMGR_VAR_SINK_PROTO_INFO \<mapsto>
            comma_separated (map protocol_entry (supported_types w2)), CONNMGR_VAR_SRC_PROTO_INFO \<mapsto> []],
          virtual_files := virtual_files w3\<rparr>"
      "\<forall>s\<in>set (services d). webserver_open (virtual_files w3) (scpd_url s) UPNP_READ
          = Some \<lparr>file_pos = 0, contents = Some (map Some (ixmlDocumenttoString L (scpd_tree s))),
                  file_len = length (ixmlDocumenttoString L (scpd_tree s))\<rparr>"
    using upnp_device_init_renderer [OF d(2-4), of w2 fs "gIF_IPV4 w2" datadir] w2 lib mem mpd_sink_types_ok by auto
  have same: "mpd_conn w3 = mpd_conn w2" "gIF_IPV4 w3 = gIF_IPV4 w2" "stdout_text w3 = stdout_text w2" "held w3 = held w2"
      "lock_order w3 = lock_order w2"
      "connmgr_values w3 CONNMGR_VAR_SINK_PROTO_INFO = Some (comma_separated (map protocol_entry mpd_sink_types))"
    by (subst w3(3), simp add: w2)+
  let ?w = "printf (''UPnPMPD ready at IP: '' @ gIF_IPV4 w3 @ newline) w3"
  have run: "main_program S L MD fs datadir alloc (Inr opts) w = bindE (output_loop MD ?w) (\<lambda>(_, w). Inr (EXIT_SUCCESS, w))"
    using opts d(1) find_mac_found [OF mac, of ?u] run_renderer_starts [OF opts(6) w1(1) w2(1) w3(1)]
    by (simp add: main_program_def info_commands_def read_config_configured [OF cfg] process_cmdline_def output_options_def)
  have ok: "held ?w = {}" "lock_order ?w = {}" "transport_ok ?w"
    using same w2 w3(2) by (simp_all add: printf_def transport_ok_def)
  note loop = output_loop_keeps [OF ok(1), of MD]
  have "held w'' = {} \<and> acyclic (lock_order w'') \<and> transport_ok w''"
    if v: "v = ?w \<or> output_loop MD ?w = Inr (0, v)" "reachable L d v w''" for v w''
  proof -
    have "held v = {}" "ordered v" "transport_ok v"
      using v(1) ok wp_returns [OF loop, of "(0, v)"] by (auto simp: ordered_def)
    with reachable_dev_step [OF d(2) _ v(2)] show ?thesis
      by (auto simp: dev_step_def ordered_acyclic)
  qed
  moreover have "output_loop MD ?w \<notin> {Inl SelfDeadlock, Inl UnlockNotHeld}"
    using wp_faults [OF loop] by (auto simp: lock_fault_def)
  moreover have "mpd_conn ?w" "connmgr_values ?w = connmgr_values w3" "virtual_files ?w = virtual_files w3"
      "stdout_text ?w = stdout_text w @ note @ ''UPnPMPD ready at IP: '' @ dotted (ifr_addr r) @ newline"
    using same(1-3) w2 by (simp_all add: printf_def)
  ultimately show ?thesis
    using run d(1) same(6) w3(4)
    by (intro exI [of _ d] exI [of _ ?w] conjI) (assumption | simp only: | blast)+
qed

theorem main_comes_up_witness:
  "\<exists>w'. main_program (sample_os\<lparr>config_read_file := (\<lambda>_. CONFIG_FALSE 0 ''file I/O error'')\<rparr>) sample_lib sample_mpd sample_fs [] (\<lambda>_. True)
       (Inr sample_options) sample_main = bindE (output_loop sample_mpd w') (\<lambda>(_, w). Inr (EXIT_SUCCESS, w))
     \<and> mpd_conn w' \<and> stdout_text w' = ''Config not found ('' @ CFG_FILE_NAME @ ''), continuing...'' @ newline
       @ ''UPnPMPD ready at IP: 192.168.0.7'' @ newline"
proof -
  let ?S = "sample_os\<lparr>config_read_file := (\<lambda>_. CONFIG_FALSE 0 ''file I/O error'')\<rparr>"
  let ?ifs = "[\<lparr>ifr_name = ''lo'', ifr_addr = AF_INET 127 0 0 1\<rparr>, \<lparr>ifr_name = ''eth0'', ifr_addr = AF_INET 192 168 0 7\<rparr>]"
  have mac: "open_ether ?S (case if_name sample_options of Some n \<Rightarrow> [n] | None \<Rightarrow> ethers)
      = Inr (Some (''00:1f:2e:3d:4c:5b'' @ newline))"
    by (simp add: sample_options_def ethers_def sprintfE_def eth_name_size_def ether_tmpl_def sample_os_def)
  have opts: "\<not> run_as_daemon sample_options" "\<not> show_version sample_options" "\<not> show_connmgr_scpd sample_options"
      "\<not> show_control_scpd sample_options" "\<not> show_transport_scpd sample_options" "\<not> show_devicedesc sample_options"
    by (simp_all add: sample_options_def)
  have net: "find (\<lambda>r. candidate ?S r \<and> (if_name sample_options = None \<or> if_name sample_options = Some (ifr_name r))) ?ifs
      = Some \<lparr>ifr_name = ''eth0'', ifr_addr = AF_INET 192 168 0 7\<rparr>"
    by (simp add: candidate_def sample_os_def sample_options_def)
  have mem: "\<forall>n. (\<lambda>_. True) (n::int)" "entry_malloc_ok sample_fs"
    by (simp_all add: sample_fs_def)
  have st: "supported_types sample_main = []" "transport_state sample_main = None" "held sample_main = {}"
      "lock_order sample_main = {}" "mpd sample_main = []" "stdout_text sample_main = []"
    by (simp_all add: sample_main_def sample_control_def sample_output_def output_env.defs control_env.defs)
  let ?note = "''Config not found ('' @ CFG_FILE_NAME @ ''), continuing...'' @ newline"
  have cfg: "configured ?S sample_options empty_config ?note"
    by (simp add: configured_def config_path_def sample_options_def)
  have len: "18 \<le> length (''00:1f:2e:3d:4c:5b'' @ newline)"
    by (simp add: newline_def)
  have pw: "opt_password sample_options = None" "config_lookup_string empty_config ''password'' = None"
      "\<not> opt_testmode sample_options"
    by (simp_all add: sample_options_def empty_config_def)
  have t: "int_setting empty_config ''timeout'' 5 (opt_timeout sample_options) = 5"
    by (simp add: int_setting_def empty_config_def sample_options_def)
  have mpd: "mpd_connection_new sample_mpd (Some (host_setting empty_config (opt_host sample_options)))
        (int_setting empty_config ''port'' 6600 (opt_port sample_options))
        (int_setting empty_config ''timeout'' 5 (opt_timeout sample_options) * 1000) (mpd sample_main) = (True, [])"
      "mpd_connection_get_error sample_mpd [] = MPD_ERROR_SUCCESS"
      "INT_MIN \<le> int_setting empty_config ''timeout'' 5 (opt_timeout sample_options) * 1000"
      "int_setting empty_config ''timeout'' 5 (opt_timeout sample_options) * 1000 \<le> INT_MAX"
    unfolding t by (simp_all add: sample_mpd_def st c_limits)
  have ifs: "0 \<le> socket_rc ?S" "SIOCGIFCONF ?S MAX_INTERFACES = Some ?ifs"
      "\<forall>r\<in>set ?ifs. is_AF_INET (ifr_addr r) \<and> SIOCGIFFLAGS ?S (ifr_name r) \<noteq> None"
      "\<forall>r\<in>set ?ifs. length (ifr_name r) < LINE_SIZE sample_lib"
      "\<forall>s. if_name sample_options = Some s \<longrightarrow> length s \<le> LINE_SIZE sample_lib"
    by (simp_all add: sample_os_def MAX_INTERFACES_def sample_lib_def sample_options_def)
  have lib: "UpnpInit sample_lib ip 0 = UPNP_E_SUCCESS sample_lib" "UpnpEnableWebserver sample_lib True = UPNP_E_SUCCESS sample_lib"
      "UpnpSetVirtualDirCallbacks sample_lib = UPNP_E_SUCCESS sample_lib"
      "UpnpAddVirtualDir sample_lib ''/upnp'' = UPNP_E_SUCCESS sample_lib"
      "\<forall>doc. UpnpRegisterRootDevice2 sample_lib doc = UPNP_E_SUCCESS sample_lib"
      "UpnpSendAdvertisement sample_lib 100 = UPNP_E_SUCCESS sample_lib" for ip
    by (simp_all add: sample_lib_def)
  show ?thesis
    using main_comes_up [OF opts cfg mac len pw mpd ifs net lib mem st(1-4), of "[]"] st(6)
    by (auto simp: sample_address)
qed

end
