(* ===== verification/Threads.thy ===== *)
theory Threads
  imports Locking "HOL-Library.Multiset"
begin

text \<open>
  Threads that share a state and its mutexes. libupnp calls the event handler from a pool of
  threads, so several events are handled at the same time. A program is what a thread has
  left to do: acquire a mutex, give one back, or act on the state; what it does between two
  operations on mutexes is one action. \<open>run\<close> executes a program alone, \<open>thread_step\<close> lets
  one thread of a configuration move. The theory shows what discipline on the programs is
  enough for mutual exclusion, for progress and for an invariant of the shared state, and
  that every schedule ends.
\<close>

section \<open>Programs\<close>

datatype ('a, 'w) prog =
    Ret 'a
  | Acq mutex "('a, 'w) prog"
  | Rel mutex "('a, 'w) prog"
  | Act "'w \<Rightarrow> (('a, 'w) prog \<times> 'w) result"

primrec bindP :: "('a, 'w) prog \<Rightarrow> ('a \<Rightarrow> ('b, 'w) prog) \<Rightarrow> ('b, 'w) prog" where
  "bindP (Ret a) k = k a"
| "bindP (Acq m c) k = Acq m (bindP c k)"
| "bindP (Rel m c) k = Rel m (bindP c k)"
| "bindP (Act f) k = Act (\<lambda>w. map_sum id (map_prod (\<lambda>c. bindP c k) id) (f w))"

primrec run :: "('a, 'z env_scheme) prog \<Rightarrow> 'z env_scheme \<Rightarrow> ('a \<times> 'z env_scheme) result" where
  "run (Ret a) = (\<lambda>w. Inr (a, w))"
| "run (Acq m c) = (\<lambda>w. bindE (lock m w) (run c))"
| "run (Rel m c) = (\<lambda>w. bindE (unlock m w) (run c))"
| "run (Act f) = (\<lambda>w. bindE (map_sum id (map_prod run id) (f w)) (\<lambda>(r, w'). r w'))"

text \<open>Induction along the paths a program can take.\<close>

lemma prog_paths [case_names Ret Acq Rel Act]:
  assumes "\<And>a. P (Ret a)" and "\<And>m c. P c \<Longrightarrow> P (Acq m c)" and "\<And>m c. P c \<Longrightarrow> P (Rel m c)"
    and act: "\<And>f. (\<And>w c w'. f w = Inr (c, w') \<Longrightarrow> P c) \<Longrightarrow> P (Act f)"
  shows "P c"
proof (induction c)
  case (Act f)
  show ?case
  proof (rule act)
    fix w c w' assume "f w = Inr (c, w')"
    then show "P c"
      using Act [of "f w" "(c, w')" c] rangeI [of f w] by (simp add: setr.simps fsts.simps)
  qed
qed (simp_all add: assms(1-3))

text \<open>The pieces programs are put together from.\<close>

definition acquire :: "mutex \<Rightarrow> (unit, 'w) prog" where "acquire m = Acq m (Ret ())"

definition release :: "mutex \<Rightarrow> (unit, 'w) prog" where "release m = Rel m (Ret ())"

definition atom :: "('w \<Rightarrow> ('a \<times> 'w) result) \<Rightarrow> ('a, 'w) prog" where
  "atom f = Act (\<lambda>w. bindE (f w) (\<lambda>(a, w). Inr (Ret a, w)))"

definition atom_st :: "('w \<Rightarrow> 'w result) \<Rightarrow> (unit, 'w) prog" where
  "atom_st f = Act (\<lambda>w. bindE (f w) (\<lambda>w. Inr (Ret (), w)))"

definition read_st :: "('w \<Rightarrow> 'a) \<Rightarrow> ('a, 'w) prog" where
  "read_st f = Act (\<lambda>w. Inr (Ret (f w), w))"

definition compute :: "'a result \<Rightarrow> ('a, 'w) prog" where
  "compute r = Act (\<lambda>w. bindE r (\<lambda>a. Inr (Ret a, w)))"

text \<open>A critical section.\<close>

definition with_mutex :: "mutex \<Rightarrow> ('a, 'w) prog \<Rightarrow> ('a, 'w) prog" where
  "with_mutex m c = bindP (acquire m) (\<lambda>_. bindP c (\<lambda>a. bindP (release m) (\<lambda>_. Ret a)))"

named_theorems run_simps

lemma run_prim [run_simps]:
  "run (Ret a) w = Inr (a, w)"
  "run (acquire m) w = bindE (lock m w) (\<lambda>w. Inr ((), w))"
  "run (release m) w = bindE (unlock m w) (\<lambda>w. Inr ((), w))"
  "run (atom f) w = f w"
  "run (atom_st g) w = bindE (g w) (\<lambda>w. Inr ((), w))"
  "run (read_st h) w = Inr (h w, w)"
  "run (compute r) w = bindE r (\<lambda>a. Inr (a, w))"
  by (auto simp: acquire_def release_def atom_def atom_st_def read_st_def compute_def bindE_def
      split: sum.split)

lemma run_Act: "run (Act f) w = bindE (f w) (\<lambda>(c, w'). run c w')"
  by (cases "f w") (auto split: prod.split)

lemma run_bindP [run_simps]: "run (bindP c k) w = bindE (run c w) (\<lambda>(a, w). run (k a) w)"
proof (induction c arbitrary: w rule: prog_paths)
  case (Act f)
  then show ?case by (cases "f w") (auto simp del: run.simps simp: run_Act)
qed (simp_all add: bindE_def split: sum.split)

lemma run_split [run_simps]:
  "run (if b then x else y) w = (if b then run x w else run y w)"
  "run (case v of None \<Rightarrow> u | Some a \<Rightarrow> g a) w = (case v of None \<Rightarrow> run u w | Some a \<Rightarrow> run (g a) w)"
  "run (case p of (c, d) \<Rightarrow> h c d) w = (case p of (c, d) \<Rightarrow> run (h c d) w)"
  by (auto split: option.split prod.split)

lemma run_with_mutex [run_simps]:
  "run (with_mutex m c) w = bindE (lock m w) (\<lambda>w. bindE (run c w) (\<lambda>(a, w).
     bindE (unlock m w) (\<lambda>w. Inr (a, w))))"
  by (simp add: with_mutex_def run_simps bindE_def split: sum.split prod.split)

text \<open>Both sides of an equation between runs are brought to the same nesting of cases.\<close>

lemma bindE_push [run_simps]:
  "bindE (bindE m k) l = bindE m (\<lambda>r. bindE (k r) l)"
  "bindE (if b then x else y) k = (if b then bindE x k else bindE y k)"
  "bindE (case p of (c, d) \<Rightarrow> f c d) k = (case p of (c, d) \<Rightarrow> bindE (f c d) k)"
  "bindE (case v of None \<Rightarrow> u | Some a \<Rightarrow> g a) k = (case v of None \<Rightarrow> bindE u k | Some a \<Rightarrow> bindE (g a) k)"
  by (simp_all add: bindE_assoc split: prod.split option.split)

section \<open>Configurations\<close>

text \<open>
  The threads, each with the mutexes it owns and what it has left to do, and the state they
  share; or the fault that ended the process. The component \<open>held\<close> of the shared state is
  that of the thread that moved last; a thread that moves puts its own there first.
\<close>

type_synonym ('a, 'w) thread = "mutex set \<times> ('a, 'w) prog"

datatype ('a, 'w) process = Running "('a, 'w) thread list" 'w | Crashed fault

fun attempt :: "('a, 'z env_scheme) prog \<Rightarrow> 'z env_scheme \<Rightarrow> (('a, 'z env_scheme) prog \<times> 'z env_scheme) result" where
  "attempt (Ret a) w = Inr (Ret a, w)"
| "attempt (Acq m c) w = bindE (lock m w) (\<lambda>w. Inr (c, w))"
| "attempt (Rel m c) w = bindE (unlock m w) (\<lambda>w. Inr (c, w))"
| "attempt (Act f) w = f w"

fun finished :: "('a, 'w) prog \<Rightarrow> bool" where
  "finished (Ret a) = True"
| "finished _ = False"

text \<open>A thread waits while anybody, itself included, owns the mutex it is about to acquire.\<close>

fun waits :: "('a, 'w) thread list \<Rightarrow> ('a, 'w) prog \<Rightarrow> bool" where
  "waits ts (Acq m c) = (\<exists>t\<in>set ts. m \<in> fst t)"
| "waits ts _ = False"

fun thread_step :: "nat \<Rightarrow> ('a, 'z env_scheme) process \<Rightarrow> ('a, 'z env_scheme) process option" where
  "thread_step i (Crashed f) = None"
| "thread_step i (Running ts w) =
     (if i < length ts \<and> \<not> finished (snd (ts ! i)) \<and> \<not> waits ts (snd (ts ! i))
      then Some (case attempt (snd (ts ! i)) (w\<lparr>held := fst (ts ! i)\<rparr>) of
                   Inl f \<Rightarrow> Crashed f
                 | Inr (c, w') \<Rightarrow> Running (ts[i := (held w', c)]) w')
      else None)"

inductive cstep :: "('a, 'z env_scheme) process \<Rightarrow> ('a, 'z env_scheme) process \<Rightarrow> bool" where
  cstep: "thread_step i c = Some c' \<Longrightarrow> cstep c c'"

inductive_cases cstep_elim: "cstep c c'"
inductive_simps cstep_Crashed [simp]: "cstep (Crashed f) c"

lemma attempt_run: "bindE (attempt c w) (\<lambda>(c, w). run c w) = run c w"
  by (cases c) (simp_all add: run_Act bindE_assoc del: run.simps(4))

section \<open>Every schedule ends\<close>

text \<open>
  What a program can become in one step. The relation is well-founded since programs are
  finite along each path, and a step of a configuration replaces the program of one thread
  by a smaller one.
\<close>

inductive becomes :: "('a, 'w) prog \<Rightarrow> ('a, 'w) prog \<Rightarrow> bool" where
  "becomes c (Acq m c)"
| "becomes c (Rel m c)"
| "f w = Inr (c, w') \<Longrightarrow> becomes c (Act f)"

inductive_simps becomes_simps:
  "becomes c (Ret a)" "becomes c (Acq m d)" "becomes c (Rel m d)" "becomes c (Act f)"

lemma wf_becomes: "wf {(c, d). becomes c d}"
proof (rule wfUNIVI)
  fix P :: "('a, 'b) prog \<Rightarrow> bool" and x
  assume step: "\<forall>x. (\<forall>y. (y, x) \<in> {(c, d). becomes c d} \<longrightarrow> P y) \<longrightarrow> P x"
  show "P x"
    by (induction x rule: prog_paths) (rule step [rule_format]; auto simp: becomes_simps)+
qed

lemma attempt_becomes: "attempt c w = Inr (c', w') \<Longrightarrow> finished c \<or> becomes c' c"
  by (cases c) (auto simp: becomes_simps bindE_Inr_conv)

lemma thread_step_Running:
  "thread_step i (Running ts w) = Some c' \<longleftrightarrow>
     i < length ts \<and> \<not> finished (snd (ts ! i)) \<and> \<not> waits ts (snd (ts ! i))
   \<and> c' = (case attempt (snd (ts ! i)) (w\<lparr>held := fst (ts ! i)\<rparr>) of
             Inl f \<Rightarrow> Crashed f | Inr (c, w') \<Rightarrow> Running (ts[i := (held w', c)]) w')"
  by auto

definition programs :: "('a, 'w) thread list \<Rightarrow> ('a, 'w) prog multiset" where
  "programs ts = mset (map snd ts)"

lemma programs_step:
  assumes "i < length ts" and "becomes c (snd (ts ! i))"
  shows "(programs (ts[i := (H, c)]), programs ts) \<in> mult1 {(c, d). becomes c d}"
proof -
  have "programs ts = add_mset (snd (ts ! i)) (programs ts - {#snd (ts ! i)#})"
    using assms(1) by (simp add: programs_def)
  moreover have "programs (ts[i := (H, c)]) = (programs ts - {#snd (ts ! i)#}) + {#c#}"
    using assms(1) by (simp add: programs_def map_update mset_update)
  ultimately show ?thesis
    using assms(2) unfolding mult1_def
    by (intro CollectI case_prodI exI [of _ "snd (ts ! i)"] exI [of _ "programs ts - {#snd (ts ! i)#}"] exI [of _ "{#c#}"])
      auto
qed

lemma cstep_acc: "Wellfounded.accp (\<lambda>c' c. cstep c c') c"
proof -
  have crashed: "Wellfounded.accp (\<lambda>c' c. cstep c c') (Crashed f)" for f :: fault
    by (rule accp.accI) simp
  have "Wellfounded.accp (\<lambda>c' c. cstep c c') (Running ts w)" for ts :: "('a, 'b env_scheme) thread list" and w
  proof (induction "programs ts" arbitrary: ts w rule: wf_induct_rule [OF wf_mult1 [OF wf_becomes]])
    case 1
    show ?case
    proof (rule accp.accI)
      fix c' assume "cstep (Running ts w) c'"
      then obtain i where i: "i < length ts" "\<not> finished (snd (ts ! i))"
          "c' = (case attempt (snd (ts ! i)) (w\<lparr>held := fst (ts ! i)\<rparr>) of
             Inl f \<Rightarrow> Crashed f | Inr (c, w') \<Rightarrow> Running (ts[i := (held w', c)]) w')"
        by (auto simp: thread_step_Running simp del: thread_step.simps elim!: cstep_elim)
      show "Wellfounded.accp (\<lambda>c' c. cstep c c') c'"
      proof (cases "attempt (snd (ts ! i)) (w\<lparr>held := fst (ts ! i)\<rparr>)")
        case (Inr p)
        obtain c w' where p: "p = (c, w')" by (cases p)
        with Inr i attempt_becomes have "becomes c (snd (ts ! i))" by blast
        from 1 [OF programs_step [OF i(1) this]] Inr p i(3) show ?thesis by simp
      qed (simp add: i(3) crashed)
    qed
  qed
  then show ?thesis using crashed by (cases c) auto
qed

lemma schedules_end: "\<not> (\<exists>s. \<forall>i. cstep (s i) (s (Suc i)))"
proof -
  have "wfP (\<lambda>c' c. cstep c c')"
    by (rule accp_wfpI) (simp add: cstep_acc)
  then show ?thesis
    by (simp add: wfp_def wf_iff_no_infinite_down_chain)
qed

lemma schedule_end: "\<exists>c'. cstep\<^sup>*\<^sup>* c c' \<and> \<not> (\<exists>c''. cstep c' c'')"
proof (induction c rule: accp_induct_rule [OF cstep_acc])
  case (1 c)
  show ?case
  proof (cases "\<exists>c'. cstep c c'")
    case True
    then obtain c' where "cstep c c'" ..
    with 1(2) [OF this] show ?thesis by (meson converse_rtranclp_into_rtranclp)
  qed blast
qed

section \<open>One thread after the other\<close>

text \<open>
  While no other thread owns a mutex, a thread can go through its whole program, and the
  outcome is that of the sequential run.
\<close>

lemma solo_step:
  assumes "i < length ts" and "ts ! i = (held w, c)" and "\<not> finished c"
    and "\<forall>j<length ts. j \<noteq> i \<longrightarrow> fst (ts ! j) = {}" and "attempt c w \<noteq> Inl SelfDeadlock"
  shows "cstep (Running ts w) (case attempt c w of Inl f \<Rightarrow> Crashed f
    | Inr (d, w') \<Rightarrow> Running (ts[i := (held w', d)]) w')"
proof -
  have "\<not> waits ts c"
  proof (cases c)
    case (Acq m d)
    with assms(5) have "m \<notin> held w" by (auto simp: lock_def split: if_splits)
    then have "m \<notin> fst (ts ! j)" if "j < length ts" for j
      using assms(2,4) that by (cases "j = i") auto
    then have "\<forall>t\<in>set ts. m \<notin> fst t" by (metis in_set_conv_nth)
    then show ?thesis by (simp add: Acq)
  qed simp_all
  with assms show ?thesis
    by (intro cstep [where i = i]) (simp add: thread_step_Running del: thread_step.simps)
qed

lemma attempt_bindP:
  "\<not> finished c \<Longrightarrow> attempt (bindP c k) w = bindE (attempt c w) (\<lambda>(d, w'). Inr (bindP d k, w'))"
  by (cases c) (auto simp: bindE_assoc bindE_def split: sum.split)

lemma bindP_Ret: "bindP c Ret = c"
  by (induction c rule: prog_paths)
    (auto simp: fun_eq_iff sum.map_comp prod.map_comp map_sum_def split: sum.split)

lemma bindP_assoc: "bindP (bindP c k) l = bindP c (\<lambda>a. bindP (k a) l)"
proof (induction c rule: prog_paths)
  case (Act f)
  have "map_sum id (map_prod (\<lambda>c. bindP c l) id) (map_sum id (map_prod (\<lambda>c. bindP c k) id) (f w))
      = map_sum id (map_prod (\<lambda>c. bindP c (\<lambda>a. bindP (k a) l)) id) (f w)" for w
    using Act by (cases "f w") auto
  then show ?case by simp
qed simp_all

lemma solo_bindP:
  assumes "i < length ts" and "ts ! i = (held w, bindP c k)" and "\<forall>j<length ts. j \<noteq> i \<longrightarrow> fst (ts ! j) = {}"
    and "run c w \<noteq> Inl SelfDeadlock"
  shows "cstep\<^sup>*\<^sup>* (Running ts w) (case run c w of Inl f \<Rightarrow> Crashed f
    | Inr (a, w') \<Rightarrow> Running (ts[i := (held w', k a)]) w')"
  using assms
proof (induction c arbitrary: ts w rule: wf_induct_rule [OF wf_becomes])
  case (1 c)
  show ?case
  proof (cases "finished c")
    case True
    then obtain a where "c = Ret a" by (cases c) auto
    moreover have "ts[i := (held w, bindP c k)] = ts" using 1(3) list_update_id [of ts i] by simp
    ultimately show ?thesis by simp
  next
    case False
    have a: "attempt c w \<noteq> Inl SelfDeadlock"
      using 1(5) attempt_run [of c w] by (auto simp: bindE_def split: sum.splits)
    have "\<not> finished (bindP c k)" using False by (cases c) simp_all
    note step = solo_step [OF 1(2,3) this 1(4)] 
    show ?thesis
    proof (cases "attempt c w")
      case (Inl f)
      have "run c w = Inl f" using attempt_run [of c w] Inl by simp
      with step Inl a show ?thesis by (auto simp: attempt_bindP [OF False])
    next
      case (Inr p)
      obtain d w' where p: "p = (d, w')" by (cases p)
      have d: "becomes d c" using attempt_becomes [of c w d w'] Inr p False by simp
      have r: "run d w' = run c w" using attempt_run [of c w] Inr p by simp
      let ?ts = "ts[i := (held w', bindP d k)]"
      have "cstep\<^sup>*\<^sup>* (Running ?ts w') (case run d w' of Inl f \<Rightarrow> Crashed f
          | Inr (a, w'') \<Rightarrow> Running (?ts[i := (held w'', k a)]) w'')"
        by (rule 1(1)) (use 1(2-5) d r in auto)
      moreover have "cstep (Running ts w) (Running ?ts w')"
        using step Inr p by (simp add: attempt_bindP [OF False])
      ultimately show ?thesis
        by (subst (asm) r) (auto intro: converse_rtranclp_into_rtranclp split: sum.splits)
    qed
  qed
qed

text \<open>The same for a list of threads taken apart at the one that moves.\<close>

lemma moves:
  assumes "run c w = Inr (a, w')" and "held w = {}" and "held w' = {}" and "\<forall>t\<in>set (pre @ post). fst t = {}"
  shows "cstep\<^sup>*\<^sup>* (Running (pre @ ({}, bindP c k) # post) w) (Running (pre @ ({}, k a) # post) w')"
proof -
  let ?ts = "pre @ ({}, bindP c k) # post"
  have "fst (?ts ! j) = {}" if "j < length ?ts" for j
    using assms(4) nth_mem [OF that] by auto
  then show ?thesis
    using solo_bindP [of "length pre" ?ts w c k] assms(1-3) by (simp add: nth_append list_update_append)
qed

lemma moves_to:
  assumes "p = bindP c k" and "run c w = Inr (a, w')" and "k a = q" and "held w = {}" and "held w' = {}"
    and "\<forall>t\<in>set (pre @ post). fst t = {}"
  shows "cstep\<^sup>*\<^sup>* (Running (pre @ ({}, p) # post) w) (Running (pre @ ({}, q) # post) w')"
  using moves [OF assms(2,4,5,6), of k] assms(1,3) by simp

lemmas solo = solo_bindP [where k = Ret, unfolded bindP_Ret]

section \<open>Disciplined programs\<close>

text \<open>
  \<open>disc R c H Q\<close>: a thread that owns \<open>H\<close> and runs \<open>c\<close>, whatever other threads do to the
  state in between, acquires mutexes in their order only, changes the state with each of its
  actions as \<open>allowed R\<close> says for the mutexes it owns at that moment, and when it is done the
  value and the mutexes it still owns satisfy \<open>Q\<close>. It gives back mutexes it owns; if
  \<open>misuse R\<close>, it may also give back one it does not own, which ends the process, and its
  action before that is held to \<open>last_act R\<close> only.
\<close>

record 'w rules =
  allowed :: "mutex set \<Rightarrow> 'w \<Rightarrow> 'w \<Rightarrow> bool"
  last_act :: "'w \<Rightarrow> 'w \<Rightarrow> bool"
  misuse :: bool

fun doomed :: "mutex set \<Rightarrow> ('a, 'w) prog \<Rightarrow> bool" where
  "doomed H (Rel m c) = (m \<notin> H)"
| "doomed H _ = False"

definition step_ok ::
  "'z env_scheme rules \<Rightarrow> mutex set \<Rightarrow> 'z env_scheme \<Rightarrow> 'z env_scheme \<Rightarrow> ('a, 'z env_scheme) prog \<Rightarrow> bool" where
  "step_ok R H w w' c \<longleftrightarrow> allowed R H w w' \<or> misuse R \<and> last_act R w w' \<and> doomed H c"

definition tolerated :: "'w rules \<Rightarrow> fault \<Rightarrow> bool" where
  "tolerated R f \<longleftrightarrow> f \<noteq> SelfDeadlock \<and> (f = UnlockNotHeld \<longrightarrow> misuse R)"

lemma tolerated_simps [simp]:
  "\<not> lock_fault f \<Longrightarrow> tolerated R f" "\<not> tolerated R SelfDeadlock" "tolerated R UnlockNotHeld = misuse R"
  by (auto simp: tolerated_def)

primrec disc ::
  "'z env_scheme rules \<Rightarrow> ('a, 'z env_scheme) prog \<Rightarrow> mutex set \<Rightarrow> ('a \<Rightarrow> mutex set \<Rightarrow> bool) \<Rightarrow> bool" where
  "disc R (Ret a) = (\<lambda>H Q. Q a H)"
| "disc R (Acq m c) = (\<lambda>H Q. may_lock m H \<and> disc R c (insert m H) Q)"
| "disc R (Rel m c) = (\<lambda>H Q. if m \<in> H then disc R c (H - {m}) Q else misuse R)"
| "disc R (Act f) = (\<lambda>H Q. \<forall>w. held w = H \<longrightarrow>
     wp (map_sum id (map_prod (disc R) id) (f w)) (\<lambda>(d, w'). held w' = H \<and> d H Q) (\<lambda>f. \<not> lock_fault f)
   \<and> wp (f w) (\<lambda>(c, w'). step_ok R H w w' c) (\<lambda>_. True))"

lemma wp_map_step:
  "wp (map_sum id (map_prod F id) m) (\<lambda>(d, w). P d w) E = wp m (\<lambda>(c, w). P (F c) w) E"
  by (cases m) (auto split: prod.split)

lemma wp_pair_and:
  "wp m (\<lambda>(c, w). P c w) F \<and> wp m (\<lambda>(c, w). Q c w) (\<lambda>_. True) \<longleftrightarrow> wp m (\<lambda>(c, w). P c w \<and> Q c w) F"
  by (cases m) auto

lemma disc_Act_iff: "disc R (Act f) H Q \<longleftrightarrow> (\<forall>w. held w = H \<longrightarrow>
     wp (f w) (\<lambda>(c, w'). held w' = H \<and> step_ok R H w w' c \<and> disc R c H Q) (\<lambda>f. \<not> lock_fault f))"
  unfolding disc.simps wp_map_step wp_pair_and by (simp only: conj_ac)

lemma doomed_bindP: "doomed H c \<Longrightarrow> doomed H (bindP c k)"
  by (cases c) simp_all

lemma disc_Act_map:
  assumes "disc R (Act f) H Q" and "\<And>w c w'. f w = Inr (c, w') \<Longrightarrow> disc R c H Q \<Longrightarrow> disc R (g c) H S"
    and "\<And>c. doomed H c \<Longrightarrow> doomed H (g c)"
  shows "disc R (Act (\<lambda>w. map_sum id (map_prod g id) (f w))) H S"
  unfolding disc_Act_iff wp_map_step
proof (intro allI impI)
  fix w :: "'a env_scheme" assume "held w = H"
  with assms(1) have "wp (f w) (\<lambda>(c, w'). held w' = H \<and> step_ok R H w w' c \<and> disc R c H Q) (\<lambda>f. \<not> lock_fault f)"
    unfolding disc_Act_iff by blast
  with assms(2) [of w] assms(3)
  show "wp (f w) (\<lambda>(c, w'). held w' = H \<and> step_ok R H w w' (g c) \<and> disc R (g c) H S) (\<lambda>f. \<not> lock_fault f)"
    unfolding step_ok_def by (cases "f w") (simp_all, blast)
qed

lemma disc_bindP:
  "disc R c H Q \<Longrightarrow> (\<And>a K. Q a K \<Longrightarrow> disc R (k a) K S) \<Longrightarrow> disc R (bindP c k) H S"
proof (induction c arbitrary: H rule: prog_paths)
  case (Act f)
  show ?case
    unfolding bindP.simps
    by (rule disc_Act_map [OF Act.prems(1)]) (rule Act.IH [OF _ _ Act.prems(2)], assumption+, rule doomed_bindP)
qed (simp_all del: disc.simps(4) split: if_splits)

lemma disc_mono: "disc R c H Q \<Longrightarrow> (\<And>a K. Q a K \<Longrightarrow> S a K) \<Longrightarrow> disc R c H S"
  using disc_bindP [of R c H Q Ret S] by (simp add: bindP_Ret)

text \<open>A mutex given back, an action, and the same mutex given back again.\<close>

lemma disc_released_twice:
  assumes m: "misuse R" "m \<in> H"
    and g: "\<And>w. held w = H - {m} \<Longrightarrow> wp (g w) (\<lambda>w'. held w' = H - {m} \<and> last_act R w w') (\<lambda>f. \<not> lock_fault f)"
  shows "disc R (bindP (bindP (release m) (\<lambda>_. atom_st g)) (\<lambda>_. release m)) H Q"
proof -
  have "bindP (bindP (release m) (\<lambda>_. atom_st g)) (\<lambda>_. release m)
      = Rel m (Act (\<lambda>w. bindE (g w) (\<lambda>w. Inr (Rel m (Ret ()), w))))"
    by (simp add: release_def atom_st_def bindE_def fun_eq_iff split: sum.split)
  moreover have "disc R (Act (\<lambda>w. bindE (g w) (\<lambda>w. Inr (Rel m (Ret ()), w)))) (H - {m}) Q"
    unfolding disc_Act_iff using m
    by (auto simp: wp_bindE step_ok_def intro: wp_post [OF g])
  ultimately show ?thesis using m(2) by simp
qed

lemma disc_acquire: "may_lock m H \<Longrightarrow> disc R (acquire m) H (\<lambda>a K. K = insert m H)"
  and disc_release: "m \<in> H \<Longrightarrow> disc R (release m) H (\<lambda>a K. K = H - {m})"
  by (simp_all add: acquire_def release_def)

text \<open>Most programs leave with the mutexes they came with; their rules follow the syntax.\<close>

definition keeps ::
  "'z env_scheme rules \<Rightarrow> mutex set \<Rightarrow> ('a, 'z env_scheme) prog \<Rightarrow> ('a \<Rightarrow> bool) \<Rightarrow> bool" where
  "keeps R H c P \<longleftrightarrow> disc R c H (\<lambda>a K. K = H \<and> P a)"

named_theorems keeps_rules

lemma keeps_Ret [keeps_rules]: "P a \<Longrightarrow> keeps R H (Ret a) P"
  by (simp add: keeps_def)

lemma keeps_bind: "keeps R H c P \<Longrightarrow> (\<And>a. P a \<Longrightarrow> keeps R H (k a) S) \<Longrightarrow> keeps R H (bindP c k) S"
  unfolding keeps_def by (erule disc_bindP) auto

lemma keeps_weaken: "keeps R H c P \<Longrightarrow> (\<And>a. P a \<Longrightarrow> S a) \<Longrightarrow> keeps R H c S"
  unfolding keeps_def by (erule disc_mono) auto

lemma keeps_mutex [keeps_rules]:
  assumes "may_lock m H" and "keeps R (insert m H) c P"
  shows "keeps R H (with_mutex m c) P"
proof -
  have "insert m H - {m} = H" using may_lock_not_held [OF assms(1)] by simp
  then have "disc R (bindP (release m) (\<lambda>_. Ret a)) (insert m H) (\<lambda>a K. K = H \<and> P a)" if "P a" for a
    using that by (simp add: release_def)
  with assms(2) have "disc R (bindP c (\<lambda>a. bindP (release m) (\<lambda>_. Ret a))) (insert m H) (\<lambda>a K. K = H \<and> P a)"
    unfolding keeps_def by (elim disc_bindP) blast
  with assms(1) show ?thesis
    by (simp add: keeps_def with_mutex_def acquire_def)
qed

lemma keeps_split [keeps_rules]:
  "(b \<Longrightarrow> keeps R H x P) \<Longrightarrow> (\<not> b \<Longrightarrow> keeps R H y P) \<Longrightarrow> keeps R H (if b then x else y) P"
  "(\<And>c d. p = (c, d) \<Longrightarrow> keeps R H (f c d) P) \<Longrightarrow> keeps R H (case p of (c, d) \<Rightarrow> f c d) P"
  "(q = None \<Longrightarrow> keeps R H u P) \<Longrightarrow> (\<And>v. q = Some v \<Longrightarrow> keeps R H (g v) P) \<Longrightarrow>
     keeps R H (case q of None \<Rightarrow> u | Some v \<Rightarrow> g v) P"
  by (auto split: prod.split option.split)

text \<open>An action does what is allowed and keeps the mutexes; what it returns satisfies \<open>Q\<close>.\<close>

lemma keeps_atom:
  assumes "\<And>w. held w = H \<Longrightarrow>
    wp (f w) (\<lambda>(a, w'). held w' = H \<and> allowed R H w w' \<and> Q a) (\<lambda>f. \<not> lock_fault f)"
  shows "keeps R H (atom f) Q"
  unfolding keeps_def atom_def disc_Act_iff step_ok_def
  by (auto simp: wp_bindE intro: wp_post [OF assms])

lemma keeps_atom_safe:
  "(\<And>w. held w = H \<Longrightarrow> safe (\<lambda>w'. held w' = H \<and> allowed R H w w') (f w)) \<Longrightarrow> keeps R H (atom f) (\<lambda>_. True)"
  by (rule keeps_atom) (simp add: safe_def)

lemma keeps_atom_st:
  assumes "\<And>w. held w = H \<Longrightarrow> safe_st (\<lambda>w'. held w' = H \<and> allowed R H w w') (f w)"
  shows "keeps R H (atom_st f) (\<lambda>_. True)"
  unfolding keeps_def atom_st_def disc_Act_iff step_ok_def
  by (auto simp: wp_bindE intro: wp_post [OF assms [unfolded safe_st_def]])

text \<open>A thread that is about to give back a mutex it does not own ends the process.\<close>

lemma doomed_step:
  assumes "i < length ts" and "doomed (fst (ts ! i)) (snd (ts ! i))"
  shows "thread_step i (Running ts w) = Some (Crashed UnlockNotHeld)"
  using assms by (cases "snd (ts ! i)") (simp_all add: unlock_def)

section \<open>Mutexes a program never takes\<close>

text \<open>\<open>avoids n c Q\<close>: on no path does \<open>c\<close> acquire \<open>n\<close>, and what it returns satisfies \<open>Q\<close>.\<close>

primrec avoids :: "mutex \<Rightarrow> ('a, 'w) prog \<Rightarrow> ('a \<Rightarrow> bool) \<Rightarrow> bool" where
  "avoids n (Ret a) = (\<lambda>Q. Q a)"
| "avoids n (Acq m c) = (\<lambda>Q. m \<noteq> n \<and> avoids n c Q)"
| "avoids n (Rel m c) = (\<lambda>Q. avoids n c Q)"
| "avoids n (Act f) = (\<lambda>Q. \<forall>w. wp (map_sum id (map_prod (avoids n) id) (f w)) (\<lambda>(b, w'). b Q) (\<lambda>_. True))"

lemma avoids_Act_iff: "avoids n (Act f) Q \<longleftrightarrow> (\<forall>w. wp (f w) (\<lambda>(c, w'). avoids n c Q) (\<lambda>_. True))"
  by (simp add: wp_map_step)

named_theorems avoids_rules

lemma avoids_atom:
  assumes "\<And>w. wp (f w) (\<lambda>(a, w'). Q a) (\<lambda>_. True)"
  shows "avoids n (atom f) Q"
  unfolding atom_def avoids_Act_iff by (auto simp: wp_bindE intro: wp_post [OF assms])

lemma avoids_compute:
  assumes "wp r Q (\<lambda>_. True)"
  shows "avoids n (compute r) Q"
  unfolding compute_def avoids_Act_iff by (auto simp: wp_bindE intro: wp_post [OF assms])

lemma avoids_prim [avoids_rules]:
  "Q a \<Longrightarrow> avoids n (Ret a) Q" "avoids n (atom f) (\<lambda>_. True)" "avoids n (atom_st g) (\<lambda>_. True)"
  "avoids n (read_st h) (\<lambda>_. True)" "avoids n (release m) (\<lambda>_. True)" "m \<noteq> n \<Longrightarrow> avoids n (acquire m) (\<lambda>_. True)"
  by (auto simp: atom_st_def read_st_def release_def acquire_def avoids_Act_iff wp_bindE
      simp del: avoids.simps(4) intro!: avoids_atom) (simp_all add: wp_def split: sum.split)

lemma avoids_bindP: "avoids n c Q \<Longrightarrow> (\<And>a. Q a \<Longrightarrow> avoids n (k a) S) \<Longrightarrow> avoids n (bindP c k) S"
proof (induction c rule: prog_paths)
  case (Act f)
  then show ?case
    unfolding bindP.simps avoids_Act_iff wp_map_step by (fastforce simp: wp_def split: sum.splits)
qed simp_all

lemma avoids_pair: "avoids n c (\<lambda>(x, y). P x y) \<Longrightarrow> (\<And>x y. P x y \<Longrightarrow> avoids n (k x y) S) \<Longrightarrow>
    avoids n (bindP c (\<lambda>(x, y). k x y)) S"
  by (erule avoids_bindP) auto

lemma avoids_split [avoids_rules]:
  "m \<noteq> n \<Longrightarrow> avoids n c Q \<Longrightarrow> avoids n (with_mutex m c) Q"
  "(b \<Longrightarrow> avoids n x Q) \<Longrightarrow> (\<not> b \<Longrightarrow> avoids n y Q) \<Longrightarrow> avoids n (if b then x else y) Q"
  "(\<And>c d. avoids n (f c d) Q) \<Longrightarrow> avoids n (case p of (c, d) \<Rightarrow> f c d) Q"
  "avoids n u Q \<Longrightarrow> (\<And>v. avoids n (g v) Q) \<Longrightarrow> avoids n (case q of None \<Rightarrow> u | Some v \<Rightarrow> g v) Q"
  by (auto simp: with_mutex_def acquire_def release_def split: prod.split option.split intro!: avoids_bindP)

section \<open>Every interleaving\<close>

text \<open>
  What the actions may do to the state has to include doing nothing, and what an operation
  on a mutex does to the record of the mutexes.
\<close>

locale shared_changes =
  fixes R :: "'z env_scheme rules"
  assumes allowed_refl: "allowed R H w w"
    and allowed_lock: "may_lock m (held w) \<Longrightarrow>
      allowed R (held w) w (w\<lparr>held := H, lock_order := lock_order w \<union> held w \<times> {m}\<rparr>)"
    and allowed_unlock: "allowed R (held w) w (w\<lparr>held := H\<rparr>)"
begin

lemma keeps_read_st [keeps_rules]: "keeps R H (read_st f) (\<lambda>_. True)"
  by (simp add: keeps_def read_st_def allowed_refl step_ok_def)

lemma keeps_compute:
  assumes "wp r Q (\<lambda>f. \<not> lock_fault f)"
  shows "keeps R H (compute r) Q"
  unfolding keeps_def compute_def disc_Act_iff step_ok_def
  by (auto simp: wp_bindE allowed_refl intro: wp_post [OF assms])

text \<open>
  A disciplined program that runs alone and never takes \<open>m\<close> leaves alone what only the
  owner of \<open>m\<close> may change.
\<close>

lemma disc_run:
  assumes "disc R c H Q" and "avoids m c S" and "m \<notin> H" and "held w = H" and "run c w = Inr (a, w')" and "P w"
    and P_change: "\<And>H w w'. m \<notin> H \<Longrightarrow> allowed R H w w' \<Longrightarrow> P w \<Longrightarrow> P w'"
    and P_last: "\<And>w w'. last_act R w w' \<Longrightarrow> P w \<Longrightarrow> P w'"
  shows "P w' \<and> Q a (held w')"
  using assms(1-6)
proof (induction c arbitrary: H w rule: prog_paths)
  case (Acq n c)
  from Acq.prems have n: "n \<notin> H" "n \<noteq> m" "disc R c (insert n H) Q" "avoids m c S"
    by (auto dest: may_lock_not_held)
  let ?v = "w\<lparr>held := insert n H, lock_order := lock_order w \<union> H \<times> {n}\<rparr>"
  have "P ?v"
    using allowed_lock [of n w "insert n H"] Acq.prems P_change [of H w ?v] by simp
  with Acq.IH [OF n(3,4), of ?v] n Acq.prems show ?case by (simp add: lock_def)
next
  case (Rel n c)
  show ?case
  proof (cases "n \<in> H")
    case True
    let ?v = "w\<lparr>held := H - {n}\<rparr>"
    have "P ?v" using allowed_unlock [of w "H - {n}"] Rel.prems P_change [of H w ?v] by simp
    with Rel.IH [of "H - {n}" ?v] Rel.prems True show ?thesis by (simp add: unlock_def)
  qed (use Rel.prems in \<open>simp add: unlock_def\<close>)
next
  case (Act f)
  from Act.prems(5) obtain d v where d: "f w = Inr (d, v)" "run d v = Inr (a, w')"
    unfolding run_Act bindE_Inr_conv by (auto split: prod.splits)
  have "wp (f w) (\<lambda>(c, w'). held w' = H \<and> step_ok R H w w' c \<and> disc R c H Q) (\<lambda>f. \<not> lock_fault f)"
    using Act.prems(1,4) unfolding disc_Act_iff by blast
  then have v: "held v = H" "step_ok R H w v d" "disc R d H Q" by (simp_all add: d)
  have "wp (f w) (\<lambda>(c, w'). avoids m c S) (\<lambda>_. True)"
    using Act.prems(2) unfolding avoids_Act_iff by blast
  then have "avoids m d S" by (simp add: d)
  moreover have "P v"
    using v(2) P_change [OF Act.prems(3)] P_last Act.prems(6) unfolding step_ok_def by blast
  ultimately show ?case
    using Act.IH [OF d(1) v(3)] Act.prems(3) v(1) d(2) by blast
qed simp

text \<open>
  Every thread is disciplined and will have given back everything when it is done, with a
  value as \<open>Q\<close> says, and no two own the same mutex.
\<close>

definition sane :: "('a \<Rightarrow> bool) list \<Rightarrow> ('a, 'z env_scheme) process \<Rightarrow> bool" where
  "sane Q c \<longleftrightarrow> (case c of
     Crashed f \<Rightarrow> tolerated R f
   | Running ts w \<Rightarrow> length Q = length ts
       \<and> (\<forall>i<length ts. disc R (snd (ts ! i)) (fst (ts ! i)) (\<lambda>a K. K = {} \<and> (Q ! i) a))
       \<and> (\<forall>i<length ts. \<forall>j<length ts. i \<noteq> j \<longrightarrow> fst (ts ! i) \<inter> fst (ts ! j) = {}))"

definition changes ::
  "mutex set \<Rightarrow> 'z env_scheme \<Rightarrow> 'z env_scheme \<Rightarrow> ('a, 'z env_scheme) prog \<Rightarrow> bool" where
  "changes H w w' c \<longleftrightarrow> allowed R H w w' \<or> misuse R \<and> last_act R w w' \<and> doomed (held w') c"

lemma attempt_disc:
  assumes "disc R c H Q" and "\<not> finished c" and "\<And>m d. c = Acq m d \<Longrightarrow> m \<notin> H" and "held w = H"
  shows "wp (attempt c w) (\<lambda>(c', w'). changes H w w' c' \<and> disc R c' (held w') Q
      \<and> (\<forall>m\<in>held w'. m \<in> H \<or> (\<exists>d. c = Acq m d))) (tolerated R)"
proof (cases c)
  case (Acq m d)
  then show ?thesis
    using assms allowed_lock [of m w "insert m H"] by (simp add: wp_simps changes_def)
next
  case (Rel m d)
  then show ?thesis
    using assms allowed_unlock [of w "H - {m}"] by (auto simp: wp_simps changes_def)
next
  case (Act f)
  have "wp (f w) (\<lambda>(c', w'). held w' = H \<and> step_ok R H w w' c' \<and> disc R c' H Q) (\<lambda>f. \<not> lock_fault f)"
    using assms(1,4) unfolding Act disc_Act_iff by simp
  then show ?thesis
    unfolding Act attempt.simps by (rule wp_mono) (auto simp: step_ok_def changes_def)
qed (use assms in simp)

text \<open>One step of a thread, what it does to the state, and what it is after.\<close>

lemma sane_thread_step:
  assumes "sane Q (Running ts w)" and "thread_step i (Running ts w) = Some c'"
  shows "(\<exists>f. c' = Crashed f \<and> tolerated R f) \<or> (\<exists>d w'. c' = Running (ts[i := (held w', d)]) w'
    \<and> sane Q c' \<and> i < length ts \<and> changes (fst (ts ! i)) (w\<lparr>held := fst (ts ! i)\<rparr>) w' d)"
proof -
  let ?H = "fst (ts ! i)" and ?c = "snd (ts ! i)"
  have i: "i < length ts" "\<not> finished ?c" "\<not> waits ts ?c"
      "c' = (case attempt ?c (w\<lparr>held := ?H\<rparr>) of Inl f \<Rightarrow> Crashed f | Inr (d, w') \<Rightarrow> Running (ts[i := (held w', d)]) w')"
    using assms(2) unfolding thread_step_Running by blast+
  have free: "m \<notin> fst t" if "?c = Acq m d" "t \<in> set ts" for m d t
    using i(3) that by auto
  from assms(1) have s: "length Q = length ts"
      "\<forall>i<length ts. disc R (snd (ts ! i)) (fst (ts ! i)) (\<lambda>a K. K = {} \<and> (Q ! i) a)"
      "\<forall>i<length ts. \<forall>j<length ts. i \<noteq> j \<longrightarrow> fst (ts ! i) \<inter> fst (ts ! j) = {}"
    by (simp_all add: sane_def)
  have "m \<notin> ?H" if "?c = Acq m d" for m d
    using free [OF that nth_mem [OF i(1)]] .
  from attempt_disc [OF s(2) [rule_format, OF i(1)] i(2) this, where w = "w\<lparr>held := ?H\<rparr>"]
  have wp: "wp (attempt ?c (w\<lparr>held := ?H\<rparr>)) (\<lambda>(d, w'). changes ?H (w\<lparr>held := ?H\<rparr>) w' d
      \<and> disc R d (held w') (\<lambda>a K. K = {} \<and> (Q ! i) a)
      \<and> (\<forall>m\<in>held w'. m \<in> ?H \<or> (\<exists>d. ?c = Acq m d))) (tolerated R)" by simp
  show ?thesis
  proof (cases "attempt ?c (w\<lparr>held := ?H\<rparr>)")
    case (Inl f)
    with wp i(4) show ?thesis by simp
  next
    case (Inr p)
    obtain d w' where p: "p = (d, w')" by (cases p)
    have new: "changes ?H (w\<lparr>held := ?H\<rparr>) w' d" "disc R d (held w') (\<lambda>a K. K = {} \<and> (Q ! i) a)"
        "\<forall>m\<in>held w'. m \<in> ?H \<or> (\<exists>d. ?c = Acq m d)"
      using wp Inr p by auto
    have "held w' \<inter> fst (ts ! j) = {}" if "j < length ts" "j \<noteq> i" for j
      using new(3) s(3) free nth_mem [OF that(1)] that i(1) by fast
    then have "sane Q (Running (ts[i := (held w', d)]) w')"
      using i(1) new s by (auto simp: sane_def nth_list_update)
    with i(1,4) Inr p new(1) show ?thesis by auto
  qed
qed

lemma sane_step:
  assumes "sane Q c" and "cstep c c'"
  shows "sane Q c'"
proof -
  obtain i where step: "thread_step i c = Some c'"
    using assms(2) by (auto elim: cstep_elim)
  then obtain ts w where c: "c = Running ts w" by (cases c) auto
  from sane_thread_step [OF assms(1) [unfolded c] step [unfolded c]] show ?thesis
    by (auto simp: sane_def)
qed

lemma sane_steps: "cstep\<^sup>*\<^sup>* c c' \<Longrightarrow> sane Q c \<Longrightarrow> sane Q c'"
  by (induction rule: rtranclp_induct) (auto intro: sane_step)

text \<open>A property of the state that no allowed change destroys holds in every interleaving.\<close>

lemma sane_invariant:
  fixes ts ts' :: "('a, 'z env_scheme) thread list"
  assumes "cstep\<^sup>*\<^sup>* (Running ts w) (Running ts' w')" and "sane Q (Running ts w)" and "P w"
    and P_held: "\<And>w H. P w \<Longrightarrow> P (w\<lparr>held := H\<rparr>)" and P_change: "\<And>H w w'. allowed R H w w' \<Longrightarrow> P w \<Longrightarrow> P w'"
    and P_last: "\<And>w w'. last_act R w w' \<Longrightarrow> P w \<Longrightarrow> P w'"
  shows "P w'"
  using assms(1)
proof (induction "Running ts' w'" arbitrary: ts' w' rule: rtranclp_induct)
  case (step c)
  then obtain vs v where c: "c = Running vs v" by (cases c) auto
  obtain i where i: "thread_step i (Running vs v) = Some (Running ts' w')"
    using step.hyps(2) c by (auto elim: cstep_elim)
  have "sane Q (Running vs v)" using sane_steps [OF _ assms(2)] step.hyps(1) c by simp
  from sane_thread_step [OF this i] obtain d :: "('a, 'z env_scheme) prog" where "changes (fst (vs ! i)) (v\<lparr>held := fst (vs ! i)\<rparr>) w' d" by auto
  with P_change P_last P_held [OF step.hyps(3) [OF c]] show ?case unfolding changes_def by blast
qed (use assms(3) in simp)

text \<open>While a thread has something to do, some thread can move.\<close>

lemma sane_progress:
  assumes "sane Q (Running ts w)" and "\<exists>t\<in>set ts. \<not> finished (snd t)"
  shows "\<exists>i c'. thread_step i (Running ts w) = Some c'"
proof (rule ccontr)
  assume "\<not> ?thesis"
  then have stuck: "waits ts (snd (ts ! i))" if "i < length ts" "\<not> finished (snd (ts ! i))" for i
    using that by (auto split: if_splits)
  have disc: "disc R (snd (ts ! i)) (fst (ts ! i)) (\<lambda>a K. K = {} \<and> (Q ! i) a)" if "i < length ts" for i
    using assms(1) that by (simp add: sane_def)
  let ?T = "{(H, m). \<exists>c. (H, Acq m c) \<in> set ts}"
  have waiting: "\<exists>m c. snd t = Acq m c \<and> (fst t, m) \<in> ?T \<and> (\<exists>t'\<in>set ts. m \<in> fst t')"
    if t: "t \<in> set ts" "\<not> finished (snd t)" for t
  proof -
    obtain i where "i < length ts" "t = ts ! i" using t(1) by (auto simp: in_set_conv_nth)
    with stuck t(2) have "waits ts (snd t)" by simp
    then obtain m c where "snd t = Acq m c" "\<exists>t'\<in>set ts. m \<in> fst t'"
      by (cases "snd t") auto
    moreover have "(fst t, Acq m c) = t" using \<open>snd t = Acq m c\<close> by (cases t) simp
    then have "(fst t, m) \<in> ?T" using t(1) by (intro CollectI case_prodI exI [of _ c]) simp
    ultimately show ?thesis by blast
  qed
  have owner: "\<not> finished (snd t)" if t: "t \<in> set ts" "m \<in> fst t" for t m
  proof
    obtain i where "i < length ts" "t = ts ! i" using t(1) by (auto simp: in_set_conv_nth)
    moreover assume "finished (snd t)"
    then obtain a where "snd t = Ret a" by (cases "snd t") auto
    ultimately show False using disc [of i] t(2) by simp
  qed
  have "circular_wait ?T"
    unfolding circular_wait_def
  proof (intro conjI ballI, goal_cases)
    case 1
    from assms(2) waiting show ?case by blast
  next
    case (2 p)
    then obtain H m c where p: "p = (H, m)" "(H, Acq m c) \<in> set ts" by blast
    then obtain t' where t': "t' \<in> set ts" "m \<in> fst t'" using waiting [of "(H, Acq m c)"] by auto
    with waiting [OF t'(1) owner [OF t']] p(1) show ?case by fastforce
  qed
  moreover have "may_lock m H" if "(H, Acq m c) \<in> set ts" for H m c
  proof -
    obtain i where "i < length ts" "ts ! i = (H, Acq m c)" using \<open>_ \<in> set ts\<close> by (auto simp: in_set_conv_nth)
    with disc [of i] show ?thesis by simp
  qed
  ultimately show False
    using no_circular_wait [of ?T] by blast
qed

text \<open>So a configuration nobody can move in is one where everybody is done, or a crash.\<close>

lemma sane_final:
  assumes "sane Q c" and "\<not> (\<exists>c'. cstep c c')"
  shows "(\<exists>f. c = Crashed f \<and> tolerated R f)
    \<or> (\<exists>rs w. c = Running (map (\<lambda>r. ({}, Ret r)) rs) w \<and> list_all2 (\<lambda>q r. q r) Q rs)"
proof (cases c)
  case (Running ts w)
  have s: "length Q = length ts"
      "\<forall>i<length ts. disc R (snd (ts ! i)) (fst (ts ! i)) (\<lambda>a K. K = {} \<and> (Q ! i) a)"
    using assms(1) by (simp_all add: sane_def Running)
  have "\<forall>t\<in>set ts. finished (snd t)"
    using sane_progress [OF assms(1) [unfolded Running]] assms(2) unfolding Running by (blast intro: cstep)
  then have "\<forall>i<length ts. \<exists>r. snd (ts ! i) = Ret r"
    by (metis finished.elims(2) nth_mem)
  then obtain r where r: "\<And>i. i < length ts \<Longrightarrow> snd (ts ! i) = Ret (r i)" by metis
  let ?rs = "map r [0..<length ts]"
  have "ts = map (\<lambda>r. ({}, Ret r)) ?rs" "list_all2 (\<lambda>q r. q r) Q ?rs"
    using s r by (auto simp: list_all2_conv_all_nth prod_eq_iff intro!: nth_equalityI)
  with Running show ?thesis by blast
qed (use assms in \<open>simp add: sane_def\<close>)

end

end
