(* ===== verification/Event_Programs.thy ===== *)
theory Event_Programs
  imports Threads System
begin

text \<open>
  What a thread of libupnp does with an event, operation on a mutex by operation on a mutex:
  for every function of the program that locks, the same function as a program in the sense
  of theory Threads. What the code does between two mutex operations is one action, built
  from the definitions of the sequential model. That running such a program alone is the
  sequential definition is proved for each of them, and at the end for the event handler.
\<close>

section \<open>output_mpd.c\<close>

definition check_mpd_connection_prog ::
  "'m mpd_lib \<Rightarrow> bool \<Rightarrow> (cnx_status, ('m, 'z) output_env_scheme) prog" where
  "check_mpd_connection_prog L update_status =
     bindP (read_st test_mode) (\<lambda>test.
     if test then Ret STATUS_TEST
     else with_mutex MpdMutex (atom (\<lambda>w.
       if \<not> mpd_conn w then
         bindE (setup_connection L w) (\<lambda>(conn, w).
         if conn then
           bindE (if update_status then update_mpd_status L w else Inr w) (\<lambda>w. Inr (STATUS_OK, w))
         else Inr (STATUS_FAIL, w))
       else Inr (STATUS_OK, w))))"

text \<open>This function looks at the connection before it locks.\<close>

definition output_set_uri_prog :: "'m mpd_lib \<Rightarrow> string \<Rightarrow> (unit, ('m, 'z) output_env_scheme) prog" where
  "output_set_uri_prog L uri =
     bindP (read_st mpd_conn) (\<lambda>conn.
     if \<not> conn then Ret ()
     else with_mutex MpdMutex (atom_st (\<lambda>w.
       bindE (mpd_do L mpd_run_clear w) (\<lambda>(_, w).
       bindE (mpd_do L (mpd_run_add uri) w) (\<lambda>(ok, w).
       if ok then Inr w else command_failed L w)))))"

definition player_command_prog ::
  "'m mpd_lib \<Rightarrow> mpd_command_call \<Rightarrow> (int, ('m, 'z) output_env_scheme) prog" where
  "player_command_prog L c =
     bindP (read_st test_mode) (\<lambda>test.
     if test then Ret 0 else with_mutex MpdMutex (atom (run_and_update L c)))"

definition output_seekto_prog :: "'m mpd_lib \<Rightarrow> string \<Rightarrow> string \<Rightarrow> (int, ('m, 'z) output_env_scheme) prog" where
  "output_seekto_prog L seekmode seekpos =
     bindP (read_st test_mode) (\<lambda>test.
     if test then Ret 0
     else with_mutex MpdMutex (atom (\<lambda>w.
       bindE (on_conn (mpd_run_status L) w) (\<lambda>(st, w).
       case st of
         None \<Rightarrow> bindE (command_failed L w) (\<lambda>w. Inr (- 1, w))
       | Some mstatus \<Rightarrow>
           if status_state mstatus = MPD_STATE_STOP then Inr (- 1, w)
           else
             bindE (parsetimetosecs (Some seekpos)) (\<lambda>seekto.
             let seekto = (if seekto < 0 then 0 else seekto);
                 seekto = (if seekto > track_duration w then track_duration w else seekto)
             in run_and_update L (mpd_run_seek_id (sint (status_song_id mstatus)) seekto) w)))))"

definition output_playmode_prog :: "'m mpd_lib \<Rightarrow> string option \<Rightarrow> (int, ('m, 'z) output_env_scheme) prog" where
  "output_playmode_prog L newmode =
     bindP (read_st test_mode) (\<lambda>test.
     if test then Ret 0
     else with_mutex MpdMutex (atom (\<lambda>w.
       bindE (deref newmode) (\<lambda>mode.
       case play_mode_flags mode of
         None \<Rightarrow> Inr (- 1, w)
       | Some (single, random, rpt) \<Rightarrow>
           bindE (mpd_do_all L [mpd_command_list_begin False, mpd_send_single single,
                    mpd_send_random random, mpd_send_repeat rpt, mpd_command_list_end] w)
             (\<lambda>(ok, w).
             if \<not> ok then bindE (finish_and_drop L w) (\<lambda>w. Inr (- 1, w))
             else bindE (mpd_do L mpd_response_finish w) (\<lambda>(ok, w).
                  Inr (0, if ok then w else output_printError L w)))))))"

definition output_set_volume_prog :: "'m mpd_lib \<Rightarrow> string option \<Rightarrow> (unit, ('m, 'z) output_env_scheme) prog" where
  "output_set_volume_prog L newvol =
     bindP (read_st test_mode) (\<lambda>test.
     if test then Ret ()
     else case newvol of
       None \<Rightarrow> Ret ()
     | Some v \<Rightarrow>
         let val = atoi v; val = (if val < 0 then 0 else val); val = (if val > 100 then 100 else val)
         in with_mutex MpdMutex (atom_st (\<lambda>w.
              bindE (mpd_do L (mpd_run_set_volume val) w) (\<lambda>(ok, w).
              if ok then Inr (w\<lparr>mpdvolume := val, mutevolume := val\<rparr>) else command_failed L w))))"

text \<open>The volume to come back to is remembered, and looked up, before the mutex is taken.\<close>

definition output_set_mute_prog :: "'m mpd_lib \<Rightarrow> bool \<Rightarrow> (unit, ('m, 'z) output_env_scheme) prog" where
  "output_set_mute_prog L bmute =
     bindP (read_st test_mode) (\<lambda>test.
     if test then Ret ()
     else
       bindP (atom_st (\<lambda>w. Inr (if bmute then w\<lparr>mutevolume := mpdvolume w\<rparr> else w))) (\<lambda>_.
       bindP (read_st (\<lambda>w. if bmute then 0 else mutevolume w)) (\<lambda>newvolume.
       with_mutex MpdMutex (atom_st (\<lambda>w.
         bindE (mpd_do L (mpd_run_set_volume newvolume) w) (\<lambda>(ok, w).
         if ok then Inr (w\<lparr>mpdvolume := newvolume\<rparr>) else command_failed L w))))))"

definition output_update_status_prog :: "'m mpd_lib \<Rightarrow> (unit, ('m, 'z) output_env_scheme) prog" where
  "output_update_status_prog L = with_mutex MpdMutex (atom_st (update_mpd_status L))"

text \<open>When the query fails the mutex is given back before the error is handled, and again after.\<close>

definition output_update_position_prog :: "'m mpd_lib \<Rightarrow> (unit, ('m, 'z) output_env_scheme) prog" where
  "output_update_position_prog L =
     bindP (check_mpd_connection_prog L False) (\<lambda>st.
     if st \<noteq> STATUS_OK then Ret ()
     else
       bindP (acquire MpdMutex) (\<lambda>_.
       bindP (atom (on_conn (mpd_run_status L))) (\<lambda>st.
       bindP (case st of
                None \<Rightarrow> bindP (release MpdMutex) (\<lambda>_. atom_st (command_failed L))
              | Some mstatus \<Rightarrow>
                  atom_st (\<lambda>w. bindE (output_translate_state mstatus w) (update_track_position mstatus))) (\<lambda>_.
       release MpdMutex))))"

lemmas run_congs = if_cong option.case_cong

lemma run_check_mpd_connection [run_simps]:
  "run (check_mpd_connection_prog L u) w = check_mpd_connection L u w"
  by (simp add: check_mpd_connection_prog_def check_mpd_connection_def run_simps cong: run_congs split del: if_split)

lemma run_output [run_simps]:
  "run (output_set_uri_prog L uri) w = bindE (output_set_uri L uri w) (\<lambda>w. Inr ((), w))"
  "run (player_command_prog L c) w = player_command L c w"
  "run (output_seekto_prog L mode pos) w = output_seekto L mode pos w"
  "run (output_playmode_prog L newmode) w = output_playmode L newmode w"
  "run (output_set_volume_prog L vol) w = bindE (output_set_volume L vol w) (\<lambda>w. Inr ((), w))"
  "run (output_set_mute_prog L mute) w = bindE (output_set_mute L mute w) (\<lambda>w. Inr ((), w))"
  "run (output_update_status_prog L) w = bindE (output_update_status L w) (\<lambda>w. Inr ((), w))"
  "run (output_update_position_prog L) w = bindE (output_update_position L w) (\<lambda>w. Inr ((), w))"
  by (simp_all add: output_set_uri_prog_def output_set_uri_def player_command_prog_def player_command_def
      output_seekto_prog_def output_seekto_def output_playmode_prog_def output_playmode_def
      output_set_volume_prog_def output_set_volume_def output_set_mute_prog_def output_set_mute_def
      output_update_status_prog_def output_update_status_def output_update_position_prog_def
      output_update_position_def Let_def run_simps cong: run_congs split del: if_split)

section \<open>upnp_device.c: variables and guards\<close>

text \<open>
  A handler as a program returns its code and its event; \<open>paired\<close> puts the result of the
  sequential handler in this form.
\<close>

type_synonym 'w handler_prog = "'w action_event \<Rightarrow> (int \<times> 'w action_event, 'w) prog"

definition paired :: "('a \<times> 'b \<times> 'c) result \<Rightarrow> (('a \<times> 'b) \<times> 'c) result" where
  "paired m = bindE m (\<lambda>(a, b, c). Inr ((a, b), c))"

lemma paired_push [run_simps]:
  "paired (Inr (a, b, c)) = Inr ((a, b), c)"
  "paired (Inl f) = Inl f"
  "paired (bindE m k) = bindE m (\<lambda>r. paired (k r))"
  "paired (if t then x else y) = (if t then paired x else paired y)"
  "paired (case p of (c, d) \<Rightarrow> g c d) = (case p of (c, d) \<Rightarrow> paired (g c d))"
  "paired (case v of None \<Rightarrow> u | Some a \<Rightarrow> h a) = (case v of None \<Rightarrow> paired u | Some a \<Rightarrow> paired (h a))"
  by (simp_all add: paired_def run_simps split: prod.split option.split)

lemma bindE_paired [run_simps]:
  "bindE (paired m) (\<lambda>(p, w). k p w) = bindE m (\<lambda>(a, b, w). k (a, b) w)"
  by (simp add: paired_def bindE_def split: sum.split)

definition upnp_append_variable_prog ::
  "upnp_lib \<Rightarrow> 'z env_scheme action_event \<Rightarrow> nat \<Rightarrow> string
    \<Rightarrow> (int \<times> 'z env_scheme action_event, 'z env_scheme) prog" where
  "upnp_append_variable_prog L event varnum paramname =
     (if variable_count (event_service event) \<le> varnum
      then Ret (- 1, upnp_set_error L event (UPNP_E_INTERNAL_ERROR L)
                  (''Internal Error - illegal variable number '' @ fmt_d (int varnum)))
      else with_mutex (service_mutex (event_service event)) (atom (\<lambda>w.
        bindE (case get_service_var (event_service event) varnum w of
                 None \<Rightarrow> Inr (- 1, upnp_set_error L event (UPNP_E_INTERNAL_ERROR L) ''Internal Error'')
               | Some value \<Rightarrow> upnp_add_response L event paramname value) (\<lambda>r. Inr (r, w)))))"

fun append_variables_prog ::
  "upnp_lib \<Rightarrow> 'z env_scheme action_event \<Rightarrow> (nat \<times> string) list
    \<Rightarrow> (int \<times> 'z env_scheme action_event, 'z env_scheme) prog" where
  "append_variables_prog L event [] = Ret (0, event)"
| "append_variables_prog L event ((varnum, paramname) # vs) =
     bindP (upnp_append_variable_prog L event varnum paramname) (\<lambda>(rc, event).
     if rc \<noteq> 0 then Ret (rc, event) else append_variables_prog L event vs)"

definition with_instance_prog ::
  "upnp_lib \<Rightarrow> int \<Rightarrow> 'w action_event \<Rightarrow> ('w action_event \<Rightarrow> (int \<times> 'w action_event, 'w) prog)
    \<Rightarrow> (int \<times> 'w action_event, 'w) prog" where
  "with_instance_prog L code event k =
     bindP (compute (upnp_obtain_instanceid L event)) (\<lambda>(rc, event).
     if rc \<noteq> 0 then Ret (- 1, upnp_set_error L event code ''ID non-zero invalid'') else k event)"

lemma add_response_service: "upnp_add_response L ev k v = Inr (rc, ev') \<Longrightarrow> event_service ev' = event_service ev"
  using wp_returns [OF wp_add_response [of L ev k v]] by (simp add: same_call_def)

lemma run_append_variable [run_simps]:
  "run (upnp_append_variable_prog L ev n k) w = paired (upnp_append_variable L ev n k w)"
  by (simp add: upnp_append_variable_prog_def upnp_append_variable_def run_simps cong: run_congs split del: if_split)
    (auto simp: bindE_def dest: add_response_service split: option.split sum.split)

lemma run_append_variables [run_simps]:
  "run (append_variables_prog L ev vs) w = paired (append_variables L ev vs w)"
proof (induction vs arbitrary: ev w)
  case (Cons v vs)
  then show ?case
    by (cases v) (simp add: run_simps cong: run_congs split del: if_split)
qed (simp add: run_simps)

lemma run_with_instance [run_simps]:
  assumes "\<And>ev. run (k ev) w = paired (h ev)"
  shows "run (with_instance_prog L c ev k) w = paired (with_instance L c ev w h)"
  by (simp add: with_instance_prog_def with_instance_def run_simps assms cong: run_congs split del: if_split)

section \<open>upnp_transport.c\<close>

definition with_connection_prog ::
  "'m mpd_lib \<Rightarrow> ('m, 'z) output_env_scheme action_event
    \<Rightarrow> (int \<times> ('m, 'z) output_env_scheme action_event, ('m, 'z) output_env_scheme) prog
    \<Rightarrow> (int \<times> ('m, 'z) output_env_scheme action_event, ('m, 'z) output_env_scheme) prog" where
  "with_connection_prog MD event k =
     bindP (check_mpd_connection_prog MD True) (\<lambda>st. if st = STATUS_FAIL then Ret (- 1, event) else k)"

definition player_transition_prog ::
  "upnp_lib \<Rightarrow> (int, ('m, 'z) output_env_scheme) prog \<Rightarrow> string \<Rightarrow> transport_state \<Rightarrow> string
    \<Rightarrow> ('m, 'z) output_env_scheme handler_prog" where
  "player_transition_prog L op msg state txt event =
     bindP op (\<lambda>rc.
     if rc \<noteq> 0 then Ret (- 1, upnp_set_error L event UPNP_TRANSPORT_E_NO_CONTENTS msg)
     else
       bindP (atom_st (\<lambda>w. transport_change_var event TRANSPORT_VAR_TRANSPORT_STATE (Some txt)
                (w\<lparr>transport_state := Some state\<rparr>))) (\<lambda>_.
       Ret (0, event)))"

definition get_media_info_prog :: "upnp_lib \<Rightarrow> ('m, 'z) output_env_scheme handler_prog" where
  "get_media_info_prog L event =
     with_instance_prog L UPNP_TRANSPORT_E_INVALID_IID event (\<lambda>event.
     append_variables_prog L event
       [(TRANSPORT_VAR_NR_TRACKS, ''NrTracks''),
        (TRANSPORT_VAR_CUR_MEDIA_DUR, ''MediaDuration''),
        (TRANSPORT_VAR_AV_URI, ''CurrentURI''),
        (TRANSPORT_VAR_AV_URI_META, ''CurrentURIMetaData''),
        (TRANSPORT_VAR_NEXT_AV_URI, ''NextURI''),
        (TRANSPORT_VAR_NEXT_AV_URI_META, ''NextURIMetaData''),
        (TRANSPORT_VAR_REC_MEDIA, ''PlayMedium''),
        (TRANSPORT_VAR_REC_MEDIUM, ''RecordMedium''),
        (TRANSPORT_VAR_REC_MEDIUM_WR_STATUS, ''WriteStatus'')])"

definition get_transport_info_prog :: "upnp_lib \<Rightarrow> ('m, 'z) output_env_scheme handler_prog" where
  "get_transport_info_prog L event =
     bindP (compute (upnp_obtain_instanceid L event)) (\<lambda>(rc, event).
     append_variables_prog L
       (if rc \<noteq> 0 then upnp_set_error L event UPNP_TRANSPORT_E_INVALID_IID ''ID non-zero invalid'' else event)
       [(TRANSPORT_VAR_TRANSPORT_STATE, ''CurrentTransportState''),
        (TRANSPORT_VAR_TRANSPORT_STATUS, ''CurrentTransportStatus''),
        (TRANSPORT_VAR_TRANSPORT_PLAY_SPEED, ''CurrentSpeed'')])"

definition get_transport_settings_prog :: "upnp_lib \<Rightarrow> ('m, 'z) output_env_scheme handler_prog" where
  "get_transport_settings_prog L event =
     with_instance_prog L UPNP_TRANSPORT_E_INVALID_IID event (\<lambda>event.
     append_variables_prog L event
       [(TRANSPORT_VAR_CUR_PLAY_MODE, ''CurrentPlayMode''),
        (TRANSPORT_VAR_CUR_REC_QUAL_MODE, ''CurrentRecordQualityMode'')])"

definition get_position_info_prog :: "upnp_lib \<Rightarrow> 'm mpd_lib \<Rightarrow> ('m, 'z) output_env_scheme handler_prog" where
  "get_position_info_prog L MD event =
     with_instance_prog L UPNP_TRANSPORT_E_INVALID_IID event (\<lambda>event.
     bindP (with_mutex TransportMutex (output_update_position_prog MD)) (\<lambda>_.
     append_variables_prog L event
       [(TRANSPORT_VAR_CUR_TRACK, ''Track''),
        (TRANSPORT_VAR_CUR_TRACK_DUR, ''TrackDuration''),
        (TRANSPORT_VAR_CUR_TRACK_META, ''TrackMetaData''),
        (TRANSPORT_VAR_CUR_TRACK_URI, ''TrackURI''),
        (TRANSPORT_VAR_REL_TIME_POS, ''RelTime''),
        (TRANSPORT_VAR_ABS_TIME_POS, ''AbsTime''),
        (TRANSPORT_VAR_REL_CTR_POS, ''RelCount''),
        (TRANSPORT_VAR_ABS_CTR_POS, ''AbsCount'')]))"

definition get_device_caps_prog :: "upnp_lib \<Rightarrow> ('m, 'z) output_env_scheme handler_prog" where
  "get_device_caps_prog L event =
     with_instance_prog L UPNP_TRANSPORT_E_INVALID_IID event (\<lambda>event. Ret (0, event))"

text \<open>The URI is handed to the player in the middle of the critical section.\<close>

definition set_avtransport_uri_prog :: "upnp_lib \<Rightarrow> 'm mpd_lib \<Rightarrow> ('m, 'z) output_env_scheme handler_prog" where
  "set_avtransport_uri_prog L MD event =
     with_instance_prog L UPNP_TRANSPORT_E_INVALID_IID event (\<lambda>event.
     bindP (compute (upnp_get_string L event ''CurrentURI'')) (\<lambda>(v, event).
     case v of
       None \<Rightarrow> Ret (- 1, event)
     | Some uri \<Rightarrow>
         with_mutex TransportMutex (
         bindP (output_set_uri_prog MD uri) (\<lambda>_.
         bindP (atom_st (transport_set_var TRANSPORT_VAR_AV_URI (Some uri))) (\<lambda>_.
         bindP (compute (upnp_get_string L event ''CurrentURIMetaData'')) (\<lambda>(meta, event).
         bindP (case meta of
                  None \<Rightarrow> Ret (- 1)
                | Some md \<Rightarrow> atom (\<lambda>w.
                    bindE (transport_set_var TRANSPORT_VAR_AV_URI_META (Some md) w) (\<lambda>w.
                    bindE (transport_get_attr_metadata L ''duration'' w) (\<lambda>dur.
                    bindE (transport_set_var TRANSPORT_VAR_CUR_TRACK_DUR dur w) (\<lambda>w.
                    Inr (0, w)))))) (\<lambda>rc.
         bindP (atom_st (\<lambda>w.
                  bindE (transport_set_state TRANSPORT_STOPPED ''STOPPED'' w) (\<lambda>w.
                  bindE (transport_get_state_lastchange w) (\<lambda>buf.
                  transport_notify_lastchange event buf w)))) (\<lambda>_.
         Ret (rc, event)))))))))"

definition xplaymode_prog :: "upnp_lib \<Rightarrow> 'm mpd_lib \<Rightarrow> ('m, 'z) output_env_scheme handler_prog" where
  "xplaymode_prog L MD event =
     with_instance_prog L UPNP_TRANSPORT_E_INVALID_IID event (\<lambda>event.
     bindP (compute (upnp_get_string L event ''NewPlayMode'')) (\<lambda>(newmode, event).
     with_connection_prog MD event (with_mutex TransportMutex (
       bindP (output_playmode_prog MD newmode) (\<lambda>rc.
       if rc \<noteq> 0
       then Ret (rc, upnp_set_error L event UPNP_TRANSPORT_E_PLAYMODE_NS ''Set playmode failed'')
       else bindP (atom_st (transport_change_var event TRANSPORT_VAR_CUR_PLAY_MODE newmode)) (\<lambda>_.
            Ret (rc, event)))))))"

definition xstop_prog :: "upnp_lib \<Rightarrow> 'm mpd_lib \<Rightarrow> ('m, 'z) output_env_scheme handler_prog" where
  "xstop_prog L MD event =
     with_instance_prog L UPNP_TRANSPORT_E_INVALID_IID event (\<lambda>event.
     with_connection_prog MD event (with_mutex TransportMutex (
       bindP (read_st transport_state) (\<lambda>s.
       let stop = player_transition_prog L (player_command_prog MD mpd_run_stop) ''Player Stop failed''
             TRANSPORT_STOPPED ''STOPPED'' event
       in case s of
         None \<Rightarrow> Ret (0, event)
       | Some s \<Rightarrow>
           (case s of
              TRANSPORT_STOPPED \<Rightarrow> Ret (0, event)
            | TRANSPORT_PLAYING \<Rightarrow> stop
            | TRANSPORT_TRANSITIONING \<Rightarrow> stop
            | TRANSPORT_PAUSED_PLAYBACK \<Rightarrow> stop
            | TRANSPORT_NO_MEDIA_PRESENT \<Rightarrow>
                Ret (0, upnp_set_error L event UPNP_TRANSPORT_E_TRANSITION_NA ''Transition not allowed''))))))"

definition xpause_prog :: "upnp_lib \<Rightarrow> 'm mpd_lib \<Rightarrow> ('m, 'z) output_env_scheme handler_prog" where
  "xpause_prog L MD event =
     with_instance_prog L UPNP_TRANSPORT_E_INVALID_IID event (\<lambda>event.
     with_connection_prog MD event (with_mutex TransportMutex (
       bindP (read_st transport_state) (\<lambda>s.
       case s of
         None \<Rightarrow> Ret (0, event)
       | Some s \<Rightarrow>
           (case s of
              TRANSPORT_STOPPED \<Rightarrow> Ret (0, event)
            | TRANSPORT_PLAYING \<Rightarrow>
                player_transition_prog L (player_command_prog MD (mpd_run_pause True)) ''Player Pause failed''
                  TRANSPORT_PAUSED_PLAYBACK ''PAUSED_PLAYBACK'' event
            | TRANSPORT_PAUSED_PLAYBACK \<Rightarrow>
                player_transition_prog L (player_command_prog MD mpd_run_play) ''Player Start failed''
                  TRANSPORT_PLAYING ''PLAYING'' event
            | TRANSPORT_TRANSITIONING \<Rightarrow>
                Ret (0, upnp_set_error L event UPNP_TRANSPORT_E_TRANSITION_NA ''Transition not allowed'')
            | TRANSPORT_NO_MEDIA_PRESENT \<Rightarrow>
                Ret (0, upnp_set_error L event UPNP_TRANSPORT_E_TRANSITION_NA ''Transition not allowed''))))))"

definition xplay_prog :: "upnp_lib \<Rightarrow> 'm mpd_lib \<Rightarrow> ('m, 'z) output_env_scheme handler_prog" where
  "xplay_prog L MD event =
     with_instance_prog L UPNP_TRANSPORT_E_INVALID_IID event (\<lambda>event.
     with_connection_prog MD event (with_mutex TransportMutex (
       bindP (read_st transport_state) (\<lambda>s.
       let play = player_transition_prog L (player_command_prog MD mpd_run_play) ''Player Start failed''
             TRANSPORT_PLAYING ''PLAYING'' event
       in case s of
         None \<Rightarrow> Ret (0, event)
       | Some s \<Rightarrow>
           (case s of
              TRANSPORT_PLAYING \<Rightarrow> Ret (0, event)
            | TRANSPORT_STOPPED \<Rightarrow> play
            | TRANSPORT_PAUSED_PLAYBACK \<Rightarrow> play
            | TRANSPORT_NO_MEDIA_PRESENT \<Rightarrow>
                Ret (- 1, upnp_set_error L event UPNP_TRANSPORT_E_TRANSITION_NA ''Transition not allowed'')
            | TRANSPORT_TRANSITIONING \<Rightarrow>
                Ret (- 1, upnp_set_error L event UPNP_TRANSPORT_E_TRANSITION_NA ''Transition not allowed''))))))"

definition xseek_prog :: "upnp_lib \<Rightarrow> 'm mpd_lib \<Rightarrow> ('m, 'z) output_env_scheme handler_prog" where
  "xseek_prog L MD event =
     with_instance_prog L UPNP_TRANSPORT_E_INVALID_IID event (\<lambda>event.
     bindP (compute (upnp_get_string L event ''Unit'')) (\<lambda>(mode, event).
     case mode of
       None \<Rightarrow> Ret (- 1, event)
     | Some md \<Rightarrow>
         bindP (compute (upnp_get_string L event ''Target'')) (\<lambda>(v, event).
         case v of
           None \<Rightarrow> Ret (- 1, event)
         | Some target \<Rightarrow>
             with_connection_prog MD event (
             bindP (output_seekto_prog MD md target) (\<lambda>rc.
             if rc \<noteq> 0
             then Ret (- 1, upnp_set_error L event UPNP_TRANSPORT_E_ILL_SEEKTARGET ''Player Seek failed'')
             else Ret (rc, event))))))"

text \<open>Next and Previous drive the player without the mutex of the service.\<close>

definition xnext_prog :: "upnp_lib \<Rightarrow> 'm mpd_lib \<Rightarrow> ('m, 'z) output_env_scheme handler_prog" where
  "xnext_prog L MD event =
     with_instance_prog L UPNP_TRANSPORT_E_INVALID_IID event (\<lambda>event.
     with_connection_prog MD event (
     bindP (player_command_prog MD mpd_run_next) (\<lambda>rc.
     if rc \<noteq> 0
     then Ret (- 1, upnp_set_error L event UPNP_TRANSPORT_E_TRANSITION_NA ''Player Next failed'')
     else Ret (0, event))))"

definition xprevious_prog :: "upnp_lib \<Rightarrow> 'm mpd_lib \<Rightarrow> ('m, 'z) output_env_scheme handler_prog" where
  "xprevious_prog L MD event =
     with_instance_prog L UPNP_TRANSPORT_E_INVALID_IID event (\<lambda>event.
     with_connection_prog MD event (
     bindP (player_command_prog MD mpd_run_previous) (\<lambda>rc.
     if rc \<noteq> 0
     then Ret (- 1, upnp_set_error L event UPNP_TRANSPORT_E_TRANSITION_NA ''Player Previous failed'')
     else Ret (0, event))))"

definition transport_notify_subscription_prog :: "'m mpd_lib \<Rightarrow> (int, ('m, 'z) output_env_scheme) prog" where
  "transport_notify_subscription_prog MD =
     with_mutex TransportMutex (
     bindP (output_update_status_prog MD) (\<lambda>_.
     bindP (atom_st (\<lambda>w. bindE (transport_get_state_lastchange w) (\<lambda>buf.
              transport_set_var TRANSPORT_VAR_LAST_CHANGE (Some buf) w))) (\<lambda>_.
     Ret 0)))"

lemma run_with_connection [run_simps]:
  assumes "\<And>w. run k w = paired (h w)"
  shows "run (with_connection_prog MD ev k) w = paired (with_connection MD ev w h)"
  by (simp add: with_connection_prog_def with_connection_def run_simps assms cong: run_congs split del: if_split)

lemma run_in_transport [run_simps]:
  assumes "\<And>w. run k w = paired (h w)"
  shows "run (with_mutex TransportMutex k) w = paired (in_transport h w)"
  by (simp add: in_transport_def run_simps assms cong: run_congs split del: if_split)

lemma run_player_transition [run_simps]:
  assumes "\<And>w. run c w = op w"
  shows "run (player_transition_prog L c msg st txt ev) w = paired (player_transition L op msg st txt ev w)"
  by (simp add: player_transition_prog_def player_transition_def run_simps assms cong: run_congs split del: if_split)

lemma run_transport_queries:
  "run (get_media_info_prog L ev) w = paired (get_media_info L ev w)"
  "run (get_transport_info_prog L ev) w = paired (get_transport_info L ev w)"
  "run (get_transport_settings_prog L ev) w = paired (get_transport_settings L ev w)"
  "run (get_position_info_prog L MD ev) w = paired (get_position_info L MD ev w)"
  "run (get_device_caps_prog L ev) w = paired (get_device_caps L ev w)"
  unfolding get_media_info_prog_def get_media_info_def get_transport_info_prog_def get_transport_info_def
    get_transport_settings_prog_def get_transport_settings_def get_position_info_prog_def get_position_info_def
    get_device_caps_prog_def get_device_caps_def Let_def
  by (rule run_with_instance
      | simp add: run_simps cong: run_congs split del: if_split del: append_variables.simps append_variables_prog.simps)+

lemma run_set_avtransport_uri:
  "run (set_avtransport_uri_prog L MD ev) w = paired (set_avtransport_uri L MD ev w)"
  unfolding set_avtransport_uri_prog_def set_avtransport_uri_def
  by (rule run_with_instance) (simp add: run_simps cong: run_congs split del: if_split)

lemma run_xcommands:
  "run (xplaymode_prog L MD ev) w = paired (xplaymode L MD ev w)"
  "run (xstop_prog L MD ev) w = paired (xstop L MD ev w)"
  "run (xpause_prog L MD ev) w = paired (xpause L MD ev w)"
  "run (xplay_prog L MD ev) w = paired (xplay L MD ev w)"
  "run (xseek_prog L MD ev) w = paired (xseek L MD ev w)"
  "run (xnext_prog L MD ev) w = paired (xnext L MD ev w)"
  "run (xprevious_prog L MD ev) w = paired (xprevious L MD ev w)"
proof -
  note defs = xplaymode_prog_def xplaymode_def xstop_prog_def xstop_def xpause_prog_def xpause_def xplay_prog_def xplay_def
    xseek_prog_def xseek_def xnext_prog_def xnext_def xprevious_prog_def xprevious_def
    output_play_def output_stop_def output_pause_def output_next_def output_prev_def Let_def
  show "run (xstop_prog L MD ev) w = paired (xstop L MD ev w)"
    "run (xpause_prog L MD ev) w = paired (xpause L MD ev w)"
    "run (xplay_prog L MD ev) w = paired (xplay L MD ev w)"
    unfolding defs
    by (rule run_with_instance run_with_connection run_in_transport
        | simp add: run_simps run_player_transition split: option.split transport_state.split)+
  show "run (xplaymode_prog L MD ev) w = paired (xplaymode L MD ev w)"
    "run (xseek_prog L MD ev) w = paired (xseek L MD ev w)"
    "run (xnext_prog L MD ev) w = paired (xnext L MD ev w)"
    "run (xprevious_prog L MD ev) w = paired (xprevious L MD ev w)"
    unfolding defs with_connection_prog_def with_connection_def in_transport_def
    by (rule run_with_instance | simp add: run_simps cong: run_congs split del: if_split)+
qed

section \<open>upnp_control.c and upnp_connmgr.c\<close>

definition control_notify_subscription_prog :: "(int, ('m, 'z) control_env_scheme) prog" where
  "control_notify_subscription_prog =
     with_mutex ControlMutex (atom (\<lambda>w.
     bindE (control_update_settings w) (\<lambda>w.
     bindE (control_set_var CONTROL_VAR_LAST_CHANGE
              (Some (rcs_event (rcs_value CONTROL_VAR_VOLUME w @ rcs_value CONTROL_VAR_MUTE w))) w) (\<lambda>w.
     Inr (0, w)))))"

definition cmd_obtain_variable_prog :: "upnp_lib \<Rightarrow> nat \<Rightarrow> string \<Rightarrow> ('m, 'z) control_env_scheme handler_prog" where
  "cmd_obtain_variable_prog L varnum paramname event =
     with_instance_prog L UPNP_CONTROL_E_INVALID_IID event (\<lambda>event.
     upnp_append_variable_prog L event varnum paramname)"

definition set_mute_prog :: "upnp_lib \<Rightarrow> 'm mpd_lib \<Rightarrow> ('m, 'z) control_env_scheme handler_prog" where
  "set_mute_prog L MD event =
     with_instance_prog L UPNP_CONTROL_E_INVALID_IID event (\<lambda>event.
     bindP (compute (upnp_get_string L event ''DesiredMute'')) (\<lambda>(v, event).
     case v of
       None \<Rightarrow> Ret (- 1, event)
     | Some desired \<Rightarrow>
         with_mutex ControlMutex (
         bindP (if desired = ''1'' then output_set_mute_prog MD True
                else if desired = ''0'' then
                  bindP (output_set_mute_prog MD False) (\<lambda>_.
                  atom_st (\<lambda>w. control_change_var event CONTROL_VAR_VOLUME (Some (output_get_volume w)) w))
                else Ret ()) (\<lambda>_.
         bindP (atom_st (control_change_var event CONTROL_VAR_MUTE (Some desired))) (\<lambda>_.
         Ret (0, event))))))"

definition get_volume_prog :: "upnp_lib \<Rightarrow> ('m, 'z) control_env_scheme handler_prog" where
  "get_volume_prog L event =
     bindP (with_mutex ControlMutex (atom_st (\<lambda>w.
              control_set_var CONTROL_VAR_VOLUME (Some (output_get_volume w)) w))) (\<lambda>_.
     cmd_obtain_variable_prog L CONTROL_VAR_VOLUME ''CurrentVolume'' event)"

definition set_volume_prog :: "upnp_lib \<Rightarrow> 'm mpd_lib \<Rightarrow> ('m, 'z) control_env_scheme handler_prog" where
  "set_volume_prog L MD event =
     with_instance_prog L UPNP_CONTROL_E_INVALID_IID event (\<lambda>event.
     bindP (compute (upnp_get_string L event ''DesiredVolume'')) (\<lambda>(v, event).
     case v of
       None \<Rightarrow> Ret (- 1, event)
     | Some desired \<Rightarrow>
         with_mutex ControlMutex (
         bindP (output_set_volume_prog MD (Some desired)) (\<lambda>_.
         bindP (atom_st (\<lambda>w.
                  bindE (control_change_var event CONTROL_VAR_VOLUME (Some desired) w) (\<lambda>w.
                  control_change_var event CONTROL_VAR_MUTE (Some ''0'') w))) (\<lambda>_.
         Ret (0, event))))))"

definition get_protocol_info_prog :: "upnp_lib \<Rightarrow> 'z connmgr_env_scheme handler_prog" where
  "get_protocol_info_prog L event =
     bindP (upnp_append_variable_prog L event CONNMGR_VAR_SRC_PROTO_INFO ''Source'') (\<lambda>(_, event).
     bindP (upnp_append_variable_prog L event CONNMGR_VAR_SINK_PROTO_INFO ''Sink'') (\<lambda>(_, event).
     Ret (event_status event, event)))"

definition get_current_conn_ids_prog :: "upnp_lib \<Rightarrow> 'z connmgr_env_scheme handler_prog" where
  "get_current_conn_ids_prog L event =
     bindP (compute (upnp_add_response L event ''ConnectionIDs'' ''0'')) (\<lambda>(_, event). Ret (0, event))"

definition get_current_conn_info_prog :: "upnp_lib \<Rightarrow> 'z connmgr_env_scheme handler_prog" where
  "get_current_conn_info_prog L event =
     bindP (compute (upnp_get_string L event ''ConnectionID'')) (\<lambda>(v, event).
     case v of
       None \<Rightarrow> Ret (- 1, event)
     | Some _ \<Rightarrow> append_variables_prog L event
         [(CONNMGR_VAR_AAT_RCS_ID, ''RcsID''),
          (CONNMGR_VAR_AAT_AVT_ID, ''AVTransportID''),
          (CONNMGR_VAR_AAT_PROTO_INFO, ''ProtocolInfo''),
          (CONNMGR_VAR_AAT_CONN_MGR, ''PeerConnectionManager''),
          (CONNMGR_VAR_AAT_CONN_ID, ''PeerConnectionID''),
          (CONNMGR_VAR_AAT_DIR, ''Direction''),
          (CONNMGR_VAR_AAT_CONN_STATUS, ''Status'')])"

lemma run_cmd_obtain_variable [run_simps]:
  "run (cmd_obtain_variable_prog L n k ev) w = paired (cmd_obtain_variable L n k ev w)"
  unfolding cmd_obtain_variable_prog_def cmd_obtain_variable_def
  by (rule run_with_instance) (simp add: run_simps)

lemma run_control:
  "run control_notify_subscription_prog w = control_notify_subscription w"
  "run (set_mute_prog L MD ev) w = paired (set_mute L MD ev w)"
  "run (get_volume_prog L ev) w = paired (get_volume L ev w)"
  "run (set_volume_prog L MD ev) w = paired (set_volume L MD ev w)"
  unfolding control_notify_subscription_prog_def control_notify_subscription_def set_mute_prog_def set_mute_def
    get_volume_prog_def get_volume_def set_volume_prog_def set_volume_def
  by (rule run_with_instance | simp add: run_simps cong: run_congs split del: if_split)+

lemma run_connmgr:
  "run (get_protocol_info_prog L ev) w = paired (get_protocol_info L ev w)"
  "run (get_current_conn_ids_prog L ev) w = paired (get_current_conn_ids L ev w)"
  "run (get_current_conn_info_prog L ev) w = paired (get_current_conn_info L ev w)"
  unfolding get_protocol_info_prog_def get_protocol_info_def get_current_conn_ids_prog_def get_current_conn_ids_def
    get_current_conn_info_prog_def get_current_conn_info_def
  by (simp_all add: run_simps cong: run_congs split del: if_split del: append_variables.simps append_variables_prog.simps)

lemma run_transport_notify_subscription:
  "run (transport_notify_subscription_prog MD) w = transport_notify_subscription MD w"
  by (simp add: transport_notify_subscription_prog_def transport_notify_subscription_def run_simps)

section \<open>upnp_device.c: requests\<close>

text \<open>
  The callbacks of the action tables as programs, by the names they have there. A callback
  that is in no table here would be one action.
\<close>

definition service_progs ::
  "upnp_lib \<Rightarrow> 'm mpd_lib \<Rightarrow> string \<Rightarrow> (string \<times> ('m, 'z) control_env_scheme handler_prog) list" where
  "service_progs L MD sid =
     (if sid = ''urn:schemas-upnp-org:service:AVTransport'' then
        [(''GetDeviceCapabilities'', get_device_caps_prog L),
         (''GetMediaInfo'', get_media_info_prog L),
         (''SetAVTransportURI'', set_avtransport_uri_prog L MD),
         (''GetTransportInfo'', get_transport_info_prog L),
         (''GetPositionInfo'', get_position_info_prog L MD),
         (''GetTransportSettings'', get_transport_settings_prog L),
         (''Stop'', xstop_prog L MD),
         (''Play'', xplay_prog L MD),
         (''Pause'', xpause_prog L MD),
         (''Seek'', xseek_prog L MD),
         (''Next'', xnext_prog L MD),
         (''Previous'', xprevious_prog L MD),
         (''SetPlayMode'', xplaymode_prog L MD)]
      else if sid = ''urn:schemas-upnp-org:service:ConnectionManager'' then
        [(''GetProtocolInfo'', get_protocol_info_prog L),
         (''GetCurrentConnectionIDs'', get_current_conn_ids_prog L),
         (''GetCurrentConnectionInfo'', get_current_conn_info_prog L)]
      else if sid = ''urn:schemas-upnp-org:service:RenderingControl'' then
        [(''ListPresets'', cmd_obtain_variable_prog L CONTROL_VAR_PRESET_NAME_LIST ''CurrentPresetNameList''),
         (''GetMute'', cmd_obtain_variable_prog L CONTROL_VAR_MUTE ''CurrentMute''),
         (''SetMute'', set_mute_prog L MD),
         (''GetVolume'', get_volume_prog L),
         (''SetVolume'', set_volume_prog L MD),
         (''GetVolumeDB'', cmd_obtain_variable_prog L CONTROL_VAR_VOLUME_DB ''CurrentVolumeDB''),
         (''GetLoudness'', cmd_obtain_variable_prog L CONTROL_VAR_LOUDNESS ''CurrentLoudness'')]
      else [])"

definition callback_prog ::
  "upnp_lib \<Rightarrow> 'm mpd_lib \<Rightarrow> string \<Rightarrow> string \<Rightarrow> ('m, 'z) control_env_scheme handler
    \<Rightarrow> ('m, 'z) control_env_scheme handler_prog" where
  "callback_prog L MD sid name cb =
     (case map_of (service_progs L MD sid) name of
        Some c \<Rightarrow> c
      | None \<Rightarrow> (\<lambda>event. atom (\<lambda>w. paired (cb event w))))"

definition handle_action_request_prog ::
  "upnp_lib \<Rightarrow> 'm mpd_lib \<Rightarrow> ('m, 'z) control_env_scheme device \<Rightarrow> upnp_action_request
    \<Rightarrow> (int \<times> upnp_action_request, ('m, 'z) control_env_scheme) prog" where
  "handle_action_request_prog L MD dev ar_event =
     (let srv = find_service dev (ServiceID ar_event) in
      bindP (compute (find_action srv (ActionName ar_event))) (\<lambda>act.
      case act of
        None \<Rightarrow> Ret (- 1, ar_event\<lparr>ActionResult := None, ErrCode := 401\<rparr>)
      | Some a \<Rightarrow>
          (case callback a of
             Some cb \<Rightarrow>
               bindP (compute (deref srv)) (\<lambda>s.
               bindP (callback_prog L MD (ServiceID ar_event) (ActionName ar_event) cb
                        \<lparr>request = ar_event, event_status = 0, event_service = service_vars.truncate s\<rparr>)
                 (\<lambda>(rc, event).
               let ar = request event;
                   ar = (if rc = 0 then ar\<lparr>ErrCode := UPNP_E_SUCCESS L\<rparr> else ar);
                   ar = (if ActionResult ar = None
                         then ar\<lparr>ActionResult := UpnpMakeActionResponse L (ActionName ar) (ServiceID ar)\<rparr>
                         else ar)
               in Ret (0, ar)))
           | None \<Rightarrow> Ret (0, ar_event\<lparr>ErrCode := UPNP_E_SUCCESS L\<rparr>))))"

definition notify_prog ::
  "'m mpd_lib \<Rightarrow> string \<Rightarrow> (('m, 'z) control_env_scheme \<Rightarrow> (int \<times> ('m, 'z) control_env_scheme) result)
    \<Rightarrow> (int, ('m, 'z) control_env_scheme) prog" where
  "notify_prog MD sid f =
     (if sid = ''urn:schemas-upnp-org:service:AVTransport'' then transport_notify_subscription_prog MD
      else if sid = ''urn:schemas-upnp-org:service:RenderingControl'' then control_notify_subscription_prog
      else atom f)"

text \<open>The variables of the service are read with the device mutex only.\<close>

definition handle_subscription_request_prog ::
  "upnp_lib \<Rightarrow> 'm mpd_lib \<Rightarrow> ('m, 'z) control_env_scheme device \<Rightarrow> upnp_subscription_request
    \<Rightarrow> (int, ('m, 'z) control_env_scheme) prog" where
  "handle_subscription_request_prog L MD dev sr_event =
     (case find_service dev (sr_ServiceId sr_event) of
        None \<Rightarrow> Ret (- 1)
      | Some srv \<Rightarrow>
          with_mutex DeviceMutex (
          bindP (case subscription_notify srv of
                   None \<Rightarrow> Ret ()
                 | Some f \<Rightarrow> bindP (notify_prog MD (sr_ServiceId sr_event) f) (\<lambda>_. Ret ())) (\<lambda>_.
          atom (\<lambda>w.
          bindE (filterE (is_evented (service_vars.truncate srv)) [0..<variable_count srv]) (\<lambda>idx.
          bindE (mapE (\<lambda>i. deref (variable_names srv i)) idx) (\<lambda>eventvar_names.
          bindE (mapE (\<lambda>i. bindE (deref (get_service_var (service_vars.truncate srv) i w))
                              (\<lambda>v. xmlescape v False)) idx) (\<lambda>eventvar_values.
          let rc = UpnpAcceptSubscription L (sr_UDN sr_event) (sr_ServiceId sr_event)
                     eventvar_names eventvar_values (sr_Sid sr_event);
              w = w\<lparr>subscriptions := subscriptions w @
                     [\<lparr>DevUDN_sent = sr_UDN sr_event, ServiceID_sent = sr_ServiceId sr_event,
                       VarNames_sent = eventvar_names, VarValues_sent = eventvar_values\<rparr>]\<rparr>
          in Inr (if rc = UPNP_E_SUCCESS L then 0 else - 1, w))))))))"

definition event_handler_prog ::
  "upnp_lib \<Rightarrow> 'm mpd_lib \<Rightarrow> ('m, 'z) control_env_scheme device \<Rightarrow> upnp_event
    \<Rightarrow> (int \<times> upnp_event, ('m, 'z) control_env_scheme) prog" where
  "event_handler_prog L MD dev event =
     (case event of
        UPNP_CONTROL_ACTION_REQUEST ar \<Rightarrow>
          bindP (handle_action_request_prog L MD dev ar) (\<lambda>(_, ar). Ret (0, UPNP_CONTROL_ACTION_REQUEST ar))
      | UPNP_CONTROL_GET_VAR_REQUEST \<Rightarrow> Ret (0, event)
      | UPNP_EVENT_SUBSCRIPTION_REQUEST sr \<Rightarrow>
          bindP (handle_subscription_request_prog L MD dev sr) (\<lambda>_. Ret (0, event))
      | UPNP_OTHER_EVENT n \<Rightarrow> Ret (0, event))"

section \<open>The programs and the sequential handlers\<close>

lemma service_notifies:
  "subscription_notify (transport_service L MD) = Some (transport_notify_subscription MD)"
  "subscription_notify (connmgr_service L) = None"
  "subscription_notify (control_service L MD) = Some control_notify_subscription"
  by (simp_all add: transport_service_def connmgr_service_def control_service_def service_vars.defs)

lemma find_service_name:
  "find_service d n = Some s \<Longrightarrow> service_name s = n"
  by (auto simp: find_service_def find_service_loop_conv dest: find_SomeD)

lemma find_action_name:
  "find_action (Some s) n = Inr (Some a) \<Longrightarrow> action_name a = Some n \<and> a \<in> set (actions s)"
  by (auto simp: find_action_def dest: find_action_loop_SomeD)

text \<open>Every callback of the renderer has its program, and the program runs like the callback.\<close>

lemma run_callback_transport:
  assumes "a \<in> set (transport_actions L MD)" and "action_name a = Some n" and "callback a = Some cb"
  shows "run (callback_prog L MD ''urn:schemas-upnp-org:service:AVTransport'' n cb ev) w = paired (cb ev w)"
  using assms
  by (simp add: transport_actions_def array_of_def upt_rec)
    (elim disjE; clarsimp simp: callback_prog_def service_progs_def run_transport_queries run_xcommands run_set_avtransport_uri)

lemma run_callback_connmgr:
  assumes "a \<in> set (connmgr_actions L)" and "action_name a = Some n" and "callback a = Some cb"
  shows "run (callback_prog L MD ''urn:schemas-upnp-org:service:ConnectionManager'' n cb ev) w = paired (cb ev w)"
  using assms
  by (simp add: connmgr_actions_def array_of_def upt_rec)
    (elim disjE; clarsimp simp: callback_prog_def service_progs_def run_connmgr)

lemma run_callback_control:
  assumes "a \<in> set (control_actions L MD)" and "action_name a = Some n" and "callback a = Some cb"
  shows "run (callback_prog L MD ''urn:schemas-upnp-org:service:RenderingControl'' n cb ev) w = paired (cb ev w)"
  using assms
  by (simp add: control_actions_def array_of_def upt_rec)
    (elim disjE; clarsimp simp: callback_prog_def service_progs_def run_control run_cmd_obtain_variable
      list_presets_def get_mute_def get_volume_db_def get_loudness_def)

lemma run_callback:
  assumes dev: "services d = upnp_services L MD" and s: "find_service d sid = Some s"
    and a: "find_action (Some s) n = Inr (Some a)" "callback a = Some cb"
  shows "run (callback_prog L MD sid n cb ev) w = paired (cb ev w)"
proof -
  have m: "s \<in> set (upnp_services L MD)" using find_service_member [OF s] dev by simp
  have name: "service_name s = sid" by (rule find_service_name [OF s])
  have act: "action_name a = Some n" "a \<in> set (actions s)" using find_action_name [OF a(1)] by simp_all
  consider "s = transport_service L MD" | "s = connmgr_service L" | "s = control_service L MD"
    using m by (auto simp: upnp_services_def)
  then show ?thesis
  proof cases
    case 1
    with name act(2) have "sid = ''urn:schemas-upnp-org:service:AVTransport''" "a \<in> set (transport_actions L MD)"
      by (simp_all only: service_names service_actions)
    then show ?thesis using run_callback_transport [OF _ act(1) a(2)] by simp
  next
    case 2
    with name act(2) have "sid = ''urn:schemas-upnp-org:service:ConnectionManager''" "a \<in> set (connmgr_actions L)"
      by (simp_all only: service_names service_actions)
    then show ?thesis using run_callback_connmgr [OF _ act(1) a(2)] by simp
  next
    case 3
    with name act(2) have "sid = ''urn:schemas-upnp-org:service:RenderingControl''" "a \<in> set (control_actions L MD)"
      by (simp_all only: service_names service_actions)
    then show ?thesis using run_callback_control [OF _ act(1) a(2)] by simp
  qed
qed

lemma run_notify:
  assumes "services d = upnp_services L MD" and "find_service d sid = Some s" and "subscription_notify s = Some f"
  shows "run (notify_prog MD sid f) w = f w"
proof -
  have "s \<in> set (upnp_services L MD)" using find_service_member [OF assms(2)] assms(1) by simp
  then consider "s = transport_service L MD" | "s = connmgr_service L" | "s = control_service L MD"
    by (auto simp: upnp_services_def)
  then show ?thesis
    using find_service_name [OF assms(2)] assms(3)
    by cases (auto simp: notify_prog_def service_names service_notifies run_transport_notify_subscription run_control)
qed

lemma run_action_request:
  assumes "services d = upnp_services L MD"
  shows "run (handle_action_request_prog L MD d ar) w = paired (handle_action_request L d ar w)"
proof (cases "find_service d (ServiceID ar)")
  case None
  then show ?thesis
    by (simp add: handle_action_request_prog_def handle_action_request_def find_action_def run_simps)
next
  case (Some s)
  show ?thesis
  proof (cases "find_action (Some s) (ActionName ar)")
    case (Inr act)
    show ?thesis
    proof (cases "\<exists>a cb. act = Some a \<and> callback a = Some cb")
      case True
      then obtain a cb where a: "act = Some a" "callback a = Some cb" by blast
      note cb = run_callback [OF assms Some Inr [unfolded a(1)] a(2)]
      show ?thesis
        using Some Inr a
        by (simp add: handle_action_request_prog_def handle_action_request_def run_simps cb Let_def)
    next
      case False
      then show ?thesis
        using Some Inr
        by (auto simp: handle_action_request_prog_def handle_action_request_def run_simps split: option.split)
    qed
  qed (use Some in \<open>simp add: handle_action_request_prog_def handle_action_request_def run_simps\<close>)
qed

lemma run_subscription_request:
  assumes "services d = upnp_services L MD"
  shows "run (handle_subscription_request_prog L MD d sr) w = handle_subscription_request L d sr w"
proof (cases "find_service d (sr_ServiceId sr)")
  case (Some s)
  show ?thesis
  proof (cases "subscription_notify s")
    case None
    with Some show ?thesis
      by (simp add: handle_subscription_request_prog_def handle_subscription_request_def run_simps Let_def)
  next
    case f: (Some f)
    with Some show ?thesis
      by (simp add: handle_subscription_request_prog_def handle_subscription_request_def run_simps Let_def
          run_notify [OF assms Some f])
  qed
qed (simp add: handle_subscription_request_prog_def handle_subscription_request_def run_simps)

lemma run_event:
  assumes "services d = upnp_services L MD"
  shows "run (event_handler_prog L MD d e) w = paired (event_handler L d e w)"
  by (cases e) (simp_all add: event_handler_prog_def event_handler_def run_simps run_action_request [OF assms]
      run_subscription_request [OF assms])

end
