(* ===== verification/Thread_Safety.thy ===== *)
theory Thread_Safety
  imports Event_Programs
begin

text \<open>
  The renderer with one thread per event, all at once, and a player that may do anything.
  Every program of theory Event_Programs is disciplined, so that whatever the schedule no two
  threads are in the same critical section, the invariant of the sequential model holds of
  the shared state all the time, some thread can always move until all are done, and every
  schedule ends. One program breaks the discipline: when the status query of GetPositionInfo
  is not answered it gives the player's mutex back twice. The rules allow such a thread one
  step, after which it must crash; the theorems say where this shows.
\<close>

section \<open>What a step may change\<close>

text \<open>
  Which mutex a thread has to own to change which part of the state. The connection to the
  player and what is known of it belong to the player's mutex, the variables of
  RenderingControl to its own, the subscriptions to the device's; notifications are sent
  under the mutex of a service. The variables of AVTransport are changed under the mutex of
  the service, or under that of the player.
\<close>

definition guarded :: "mutex set \<Rightarrow> ('m, 'z) control_env_scheme \<Rightarrow> ('m, 'z) control_env_scheme \<Rightarrow> bool" where
  "guarded H w w' \<longleftrightarrow>
     (MpdMutex \<notin> H \<longrightarrow> mpd w' = mpd w \<and> mpd_conn w' = mpd_conn w \<and> mpdvolume w' = mpdvolume w
        \<and> track_duration w' = track_duration w)
   \<and> (ControlMutex \<notin> H \<longrightarrow> control_values w' = control_values w)
   \<and> (DeviceMutex \<notin> H \<longrightarrow> subscriptions w' = subscriptions w)
   \<and> (TransportMutex \<notin> H \<and> ControlMutex \<notin> H \<longrightarrow> notifications w' = notifications w)
   \<and> (TransportMutex \<notin> H \<and> MpdMutex \<notin> H \<longrightarrow>
        transport_values w' = transport_values w \<and> transport_state w' = transport_state w)
   \<and> connmgr_values w' = connmgr_values w \<and> test_mode w' = test_mode w"

definition dev_change :: "mutex set \<Rightarrow> ('m, 'z) control_env_scheme \<Rightarrow> ('m, 'z) control_env_scheme \<Rightarrow> bool" where
  "dev_change H w w' \<longleftrightarrow>
     (ordered w \<longrightarrow> ordered w') \<and> (transport_ok w \<longrightarrow> transport_ok w')
   \<and> (\<exists>ns. notifications w' = notifications w @ ns) \<and> (\<exists>ss. subscriptions w' = subscriptions w @ ss)
   \<and> guarded H w w'"

text \<open>
  The one step outside these rules: a thread whose status query has failed gives the mutex of
  the player back, closes the connection without it, and gives it back again. \<open>D\<close> says
  whether there may be such a thread.
\<close>

definition closes_connection :: "('m, 'z) control_env_scheme \<Rightarrow> ('m, 'z) control_env_scheme \<Rightarrow> bool" where
  "closes_connection w w' \<longleftrightarrow> (\<exists>m c. w' = w\<lparr>mpd := m, mpd_conn := c\<rparr>)"

definition dev_rules :: "bool \<Rightarrow> ('m, 'z) control_env_scheme rules" where
  "dev_rules D = \<lparr>allowed = dev_change, last_act = closes_connection, misuse = D\<rparr>"

lemma dev_rules_simps [simp]:
  "allowed (dev_rules D) = dev_change" "last_act (dev_rules D) = closes_connection" "misuse (dev_rules D) = D"
  by (simp_all add: dev_rules_def)

interpretation shared: shared_changes "dev_rules D :: ('m, 'z) control_env_scheme rules" for D
proof
  fix w :: "('m, 'z) control_env_scheme" and H m
  show "allowed (dev_rules D) H w w" "allowed (dev_rules D) (held w) w (w\<lparr>held := H\<rparr>)"
    by (simp_all add: dev_change_def guarded_def)
  show "allowed (dev_rules D) (held w) w (w\<lparr>held := H, lock_order := lock_order w \<union> held w \<times> {m}\<rparr>)"
    if "may_lock m (held w)"
    using that ordered_lock [of w m H] by (auto simp: dev_change_def guarded_def transport_ok_def)
qed

lemma guarded_refl: "guarded H w w"
  by (simp add: guarded_def)

text \<open>An action of the sequential model is one such step.\<close>

lemma wp_and: "wp m Q F \<Longrightarrow> wp m Q' (\<lambda>_. True) \<Longrightarrow> wp m (\<lambda>r. Q r \<and> Q' r) F"
  by (simp add: wp_def split: sum.splits)

lemma dev_change_action: "action_step w H w' \<Longrightarrow> guarded H w w' \<Longrightarrow> held w' = H \<and> dev_change H w w'"
  by (auto simp: action_step_def dev_change_def)

lemma keeps_act:
  fixes f :: "('m, 'z) control_env_scheme \<Rightarrow> ('a \<times> ('m, 'z) control_env_scheme) result"
  assumes "\<And>w. action_step w H w \<Longrightarrow> safe (action_step w H) (f w)"
    and "\<And>w. guarded H w w \<Longrightarrow> wp (f w) (\<lambda>(a, w'). guarded H w w') (\<lambda>_. True)"
  shows "keeps (dev_rules D) H (atom f) (\<lambda>_. True)"
proof (rule keeps_atom)
  fix w :: "('m, 'z) control_env_scheme" assume w: "held w = H"
  from wp_and [OF assms(1) [OF action_step_refl [OF w], unfolded safe_def] assms(2) [OF guarded_refl [of H w]]]
  show "wp (f w) (\<lambda>(a, w'). held w' = H \<and> allowed (dev_rules D) H w w' \<and> True) (\<lambda>f. \<not> lock_fault f)"
    by (rule wp_post) (auto dest: dev_change_action)
qed

lemma keeps_act_st:
  fixes f :: "('m, 'z) control_env_scheme \<Rightarrow> ('m, 'z) control_env_scheme result"
  assumes "\<And>w. action_step w H w \<Longrightarrow> safe_st (action_step w H) (f w)"
    and "\<And>w. guarded H w w \<Longrightarrow> wp (f w) (guarded H w) (\<lambda>_. True)"
  shows "keeps (dev_rules D) H (atom_st f) (\<lambda>_. True)"
proof (rule keeps_atom_st)
  fix w :: "('m, 'z) control_env_scheme" assume w: "held w = H"
  from wp_and [OF assms(1) [OF action_step_refl [OF w], unfolded safe_st_def] assms(2) [OF guarded_refl [of H w]]]
  show "safe_st (\<lambda>w'. held w' = H \<and> allowed (dev_rules D) H w w') (f w)"
    unfolding safe_st_def by (rule wp_post) (auto dest: dev_change_action)
qed

text \<open>The operations on the variables, which need the mutex of their service.\<close>

named_theorems guard_rules

lemma guard_bind [guard_rules]:
  "wp m (guarded H b) (\<lambda>_. True) \<Longrightarrow> (\<And>w. guarded H b w \<Longrightarrow> wp (k w) Q (\<lambda>_. True)) \<Longrightarrow> wp (bindE m k) Q (\<lambda>_. True)"
  unfolding wp_bindE by (erule wp_post)

lemma guard_value [guard_rules]:
  "(\<And>v. wp (k v) Q (\<lambda>_. True)) \<Longrightarrow> wp (bindE (transport_get_state_lastchange w) k) Q (\<lambda>_. True)"
  "(\<And>v. wp (l v) Q (\<lambda>_. True)) \<Longrightarrow> wp (bindE (transport_get_attr_metadata L key w) l) Q (\<lambda>_. True)"
  "guarded H b w' \<Longrightarrow> wp (Inr (r, w')) (\<lambda>(a, w'). guarded H b w') (\<lambda>_. True)"
  by (simp_all add: wp_bindE) (simp_all add: wp_def split: sum.split)

lemma guard_transport [guard_rules]:
  assumes "guarded H b w" and "TransportMutex \<in> H"
  shows "wp (transport_set_var n v w) (guarded H b) (\<lambda>_. True)"
    and "wp (transport_set_state st txt w) (guarded H b) (\<lambda>_. True)"
    and "wp (transport_notify_lastchange ev s w) (guarded H b) (\<lambda>_. True)"
  using assms
  by (auto simp: guarded_def transport_set_var_def transport_set_state_def transport_notify_lastchange_def wp_def bindE_def
      split: sum.split option.split)

lemma guard_change_var [guard_rules]:
  assumes "guarded H b w" and m: "TransportMutex \<in> H"
  shows "wp (transport_change_var ev n v w) (guarded H b) (\<lambda>_. True)"
    and "wp (transport_change_var ev n v (w\<lparr>transport_state := st\<rparr>)) (guarded H b) (\<lambda>_. True)"
proof -
  have s: "guarded H b (w\<lparr>transport_state := st\<rparr>)" using assms by (simp add: guarded_def)
  show "wp (transport_change_var ev n v w) (guarded H b) (\<lambda>_. True)"
    "wp (transport_change_var ev n v (w\<lparr>transport_state := st\<rparr>)) (guarded H b) (\<lambda>_. True)"
    unfolding transport_change_var_def by (assumption | rule guard_rules assms s)+
qed

lemma guard_control [guard_rules]:
  assumes "guarded H b w" and "ControlMutex \<in> H"
  shows "wp (control_set_var n v w) (guarded H b) (\<lambda>_. True)"
    and "wp (control_notify_lastchange ev s w) (guarded H b) (\<lambda>_. True)"
  using assms
  by (auto simp: guarded_def control_set_var_def control_notify_lastchange_def wp_def bindE_def
      split: sum.split option.split)

lemma guard_control_ops [guard_rules]:
  assumes "guarded H b w" and "ControlMutex \<in> H"
  shows "wp (control_change_var ev n v w) (guarded H b) (\<lambda>_. True)"
    and "wp (control_update_settings w) (guarded H b) (\<lambda>_. True)"
  unfolding control_change_var_def control_update_settings_def Let_def
  by (assumption | rule guard_rules assms | simp only: wp_if split: if_split, intro conjI impI)+

text \<open>The operations of the player backend do what they do under the player's mutex.\<close>

lemma guarded_out:
  assumes "out_step w H w'" and "MpdMutex \<in> H"
  shows "guarded H w w'"
proof -
  have "output_env.more w' = output_env.more w" using assms(1) by (simp add: out_step_def)
  then have "control_values w' = control_values w" by (cases w; cases w') simp
  with assms show ?thesis by (simp add: out_step_def guarded_def)
qed

lemma dev_change_out: "out_step w H w' \<Longrightarrow> MpdMutex \<in> H \<Longrightarrow> held w = H \<Longrightarrow> held w' = H \<and> dev_change H w w'"
  by (rule dev_change_action [OF action_step_out [OF action_step_refl] guarded_out])

lemma keeps_out:
  fixes f :: "('m, 'z) control_env_scheme \<Rightarrow> ('a \<times> ('m, 'z) control_env_scheme) result"
  assumes "\<And>w. out_step w H w \<Longrightarrow> safe (out_step w H) (f w)" and "MpdMutex \<in> H"
  shows "keeps (dev_rules D) H (atom f) (\<lambda>_. True)"
proof (rule keeps_atom)
  fix w :: "('m, 'z) control_env_scheme" assume w: "held w = H"
  from assms(1) [OF out_step_refl [OF w], unfolded safe_def]
  show "wp (f w) (\<lambda>(a, w'). held w' = H \<and> allowed (dev_rules D) H w w' \<and> True) (\<lambda>f. \<not> lock_fault f)"
    by (rule wp_post) (use w assms(2) in \<open>auto dest: dev_change_out\<close>)
qed

lemma keeps_out_st:
  fixes f :: "('m, 'z) control_env_scheme \<Rightarrow> ('m, 'z) control_env_scheme result"
  assumes "\<And>w. out_step w H w \<Longrightarrow> safe_st (out_step w H) (f w)" and "MpdMutex \<in> H"
  shows "keeps (dev_rules D) H (atom_st f) (\<lambda>_. True)"
proof (rule keeps_atom_st)
  fix w :: "('m, 'z) control_env_scheme" assume w: "held w = H"
  from assms(1) [OF out_step_refl [OF w], unfolded safe_st_def]
  show "safe_st (\<lambda>w'. held w' = H \<and> allowed (dev_rules D) H w w') (f w)"
    unfolding safe_st_def by (rule wp_post) (use w assms(2) in \<open>auto dest: dev_change_out\<close>)
qed

section \<open>The player backend\<close>

text \<open>Each critical section is a run of sequential definitions on the connection.\<close>

lemma keeps_mutevolume:
  "keeps (dev_rules D) H (atom_st (\<lambda>w. Inr (if m then w\<lparr>mutevolume := mpdvolume w\<rparr> else w))) (\<lambda>_. True)"
  by (rule keeps_atom_st) (simp add: safe_st_def dev_change_def guarded_def)

lemma keeps_output [keeps_rules]:
  assumes m: "may_lock MpdMutex H"
  shows "keeps (dev_rules D) H (check_mpd_connection_prog MD u) (\<lambda>_. True)"
    and "keeps (dev_rules D) H (output_set_uri_prog MD uri) (\<lambda>_. True)"
    and "keeps (dev_rules D) H (player_command_prog MD c) (\<lambda>_. True)"
    and "keeps (dev_rules D) H (output_seekto_prog MD mode pos) (\<lambda>_. True)"
    and "keeps (dev_rules D) H (output_playmode_prog MD newmode) (\<lambda>_. True)"
    and "keeps (dev_rules D) H (output_set_volume_prog MD vol) (\<lambda>_. True)"
    and "keeps (dev_rules D) H (output_set_mute_prog MD mute) (\<lambda>_. True)"
    and "keeps (dev_rules D) H (output_update_status_prog MD) (\<lambda>_. True)"
  unfolding check_mpd_connection_prog_def output_set_uri_prog_def player_command_prog_def output_seekto_prog_def
    output_playmode_prog_def output_set_volume_prog_def output_set_mute_prog_def output_update_status_prog_def Let_def
  by (assumption | rule keeps_rules keeps_bind keeps_out keeps_out_st keeps_mutevolume safe_rules out_rules out.bind m
      TrueI insertI1)+

definition answers :: "'m mpd_lib \<Rightarrow> bool" where
  "answers MD \<longleftrightarrow> (\<forall>m. fst (mpd_run_status MD m) \<noteq> None)"

lemma keeps_mpd_status:
  assumes "\<not> answers MD \<Longrightarrow> D" and "MpdMutex \<in> H"
  shows "keeps (dev_rules D) H (atom (on_conn (mpd_run_status MD))) (\<lambda>st. st = None \<longrightarrow> D)"
proof (rule keeps_atom)
  fix w :: "('a, 'b) control_env_scheme" assume w: "held w = H"
  have "safe (out_step w H) (on_conn (mpd_run_status MD) w)"
    by (rule out_rules) (rule out_step_refl [OF w])
  moreover have "wp (on_conn (mpd_run_status MD) w) (\<lambda>(st, w'). st = None \<longrightarrow> D) (\<lambda>_. True)"
    using assms(1) by (auto simp: on_conn_def answers_def split: prod.split) (metis fst_conv)
  ultimately show "wp (on_conn (mpd_run_status MD) w)
      (\<lambda>(st, w'). held w' = H \<and> allowed (dev_rules D) H w w' \<and> (st = None \<longrightarrow> D)) (\<lambda>f. \<not> lock_fault f)"
    unfolding safe_def by (rule wp_post [OF wp_and]) (use w assms(2) in \<open>auto dest: dev_change_out\<close>)
qed

lemma command_failed_closes:
  "wp (command_failed MD w) (\<lambda>w'. held w' = held w \<and> closes_connection w w') (\<lambda>f. \<not> lock_fault f)"
  for w :: "('m, 'z) control_env_scheme"
proof -
  have "closes_connection w w"
    unfolding closes_connection_def by (intro exI [of _ "mpd w"] exI [of _ "mpd_conn w"]) simp
  then show ?thesis
    by (auto simp: command_failed_def output_printError_def closes_connection_def)
qed

lemma keeps_update_position [keeps_rules]:
  assumes m: "may_lock MpdMutex H" and bad: "\<not> answers MD \<Longrightarrow> D"
  shows "keeps (dev_rules D) H (output_update_position_prog MD) (\<lambda>_. True)"
proof -
  let ?G = "insert MpdMutex H"
  have G: "?G - {MpdMutex} = H" using may_lock_not_held [OF m] by simp
  let ?act = "\<lambda>s. atom_st (\<lambda>w :: ('a, 'b) control_env_scheme. bindE (output_translate_state s w) (update_track_position s))"
  have act: "keeps (dev_rules D) ?G (?act s) (\<lambda>_. True)" for s
    by (assumption | rule keeps_out_st out_rules out.bind insertI1)+
  have answered: "disc (dev_rules D) (bindP (?act s) (\<lambda>_. release MpdMutex)) ?G (\<lambda>a K. K = H \<and> True)" for s
    by (rule disc_bindP [OF act [unfolded keeps_def]]) (use G in \<open>simp add: release_def\<close>)
  have failed: "disc (dev_rules D :: ('a, 'b) control_env_scheme rules) (bindP (bindP (release MpdMutex) (\<lambda>_. atom_st (command_failed MD)))
      (\<lambda>_. release MpdMutex)) ?G (\<lambda>a K. K = H \<and> True)" if D
  proof (rule disc_released_twice)
    fix w :: "('a, 'b) control_env_scheme" assume "held w = ?G - {MpdMutex}"
    then show "wp (command_failed MD w) (\<lambda>w'. held w' = ?G - {MpdMutex} \<and> last_act (dev_rules D) w w') (\<lambda>f. \<not> lock_fault f)"
      by (intro wp_post [OF command_failed_closes]) simp
  qed (use that in simp_all)
  have "disc (dev_rules D) (bindP (atom (on_conn (mpd_run_status MD))) (\<lambda>st. bindP (case st of
          None \<Rightarrow> bindP (release MpdMutex) (\<lambda>_. atom_st (command_failed MD)) | Some s \<Rightarrow> ?act s)
      (\<lambda>_. release MpdMutex))) ?G (\<lambda>a K. K = H \<and> True)"
    by (rule disc_bindP [OF keeps_mpd_status [OF bad insertI1, unfolded keeps_def]])
      (use answered failed in \<open>auto split: option.split\<close>)
  with m have "keeps (dev_rules D) H (bindP (acquire MpdMutex) (\<lambda>_. bindP (atom (on_conn (mpd_run_status MD))) (\<lambda>st.
      bindP (case st of
          None \<Rightarrow> bindP (release MpdMutex) (\<lambda>_. atom_st (command_failed MD)) | Some s \<Rightarrow> ?act s)
      (\<lambda>_. release MpdMutex)))) (\<lambda>_. True)"
    by (simp add: keeps_def acquire_def)
  then show ?thesis
    unfolding output_update_position_prog_def
    by (intro keeps_bind [OF keeps_output(1) [OF m]] keeps_split keeps_Ret TrueI)
qed

lemma keeps_get_string [keeps_rules]:
  assumes "same_call e ev"
  shows "keeps (dev_rules D) H (compute (upnp_get_string L ev key)) (\<lambda>(v, ev'). same_call e ev')"
  by (rule shared.keeps_compute, rule wp_mono [OF wp_get_string [of L ev key]]) (use assms in \<open>auto dest: same_call_trans\<close>)

lemma keeps_obtain_instanceid [keeps_rules]:
  assumes "same_call e ev"
  shows "keeps (dev_rules D) H (compute (upnp_obtain_instanceid L ev)) (\<lambda>(rc, ev'). same_call e ev')"
  by (rule shared.keeps_compute, rule wp_mono [OF wp_obtain_instanceid [of L ev]]) (use assms in \<open>auto dest: same_call_trans\<close>)

lemma keeps_add_response [keeps_rules]:
  assumes "same_call e ev"
  shows "keeps (dev_rules D) H (compute (upnp_add_response L ev key v)) (\<lambda>(rc, ev'). same_call e ev')"
  by (rule shared.keeps_compute, rule wp_mono [OF wp_add_response [of L ev key v]]) (use assms in \<open>auto dest: same_call_trans\<close>)

lemma keeps_bind_pair:
  "keeps I H c (\<lambda>(x, y). P x y) \<Longrightarrow> (\<And>x y. P x y \<Longrightarrow> keeps I H (k x y) R) \<Longrightarrow>
     keeps I H (bindP c (\<lambda>(x, y). k x y)) R"
  by (erule keeps_bind) auto

lemma keeps_event [keeps_rules]:
  "same_call e ev \<Longrightarrow> keeps I H (Ret (rc, ev)) (\<lambda>(rc, ev'). same_call e ev')"
  by (simp add: keeps_Ret)

lemma keeps_append_variable [keeps_rules]:
  assumes e: "same_call e ev" and m: "may_lock (service_mutex (event_service e)) H"
  shows "keeps (dev_rules D) H (upnp_append_variable_prog L ev n k) (\<lambda>(rc, ev'). same_call e ev')"
proof -
  have m': "may_lock (service_mutex (event_service ev)) H" using e m by (simp add: same_call_def)
  have "keeps (dev_rules D) H' (atom (\<lambda>w.
        bindE (case get_service_var (event_service ev) n w of
                 None \<Rightarrow> Inr (- 1, upnp_set_error L ev (UPNP_E_INTERNAL_ERROR L) ''Internal Error'')
               | Some value \<Rightarrow> upnp_add_response L ev k value) (\<lambda>r. Inr (r, w)))) (\<lambda>(rc, ev'). same_call e ev')" for H'
  proof (rule keeps_atom)
    fix w :: "('a, 'b) control_env_scheme" assume "held w = H'"
    have "wp (upnp_add_response L ev k v) (\<lambda>(rc, ev'). same_call e ev') (\<lambda>f. \<not> lock_fault f)" for v
      by (rule wp_mono [OF wp_add_response [of L ev k v]]) (use e in \<open>auto dest: same_call_trans\<close>)
    then show "wp (bindE (case get_service_var (event_service ev) n w of
                 None \<Rightarrow> Inr (- 1, upnp_set_error L ev (UPNP_E_INTERNAL_ERROR L) ''Internal Error'')
               | Some value \<Rightarrow> upnp_add_response L ev k value) (\<lambda>r. Inr (r, w)))
         (\<lambda>(a, w'). held w' = H' \<and> allowed (dev_rules D) H' w w' \<and> (case a of (rc, ev') \<Rightarrow> same_call e ev')) (\<lambda>f. \<not> lock_fault f)"
      using e \<open>held w = H'\<close> shared.allowed_refl
      by (auto simp: wp_bindE split: option.split elim!: wp_post)
  qed
  then show ?thesis
    unfolding upnp_append_variable_prog_def using e m'
    by (auto intro!: keeps_split keeps_mutex keeps_Ret)
qed

lemma keeps_append_variables [keeps_rules]:
  assumes "same_call e ev" and m: "may_lock (service_mutex (event_service e)) H"
  shows "keeps (dev_rules D) H (append_variables_prog L ev vs) (\<lambda>(rc, ev'). same_call e ev')"
  using assms(1)
proof (induction vs arbitrary: ev)
  case (Cons v vs)
  obtain n k where v: "v = (n, k)" by (cases v)
  show ?case
    unfolding v append_variables_prog.simps
    by (assumption | rule keeps_rules keeps_bind_pair Cons m)+
qed (simp add: keeps_Ret)

lemma keeps_with_instance [keeps_rules]:
  assumes "same_call e ev" and "\<And>ev. same_call e ev \<Longrightarrow> keeps (dev_rules D) H (k ev) (\<lambda>(rc, ev'). same_call e ev')"
  shows "keeps (dev_rules D) H (with_instance_prog L c ev k) (\<lambda>(rc, ev'). same_call e ev')"
  unfolding with_instance_prog_def
  by (assumption | rule keeps_bind_pair keeps_rules same_call_rules assms)+

section \<open>The handlers\<close>

text \<open>Most steps of a handler return nothing the rest depends on.\<close>

lemma keeps_then:
  "keeps I H c (\<lambda>_. True) \<Longrightarrow> (\<And>a. keeps I H (k a) R) \<Longrightarrow> keeps I H (bindP c k) R"
  by (erule keeps_bind)

lemma keeps_with_connection [keeps_rules]:
  assumes "same_call e ev" and "may_lock MpdMutex H" and "keeps (dev_rules D) H k (\<lambda>(rc, ev'). same_call e ev')"
  shows "keeps (dev_rules D) H (with_connection_prog MD ev k) (\<lambda>(rc, ev'). same_call e ev')"
  unfolding with_connection_prog_def
  by (assumption | rule keeps_bind keeps_rules assms)+

lemma keeps_transition [keeps_rules]:
  assumes "same_call e ev" and "keeps (dev_rules D) H c (\<lambda>_. True)" and "TransportMutex \<in> H"
    and "txt = state_text (Some st)" "st \<noteq> TRANSPORT_TRANSITIONING" "st \<noteq> TRANSPORT_NO_MEDIA_PRESENT"
  shows "keeps (dev_rules D) H (player_transition_prog L c msg st txt ev) (\<lambda>(rc, ev'). same_call e ev')"
  unfolding player_transition_prog_def
  by (assumption | rule keeps_then keeps_act_st keeps_rules act_rules guard_rules same_call_rules assms)+

lemma keeps_state_split [keeps_rules]:
  assumes "keeps I H a P" "keeps I H b P" "keeps I H c P" "keeps I H d P" "keeps I H e P"
  shows "keeps I H (case s of TRANSPORT_STOPPED \<Rightarrow> a | TRANSPORT_PLAYING \<Rightarrow> b | TRANSPORT_TRANSITIONING \<Rightarrow> c
      | TRANSPORT_PAUSED_PLAYBACK \<Rightarrow> d | TRANSPORT_NO_MEDIA_PRESENT \<Rightarrow> e) P"
  using assms by (simp split: transport_state.split)

lemma act_lastchange_st [act_rules]:
  "(\<And>v. safe_st Q (k v)) \<Longrightarrow> safe_st Q (bindE (transport_get_state_lastchange w) k)"
  by (rule benign_bind(2) [OF benign_lastchange])

lemmas handler_rules = guard_rules insertI1 keeps_bind_pair keeps_then keeps_rules same_call_rules may_lock_empty TrueI

lemma keeps_transport_queries:
  assumes e: "same_call e ev" "service_mutex (event_service e) = TransportMutex"
  shows "keeps (dev_rules D) {} (get_media_info_prog L ev) (\<lambda>(rc, ev'). same_call e ev')"
    and "keeps (dev_rules D) {} (get_transport_info_prog L ev) (\<lambda>(rc, ev'). same_call e ev')"
    and "keeps (dev_rules D) {} (get_transport_settings_prog L ev) (\<lambda>(rc, ev'). same_call e ev')"
    and "keeps (dev_rules D) {} (get_device_caps_prog L ev) (\<lambda>(rc, ev'). same_call e ev')"
  unfolding get_media_info_prog_def get_transport_info_prog_def get_transport_settings_prog_def get_device_caps_prog_def
  by (assumption | rule handler_rules e(1) | (simp add: e(2); fail))+

lemma keeps_position_info:
  assumes e: "same_call e ev" "service_mutex (event_service e) = TransportMutex" and bad: "\<not> answers MD \<Longrightarrow> D"
  shows "keeps (dev_rules D) {} (get_position_info_prog L MD ev) (\<lambda>(rc, ev'). same_call e ev')"
  unfolding get_position_info_prog_def
  by (assumption | rule handler_rules e(1) | erule bad | (simp add: e(2); fail))+

lemma keeps_xcommands:
  assumes e: "same_call e ev"
  shows "keeps (dev_rules D) {} (xplay_prog L MD ev) (\<lambda>(rc, ev'). same_call e ev')"
    and "keeps (dev_rules D) {} (xpause_prog L MD ev) (\<lambda>(rc, ev'). same_call e ev')"
    and "keeps (dev_rules D) {} (xstop_prog L MD ev) (\<lambda>(rc, ev'). same_call e ev')"
    and "keeps (dev_rules D) {} (xplaymode_prog L MD ev) (\<lambda>(rc, ev'). same_call e ev')"
    and "keeps (dev_rules D) {} (xseek_prog L MD ev) (\<lambda>(rc, ev'). same_call e ev')"
    and "keeps (dev_rules D) {} (xnext_prog L MD ev) (\<lambda>(rc, ev'). same_call e ev')"
    and "keeps (dev_rules D) {} (xprevious_prog L MD ev) (\<lambda>(rc, ev'). same_call e ev')"
  unfolding xplay_prog_def xpause_prog_def xstop_prog_def xplaymode_prog_def xseek_prog_def xnext_prog_def
    xprevious_prog_def Let_def
  by (assumption | rule handler_rules keeps_act_st act_rules e | (simp; fail))+

lemma keeps_set_avtransport_uri:
  assumes e: "same_call e ev"
  shows "keeps (dev_rules D) {} (set_avtransport_uri_prog L MD ev) (\<lambda>(rc, ev'). same_call e ev')"
  unfolding set_avtransport_uri_prog_def
  by (assumption | rule handler_rules keeps_act keeps_act_st guard_rules act_rules safe_rules act.bind e | (simp; fail))+

lemma keeps_control:
  assumes e: "same_call e ev" "service_mutex (event_service e) = ControlMutex"
  shows "keeps (dev_rules D) {} (cmd_obtain_variable_prog L n k ev) (\<lambda>(rc, ev'). same_call e ev')"
    and "keeps (dev_rules D) {} (set_mute_prog L MD ev) (\<lambda>(rc, ev'). same_call e ev')"
    and "keeps (dev_rules D) {} (get_volume_prog L ev) (\<lambda>(rc, ev'). same_call e ev')"
    and "keeps (dev_rules D) {} (set_volume_prog L MD ev) (\<lambda>(rc, ev'). same_call e ev')"
  unfolding set_mute_prog_def get_volume_prog_def set_volume_prog_def cmd_obtain_variable_prog_def
  by (assumption | rule handler_rules keeps_act keeps_act_st act_rules act.bind e(1) | (simp add: e(2); fail))+

lemma keeps_connmgr:
  assumes e: "same_call e ev" "service_mutex (event_service e) = ConnmgrMutex"
  shows "keeps (dev_rules D) {} (get_protocol_info_prog L ev) (\<lambda>(rc, ev'). same_call e ev')"
    and "keeps (dev_rules D) {} (get_current_conn_ids_prog L ev) (\<lambda>(rc, ev'). same_call e ev')"
    and "keeps (dev_rules D) {} (get_current_conn_info_prog L ev) (\<lambda>(rc, ev'). same_call e ev')"
  unfolding get_protocol_info_prog_def get_current_conn_ids_prog_def get_current_conn_info_prog_def
  by (assumption | rule handler_rules e(1) | (simp add: e(2); fail))+

lemma keeps_subscriptions:
  shows "keeps (dev_rules D) {DeviceMutex} (transport_notify_subscription_prog MD) (\<lambda>_. True)"
    and "keeps (dev_rules D) {DeviceMutex} control_notify_subscription_prog (\<lambda>_. True)"
  unfolding transport_notify_subscription_prog_def control_notify_subscription_prog_def
  by (assumption | rule handler_rules keeps_act keeps_act_st act_rules safe_rules act.bind | (simp; fail))+

section \<open>Events\<close>

lemma callback_prog_position:
  "callback_prog L MD ''urn:schemas-upnp-org:service:AVTransport'' ''GetPositionInfo'' cb = get_position_info_prog L MD"
  by (simp add: callback_prog_def service_progs_def)

lemma callback_prog_transport:
  "a \<in> set (transport_actions L MD) \<Longrightarrow> action_name a = Some n \<Longrightarrow> callback a = Some cb \<Longrightarrow> n \<noteq> ''GetPositionInfo'' \<Longrightarrow>
     callback_prog L MD ''urn:schemas-upnp-org:service:AVTransport'' n cb \<in> {get_media_info_prog L,
       get_transport_info_prog L, get_transport_settings_prog L, get_device_caps_prog L,
       set_avtransport_uri_prog L MD, xplaymode_prog L MD, xstop_prog L MD, xplay_prog L MD, xpause_prog L MD,
       xseek_prog L MD, xnext_prog L MD, xprevious_prog L MD}"
  by (simp add: transport_actions_def array_of_def upt_rec)
    (elim disjE; clarsimp simp: callback_prog_def service_progs_def)

lemma callback_prog_connmgr:
  "a \<in> set (connmgr_actions L) \<Longrightarrow> action_name a = Some n \<Longrightarrow> callback a = Some cb \<Longrightarrow>
     callback_prog L MD ''urn:schemas-upnp-org:service:ConnectionManager'' n cb \<in>
       {get_protocol_info_prog L, get_current_conn_ids_prog L, get_current_conn_info_prog L}"
  by (simp add: connmgr_actions_def array_of_def upt_rec)
    (elim disjE; clarsimp simp: callback_prog_def service_progs_def)

lemma callback_prog_control:
  "a \<in> set (control_actions L MD) \<Longrightarrow> action_name a = Some n \<Longrightarrow> callback a = Some cb \<Longrightarrow>
     callback_prog L MD ''urn:schemas-upnp-org:service:RenderingControl'' n cb \<in>
       {set_mute_prog L MD, get_volume_prog L, set_volume_prog L MD}
       \<union> {cmd_obtain_variable_prog L n k |n k. True}"
  by (simp add: control_actions_def array_of_def upt_rec)
    (elim disjE; clarsimp simp: callback_prog_def service_progs_def; blast)

lemma keeps_callback:
  assumes dev: "services d = upnp_services L MD" and s: "find_service d sid = Some s"
    and bad: "sid = ''urn:schemas-upnp-org:service:AVTransport'' \<Longrightarrow> n = ''GetPositionInfo'' \<Longrightarrow> \<not> answers MD \<Longrightarrow> D"
    and a: "find_action (Some s) n = Inr (Some a)" "callback a = Some cb"
    and ev: "event_service ev = service_vars.truncate s"
  shows "keeps (dev_rules D) {} (callback_prog L MD sid n cb ev) (\<lambda>(rc, ev'). same_call ev ev')"
proof -
  have m: "s \<in> set (upnp_services L MD)" using find_service_member [OF s] dev by simp
  have name: "service_name s = sid" by (rule find_service_name [OF s])
  have act: "action_name a = Some n" "a \<in> set (actions s)" using find_action_name [OF a(1)] by simp_all
  note e = same_call_refl [of ev]
  consider "s = transport_service L MD" | "s = connmgr_service L" | "s = control_service L MD"
    using m by (auto simp: upnp_services_def)
  then show ?thesis
  proof cases
    case 1
    have t: "service_mutex (event_service ev) = TransportMutex" using ev 1 by simp
    have sid: "a \<in> set (transport_actions L MD)" "sid = ''urn:schemas-upnp-org:service:AVTransport''"
      using 1 act(2) name by (simp_all only: service_actions service_names)
    show ?thesis
    proof (cases "n = ''GetPositionInfo''")
      case True
      show ?thesis
        unfolding True sid(2) callback_prog_position
        by (rule keeps_position_info [OF e t bad [OF sid(2) True]])
    next
      case False
      from callback_prog_transport [OF sid(1) act(1) a(2) False, folded sid(2)] show ?thesis
        using keeps_transport_queries [OF e t] keeps_xcommands [OF e] keeps_set_avtransport_uri [OF e]
        by (elim insertE emptyE; simp only:)
    qed
  next
    case 2
    have t: "service_mutex (event_service ev) = ConnmgrMutex" using ev 2 by simp
    have "a \<in> set (connmgr_actions L)" "sid = ''urn:schemas-upnp-org:service:ConnectionManager''"
      using 2 act(2) name by (simp_all only: service_actions service_names)
    from callback_prog_connmgr [where MD = MD, OF this(1) act(1) a(2), folded this(2)] show ?thesis
      using keeps_connmgr [OF e t] by (elim insertE emptyE; simp only:)
  next
    case 3
    have t: "service_mutex (event_service ev) = ControlMutex" using ev 3 by simp
    have "a \<in> set (control_actions L MD)" "sid = ''urn:schemas-upnp-org:service:RenderingControl''"
      using 3 act(2) name by (simp_all only: service_actions service_names)
    from callback_prog_control [OF this(1) act(1) a(2), folded this(2)] show ?thesis
      using keeps_control [OF e t] by auto
  qed
qed

text \<open>The one kind of request that makes a status query it can fail on.\<close>

definition position_request :: "upnp_event \<Rightarrow> bool" where
  "position_request e \<longleftrightarrow> (case e of
       UPNP_CONTROL_ACTION_REQUEST ar \<Rightarrow>
         ServiceID ar = ''urn:schemas-upnp-org:service:AVTransport'' \<and> ActionName ar = ''GetPositionInfo''
     | _ \<Rightarrow> False)"

text \<open>A computed value that is known.\<close>

lemma keeps_known:
  "keeps (dev_rules D) H (k a) P \<Longrightarrow> keeps (dev_rules D) H (bindP (compute (Inr a)) k) P"
  by (rule keeps_bind [OF shared.keeps_compute [where Q = "\<lambda>x. x = a"]]) simp_all

lemma keeps_action_request:
  assumes dev: "services d = upnp_services L MD"
    and bad: "position_request (UPNP_CONTROL_ACTION_REQUEST ar) \<Longrightarrow> \<not> answers MD \<Longrightarrow> D"
  shows "keeps (dev_rules D) {} (handle_action_request_prog L MD d ar) (\<lambda>_. True)"
proof (cases "find_service d (ServiceID ar)")
  case None
  then show ?thesis
    by (simp add: handle_action_request_prog_def find_action_def keeps_known keeps_Ret)
next
  case (Some s)
  have "s \<in> set (upnp_services L MD)" using find_service_member [OF Some] dev by simp
  then have t: "action_table_ok (actions s)" using renderer_tables_ok by (auto simp: service_tables_ok_def)
  obtain act where act: "find_action (Some s) (ActionName ar) = Inr act"
    using find_action_loop_ok [OF t] by (auto simp: find_action_def)
  have "keeps (dev_rules D) {} (callback_prog L MD (ServiceID ar) (ActionName ar) cb
      \<lparr>request = ar, event_status = 0, event_service = service_vars.truncate s\<rparr>) (\<lambda>(rc, ev). True)"
    if "act = Some a" "callback a = Some cb" for a cb
    using bad
    by (intro keeps_weaken [OF keeps_callback [OF dev Some _ act [unfolded that(1)] that(2)]])
      (simp_all add: position_request_def)
  then show ?thesis
    unfolding handle_action_request_prog_def Let_def Some act
    by (intro keeps_known keeps_split keeps_Ret TrueI) (simp, intro keeps_known keeps_bind_pair keeps_Ret; blast)
qed

lemma keeps_notify:
  assumes dev: "services d = upnp_services L MD" and s: "find_service d sid = Some s" and f: "subscription_notify s = Some f"
  shows "keeps (dev_rules D) {DeviceMutex} (notify_prog MD sid f) (\<lambda>_. True)"
proof -
  have "s \<in> set (upnp_services L MD)" using find_service_member [OF s] dev by simp
  then consider "s = transport_service L MD" | "s = connmgr_service L" | "s = control_service L MD"
    by (auto simp: upnp_services_def)
  then show ?thesis
    using find_service_name [OF s] f keeps_subscriptions
    by cases (auto simp: notify_prog_def service_names service_notifies)
qed

lemma keeps_subscription_request:
  fixes d :: "('m, 'z) control_env_scheme device"
  assumes dev: "services d = upnp_services L MD"
  shows "keeps (dev_rules D) {} (handle_subscription_request_prog L MD d sr) (\<lambda>_. True)"
proof (cases "find_service d (sr_ServiceId sr)")
  case (Some s)
  have n: "keeps (dev_rules D) {DeviceMutex} (case subscription_notify s of
      None \<Rightarrow> Ret () | Some f \<Rightarrow> bindP (notify_prog MD (sr_ServiceId sr) f) (\<lambda>_. Ret ())) (\<lambda>_. True)"
    by (intro keeps_split keeps_Ret TrueI keeps_then [OF keeps_notify [OF dev Some]])
  have add: "held (w\<lparr>subscriptions := subscriptions w @ [x]\<rparr>) = {DeviceMutex}
      \<and> allowed (dev_rules D) {DeviceMutex} w (w\<lparr>subscriptions := subscriptions w @ [x]\<rparr>)" if "held w = {DeviceMutex}"
    for w :: "('m, 'z) control_env_scheme" and x
    using that by (simp add: dev_change_def guarded_def transport_ok_def)
  show ?thesis
    unfolding handle_subscription_request_prog_def Some option.case Let_def
    by (assumption | rule keeps_mutex may_lock_empty keeps_then n keeps_atom_safe benign_bind(1) benign_filterE
        benign_is_evented benign_mapE benign_bindE benign_xmlescape safe_Inr add | (simp; fail))+
qed (simp add: handle_subscription_request_prog_def keeps_Ret)

lemma keeps_event_handler:
  assumes dev: "services d = upnp_services L MD" and bad: "position_request e \<Longrightarrow> \<not> answers MD \<Longrightarrow> D"
  shows "keeps (dev_rules D) {} (event_handler_prog L MD d e) (\<lambda>(rc, e'). rc = 0)"
proof (cases e)
  case (UPNP_CONTROL_ACTION_REQUEST ar)
  show ?thesis
    unfolding UPNP_CONTROL_ACTION_REQUEST event_handler_prog_def upnp_event.case
    by (rule keeps_then [OF keeps_action_request [OF dev bad [unfolded UPNP_CONTROL_ACTION_REQUEST]]])
      (auto intro: keeps_Ret keeps_split)
next
  case (UPNP_EVENT_SUBSCRIPTION_REQUEST sr)
  show ?thesis
    unfolding UPNP_EVENT_SUBSCRIPTION_REQUEST event_handler_prog_def upnp_event.case
    by (rule keeps_then [OF keeps_subscription_request [OF dev]]) (simp add: keeps_Ret)
qed (simp_all add: event_handler_prog_def keeps_Ret)

section \<open>The renderer with a thread per event\<close>

definition serve ::
  "upnp_lib \<Rightarrow> 'm mpd_lib \<Rightarrow> ('m, 'z) control_env_scheme device \<Rightarrow> upnp_event list \<Rightarrow> ('m, 'z) control_env_scheme
    \<Rightarrow> (int \<times> upnp_event, ('m, 'z) control_env_scheme) process" where
  "serve L MD d es w = Running (map (\<lambda>e. ({}, event_handler_prog L MD d e)) es) w"

definition done_all :: "'a list \<Rightarrow> 'w \<Rightarrow> ('a, 'w) process" where
  "done_all rs w = Running (map (\<lambda>r. ({}, Ret r)) rs) w"


lemma serve_sane:
  assumes "services d = upnp_services L MD"
  shows "shared.sane ((\<exists>e\<in>set es. position_request e) \<and> \<not> answers MD) (map (\<lambda>e (rc, e'). rc = 0) es) (serve L MD d es w)"
proof -
  have "keeps (dev_rules ((\<exists>e\<in>set es. position_request e) \<and> \<not> answers MD)) {} (event_handler_prog L MD d e) (\<lambda>(rc, e'). rc = 0)"
    if "e \<in> set es" for e
    by (rule keeps_event_handler [OF assms]) (use that in blast)
  then show ?thesis
    by (simp add: shared.sane_def serve_def keeps_def split: prod.split)
qed

lemma serve_reaches:
  assumes "services d = upnp_services L MD" and "cstep\<^sup>*\<^sup>* (serve L MD d es w) c"
  shows "shared.sane ((\<exists>e\<in>set es. position_request e) \<and> \<not> answers MD) (map (\<lambda>e (rc, e'). rc = 0) es) c"
  by (rule shared.sane_steps [OF assms(2) serve_sane [OF assms(1)]])

text \<open>The events one after the other, with the reply to each.\<close>

fun run_replies ::
  "upnp_lib \<Rightarrow> 'z env_scheme device \<Rightarrow> upnp_event list \<Rightarrow> 'z env_scheme \<Rightarrow> ((int \<times> upnp_event) list \<times> 'z env_scheme) result" where
  "run_replies L d [] w = Inr ([], w)"
| "run_replies L d (e # es) w = bindE (event_handler L d e w) (\<lambda>(rc, e', w).
     bindE (run_replies L d es w) (\<lambda>(rs, w). Inr ((rc, e') # rs, w)))"

definition outcome :: "(int \<times> upnp_event) list \<Rightarrow> ((int \<times> upnp_event) list \<times> 'w) result \<Rightarrow> (int \<times> upnp_event, 'w) process" where
  "outcome rs0 r = (case r of Inl f \<Rightarrow> Crashed f | Inr (rs, w) \<Rightarrow> done_all (rs0 @ rs) w)"

lemma outcome_simps [simp]:
  "outcome rs0 (Inl f) = Crashed f" "outcome rs0 (Inr (rs, w)) = done_all (rs0 @ rs) w"
  by (simp_all add: outcome_def)

lemma serve_in_order:
  assumes dev: "services d = upnp_services L MD" and "held w = {}"
  shows "cstep\<^sup>*\<^sup>* (Running (map (\<lambda>r. ({}, Ret r)) rs0 @ map (\<lambda>e. ({}, event_handler_prog L MD d e)) es) w)
    (outcome rs0 (run_replies L d es w))"
  using assms(2)
proof (induction es arbitrary: rs0 w)
  case (Cons e es)
  let ?p = "event_handler_prog L MD d e"
  let ?ts = "map (\<lambda>r. ({}, Ret r)) rs0 @ map (\<lambda>e. ({}, event_handler_prog L MD d e)) (e # es)"
  have r: "run ?p w = paired (event_handler L d e w)" by (rule run_event [OF dev])
  have others: "length rs0 < length ?ts" "?ts ! length rs0 = (held w, ?p)"
      "\<forall>j<length ?ts. j \<noteq> length rs0 \<longrightarrow> fst (?ts ! j) = {}"
    using Cons.prems by (auto simp: nth_append nth_Cons split: nat.splits)
  show ?case
  proof (cases "event_handler L d e w")
    case (Inl f)
    have "event_fault L MD d e w f"
      by (rule wp_faults [OF event_handler_safe [OF dev Cons.prems] Inl])
    then have "run ?p w \<noteq> Inl SelfDeadlock" using r Inl by (auto simp: paired_def event_fault_def)
    from solo [OF others this] r Inl show ?thesis by (simp add: paired_def)
  next
    case (Inr p)
    obtain rc e' v where v: "event_handler L d e w = Inr (rc, e', v)" using Inr by (cases p) auto
    have held: "held v = {}"
      using wp_returns [OF event_handler_safe [OF dev Cons.prems] v] by (simp add: dev_step_def)
    have upd: "?ts[length rs0 := ({}, Ret (rc, e'))] =
        map (\<lambda>r. ({}, Ret r)) (rs0 @ [(rc, e')]) @ map (\<lambda>e. ({}, event_handler_prog L MD d e)) es"
      by (simp add: list_update_append)
    have "run ?p w = Inr ((rc, e'), v)" using r v by (simp add: paired_def)
    then have "cstep\<^sup>*\<^sup>* (Running ?ts w) (Running (?ts[length rs0 := ({}, Ret (rc, e'))]) v)"
      using solo [OF others] held by simp
    note first = this [unfolded upd]
    have "outcome rs0 (run_replies L d (e # es) w) = outcome (rs0 @ [(rc, e')]) (run_replies L d es v)"
      by (cases "run_replies L d es v") (auto simp: v)
    with rtranclp_trans [OF first Cons.IH [OF held]] show ?thesis by simp
  qed
qed (simp add: done_all_def)

text \<open>A subscription to RenderingControl and a request the renderer ignores.\<close>

definition sample_events :: "upnp_event list" where
  "sample_events = [UPNP_EVENT_SUBSCRIPTION_REQUEST sample_subscription, UPNP_CONTROL_GET_VAR_REQUEST]"

definition sample_replies :: "(int \<times> upnp_event) list" where
  "sample_replies = [(0, UPNP_EVENT_SUBSCRIPTION_REQUEST sample_subscription), (0, UPNP_CONTROL_GET_VAR_REQUEST)]"

lemma sample_events_run:
  "\<exists>w'. run_replies sample_lib sample_renderer sample_events started = Inr (sample_replies, w')
     \<and> map VarNames_sent (subscriptions w') = [[''LastChange'']] \<and> lock_order w' = {(DeviceMutex, ControlMutex)}"
proof -
  obtain w' where "event_handler sample_lib sample_renderer (UPNP_EVENT_SUBSCRIPTION_REQUEST sample_subscription) started
        = Inr (0, UPNP_EVENT_SUBSCRIPTION_REQUEST sample_subscription, w')
      \<and> map VarNames_sent (subscriptions w') = [[''LastChange'']] \<and> lock_order w' = {(DeviceMutex, ControlMutex)}"
    using sample_subscription_run ..
  then show ?thesis
    by (intro exI [of _ w']) (simp add: sample_events_def sample_replies_def, simp add: event_handler_def)
qed




text \<open>
  How a schedule may end in a crash, as far as the mutexes go.
\<close>

definition crash_expected :: "'m mpd_lib \<Rightarrow> upnp_event list \<Rightarrow> fault \<Rightarrow> bool" where
  "crash_expected MD es f \<longleftrightarrow> f \<noteq> SelfDeadlock
     \<and> (f = UnlockNotHeld \<longrightarrow> (\<exists>e\<in>set es. position_request e) \<and> \<not> answers MD)"

lemma schedule_final:
  assumes "services d = upnp_services L MD" and c: "cstep\<^sup>*\<^sup>* (serve L MD d es w) c" "\<not> (\<exists>c'. cstep c c')"
  shows "(\<exists>f. c = Crashed f \<and> crash_expected MD es f)
    \<or> (\<exists>rs w'. c = done_all rs w' \<and> length rs = length es \<and> (\<forall>(rc, e)\<in>set rs. rc = 0))"
  using shared.sane_final [OF serve_reaches [OF assms(1) c(1)] c(2)]
  by (fastforce simp: tolerated_def crash_expected_def done_all_def list_all2_conv_all_nth in_set_conv_nth)

text \<open>
  C3. The threads never block one another for good. In every configuration a schedule can
  lead to, some thread can move, or every event has been handled, its handler having
  returned 0 and given back all mutexes, or the process has crashed, and never on a mutex
  its own thread has; on one given back by a thread that does not have it only if there was a
  GetPositionInfo among the events and the player can fail to answer a status query. Since
  schedules are finite, each can be continued to one of these ends.
\<close>

theorem schedules_complete:
  assumes "services d = upnp_services L MD" and "cstep\<^sup>*\<^sup>* (serve L MD d es w) c"
  shows "((\<exists>c'. cstep c c')
      \<or> (\<exists>f. c = Crashed f \<and> crash_expected MD es f)
      \<or> (\<exists>rs w'. c = done_all rs w' \<and> length rs = length es \<and> (\<forall>(rc, e)\<in>set rs. rc = 0)))
    \<and> (\<exists>c'. cstep\<^sup>*\<^sup>* c c' \<and>
        ((\<exists>f. c' = Crashed f \<and> crash_expected MD es f)
         \<or> (\<exists>rs w'. c' = done_all rs w' \<and> length rs = length es \<and> (\<forall>(rc, e)\<in>set rs. rc = 0))))"
proof
  show "(\<exists>c'. cstep c c')
      \<or> (\<exists>f. c = Crashed f \<and> crash_expected MD es f)
      \<or> (\<exists>rs w'. c = done_all rs w' \<and> length rs = length es \<and> (\<forall>(rc, e)\<in>set rs. rc = 0))"
    using schedule_final [OF assms] by blast
  obtain c' where c': "cstep\<^sup>*\<^sup>* c c'" "\<not> (\<exists>c''. cstep c' c'')"
    using schedule_end [of c] by blast
  with schedule_final [OF assms(1) rtranclp_trans [OF assms(2) c'(1)] c'(2)]
  show "\<exists>c'. cstep\<^sup>*\<^sup>* c c' \<and>
        ((\<exists>f. c' = Crashed f \<and> crash_expected MD es f)
         \<or> (\<exists>rs w'. c' = done_all rs w' \<and> length rs = length es \<and> (\<forall>(rc, e)\<in>set rs. rc = 0)))"
    by blast
qed

lemma answers_sample: "answers sample_mpd"
  by (simp add: answers_def sample_mpd_def)

theorem schedules_complete_witness:
  "\<exists>ts v c. cstep\<^sup>*\<^sup>* (serve sample_lib sample_mpd sample_renderer sample_events started) (Running ts v)
     \<and> fst (ts ! 0) = {DeviceMutex} \<and> cstep\<^sup>*\<^sup>* (Running ts v) c
     \<and> ((\<exists>f. c = Crashed f \<and> f \<notin> {SelfDeadlock, UnlockNotHeld})
        \<or> (\<exists>rs w. c = done_all rs w \<and> length rs = 2 \<and> (\<forall>(rc, e)\<in>set rs. rc = 0)))"
proof -
  let ?ts = "map (\<lambda>e. ({} :: mutex set, event_handler_prog sample_lib sample_mpd sample_renderer e)) sample_events"
  have s: "find_service sample_renderer ''urn:schemas-upnp-org:service:RenderingControl'' = Some (control_service sample_lib sample_mpd)"
    by (rule find_service_renderer(3) [OF sample_renderer_services])
  have "\<exists>p. event_handler_prog sample_lib sample_mpd sample_renderer (UPNP_EVENT_SUBSCRIPTION_REQUEST sample_subscription)
      = Acq DeviceMutex p"
    by (simp add: event_handler_prog_def handle_subscription_request_prog_def s with_mutex_def acquire_def)
  then obtain ts v where step: "thread_step 0 (Running ?ts started) = Some (Running ts v)" "fst (ts ! 0) = {DeviceMutex}"
    by (auto simp: sample_events_def lock_def)
  have "cstep\<^sup>*\<^sup>* (serve sample_lib sample_mpd sample_renderer sample_events started) (Running ts v)"
    unfolding serve_def by (rule r_into_rtranclp, rule cstep [OF step(1)])
  note reached = this
  obtain c where c: "cstep\<^sup>*\<^sup>* (Running ts v) c"
      "(\<exists>f. c = Crashed f \<and> crash_expected sample_mpd sample_events f)
       \<or> (\<exists>rs w'. c = done_all rs w' \<and> length rs = length sample_events \<and> (\<forall>(rc, e)\<in>set rs. rc = 0))"
    using schedules_complete [OF sample_renderer_services reached, THEN conjunct2] by (elim exE conjE)
  have "length sample_events = 2" by (simp add: sample_events_def)
  with c(2) have "(\<exists>f. c = Crashed f \<and> f \<notin> {SelfDeadlock, UnlockNotHeld})
       \<or> (\<exists>rs w'. c = done_all rs w' \<and> length rs = 2 \<and> (\<forall>(rc, e)\<in>set rs. rc = 0))"
    by (simp only: crash_expected_def answers_sample simp_thms) auto
  with reached step(2) c(1) show ?thesis by (intro exI conjI) 
qed

text \<open>
  C6. Who may change what: whenever a thread makes a step, the connection to the player and
  what is known of the player change only if it owns the player's mutex, the variables of
  RenderingControl only if it owns the mutex of that service, the list of subscriptions only
  if it owns the device's mutex, and notifications are sent only with the mutex of
  AVTransport or RenderingControl. So while a thread is in a critical section of
  RenderingControl or of the player, no other thread changes what it works on. There is one
  exception, for a GetPositionInfo whose status query has failed: the thread closes the
  connection without the mutex, changes nothing else, and its next step ends the process.
\<close>

theorem state_guarded_by_mutexes:
  assumes "services d = upnp_services L MD"
    and "cstep\<^sup>*\<^sup>* (serve L MD d es w) (Running ts v)"
    and "thread_step i (Running ts v) = Some (Running ts' v')"
  shows "guarded (fst (ts ! i)) v v'
      \<and> (\<forall>j<length ts. j \<noteq> i \<longrightarrow>
           (ControlMutex \<in> fst (ts ! j) \<longrightarrow> control_values v' = control_values v)
         \<and> (MpdMutex \<in> fst (ts ! j) \<longrightarrow> mpd v' = mpd v \<and> mpd_conn v' = mpd_conn v \<and> mpdvolume v' = mpdvolume v))
    \<or> (\<exists>e\<in>set es. position_request e) \<and> \<not> answers MD
      \<and> (\<exists>m c. v' = v\<lparr>held := fst (ts ! i), mpd := m, mpd_conn := c\<rparr>)
      \<and> thread_step i (Running ts' v') = Some (Crashed UnlockNotHeld)"
proof -
  let ?D = "(\<exists>e\<in>set es. position_request e) \<and> \<not> answers MD"
  note sane = serve_reaches [OF assms(1,2)]
  from shared.sane_thread_step [OF sane assms(3)]
  obtain p where step: "ts' = ts[i := (held v', p)]" "i < length ts"
      "shared.changes ?D (fst (ts ! i)) (v\<lparr>held := fst (ts ! i)\<rparr>) v' p"
    by auto
  then consider "dev_change (fst (ts ! i)) (v\<lparr>held := fst (ts ! i)\<rparr>) v'"
    | "?D" "closes_connection (v\<lparr>held := fst (ts ! i)\<rparr>) v'" "doomed (held v') p"
    unfolding shared.changes_def by auto
  then show ?thesis
  proof cases
    case 1
    then have g: "guarded (fst (ts ! i)) v v'" by (auto simp: dev_change_def guarded_def)
    have "fst (ts ! i) \<inter> fst (ts ! j) = {}" if "j < length ts" "j \<noteq> i" for j
      using sane step(2) that by (simp add: shared.sane_def)
    then have "m \<notin> fst (ts ! i)" if "j < length ts" "j \<noteq> i" "m \<in> fst (ts ! j)" for j m
      using that by blast
    with g show ?thesis unfolding guarded_def by blast
  next
    case 2
    have "thread_step i (Running ts' v') = Some (Crashed UnlockNotHeld)"
      by (rule doomed_step) (use step 2(3) in simp_all)
    moreover obtain m c where "v' = v\<lparr>held := fst (ts ! i)\<rparr>\<lparr>mpd := m, mpd_conn := c\<rparr>"
      using 2(2) unfolding closes_connection_def by blast
    ultimately show ?thesis using 2(1) by blast
  qed
qed

text \<open>The subscription of the example, up to the step in which it writes the variables.\<close>

lemma sample_critical_section:
  "\<exists>ts v ts' v'. cstep\<^sup>*\<^sup>* (serve sample_lib sample_mpd sample_renderer sample_events started) (Running ts v)
     \<and> thread_step 0 (Running ts v) = Some (Running ts' v') \<and> control_values v' \<noteq> control_values v"
proof -
  define body :: "mpd_command_call list control_env \<Rightarrow> (int \<times> mpd_command_call list control_env) result" where
    "body w = bindE (control_update_settings w) (\<lambda>w.
       bindE (control_set_var CONTROL_VAR_LAST_CHANGE
                (Some (rcs_event (rcs_value CONTROL_VAR_VOLUME w @ rcs_value CONTROL_VAR_MUTE w))) w) (\<lambda>w.
       Inr (0, w)))" for w
  have s: "find_service sample_renderer ''urn:schemas-upnp-org:service:RenderingControl'' = Some (control_service sample_lib sample_mpd)"
    by (rule find_service_renderer(3) [OF sample_renderer_services])
  let ?p = "event_handler_prog sample_lib sample_mpd sample_renderer (UPNP_EVENT_SUBSCRIPTION_REQUEST sample_subscription)"
  let ?q = "event_handler_prog sample_lib sample_mpd sample_renderer UPNP_CONTROL_GET_VAR_REQUEST"
  have "\<exists>k. ?p = Acq DeviceMutex (Acq ControlMutex (bindP (atom body) k))"
    unfolding event_handler_prog_def upnp_event.case handle_subscription_request_prog_def upnp_subscription_request.select_convs s option.case
      service_notifies notify_prog_def control_notify_subscription_prog_def with_mutex_def acquire_def bindP_assoc body_def [abs_def, symmetric]
    by (simp add: bindP_assoc) (rule exI, rule refl)
  then obtain k where k: "?p = Acq DeviceMutex (Acq ControlMutex (bindP (atom body) k))" ..
  let ?w1 = "locked DeviceMutex started"
  let ?w2 = "locked ControlMutex ?w1"
  have h: "held ?w1 = {DeviceMutex}" "held ?w2 = {ControlMutex, DeviceMutex}" by (simp_all add: locked_def)
  have l1: "lock DeviceMutex started = Inr ?w1" "lock ControlMutex ?w1 = Inr ?w2"
    by (simp_all add: lock_locked h)
  obtain r w3 where w3: "body ?w2 = Inr (r, w3)" "control_values w3 CONTROL_VAR_LAST_CHANGE \<noteq> None"
  proof -
    have "control_notify_subscription ?w1 = bindE (body ?w2) (\<lambda>(rc, w). bindE (unlock ControlMutex w) (\<lambda>w. Inr (rc, w)))"
      by (simp add: control_notify_subscription_def body_def l1 bindE_assoc)
    moreover obtain w4 where "control_notify_subscription ?w1 = Inr (0, w4)" "control_values w4 CONTROL_VAR_LAST_CHANGE \<noteq> None"
      using control_notify_subscription_run [OF h(1)] by simp
    ultimately have r: "bindE (body ?w2) (\<lambda>(rc, w). bindE (unlock ControlMutex w) (\<lambda>w. Inr (rc, w))) = Inr (0, w4)"
        "control_values w4 CONTROL_VAR_LAST_CHANGE \<noteq> None" by simp_all
    obtain rc w3 where b: "body ?w2 = Inr (rc, w3)" using r(1) by (cases "body ?w2") auto
    with r have "control_values w3 CONTROL_VAR_LAST_CHANGE \<noteq> None"
      by (auto simp: unlock_def split: if_splits)
    with b show ?thesis by (rule that)
  qed
  have s0: "serve sample_lib sample_mpd sample_renderer sample_events started = Running [({}, ?p), ({}, ?q)] started"
    by (simp add: serve_def sample_events_def)
  have own: "started\<lparr>held := {}\<rparr> = started" "?w1\<lparr>held := {DeviceMutex}\<rparr> = ?w1"
      "?w2\<lparr>held := {ControlMutex, DeviceMutex}\<rparr> = ?w2"
    using env_update_same [of started] env_update_same [of ?w1] env_update_same [of ?w2] by (simp_all only: h started_simps(1))
  have "cstep (Running [({}, ?p), ({}, ?q)] started) (Running [({DeviceMutex}, Acq ControlMutex (bindP (atom body) k)), ({}, ?q)] ?w1)"
    unfolding k by (rule cstep [where i = 0]) (simp add: own l1 h)
  moreover have "cstep (Running [({DeviceMutex}, Acq ControlMutex (bindP (atom body) k)), ({}, ?q)] ?w1)
      (Running [({ControlMutex, DeviceMutex}, bindP (atom body) k), ({}, ?q)] ?w2)"
    by (rule cstep [where i = 0]) (simp add: own l1 h)
  moreover have "\<exists>ts'. thread_step 0 (Running [({ControlMutex, DeviceMutex}, bindP (atom body) k), ({}, ?q)] ?w2) = Some (Running ts' w3)"
    using w3(1) by (simp add: own atom_def)
  moreover have "control_values ?w2 CONTROL_VAR_LAST_CHANGE = None"
    by (simp add: locked_def started_def transport_init_def sample_control_def sample_output_def output_env.defs)
  ultimately obtain ts' where step: "cstep\<^sup>*\<^sup>* (Running [({}, ?p), ({}, ?q)] started)
        (Running [({ControlMutex, DeviceMutex}, bindP (atom body) k), ({}, ?q)] ?w2)"
      "thread_step 0 (Running [({ControlMutex, DeviceMutex}, bindP (atom body) k), ({}, ?q)] ?w2) = Some (Running ts' w3)"
      "control_values ?w2 CONTROL_VAR_LAST_CHANGE = None"
    by (meson converse_rtranclp_into_rtranclp rtranclp.rtrancl_refl)
  have "control_values w3 \<noteq> control_values ?w2"
    using step(3) w3(2) by auto
  with step(1,2) show ?thesis
    unfolding s0 by blast
qed

theorem state_guarded_by_mutexes_witness:
  "\<exists>ts v ts' v'. cstep\<^sup>*\<^sup>* (serve sample_lib sample_mpd sample_renderer sample_events started) (Running ts v)
     \<and> thread_step 0 (Running ts v) = Some (Running ts' v') \<and> control_values v' \<noteq> control_values v
     \<and> ControlMutex \<in> fst (ts ! 0)"
proof -
  obtain ts v ts' v' where step: "cstep\<^sup>*\<^sup>* (serve sample_lib sample_mpd sample_renderer sample_events started) (Running ts v)"
      "thread_step 0 (Running ts v) = Some (Running ts' v')" "control_values v' \<noteq> control_values v"
    using sample_critical_section by (elim exE conjE)
  from state_guarded_by_mutexes [OF sample_renderer_services step(1,2)] answers_sample
  have "guarded (fst (ts ! 0)) v v'" by (elim disjE conjE) simp_all
  with step(3) have "ControlMutex \<in> fst (ts ! 0)" by (auto simp: guarded_def)
  with step show ?thesis by (intro exI conjI)
qed

text \<open>
  C13. The threads can also handle the events one after the other, in the order they came, and
  then the outcome is that of the sequential model: every thread ends with the reply the
  sequential handler gives to its event, in the state the sequential handlers lead to, or,
  where one of them faults, the process crashes with that fault.
\<close>

theorem sequential_schedule:
  assumes "services d = upnp_services L MD" and "held w = {}"
  shows "cstep\<^sup>*\<^sup>* (serve L MD d es w)
    (case run_replies L d es w of Inl f \<Rightarrow> Crashed f | Inr (rs, w') \<Rightarrow> done_all rs w')"
  using serve_in_order [OF assms, of "[]" es] by (cases "run_replies L d es w") (auto simp: serve_def)

theorem sequential_schedule_witness:
  "\<exists>w. cstep\<^sup>*\<^sup>* (serve sample_lib sample_mpd sample_renderer sample_events started)
        (done_all [(0, UPNP_EVENT_SUBSCRIPTION_REQUEST sample_subscription), (0, UPNP_CONTROL_GET_VAR_REQUEST)] w)
     \<and> map VarNames_sent (subscriptions w) = [[''LastChange'']]"
proof -
  obtain w where w: "run_replies sample_lib sample_renderer sample_events started = Inr (sample_replies, w)
     \<and> map VarNames_sent (subscriptions w) = [[''LastChange'']] \<and> lock_order w = {(DeviceMutex, ControlMutex)}"
    using sample_events_run ..
  with sequential_schedule [OF sample_renderer_services started_simps(1), of sample_events] show ?thesis
    by (intro exI [of _ w]) (simp add: sample_replies_def)
qed

end
