(* ===== verification/Thread_Races.thy ===== *)
theory Thread_Races
  imports Thread_Safety
begin

text \<open>
  What the mutexes do not prevent. A handler checks the connection to the player and uses it
  in two critical sections, so that another thread can lose it in between; and the
  variables of AVTransport are changed by handlers that do not own its mutex.
\<close>

section \<open>Requests to AVTransport up to their handlers\<close>

definition avt_request :: "string \<Rightarrow> upnp_action_request \<Rightarrow> bool" where
  "avt_request name ar \<longleftrightarrow> ServiceID ar = ''urn:schemas-upnp-org:service:AVTransport'' \<and> ActionName ar = name
   \<and> (\<exists>act args i. ActionRequest ar = Some (request_doc act args) \<and> map_of args ''InstanceID'' = Some i \<and> atoi i = 0)"

definition avt_call :: "upnp_action_request \<Rightarrow> ('m, 'z) control_env_scheme action_event" where
  "avt_call ar = \<lparr>request = ar, event_status = 0, event_service = transport_vars\<rparr>"

lemma transport_action:
  "action_init ''Next'' (Some (xnext L MD)) \<in> set (transport_actions L MD)"
  "action_init ''GetTransportInfo'' (Some (get_transport_info L)) \<in> set (transport_actions L MD)"
  by (simp_all add: transport_actions_def array_of_def upt_rec)

text \<open>How a request gets to its handler, and what becomes of the handler's result.\<close>

definition reply :: "upnp_lib \<Rightarrow> int \<Rightarrow> 'w action_event \<Rightarrow> (int \<times> upnp_event, 'w) prog" where
  "reply L rc event =
     (let ar = request event;
          ar = (if rc = 0 then ar\<lparr>ErrCode := UPNP_E_SUCCESS L\<rparr> else ar);
          ar = (if ActionResult ar = None
                then ar\<lparr>ActionResult := UpnpMakeActionResponse L (ActionName ar) (ServiceID ar)\<rparr> else ar)
      in Ret (0, UPNP_CONTROL_ACTION_REQUEST ar))"

lemma reaches_handler:
  assumes dev: "services d = upnp_services L MD" and ar: "avt_request name ar"
    and a: "action_init name (Some cb) \<in> set (transport_actions L MD)"
    and w: "held w = {}" "\<forall>t\<in>set (pre @ post). fst t = {}"
  shows "cstep\<^sup>*\<^sup>* (Running (pre @ ({}, event_handler_prog L MD d (UPNP_CONTROL_ACTION_REQUEST ar)) # post) w)
    (Running (pre @ ({}, bindP (callback_prog L MD ''urn:schemas-upnp-org:service:AVTransport'' name cb (avt_call ar))
       (\<lambda>(rc, ev). reply L rc ev)) # post) w)"
proof -
  let ?s = "transport_service L MD"
  let ?c = "callback_prog L MD ''urn:schemas-upnp-org:service:AVTransport'' name cb"
  have s: "ServiceID ar = ''urn:schemas-upnp-org:service:AVTransport''" "ActionName ar = name"
    using ar by (simp_all add: avt_request_def)
  have act: "find_action (Some ?s) name = Inr (Some (action_init name (Some cb)))"
    using find_action_loop_member [OF transport_table a] by (simp add: find_action_def service_actions)
  define mid where "mid s = bindP (?c \<lparr>request = ar, event_status = 0, event_service = service_vars.truncate s\<rparr>) (\<lambda>(rc, ev). reply L rc ev)"
    for s :: "('a, 'b) control_env_scheme service"
  have "\<exists>k. event_handler_prog L MD d (UPNP_CONTROL_ACTION_REQUEST ar)
      = bindP (compute (Inr (Some (action_init name (Some cb))))) k \<and> k (Some (action_init name (Some cb))) = bindP (compute (Inr ?s)) mid"
    unfolding event_handler_prog_def handle_action_request_prog_def upnp_event.case s
      find_service_renderer(1) [OF dev] act Let_def bindP_assoc
    by (intro exI conjI, rule refl) (simp add: bindP_assoc reply_def Let_def split_def mid_def [abs_def])
  then obtain k where k: "event_handler_prog L MD d (UPNP_CONTROL_ACTION_REQUEST ar)
      = bindP (compute (Inr (Some (action_init name (Some cb))))) k" "k (Some (action_init name (Some cb))) = bindP (compute (Inr ?s)) mid"
    by blast
  have mid: "mid ?s = bindP (?c (avt_call ar)) (\<lambda>(rc, ev). reply L rc ev)"
    by (simp add: avt_call_def mid_def)
  have "cstep\<^sup>*\<^sup>* (Running (pre @ ({}, event_handler_prog L MD d (UPNP_CONTROL_ACTION_REQUEST ar)) # post) w)
      (Running (pre @ ({}, bindP (compute (Inr ?s)) mid) # post) w)"
    by (rule moves_to [OF k(1) _ k(2)]) (use w in \<open>simp_all add: run_simps\<close>)
  also have "cstep\<^sup>*\<^sup>* \<dots> (Running (pre @ ({}, mid ?s) # post) w)"
    by (rule moves_to [OF refl _ refl]) (use w in \<open>simp_all add: run_simps\<close>)
  finally show ?thesis unfolding mid .
qed

lemma connection_checked:
  fixes w :: "('m, 'z) control_env_scheme"
  assumes "\<not> test_mode w" and "mpd_conn w" and "held w = {}"
  shows "check_mpd_connection MD True w = Inr (STATUS_OK, w)"
proof -
  have "w\<lparr>held := {}\<rparr> = w" using assms(3) by (cases w) simp
  with assms show ?thesis by (simp add: check_mpd_connection_def lock_def unlock_def)
qed

lemma avt_instance:
  "avt_request name ar \<Longrightarrow> upnp_obtain_instanceid L (avt_call ar) = Inr (0, avt_call ar)"
  by (auto simp: avt_request_def avt_call_def upnp_obtain_instanceid_def upnp_get_string_arg)

lemma next_reaches_player:
  fixes w :: "('m, 'z) control_env_scheme"
  assumes ar: "avt_request ''Next'' ar" and w: "\<not> test_mode w" "mpd_conn w" "held w = {}"
    and others: "\<forall>t\<in>set (pre @ post). fst t = {}"
  shows "\<exists>l. cstep\<^sup>*\<^sup>* (Running (pre @ ({}, bindP (xnext_prog L MD (avt_call ar)) k) # post) w)
    (Running (pre @ ({}, bindP (with_mutex MpdMutex (atom (run_and_update MD mpd_run_next))) l) # post) w)"
proof -
  let ?ev = "avt_call ar :: ('m, 'z) control_env_scheme action_event"
  have "\<exists>k1. bindP (xnext_prog L MD ?ev) k = bindP (compute (upnp_obtain_instanceid L ?ev)) k1
    \<and> (\<exists>k2. k1 (0, ?ev) = bindP (check_mpd_connection_prog MD True) k2
    \<and> (\<exists>k3. k2 STATUS_OK = bindP (read_st test_mode) k3
    \<and> (\<exists>k4. k3 False = bindP (with_mutex MpdMutex (atom (run_and_update MD mpd_run_next))) k4)))"
    unfolding xnext_prog_def with_instance_prog_def with_connection_prog_def player_command_prog_def bindP_assoc
    by (rule exI, rule conjI, rule refl, simp add: bindP_assoc, rule exI, rule conjI, rule refl, simp add: bindP_assoc,
        rule exI, rule conjI, rule refl, simp, rule exI, rule refl)
  then obtain k1 k2 k3 k4 where k: "bindP (xnext_prog L MD ?ev) k = bindP (compute (upnp_obtain_instanceid L ?ev)) k1"
      "k1 (0, ?ev) = bindP (check_mpd_connection_prog MD True) k2" "k2 STATUS_OK = bindP (read_st test_mode) k3"
      "k3 False = bindP (with_mutex MpdMutex (atom (run_and_update MD mpd_run_next))) k4"
    by blast
  have "cstep\<^sup>*\<^sup>* (Running (pre @ ({}, bindP (xnext_prog L MD ?ev) k) # post) w)
      (Running (pre @ ({}, bindP (check_mpd_connection_prog MD True) k2) # post) w)"
    by (rule moves_to [OF k(1) _ k(2)]) (use w others in \<open>simp_all add: run_simps avt_instance [OF ar]\<close>)
  also have "cstep\<^sup>*\<^sup>* \<dots> (Running (pre @ ({}, bindP (read_st test_mode) k3) # post) w)"
    by (rule moves_to [where k = k2, OF refl _ k(3)]) (use w others in \<open>simp_all add: run_simps connection_checked\<close>)
  also have "cstep\<^sup>*\<^sup>* \<dots> (Running (pre @ ({}, bindP (with_mutex MpdMutex (atom (run_and_update MD mpd_run_next))) k4) # post) w)"
    by (rule moves_to [where k = k3, OF refl _ k(4)]) (use w others in \<open>simp_all add: run_simps\<close>)
  finally show ?thesis by blast
qed

lemma next_event_reaches_player:
  fixes w :: "('m, 'z) control_env_scheme"
  assumes dev: "services d = upnp_services L MD" and ar: "avt_request ''Next'' ar"
    and w: "\<not> test_mode w" "mpd_conn w" "held w = {}" and others: "\<forall>t\<in>set (pre @ post). fst t = {}"
  shows "\<exists>l. cstep\<^sup>*\<^sup>* (Running (pre @ ({}, event_handler_prog L MD d (UPNP_CONTROL_ACTION_REQUEST ar)) # post) w)
    (Running (pre @ ({}, bindP (with_mutex MpdMutex (atom (run_and_update MD mpd_run_next))) l) # post) w)"
proof -
  have cb: "callback_prog L MD ''urn:schemas-upnp-org:service:AVTransport'' ''Next'' (xnext L MD) = xnext_prog L MD"
    by (simp add: callback_prog_def service_progs_def)
  show ?thesis
    using reaches_handler [OF dev ar transport_action(1) w(3) others, unfolded cb]
      next_reaches_player [OF ar w others, of L MD "\<lambda>(rc, ev). reply L rc ev"]
    by (blast intro: rtranclp_trans)
qed

section \<open>Losing the connection between the check and the command\<close>

text \<open>The first Next, alone, when the player drops the connection at its command.\<close>

lemma next_event_handled:
  fixes w :: "('m, 'z) control_env_scheme"
  assumes dev: "services d = upnp_services L MD" and ar: "avt_request ''Next'' ar"
    and r: "bindE (check_mpd_connection MD True w) (\<lambda>(st, w). if st = STATUS_FAIL then Inr (- 1, w)
      else output_next MD w) = Inr (rc, w')"
  shows "\<exists>e'. event_handler L d (UPNP_CONTROL_ACTION_REQUEST ar) w = Inr (0, e', w')"
proof -
  have s: "ServiceID ar = ''urn:schemas-upnp-org:service:AVTransport''" "ActionName ar = ''Next''"
    using ar by (simp_all add: avt_request_def)
  have act: "find_action (Some (transport_service L MD)) ''Next'' = Inr (Some (action_init ''Next'' (Some (xnext L MD))))"
    using find_action_loop_member [OF transport_table transport_action(1)] by (simp add: find_action_def service_actions)
  have i: "upnp_obtain_instanceid L (avt_call ar :: ('m, 'z) control_env_scheme action_event) = Inr (0, avt_call ar)"
    by (rule avt_instance [OF ar])
  have "\<exists>rc ev. xnext L MD (avt_call ar) w = Inr (rc, ev, w')"
    using r
    by (auto simp: xnext_def with_instance_def i with_connection_def bindE_def split: sum.splits if_splits)
  then obtain rc ev where "xnext L MD \<lparr>request = ar, event_status = 0, event_service = transport_vars\<rparr> w = Inr (rc, ev, w')"
    by (auto simp: avt_call_def)
  then show ?thesis
    by (simp add: event_handler_def handle_action_request_def s find_service_renderer(1) [OF dev] act Let_def)
qed

lemma next_dropped:
  fixes w :: "('m, 'z) control_env_scheme"
  assumes w: "\<not> test_mode w" "mpd_conn w" "held w = {}"
    and drop: "mpd_command MD mpd_run_next (mpd w) = (False, m)" "mpd_connection_get_error MD m \<noteq> MPD_ERROR_SERVER"
  shows "output_next MD w = Inr (- 1, w\<lparr>mpd := mpd_connection_free MD m, mpd_conn := False\<rparr>)"
proof -
  have "w\<lparr>held := {}, mpd := x, mpd_conn := c\<rparr> = w\<lparr>mpd := x, mpd_conn := c\<rparr>" for x c
    using w(3) by (cases w) simp
  with assms show ?thesis
    by (simp add: output_next_def player_command_def run_and_update_def lock_def unlock_def on_conn_def
        command_failed_def output_printError_def)
qed

text \<open>A player that cannot be reached any more; the next request then stops at the check.\<close>

definition unreachable :: "'m mpd_lib \<Rightarrow> ('m, 'z) control_env_scheme \<Rightarrow> bool" where
  "unreachable MD w \<longleftrightarrow> INT_MIN \<le> options_mpd_timeout w * 1000 \<and> options_mpd_timeout w * 1000 \<le> INT_MAX
   \<and> (\<forall>h p t m. \<not> fst (mpd_connection_new MD h p t m))"

lemma check_unreachable:
  fixes w :: "('m, 'z) control_env_scheme"
  assumes "unreachable MD w" and "\<not> test_mode w" and "\<not> mpd_conn w" and "held w = {}"
  shows "\<exists>w'. check_mpd_connection MD True w = Inr (STATUS_FAIL, w')"
  using assms
  by (simp add: unreachable_def check_mpd_connection_def lock_def unlock_def setup_connection_def split_beta Let_def)

text \<open>
  C7. Two requests for Next. When the player drops the connection at the command of the first
  and cannot be reached again, handling the requests one after the other, in either order,
  is safe: the second stops at the check of the connection. Handled at the same time they can
  crash the process: the second has checked the connection before the first lost it, and
  then uses a NULL connection, since the check and the command are two critical sections.
\<close>

theorem concurrent_next_crashes:
  fixes w :: "('m, 'z) control_env_scheme"
  assumes dev: "services d = upnp_services L MD" and ar: "avt_request ''Next'' ar" "avt_request ''Next'' ar'"
    and w: "\<not> test_mode w" "mpd_conn w" "held w = {}"
    and drop: "mpd_command MD mpd_run_next (mpd w) = (False, m)" "mpd_connection_get_error MD m \<noteq> MPD_ERROR_SERVER"
    and gone: "unreachable MD w"
  shows "(\<exists>w'. run_events L d [UPNP_CONTROL_ACTION_REQUEST ar, UPNP_CONTROL_ACTION_REQUEST ar'] w = Inr w')
    \<and> (\<exists>w'. run_events L d [UPNP_CONTROL_ACTION_REQUEST ar', UPNP_CONTROL_ACTION_REQUEST ar] w = Inr w')
    \<and> cstep\<^sup>*\<^sup>* (serve L MD d [UPNP_CONTROL_ACTION_REQUEST ar, UPNP_CONTROL_ACTION_REQUEST ar'] w) (Crashed NullPointer)"
proof -
  let ?w1 = "w\<lparr>mpd := mpd_connection_free MD m, mpd_conn := False\<rparr>"
  have first: "\<exists>e'. event_handler L d (UPNP_CONTROL_ACTION_REQUEST a) w = Inr (0, e', ?w1)"
    if "avt_request ''Next'' a" for a
    by (rule next_event_handled [OF dev that]) (simp add: connection_checked [OF w] next_dropped [OF w drop])
  obtain w2 where w2: "check_mpd_connection MD True ?w1 = Inr (STATUS_FAIL, w2)"
    using check_unreachable [of MD ?w1] gone w by (auto simp: unreachable_def)
  have second: "\<exists>e'. event_handler L d (UPNP_CONTROL_ACTION_REQUEST a) ?w1 = Inr (0, e', w2)"
    if "avt_request ''Next'' a" for a
    by (rule next_event_handled [OF dev that]) (simp add: w2)
  have seq: "\<exists>w'. run_events L d [UPNP_CONTROL_ACTION_REQUEST a, UPNP_CONTROL_ACTION_REQUEST a'] w = Inr w'"
    if "avt_request ''Next'' a" "avt_request ''Next'' a'" for a a'
    using first [OF that(1)] second [OF that(2)] by auto
  let ?p = "event_handler_prog L MD d (UPNP_CONTROL_ACTION_REQUEST ar)"
  obtain l where checked: "cstep\<^sup>*\<^sup>* (serve L MD d [UPNP_CONTROL_ACTION_REQUEST ar, UPNP_CONTROL_ACTION_REQUEST ar'] w)
      (Running [({}, ?p), ({}, bindP (with_mutex MpdMutex (atom (run_and_update MD mpd_run_next))) l)] w)"
    using next_event_reaches_player [OF dev ar(2) w, of "[({}, ?p)]" "[]"] by (auto simp: serve_def)
  obtain e' where "event_handler L d (UPNP_CONTROL_ACTION_REQUEST ar) w = Inr (0, e', ?w1)" using first [OF ar(1)] ..
  then have "run ?p w = Inr ((0, e'), ?w1)" by (simp add: run_event [OF dev] paired_def)
  then have lost: "cstep\<^sup>*\<^sup>* (Running [({}, ?p), ({}, bindP (with_mutex MpdMutex (atom (run_and_update MD mpd_run_next))) l)] w)
      (Running [({}, Ret (0, e')), ({}, bindP (with_mutex MpdMutex (atom (run_and_update MD mpd_run_next))) l)] ?w1)"
    using moves_to [where pre = "[]" and p = ?p and k = Ret, OF bindP_Ret [symmetric] _ refl] w(3) by simp
  have "run (with_mutex MpdMutex (atom (run_and_update MD mpd_run_next))) ?w1 = Inl NullPointer"
    using w(3) by (simp add: run_simps lock_def run_and_update_def on_conn_def)
  then have crash: "cstep\<^sup>*\<^sup>* (Running [({}, Ret (0, e')), ({}, bindP (with_mutex MpdMutex (atom (run_and_update MD mpd_run_next))) l)] ?w1)
      (Crashed NullPointer)"
    using solo_bindP [where i = 1 and k = l and w = ?w1 and c = "with_mutex MpdMutex (atom (run_and_update MD mpd_run_next))"
        and ts = "[({}, Ret (0, e')), ({}, bindP (with_mutex MpdMutex (atom (run_and_update MD mpd_run_next))) l)]"] w(3)
    by (simp add: less_Suc_eq)
  from seq [OF ar] seq [OF ar(2,1)] rtranclp_trans [OF checked rtranclp_trans [OF lost crash]] show ?thesis by blast
qed

text \<open>A player that drops the connection at the first command and is gone.\<close>

definition dropping_mpd :: "mpd_command_call list mpd_lib" where
  "dropping_mpd = failing_mpd\<lparr>mpd_connection_new := (\<lambda>h p t m. (False, m))\<rparr>"

abbreviation "sample_request name \<equiv> some_request ''urn:schemas-upnp-org:service:AVTransport'' name [(''InstanceID'', ''0'')]"

lemma sample_avt_request: "avt_request name (sample_request name)"
proof -
  have "atoi ''0'' = 0" by code_simp
  then show ?thesis
    unfolding avt_request_def
    by (intro conjI exI [of _ name] exI [of _ "[(''InstanceID'', ''0'')]"] exI [of _ "''0''"]) simp_all
qed

theorem concurrent_next_crashes_witness:
  "cstep\<^sup>*\<^sup>* (serve sample_lib dropping_mpd (render_device sample_lib dropping_mpd (\<lambda>_. True))
       [UPNP_CONTROL_ACTION_REQUEST (sample_request ''Next''), UPNP_CONTROL_ACTION_REQUEST (sample_request ''Next'')] started)
     (Crashed NullPointer)"
proof -
  have d: "services (render_device sample_lib dropping_mpd (\<lambda>_. True)) = upnp_services sample_lib dropping_mpd"
    by (simp add: render_device_def)
  have c: "mpd_command dropping_mpd mpd_run_next (mpd started) = (False, [mpd_run_next])"
    "mpd_connection_get_error dropping_mpd [mpd_run_next] \<noteq> MPD_ERROR_SERVER"
    by (simp_all add: dropping_mpd_def failing_mpd_def sample_mpd_def)
  have "unreachable dropping_mpd started"
    by (simp add: unreachable_def dropping_mpd_def started_def transport_init_def sample_control_def sample_output_def
        output_env.defs c_limits)
  with concurrent_next_crashes [OF d sample_avt_request sample_avt_request _ _ _ c] show ?thesis by simp
qed

section \<open>Variables changed under another mutex\<close>

lemma info_reaches_variables:
  fixes w :: "('m, 'z) control_env_scheme"
  assumes dev: "services d = upnp_services L MD" and ar: "avt_request ''GetTransportInfo'' ar"
    and w: "held w = {}" and others: "\<forall>t\<in>set (pre @ post). fst t = {}"
  shows "\<exists>l. cstep\<^sup>*\<^sup>* (Running (pre @ ({}, event_handler_prog L MD d (UPNP_CONTROL_ACTION_REQUEST ar)) # post) w)
    (Running (pre @ ({}, Acq TransportMutex l) # post) w)"
proof -
  let ?ev = "avt_call ar :: ('m, 'z) control_env_scheme action_event" and ?k = "\<lambda>(rc, ev). reply L rc ev"
  have cb: "callback_prog L MD ''urn:schemas-upnp-org:service:AVTransport'' ''GetTransportInfo'' (get_transport_info L)
      = get_transport_info_prog L"
    by (simp add: callback_prog_def service_progs_def)
  have "\<exists>k1. bindP (get_transport_info_prog L ?ev) ?k = bindP (compute (upnp_obtain_instanceid L ?ev)) k1
    \<and> (\<exists>l. k1 (0, ?ev) = Acq TransportMutex l)"
    unfolding get_transport_info_prog_def bindP_assoc
    by (rule exI, rule conjI, rule refl, simp add: upnp_append_variable_prog_def avt_call_def with_mutex_def acquire_def)
  then obtain k1 l where k: "bindP (get_transport_info_prog L ?ev) ?k = bindP (compute (upnp_obtain_instanceid L ?ev)) k1"
      "k1 (0, ?ev) = Acq TransportMutex l" by blast
  have "cstep\<^sup>*\<^sup>* (Running (pre @ ({}, bindP (get_transport_info_prog L ?ev) ?k) # post) w)
      (Running (pre @ ({}, Acq TransportMutex l) # post) w)"
    by (rule moves_to [OF k(1) _ k(2)]) (use w others in \<open>simp_all add: run_simps avt_instance [OF ar]\<close>)
  with reaches_handler [OF dev ar transport_action(2) w others, unfolded cb] show ?thesis
    by (blast intro: rtranclp_trans)
qed

text \<open>
  C14. The mutex of AVTransport does not protect its variables: while one thread owns it to
  read them, another one that handles Next, and owns the mutex of the player only, can
  change them with the status it gets from the player.
\<close>

theorem transport_variables_race:
  fixes w :: "('m, 'z) control_env_scheme"
  assumes dev: "services d = upnp_services L MD"
    and ar: "avt_request ''Next'' ar" "avt_request ''GetTransportInfo'' ar'"
    and w: "\<not> test_mode w" "mpd_conn w" "held w = {}"
    and upd: "run_and_update MD mpd_run_next (w\<lparr>held := {MpdMutex}\<rparr>) = Inr (rc, w')" "transport_values w' \<noteq> transport_values w"
  shows "\<exists>ts v ts' v'.
     cstep\<^sup>*\<^sup>* (serve L MD d [UPNP_CONTROL_ACTION_REQUEST ar, UPNP_CONTROL_ACTION_REQUEST ar'] w) (Running ts v)
   \<and> fst (ts ! 0) = {MpdMutex} \<and> fst (ts ! 1) = {TransportMutex}
   \<and> thread_step 0 (Running ts v) = Some (Running ts' v') \<and> transport_values v' \<noteq> transport_values v"
proof -
  let ?p = "event_handler_prog L MD d (UPNP_CONTROL_ACTION_REQUEST ar)"
  let ?q = "\<lambda>l. bindP (with_mutex MpdMutex (atom (run_and_update MD mpd_run_next))) l"
  obtain l where "cstep\<^sup>*\<^sup>* (serve L MD d [UPNP_CONTROL_ACTION_REQUEST ar, UPNP_CONTROL_ACTION_REQUEST ar'] w)
      (Running [({}, ?p), ({}, Acq TransportMutex l)] w)"
    using info_reaches_variables [OF dev ar(2) w(3), of "[({}, ?p)]" "[]"] by (auto simp: serve_def)
  moreover obtain k where "cstep\<^sup>*\<^sup>* (Running [({}, ?p), ({}, Acq TransportMutex l)] w)
      (Running [({}, ?q k), ({}, Acq TransportMutex l)] w)"
    using next_event_reaches_player [OF dev ar(1) w, of "[]" "[({}, Acq TransportMutex l)]"] by auto
  moreover obtain q where q: "?q k = Acq MpdMutex (bindP (atom (run_and_update MD mpd_run_next)) q)"
    by (simp add: with_mutex_def acquire_def bindP_assoc)
  let ?a = "bindP (atom (run_and_update MD mpd_run_next)) q"
  have "cstep (Running [({}, ?q k), ({}, Acq TransportMutex l)] w)
      (Running [({MpdMutex}, ?a), ({}, Acq TransportMutex l)] (w\<lparr>held := {MpdMutex}\<rparr>))"
    unfolding q by (rule cstep [where i = 0]) (simp add: lock_def)
  moreover have "cstep (Running [({MpdMutex}, ?a), ({}, Acq TransportMutex l)] (w\<lparr>held := {MpdMutex}\<rparr>))
      (Running [({MpdMutex}, ?a), ({TransportMutex}, l)] (w\<lparr>held := {TransportMutex}\<rparr>))"
    by (rule cstep [where i = 1]) (simp add: lock_def)
  ultimately have "cstep\<^sup>*\<^sup>* (serve L MD d [UPNP_CONTROL_ACTION_REQUEST ar, UPNP_CONTROL_ACTION_REQUEST ar'] w)
      (Running [({MpdMutex}, ?a), ({TransportMutex}, l)] (w\<lparr>held := {TransportMutex}\<rparr>))"
    by (meson rtranclp.rtrancl_into_rtrancl rtranclp_trans)
  moreover obtain ts' where "thread_step 0 (Running [({MpdMutex}, ?a), ({TransportMutex}, l)] (w\<lparr>held := {TransportMutex}\<rparr>))
      = Some (Running ts' w')"
    by (simp add: atom_def upd(1))
  ultimately show ?thesis
    using upd(2)
    by (intro exI [of _ "[({MpdMutex}, ?a), ({TransportMutex}, l)]"] exI [of _ "w\<lparr>held := {TransportMutex}\<rparr>"]
        exI [of _ ts'] exI [of _ w'] conjI) simp_all
qed

text \<open>A player that goes on to play and has no song to report.\<close>

definition silent_mpd :: "mpd_command_call list mpd_lib" where
  "silent_mpd = sample_mpd\<lparr>mpd_recv_song := (\<lambda>m. (None, m))\<rparr>"

lemma silent_update:
  "\<exists>w'. run_and_update silent_mpd mpd_run_next (started\<lparr>held := {MpdMutex}\<rparr>) = Inr (0, w')
     \<and> transport_values w' TRANSPORT_VAR_TRANSPORT_STATE = Some ''PLAYING''"
proof -
  let ?v = "\<lambda>cs. started\<lparr>held := {MpdMutex}, mpd := cs, mpdvolume := sint (50 :: 32 word)\<rparr>"
  have pos: "sint (status_song_pos sample_status) < INT_MAX" by (simp add: sample_status_def c_limits)
  have "\<exists>cs. run_and_update silent_mpd mpd_run_next (started\<lparr>held := {MpdMutex}\<rparr>)
      = bindE (bindE (output_translate_state sample_status (?v cs)) (update_track_position sample_status)) (\<lambda>w. Inr (0, w))"
    by (simp add: run_and_update_def update_mpd_status_def on_conn_def silent_mpd_def sample_mpd_def sample_status_def)
      (rule exI, rule refl)
  then obtain cs where cs: "run_and_update silent_mpd mpd_run_next (started\<lparr>held := {MpdMutex}\<rparr>)
      = bindE (bindE (output_translate_state sample_status (?v cs)) (update_track_position sample_status)) (\<lambda>w. Inr (0, w))" ..
  obtain u where u: "output_translate_state sample_status (?v cs) = Inr u"
      "transport_values u TRANSPORT_VAR_TRANSPORT_STATE = Some ''PLAYING''"
    by (simp add: output_translate_state_run sample_status_def reported_state_def)
  obtain tv where tv: "update_track_position sample_status u = Inr (u\<lparr>transport_values := tv\<rparr>)"
      "\<forall>m. tv m = final_value (position_text sample_status) m (transport_values u m)"
    using update_track_position_run [OF pos, of u] by blast
  have "tv TRANSPORT_VAR_TRANSPORT_STATE = Some ''PLAYING''"
    using tv(2) [rule_format, of TRANSPORT_VAR_TRANSPORT_STATE] u(2) by (simp add: position_text_def)
  with tv(1) u(1) show ?thesis by (simp add: cs)
qed

theorem transport_variables_race_witness:
  "\<exists>ts v ts' v'.
     cstep\<^sup>*\<^sup>* (serve sample_lib silent_mpd (render_device sample_lib silent_mpd (\<lambda>_. True))
       [UPNP_CONTROL_ACTION_REQUEST (sample_request ''Next''), UPNP_CONTROL_ACTION_REQUEST (sample_request ''GetTransportInfo'')]
       started) (Running ts v)
   \<and> TransportMutex \<in> fst (ts ! 1)
   \<and> thread_step 0 (Running ts v) = Some (Running ts' v') \<and> transport_values v' \<noteq> transport_values v"
proof -
  have d: "services (render_device sample_lib silent_mpd (\<lambda>_. True)) = upnp_services sample_lib silent_mpd"
    by (simp add: render_device_def)
  obtain w' where u: "run_and_update silent_mpd mpd_run_next (started\<lparr>held := {MpdMutex}\<rparr>) = Inr (0, w')"
      "transport_values w' TRANSPORT_VAR_TRANSPORT_STATE = Some ''PLAYING''"
    using silent_update by blast
  have "transport_values started TRANSPORT_VAR_TRANSPORT_STATE = Some ''STOPPED''"
    by (simp add: started_def transport_init_def transport_defaults_def)
  with u(2) have "transport_values w' \<noteq> transport_values started" by auto
  from transport_variables_race [OF d sample_avt_request sample_avt_request _ _ _ u(1) this] show ?thesis
    by (fastforce simp del: thread_step.simps)
qed

end
