(* ===== verification/Control_Video.thy ===== *)
theory Control_Video
  imports Control
begin

text \<open>
  upnp_control.c as it is compiled with \<open>UPNP_VIDEO\<close>: the enumerations are longer and in
  another order, the tables describe the picture settings too, and each of those has a
  handler that reads it. What the conditional compilation leaves as it is (the channels, the
  volume ranges, the state and its type) is taken from theory Control; what depends on an
  enumeration is written out again with the numbers of this build, under the name of the
  source with the suffix \<open>_video\<close>.
\<close>

section \<open>Enumerations of upnp_control.h\<close>

abbreviation (input) CONTROL_VAR_G_GAIN :: nat where "CONTROL_VAR_G_GAIN \<equiv> 0"

abbreviation (input) CONTROL_VAR_B_BLACK :: nat where "CONTROL_VAR_B_BLACK \<equiv> 1"

abbreviation (input) CONTROL_VAR_VER_KEYSTONE :: nat where "CONTROL_VAR_VER_KEYSTONE \<equiv> 2"

abbreviation (input) CONTROL_VAR_G_BLACK :: nat where "CONTROL_VAR_G_BLACK \<equiv> 3"

abbreviation (input) CONTROL_VAR_VOLUME_video :: nat where "CONTROL_VAR_VOLUME_video \<equiv> 4"

abbreviation (input) CONTROL_VAR_LOUDNESS_video :: nat where "CONTROL_VAR_LOUDNESS_video \<equiv> 5"

abbreviation (input) CONTROL_VAR_AAT_INSTANCE_ID_video :: nat where "CONTROL_VAR_AAT_INSTANCE_ID_video \<equiv> 6"

abbreviation (input) CONTROL_VAR_R_GAIN :: nat where "CONTROL_VAR_R_GAIN \<equiv> 7"

abbreviation (input) CONTROL_VAR_COLOR_TEMP :: nat where "CONTROL_VAR_COLOR_TEMP \<equiv> 8"

abbreviation (input) CONTROL_VAR_SHARPNESS :: nat where "CONTROL_VAR_SHARPNESS \<equiv> 9"

abbreviation (input) CONTROL_VAR_AAT_PRESET_NAME_video :: nat where "CONTROL_VAR_AAT_PRESET_NAME_video \<equiv> 10"

abbreviation (input) CONTROL_VAR_R_BLACK :: nat where "CONTROL_VAR_R_BLACK \<equiv> 11"

abbreviation (input) CONTROL_VAR_B_GAIN :: nat where "CONTROL_VAR_B_GAIN \<equiv> 12"

abbreviation (input) CONTROL_VAR_MUTE_video :: nat where "CONTROL_VAR_MUTE_video \<equiv> 13"

abbreviation (input) CONTROL_VAR_LAST_CHANGE_video :: nat where "CONTROL_VAR_LAST_CHANGE_video \<equiv> 14"

abbreviation (input) CONTROL_VAR_AAT_CHANNEL_video :: nat where "CONTROL_VAR_AAT_CHANNEL_video \<equiv> 15"

abbreviation (input) CONTROL_VAR_HOR_KEYSTONE :: nat where "CONTROL_VAR_HOR_KEYSTONE \<equiv> 16"

abbreviation (input) CONTROL_VAR_VOLUME_DB_video :: nat where "CONTROL_VAR_VOLUME_DB_video \<equiv> 17"

abbreviation (input) CONTROL_VAR_PRESET_NAME_LIST_video :: nat where "CONTROL_VAR_PRESET_NAME_LIST_video \<equiv> 18"

abbreviation (input) CONTROL_VAR_CONTRAST :: nat where "CONTROL_VAR_CONTRAST \<equiv> 19"

abbreviation (input) CONTROL_VAR_BRIGHTNESS :: nat where "CONTROL_VAR_BRIGHTNESS \<equiv> 20"

abbreviation (input) CONTROL_VAR_UNKNOWN_video :: nat where "CONTROL_VAR_UNKNOWN_video \<equiv> 21"

abbreviation (input) CONTROL_VAR_COUNT_video :: nat where "CONTROL_VAR_COUNT_video \<equiv> 22"

abbreviation (input) CONTROL_CMD_GET_BLUE_BLACK :: nat where "CONTROL_CMD_GET_BLUE_BLACK \<equiv> 0"

abbreviation (input) CONTROL_CMD_GET_BLUE_GAIN :: nat where "CONTROL_CMD_GET_BLUE_GAIN \<equiv> 1"

abbreviation (input) CONTROL_CMD_GET_BRIGHTNESS :: nat where "CONTROL_CMD_GET_BRIGHTNESS \<equiv> 2"

abbreviation (input) CONTROL_CMD_GET_COLOR_TEMP :: nat where "CONTROL_CMD_GET_COLOR_TEMP \<equiv> 3"

abbreviation (input) CONTROL_CMD_GET_CONTRAST :: nat where "CONTROL_CMD_GET_CONTRAST \<equiv> 4"

abbreviation (input) CONTROL_CMD_GET_GREEN_BLACK :: nat where "CONTROL_CMD_GET_GREEN_BLACK \<equiv> 5"

abbreviation (input) CONTROL_CMD_GET_GREEN_GAIN :: nat where "CONTROL_CMD_GET_GREEN_GAIN \<equiv> 6"

abbreviation (input) CONTROL_CMD_GET_HOR_KEYSTONE :: nat where "CONTROL_CMD_GET_HOR_KEYSTONE \<equiv> 7"

abbreviation (input) CONTROL_CMD_GET_LOUDNESS_video :: nat where "CONTROL_CMD_GET_LOUDNESS_video \<equiv> 8"

abbreviation (input) CONTROL_CMD_GET_MUTE_video :: nat where "CONTROL_CMD_GET_MUTE_video \<equiv> 9"

abbreviation (input) CONTROL_CMD_GET_RED_BLACK :: nat where "CONTROL_CMD_GET_RED_BLACK \<equiv> 10"

abbreviation (input) CONTROL_CMD_GET_RED_GAIN :: nat where "CONTROL_CMD_GET_RED_GAIN \<equiv> 11"

abbreviation (input) CONTROL_CMD_GET_SHARPNESS :: nat where "CONTROL_CMD_GET_SHARPNESS \<equiv> 12"

abbreviation (input) CONTROL_CMD_GET_VERT_KEYSTONE :: nat where "CONTROL_CMD_GET_VERT_KEYSTONE \<equiv> 13"

abbreviation (input) CONTROL_CMD_GET_VOL_video :: nat where "CONTROL_CMD_GET_VOL_video \<equiv> 14"

abbreviation (input) CONTROL_CMD_GET_VOL_DB_video :: nat where "CONTROL_CMD_GET_VOL_DB_video \<equiv> 15"

abbreviation (input) CONTROL_CMD_GET_VOL_DBRANGE_video :: nat where "CONTROL_CMD_GET_VOL_DBRANGE_video \<equiv> 16"

abbreviation (input) CONTROL_CMD_LIST_PRESETS_video :: nat where "CONTROL_CMD_LIST_PRESETS_video \<equiv> 17"

abbreviation (input) CONTROL_CMD_SELECT_PRESET_video :: nat where "CONTROL_CMD_SELECT_PRESET_video \<equiv> 18"

abbreviation (input) CONTROL_CMD_SET_BLUE_BLACK :: nat where "CONTROL_CMD_SET_BLUE_BLACK \<equiv> 19"

abbreviation (input) CONTROL_CMD_SET_BLUE_GAIN :: nat where "CONTROL_CMD_SET_BLUE_GAIN \<equiv> 20"

abbreviation (input) CONTROL_CMD_SET_BRIGHTNESS :: nat where "CONTROL_CMD_SET_BRIGHTNESS \<equiv> 21"

abbreviation (input) CONTROL_CMD_SET_COLOR_TEMP :: nat where "CONTROL_CMD_SET_COLOR_TEMP \<equiv> 22"

abbreviation (input) CONTROL_CMD_SET_CONTRAST :: nat where "CONTROL_CMD_SET_CONTRAST \<equiv> 23"

abbreviation (input) CONTROL_CMD_SET_GREEN_BLACK :: nat where "CONTROL_CMD_SET_GREEN_BLACK \<equiv> 24"

abbreviation (input) CONTROL_CMD_SET_GREEN_GAIN :: nat where "CONTROL_CMD_SET_GREEN_GAIN \<equiv> 25"

abbreviation (input) CONTROL_CMD_SET_HOR_KEYSTONE :: nat where "CONTROL_CMD_SET_HOR_KEYSTONE \<equiv> 26"

abbreviation (input) CONTROL_CMD_SET_LOUDNESS_video :: nat where "CONTROL_CMD_SET_LOUDNESS_video \<equiv> 27"

abbreviation (input) CONTROL_CMD_SET_MUTE_video :: nat where "CONTROL_CMD_SET_MUTE_video \<equiv> 28"

abbreviation (input) CONTROL_CMD_SET_RED_BLACK :: nat where "CONTROL_CMD_SET_RED_BLACK \<equiv> 29"

abbreviation (input) CONTROL_CMD_SET_RED_GAIN :: nat where "CONTROL_CMD_SET_RED_GAIN \<equiv> 30"

abbreviation (input) CONTROL_CMD_SET_SHARPNESS :: nat where "CONTROL_CMD_SET_SHARPNESS \<equiv> 31"

abbreviation (input) CONTROL_CMD_SET_VERT_KEYSTONE :: nat where "CONTROL_CMD_SET_VERT_KEYSTONE \<equiv> 32"

abbreviation (input) CONTROL_CMD_SET_VOL_video :: nat where "CONTROL_CMD_SET_VOL_video \<equiv> 33"

abbreviation (input) CONTROL_CMD_SET_VOL_DB_video :: nat where "CONTROL_CMD_SET_VOL_DB_video \<equiv> 34"

abbreviation (input) CONTROL_CMD_UNKNOWN_video :: nat where "CONTROL_CMD_UNKNOWN_video \<equiv> 35"

abbreviation (input) CONTROL_CMD_COUNT_video :: nat where "CONTROL_CMD_COUNT_video \<equiv> 36"

section \<open>Tables\<close>

definition control_variables_video :: "nat \<Rightarrow> string option" where
  "control_variables_video = map_of
     [(CONTROL_VAR_LAST_CHANGE_video, ''LastChange''),
      (CONTROL_VAR_PRESET_NAME_LIST_video, ''PresetNameList''),
      (CONTROL_VAR_AAT_CHANNEL_video, ''A_ARG_TYPE_Channel''),
      (CONTROL_VAR_AAT_INSTANCE_ID_video, ''A_ARG_TYPE_InstanceID''),
      (CONTROL_VAR_AAT_PRESET_NAME_video, ''A_ARG_TYPE_PresetName''),
      (CONTROL_VAR_BRIGHTNESS, ''Brightness''),
      (CONTROL_VAR_CONTRAST, ''Contrast''),
      (CONTROL_VAR_SHARPNESS, ''Sharpness''),
      (CONTROL_VAR_R_GAIN, ''RedVideoGain''),
      (CONTROL_VAR_G_GAIN, ''GreenVideoGain''),
      (CONTROL_VAR_B_GAIN, ''BlueVideoGain''),
      (CONTROL_VAR_R_BLACK, ''RedVideoBlackLevel''),
      (CONTROL_VAR_G_BLACK, ''GreenVideoBlackLevel''),
      (CONTROL_VAR_B_BLACK, ''BlueVideoBlackLevel''),
      (CONTROL_VAR_COLOR_TEMP, ''ColorTemperature''),
      (CONTROL_VAR_HOR_KEYSTONE, ''HorizontalKeystone''),
      (CONTROL_VAR_VER_KEYSTONE, ''VerticalKeystone''),
      (CONTROL_VAR_MUTE_video, ''Mute''),
      (CONTROL_VAR_VOLUME_video, ''Volume''),
      (CONTROL_VAR_VOLUME_DB_video, ''VolumeDB''),
      (CONTROL_VAR_LOUDNESS_video, ''Loudness'')]"

definition brightness_range :: param_range where
  "brightness_range = \<lparr>range_min = 0, range_max = 100, range_step = 1\<rparr>"

definition contrast_range :: param_range where
  "contrast_range = \<lparr>range_min = 0, range_max = 100, range_step = 1\<rparr>"

definition sharpness_range :: param_range where
  "sharpness_range = \<lparr>range_min = 0, range_max = 100, range_step = 1\<rparr>"

definition vid_gain_range :: param_range where
  "vid_gain_range = \<lparr>range_min = 0, range_max = 100, range_step = 1\<rparr>"

definition vid_black_range :: param_range where
  "vid_black_range = \<lparr>range_min = 0, range_max = 100, range_step = 1\<rparr>"

definition colortemp_range :: param_range where
  "colortemp_range = \<lparr>range_min = 0, range_max = 65535, range_step = 1\<rparr>"

definition keystone_range :: param_range where
  "keystone_range = \<lparr>range_min = - 32768, range_max = 32767, range_step = 1\<rparr>"

definition control_var_meta_video :: "nat \<Rightarrow> var_meta option" where
  "control_var_meta_video = map_of
     [(CONTROL_VAR_LAST_CHANGE_video, var_meta_init SENDEVENT_YES DATATYPE_STRING None None None),
      (CONTROL_VAR_PRESET_NAME_LIST_video, var_meta_init SENDEVENT_NO DATATYPE_STRING None None None),
      (CONTROL_VAR_AAT_CHANNEL_video, var_meta_init SENDEVENT_NO DATATYPE_STRING (Some aat_channels) None None),
      (CONTROL_VAR_AAT_INSTANCE_ID_video, var_meta_init SENDEVENT_NO DATATYPE_UI4 None None None),
      (CONTROL_VAR_AAT_PRESET_NAME_video, var_meta_init SENDEVENT_NO DATATYPE_STRING (Some aat_presetnames) None None),
      (CONTROL_VAR_BRIGHTNESS, var_meta_init SENDEVENT_NO DATATYPE_UI2 None (Some brightness_range) None),
      (CONTROL_VAR_CONTRAST, var_meta_init SENDEVENT_NO DATATYPE_UI2 None (Some contrast_range) None),
      (CONTROL_VAR_SHARPNESS, var_meta_init SENDEVENT_NO DATATYPE_UI2 None (Some sharpness_range) None),
      (CONTROL_VAR_R_GAIN, var_meta_init SENDEVENT_NO DATATYPE_UI2 None (Some vid_gain_range) None),
      (CONTROL_VAR_G_GAIN, var_meta_init SENDEVENT_NO DATATYPE_UI2 None (Some vid_gain_range) None),
      (CONTROL_VAR_B_GAIN, var_meta_init SENDEVENT_NO DATATYPE_UI2 None (Some vid_gain_range) None),
      (CONTROL_VAR_R_BLACK, var_meta_init SENDEVENT_NO DATATYPE_UI2 None (Some vid_black_range) None),
      (CONTROL_VAR_G_BLACK, var_meta_init SENDEVENT_NO DATATYPE_UI2 None (Some vid_black_range) None),
      (CONTROL_VAR_B_BLACK, var_meta_init SENDEVENT_NO DATATYPE_UI2 None (Some vid_black_range) None),
      (CONTROL_VAR_COLOR_TEMP, var_meta_init SENDEVENT_NO DATATYPE_UI2 None (Some colortemp_range) None),
      (CONTROL_VAR_HOR_KEYSTONE, var_meta_init SENDEVENT_NO DATATYPE_I2 None (Some keystone_range) None),
      (CONTROL_VAR_VER_KEYSTONE, var_meta_init SENDEVENT_NO DATATYPE_I2 None (Some keystone_range) None),
      (CONTROL_VAR_MUTE_video, var_meta_init SENDEVENT_NO DATATYPE_BOOLEAN None None None),
      (CONTROL_VAR_VOLUME_video, var_meta_init SENDEVENT_NO DATATYPE_UI2 None (Some volume_range) None),
      (CONTROL_VAR_VOLUME_DB_video, var_meta_init SENDEVENT_NO DATATYPE_I2 None (Some volume_db_range) None),
      (CONTROL_VAR_LOUDNESS_video, var_meta_init SENDEVENT_NO DATATYPE_BOOLEAN None None None),
      (CONTROL_VAR_UNKNOWN_video, var_meta_init SENDEVENT_NO DATATYPE_UNKNOWN None None None)]"

definition control_defaults_video :: "nat \<Rightarrow> string option" where
  "control_defaults_video = map_of
     [(CONTROL_VAR_LAST_CHANGE_video, ''<Event xmlns=\"urn:schemas-upnp-org:metadata-1-0/RCS/\"><InstanceID val=\"0\"></InstanceID></Event>''),
      (CONTROL_VAR_PRESET_NAME_LIST_video, []),
      (CONTROL_VAR_AAT_CHANNEL_video, ''Master''),
      (CONTROL_VAR_AAT_INSTANCE_ID_video, ''0''),
      (CONTROL_VAR_AAT_PRESET_NAME_video, []),
      (CONTROL_VAR_BRIGHTNESS, ''0''),
      (CONTROL_VAR_CONTRAST, ''0''),
      (CONTROL_VAR_SHARPNESS, ''0''),
      (CONTROL_VAR_R_GAIN, ''0''),
      (CONTROL_VAR_G_GAIN, ''0''),
      (CONTROL_VAR_B_GAIN, ''0''),
      (CONTROL_VAR_R_BLACK, ''0''),
      (CONTROL_VAR_G_BLACK, ''0''),
      (CONTROL_VAR_B_BLACK, ''0''),
      (CONTROL_VAR_COLOR_TEMP, ''0''),
      (CONTROL_VAR_HOR_KEYSTONE, ''0''),
      (CONTROL_VAR_VER_KEYSTONE, ''0''),
      (CONTROL_VAR_MUTE_video, ''0''),
      (CONTROL_VAR_VOLUME_video, ''100''),
      (CONTROL_VAR_VOLUME_DB_video, ''0''),
      (CONTROL_VAR_LOUDNESS_video, ''0'')]"

definition arguments_list_presets_video :: "argument list" where
  "arguments_list_presets_video =
     [argument_init ''InstanceID'' PARAM_DIR_IN CONTROL_VAR_AAT_INSTANCE_ID_video,
      argument_init ''CurrentPresetNameList'' PARAM_DIR_OUT CONTROL_VAR_PRESET_NAME_LIST_video]"

definition arguments_select_preset_video :: "argument list" where
  "arguments_select_preset_video =
     [argument_init ''InstanceID'' PARAM_DIR_IN CONTROL_VAR_AAT_INSTANCE_ID_video,
      argument_init ''PresetName'' PARAM_DIR_IN CONTROL_VAR_AAT_PRESET_NAME_video]"

definition arguments_get_brightness :: "argument list" where
  "arguments_get_brightness =
     [argument_init ''InstanceID'' PARAM_DIR_IN CONTROL_VAR_AAT_INSTANCE_ID_video,
      argument_init ''CurrentBrightness'' PARAM_DIR_OUT CONTROL_VAR_BRIGHTNESS]"

definition arguments_set_brightness :: "argument list" where
  "arguments_set_brightness =
     [argument_init ''InstanceID'' PARAM_DIR_IN CONTROL_VAR_AAT_INSTANCE_ID_video,
      argument_init ''DesiredBrightness'' PARAM_DIR_IN CONTROL_VAR_BRIGHTNESS]"

definition arguments_get_contrast :: "argument list" where
  "arguments_get_contrast =
     [argument_init ''InstanceID'' PARAM_DIR_IN CONTROL_VAR_AAT_INSTANCE_ID_video,
      argument_init ''CurrentContrast'' PARAM_DIR_OUT CONTROL_VAR_CONTRAST]"

definition arguments_set_contrast :: "argument list" where
  "arguments_set_contrast =
     [argument_init ''InstanceID'' PARAM_DIR_IN CONTROL_VAR_AAT_INSTANCE_ID_video,
      argument_init ''DesiredContrast'' PARAM_DIR_IN CONTROL_VAR_CONTRAST]"

definition arguments_get_sharpness :: "argument list" where
  "arguments_get_sharpness =
     [argument_init ''InstanceID'' PARAM_DIR_IN CONTROL_VAR_AAT_INSTANCE_ID_video,
      argument_init ''CurrentSharpness'' PARAM_DIR_OUT CONTROL_VAR_SHARPNESS]"

definition arguments_set_sharpness :: "argument list" where
  "arguments_set_sharpness =
     [argument_init ''InstanceID'' PARAM_DIR_IN CONTROL_VAR_AAT_INSTANCE_ID_video,
      argument_init ''DesiredSharpness'' PARAM_DIR_IN CONTROL_VAR_SHARPNESS]"

definition arguments_get_red_gain :: "argument list" where
  "arguments_get_red_gain =
     [argument_init ''InstanceID'' PARAM_DIR_IN CONTROL_VAR_AAT_INSTANCE_ID_video,
      argument_init ''CurrentRedVideoGain'' PARAM_DIR_OUT CONTROL_VAR_R_GAIN]"

definition arguments_set_red_gain :: "argument list" where
  "arguments_set_red_gain =
     [argument_init ''InstanceID'' PARAM_DIR_IN CONTROL_VAR_AAT_INSTANCE_ID_video,
      argument_init ''DesiredRedVideoGain'' PARAM_DIR_IN CONTROL_VAR_R_GAIN]"

definition arguments_get_green_gain :: "argument list" where
  "arguments_get_green_gain =
     [argument_init ''InstanceID'' PARAM_DIR_IN CONTROL_VAR_AAT_INSTANCE_ID_video,
      argument_init ''CurrentGreenVideoGain'' PARAM_DIR_OUT CONTROL_VAR_G_GAIN]"

definition arguments_set_green_gain :: "argument list" where
  "arguments_set_green_gain =
     [argument_init ''InstanceID'' PARAM_DIR_IN CONTROL_VAR_AAT_INSTANCE_ID_video,
      argument_init ''DesiredGreenVideoGain'' PARAM_DIR_IN CONTROL_VAR_G_GAIN]"

definition arguments_get_blue_gain :: "argument list" where
  "arguments_get_blue_gain =
     [argument_init ''InstanceID'' PARAM_DIR_IN CONTROL_VAR_AAT_INSTANCE_ID_video,
      argument_init ''CurrentBlueVideoGain'' PARAM_DIR_OUT CONTROL_VAR_B_GAIN]"

definition arguments_set_blue_gain :: "argument list" where
  "arguments_set_blue_gain =
     [argument_init ''InstanceID'' PARAM_DIR_IN CONTROL_VAR_AAT_INSTANCE_ID_video,
      argument_init ''DesiredBlueVideoGain'' PARAM_DIR_IN CONTROL_VAR_B_GAIN]"

definition arguments_get_red_black :: "argument list" where
  "arguments_get_red_black =
     [argument_init ''InstanceID'' PARAM_DIR_IN CONTROL_VAR_AAT_INSTANCE_ID_video,
      argument_init ''CurrentRedVideoBlackLevel'' PARAM_DIR_OUT CONTROL_VAR_R_BLACK]"

definition arguments_set_red_black :: "argument list" where
  "arguments_set_red_black =
     [argument_init ''InstanceID'' PARAM_DIR_IN CONTROL_VAR_AAT_INSTANCE_ID_video,
      argument_init ''DesiredRedVideoBlackLevel'' PARAM_DIR_IN CONTROL_VAR_R_BLACK]"

definition arguments_get_green_black :: "argument list" where
  "arguments_get_green_black =
     [argument_init ''InstanceID'' PARAM_DIR_IN CONTROL_VAR_AAT_INSTANCE_ID_video,
      argument_init ''CurrentGreenVideoBlackLevel'' PARAM_DIR_OUT CONTROL_VAR_G_BLACK]"

definition arguments_set_green_black :: "argument list" where
  "arguments_set_green_black =
     [argument_init ''InstanceID'' PARAM_DIR_IN CONTROL_VAR_AAT_INSTANCE_ID_video,
      argument_init ''DesiredGreenVideoBlackLevel'' PARAM_DIR_IN CONTROL_VAR_G_BLACK]"

definition arguments_get_blue_black :: "argument list" where
  "arguments_get_blue_black =
     [argument_init ''InstanceID'' PARAM_DIR_IN CONTROL_VAR_AAT_INSTANCE_ID_video,
      argument_init ''CurrentBlueVideoBlackLevel'' PARAM_DIR_OUT CONTROL_VAR_B_BLACK]"

definition arguments_set_blue_black :: "argument list" where
  "arguments_set_blue_black =
     [argument_init ''InstanceID'' PARAM_DIR_IN CONTROL_VAR_AAT_INSTANCE_ID_video,
      argument_init ''DesiredBlueVideoBlackLevel'' PARAM_DIR_IN CONTROL_VAR_B_BLACK]"

definition arguments_get_color_temp :: "argument list" where
  "arguments_get_color_temp =
     [argument_init ''InstanceID'' PARAM_DIR_IN CONTROL_VAR_AAT_INSTANCE_ID_video,
      argument_init ''CurrentColorTemperature'' PARAM_DIR_OUT CONTROL_VAR_COLOR_TEMP]"

definition arguments_set_color_temp :: "argument list" where
  "arguments_set_color_temp =
     [argument_init ''InstanceID'' PARAM_DIR_IN CONTROL_VAR_AAT_INSTANCE_ID_video,
      argument_init ''DesiredColorTemperature'' PARAM_DIR_IN CONTROL_VAR_COLOR_TEMP]"

definition arguments_get_hor_keystone :: "argument list" where
  "arguments_get_hor_keystone =
     [argument_init ''InstanceID'' PARAM_DIR_IN CONTROL_VAR_AAT_INSTANCE_ID_video,
      argument_init ''CurrentHorizontalKeystone'' PARAM_DIR_OUT CONTROL_VAR_HOR_KEYSTONE]"

definition arguments_set_hor_keystone :: "argument list" where
  "arguments_set_hor_keystone =
     [argument_init ''InstanceID'' PARAM_DIR_IN CONTROL_VAR_AAT_INSTANCE_ID_video,
      argument_init ''DesiredHorizontalKeystone'' PARAM_DIR_IN CONTROL_VAR_HOR_KEYSTONE]"

definition arguments_get_vert_keystone :: "argument list" where
  "arguments_get_vert_keystone =
     [argument_init ''InstanceID'' PARAM_DIR_IN CONTROL_VAR_AAT_INSTANCE_ID_video,
      argument_init ''CurrentVerticalKeystone'' PARAM_DIR_OUT CONTROL_VAR_VER_KEYSTONE]"

definition arguments_set_vert_keystone :: "argument list" where
  "arguments_set_vert_keystone =
     [argument_init ''InstanceID'' PARAM_DIR_IN CONTROL_VAR_AAT_INSTANCE_ID_video,
      argument_init ''DesiredVerticalKeystone'' PARAM_DIR_IN CONTROL_VAR_VER_KEYSTONE]"

definition arguments_get_mute_video :: "argument list" where
  "arguments_get_mute_video =
     [argument_init ''InstanceID'' PARAM_DIR_IN CONTROL_VAR_AAT_INSTANCE_ID_video,
      argument_init ''Channel'' PARAM_DIR_IN CONTROL_VAR_AAT_CHANNEL_video,
      argument_init ''CurrentMute'' PARAM_DIR_OUT CONTROL_VAR_MUTE_video]"

definition arguments_set_mute_video :: "argument list" where
  "arguments_set_mute_video =
     [argument_init ''InstanceID'' PARAM_DIR_IN CONTROL_VAR_AAT_INSTANCE_ID_video,
      argument_init ''Channel'' PARAM_DIR_IN CONTROL_VAR_AAT_CHANNEL_video,
      argument_init ''DesiredMute'' PARAM_DIR_IN CONTROL_VAR_MUTE_video]"

definition arguments_get_vol_video :: "argument list" where
  "arguments_get_vol_video =
     [argument_init ''InstanceID'' PARAM_DIR_IN CONTROL_VAR_AAT_INSTANCE_ID_video,
      argument_init ''Channel'' PARAM_DIR_IN CONTROL_VAR_AAT_CHANNEL_video,
      argument_init ''CurrentVolume'' PARAM_DIR_OUT CONTROL_VAR_VOLUME_video]"

definition arguments_set_vol_video :: "argument list" where
  "arguments_set_vol_video =
     [argument_init ''InstanceID'' PARAM_DIR_IN CONTROL_VAR_AAT_INSTANCE_ID_video,
      argument_init ''Channel'' PARAM_DIR_IN CONTROL_VAR_AAT_CHANNEL_video,
      argument_init ''DesiredVolume'' PARAM_DIR_IN CONTROL_VAR_VOLUME_video]"

definition arguments_get_vol_db_video :: "argument list" where
  "arguments_get_vol_db_video =
     [argument_init ''InstanceID'' PARAM_DIR_IN CONTROL_VAR_AAT_INSTANCE_ID_video,
      argument_init ''Channel'' PARAM_DIR_IN CONTROL_VAR_AAT_CHANNEL_video,
      argument_init ''CurrentVolume'' PARAM_DIR_OUT CONTROL_VAR_VOLUME_DB_video]"

definition arguments_set_vol_db_video :: "argument list" where
  "arguments_set_vol_db_video =
     [argument_init ''InstanceID'' PARAM_DIR_IN CONTROL_VAR_AAT_INSTANCE_ID_video,
      argument_init ''Channel'' PARAM_DIR_IN CONTROL_VAR_AAT_CHANNEL_video,
      argument_init ''DesiredVolume'' PARAM_DIR_IN CONTROL_VAR_VOLUME_DB_video]"

definition arguments_get_vol_dbrange_video :: "argument list" where
  "arguments_get_vol_dbrange_video =
     [argument_init ''InstanceID'' PARAM_DIR_IN CONTROL_VAR_AAT_INSTANCE_ID_video,
      argument_init ''Channel'' PARAM_DIR_IN CONTROL_VAR_AAT_CHANNEL_video,
      argument_init ''MinValue'' PARAM_DIR_OUT CONTROL_VAR_VOLUME_DB_video,
      argument_init ''MaxValue'' PARAM_DIR_OUT CONTROL_VAR_VOLUME_DB_video]"

definition arguments_get_loudness_video :: "argument list" where
  "arguments_get_loudness_video =
     [argument_init ''InstanceID'' PARAM_DIR_IN CONTROL_VAR_AAT_INSTANCE_ID_video,
      argument_init ''Channel'' PARAM_DIR_IN CONTROL_VAR_AAT_CHANNEL_video,
      argument_init ''CurrentLoudness'' PARAM_DIR_OUT CONTROL_VAR_LOUDNESS_video]"

definition arguments_set_loudness_video :: "argument list" where
  "arguments_set_loudness_video =
     [argument_init ''InstanceID'' PARAM_DIR_IN CONTROL_VAR_AAT_INSTANCE_ID_video,
      argument_init ''Channel'' PARAM_DIR_IN CONTROL_VAR_AAT_CHANNEL_video,
      argument_init ''DesiredLoudness'' PARAM_DIR_IN CONTROL_VAR_LOUDNESS_video]"

definition control_argument_list_video :: "nat \<Rightarrow> argument list option" where
  "control_argument_list_video = map_of
     [(CONTROL_CMD_LIST_PRESETS_video, arguments_list_presets_video),
      (CONTROL_CMD_SELECT_PRESET_video, arguments_select_preset_video),
      (CONTROL_CMD_GET_BRIGHTNESS, arguments_get_brightness),
      (CONTROL_CMD_SET_BRIGHTNESS, arguments_set_brightness),
      (CONTROL_CMD_GET_CONTRAST, arguments_get_contrast),
      (CONTROL_CMD_SET_CONTRAST, arguments_set_contrast),
      (CONTROL_CMD_GET_SHARPNESS, arguments_get_sharpness),
      (CONTROL_CMD_SET_SHARPNESS, arguments_set_sharpness),
      (CONTROL_CMD_GET_RED_GAIN, arguments_get_red_gain),
      (CONTROL_CMD_SET_RED_GAIN, arguments_set_red_gain),
      (CONTROL_CMD_GET_GREEN_GAIN, arguments_get_green_gain),
      (CONTROL_CMD_SET_GREEN_GAIN, arguments_set_green_gain),
      (CONTROL_CMD_GET_BLUE_GAIN, arguments_get_blue_gain),
      (CONTROL_CMD_SET_BLUE_GAIN, arguments_set_blue_gain),
      (CONTROL_CMD_GET_RED_BLACK, arguments_get_red_black),
      (CONTROL_CMD_SET_RED_BLACK, arguments_set_red_black),
      (CONTROL_CMD_GET_GREEN_BLACK, arguments_get_green_black),
      (CONTROL_CMD_SET_GREEN_BLACK, arguments_set_green_black),
      (CONTROL_CMD_GET_BLUE_BLACK, arguments_get_blue_black),
      (CONTROL_CMD_SET_BLUE_BLACK, arguments_set_blue_black),
      (CONTROL_CMD_GET_COLOR_TEMP, arguments_get_color_temp),
      (CONTROL_CMD_SET_COLOR_TEMP, arguments_set_color_temp),
      (CONTROL_CMD_GET_HOR_KEYSTONE, arguments_get_hor_keystone),
      (CONTROL_CMD_SET_HOR_KEYSTONE, arguments_set_hor_keystone),
      (CONTROL_CMD_GET_VERT_KEYSTONE, arguments_get_vert_keystone),
      (CONTROL_CMD_SET_VERT_KEYSTONE, arguments_set_vert_keystone),
      (CONTROL_CMD_GET_MUTE_video, arguments_get_mute_video),
      (CONTROL_CMD_SET_MUTE_video, arguments_set_mute_video),
      (CONTROL_CMD_GET_VOL_video, arguments_get_vol_video),
      (CONTROL_CMD_SET_VOL_video, arguments_set_vol_video),
      (CONTROL_CMD_GET_VOL_DB_video, arguments_get_vol_db_video),
      (CONTROL_CMD_SET_VOL_DB_video, arguments_set_vol_db_video),
      (CONTROL_CMD_GET_VOL_DBRANGE_video, arguments_get_vol_dbrange_video),
      (CONTROL_CMD_GET_LOUDNESS_video, arguments_get_loudness_video),
      (CONTROL_CMD_SET_LOUDNESS_video, arguments_set_loudness_video)]"

section \<open>State\<close>

text \<open>The array \<open>control_values\<close> of theory Control, here indexed by the numbers of this build.\<close>

definition control_set_var_video ::
  "nat \<Rightarrow> string option \<Rightarrow> ('m, 'z) control_env_scheme \<Rightarrow> ('m, 'z) control_env_scheme result" where
  "control_set_var_video varnum new w =
     (if \<not> varnum < CONTROL_VAR_UNKNOWN_video then Inl OutOfBounds
      else case new of
        None \<Rightarrow> Inr w
      | Some v \<Rightarrow>
          if control_values w varnum = Some v then Inr w
          else Inr (w\<lparr>control_values := (control_values w)(varnum := Some v)\<rparr>))"

definition control_vars_video :: "('m, 'z) control_env_scheme service_vars" where
  "control_vars_video =
     \<lparr>service_mutex = ControlMutex,
      service_name = ''urn:schemas-upnp-org:service:RenderingControl'',
      service_type = ''urn:schemas-upnp-org:service:RenderingControl:1'',
      scpd_url = ''/upnp/rendercontrolSCPD.xml'',
      control_url = ''/upnp/control/rendercontrol1'',
      event_url = ''/upnp/event/rendercontrol1'',
      action_arguments = control_argument_list_video,
      variable_names = control_variables_video,
      variable_values = control_values,
      variable_defaults = Some control_defaults_video,
      variable_meta = control_var_meta_video,
      variable_count = CONTROL_VAR_UNKNOWN_video,
      command_count = CONTROL_CMD_UNKNOWN_video\<rparr>"

interpretation control_store_video: var_store control_set_var_video control_values CONTROL_VAR_UNKNOWN_video
  by standard (auto simp: control_set_var_video_def split: option.splits)

lemma control_set_var_video_simps [simp]:
  "n < CONTROL_VAR_UNKNOWN_video \<Longrightarrow> control_set_var_video n None w = Inr w"
  "n < CONTROL_VAR_UNKNOWN_video \<Longrightarrow> control_set_var_video n (Some v) w
     = Inr (w\<lparr>control_values := (control_values w)(n \<mapsto> v)\<rparr>)"
  by (auto simp: control_set_var_video_def fun_upd_idem)

section \<open>LastChange and the player's volume\<close>

definition rcs_value_video :: "nat \<Rightarrow> ('m, 'z) control_env_scheme \<Rightarrow> string" where
  "rcs_value_video n w =
     ''<'' @ fmt_s (control_variables_video n) @ '' Channel=\"Master\" val=\"'' @ fmt_s (control_values w n) @ ''\"/>''"

definition control_notify_lastchange_video ::
  "'w action_event \<Rightarrow> string \<Rightarrow> ('m, 'z) control_env_scheme \<Rightarrow> ('m, 'z) control_env_scheme result" where
  "control_notify_lastchange_video event v w =
     bindE (xmlescape v False) (\<lambda>escaped.
     Inr (w\<lparr>notifications := notifications w @
              [\<lparr>DevUDN_sent = DevUDN (request event), ServiceID_sent = ServiceID (request event),
                VarNames_sent = [''LastChange''], VarValues_sent = [escaped]\<rparr>],
            control_values := (control_values w)(CONTROL_VAR_LAST_CHANGE_video \<mapsto> v)\<rparr>))"

definition control_change_var_video ::
  "'w action_event \<Rightarrow> nat \<Rightarrow> string option \<Rightarrow> ('m, 'z) control_env_scheme \<Rightarrow> ('m, 'z) control_env_scheme result" where
  "control_change_var_video event varnum new_value w =
     bindE (control_set_var_video varnum new_value w) (\<lambda>w.
     control_notify_lastchange_video event (rcs_event (rcs_value_video varnum w)) w)"

definition control_update_settings_video ::
  "('m, 'z) control_env_scheme \<Rightarrow> ('m, 'z) control_env_scheme result" where
  "control_update_settings_video w =
     (let curvol = output_get_volume w in
      bindE (control_set_var_video CONTROL_VAR_VOLUME_video (Some curvol) w) (\<lambda>w.
      if curvol \<noteq> [] \<and> hd curvol = CHR ''0''
      then control_set_var_video CONTROL_VAR_MUTE_video (Some ''1'') w
      else control_set_var_video CONTROL_VAR_MUTE_video (Some ''0'') w))"

definition control_notify_subscription_video ::
  "('m, 'z) control_env_scheme \<Rightarrow> (int \<times> ('m, 'z) control_env_scheme) result" where
  "control_notify_subscription_video w =
     bindE (lock ControlMutex w) (\<lambda>w.
     bindE (control_update_settings_video w) (\<lambda>w.
     bindE (control_set_var_video CONTROL_VAR_LAST_CHANGE_video
              (Some (rcs_event (rcs_value_video CONTROL_VAR_VOLUME_video w @ rcs_value_video CONTROL_VAR_MUTE_video w))) w) (\<lambda>w.
     bindE (unlock ControlMutex w) (\<lambda>w. Inr (0, w)))))"

section \<open>Action handlers\<close>

definition list_presets_video where
  "list_presets_video L = cmd_obtain_variable L CONTROL_VAR_PRESET_NAME_LIST_video ''CurrentPresetNameList''"

definition get_brightness where
  "get_brightness L = cmd_obtain_variable L CONTROL_VAR_BRIGHTNESS ''CurrentBrightness''"

definition get_contrast where
  "get_contrast L = cmd_obtain_variable L CONTROL_VAR_CONTRAST ''CurrentContrast''"

definition get_sharpness where
  "get_sharpness L = cmd_obtain_variable L CONTROL_VAR_SHARPNESS ''CurrentSharpness''"

definition get_red_videogain where
  "get_red_videogain L = cmd_obtain_variable L CONTROL_VAR_R_GAIN ''CurrentRedVideoGain''"

definition get_green_videogain where
  "get_green_videogain L = cmd_obtain_variable L CONTROL_VAR_G_GAIN ''CurrentGreenVideoGain''"

definition get_blue_videogain where
  "get_blue_videogain L = cmd_obtain_variable L CONTROL_VAR_B_GAIN ''CurrentBlueVideoGain''"

definition get_red_videoblacklevel where
  "get_red_videoblacklevel L = cmd_obtain_variable L CONTROL_VAR_R_BLACK ''CurrentRedVideoBlackLevel''"

definition get_green_videoblacklevel where
  "get_green_videoblacklevel L = cmd_obtain_variable L CONTROL_VAR_G_BLACK ''CurrentGreenVideoBlackLevel''"

definition get_blue_videoblacklevel where
  "get_blue_videoblacklevel L = cmd_obtain_variable L CONTROL_VAR_B_BLACK ''CurrentBlueVideoBlackLevel''"

definition get_colortemperature where
  "get_colortemperature L = cmd_obtain_variable L CONTROL_VAR_COLOR_TEMP ''CurrentColorTemperature''"

definition get_horizontal_keystone where
  "get_horizontal_keystone L = cmd_obtain_variable L CONTROL_VAR_HOR_KEYSTONE ''CurrentHorizontalKeystone''"

definition get_vertical_keystone where
  "get_vertical_keystone L = cmd_obtain_variable L CONTROL_VAR_VER_KEYSTONE ''CurrentVerticalKeystone''"

definition get_mute_video where
  "get_mute_video L = cmd_obtain_variable L CONTROL_VAR_MUTE_video ''CurrentMute''"

definition set_mute_video :: "upnp_lib \<Rightarrow> 'm mpd_lib \<Rightarrow> ('m, 'z) control_env_scheme handler" where
  "set_mute_video L MD event w =
     with_instance L UPNP_CONTROL_E_INVALID_IID event w (\<lambda>event.
     bindE (upnp_get_string L event ''DesiredMute'') (\<lambda>(v, event).
     case v of
       None \<Rightarrow> Inr (- 1, event, w)
     | Some desired \<Rightarrow>
         bindE (lock ControlMutex w) (\<lambda>w.
         bindE (if desired = ''1'' then output_set_mute MD True w
                else if desired = ''0'' then
                  bindE (output_set_mute MD False w) (\<lambda>w.
                  control_change_var_video event CONTROL_VAR_VOLUME_video (Some (output_get_volume w)) w)
                else Inr w) (\<lambda>w.
         bindE (control_change_var_video event CONTROL_VAR_MUTE_video (Some desired) w) (\<lambda>w.
         bindE (unlock ControlMutex w) (\<lambda>w. Inr (0, event, w)))))))"

definition get_volume_video :: "upnp_lib \<Rightarrow> ('m, 'z) control_env_scheme handler" where
  "get_volume_video L event w =
     bindE (lock ControlMutex w) (\<lambda>w.
     bindE (control_set_var_video CONTROL_VAR_VOLUME_video (Some (output_get_volume w)) w) (\<lambda>w.
     bindE (unlock ControlMutex w) (\<lambda>w.
     cmd_obtain_variable L CONTROL_VAR_VOLUME_video ''CurrentVolume'' event w)))"

definition set_volume_video :: "upnp_lib \<Rightarrow> 'm mpd_lib \<Rightarrow> ('m, 'z) control_env_scheme handler" where
  "set_volume_video L MD event w =
     with_instance L UPNP_CONTROL_E_INVALID_IID event w (\<lambda>event.
     bindE (upnp_get_string L event ''DesiredVolume'') (\<lambda>(v, event).
     case v of
       None \<Rightarrow> Inr (- 1, event, w)
     | Some desired \<Rightarrow>
         bindE (lock ControlMutex w) (\<lambda>w.
         bindE (output_set_volume MD (Some desired) w) (\<lambda>w.
         bindE (control_change_var_video event CONTROL_VAR_VOLUME_video (Some desired) w) (\<lambda>w.
         bindE (control_change_var_video event CONTROL_VAR_MUTE_video (Some ''0'') w) (\<lambda>w.
         bindE (unlock ControlMutex w) (\<lambda>w. Inr (0, event, w))))))))"

definition get_volume_db_video where
  "get_volume_db_video L = cmd_obtain_variable L CONTROL_VAR_VOLUME_DB_video ''CurrentVolumeDB''"

definition get_loudness_video where
  "get_loudness_video L = cmd_obtain_variable L CONTROL_VAR_LOUDNESS_video ''CurrentLoudness''"

section \<open>The service\<close>

definition control_actions_video :: "upnp_lib \<Rightarrow> 'm mpd_lib \<Rightarrow> ('m, 'z) control_env_scheme action list" where
  "control_actions_video L MD = array_of (CONTROL_CMD_UNKNOWN_video + 1) no_action
     [(CONTROL_CMD_LIST_PRESETS_video, action_init ''ListPresets'' (Some (list_presets_video L))),
      (CONTROL_CMD_SELECT_PRESET_video, action_init ''SelectPreset'' None),
      (CONTROL_CMD_GET_BRIGHTNESS, action_init ''GetBrightness'' (Some (get_brightness L))),
      (CONTROL_CMD_SET_BRIGHTNESS, action_init ''SetBrightness'' None),
      (CONTROL_CMD_GET_CONTRAST, action_init ''GetContrast'' (Some (get_contrast L))),
      (CONTROL_CMD_SET_CONTRAST, action_init ''SetContrast'' None),
      (CONTROL_CMD_GET_SHARPNESS, action_init ''GetSharpness'' (Some (get_sharpness L))),
      (CONTROL_CMD_SET_SHARPNESS, action_init ''SetSharpness'' None),
      (CONTROL_CMD_GET_RED_GAIN, action_init ''GetRedVideoGain'' (Some (get_red_videogain L))),
      (CONTROL_CMD_SET_RED_GAIN, action_init ''SetRedVideoGain'' None),
      (CONTROL_CMD_GET_GREEN_GAIN, action_init ''GetGreenVideoGain'' (Some (get_green_videogain L))),
      (CONTROL_CMD_SET_GREEN_GAIN, action_init ''SetGreenVideoGain'' None),
      (CONTROL_CMD_GET_BLUE_GAIN, action_init ''GetBlueVideoGain'' (Some (get_blue_videogain L))),
      (CONTROL_CMD_SET_BLUE_GAIN, action_init ''SetBlueVideoGain'' None),
      (CONTROL_CMD_GET_RED_BLACK, action_init ''GetRedVideoBlackLevel'' (Some (get_red_videoblacklevel L))),
      (CONTROL_CMD_SET_RED_BLACK, action_init ''SetRedVideoBlackLevel'' None),
      (CONTROL_CMD_GET_GREEN_BLACK, action_init ''GetGreenVideoBlackLevel'' (Some (get_green_videoblacklevel L))),
      (CONTROL_CMD_SET_GREEN_BLACK, action_init ''SetGreenVideoBlackLevel'' None),
      (CONTROL_CMD_GET_BLUE_BLACK, action_init ''GetBlueVideoBlackLevel'' (Some (get_blue_videoblacklevel L))),
      (CONTROL_CMD_SET_BLUE_BLACK, action_init ''SetBlueVideoBlackLevel'' None),
      (CONTROL_CMD_GET_COLOR_TEMP, action_init ''GetColorTemperature'' (Some (get_colortemperature L))),
      (CONTROL_CMD_SET_COLOR_TEMP, action_init ''SetColorTemperature'' None),
      (CONTROL_CMD_GET_HOR_KEYSTONE, action_init ''GetHorizontalKeystone'' (Some (get_horizontal_keystone L))),
      (CONTROL_CMD_SET_HOR_KEYSTONE, action_init ''SetHorizontalKeystone'' None),
      (CONTROL_CMD_GET_VERT_KEYSTONE, action_init ''GetVerticalKeystone'' (Some (get_vertical_keystone L))),
      (CONTROL_CMD_SET_VERT_KEYSTONE, action_init ''SetVerticalKeystone'' None),
      (CONTROL_CMD_GET_MUTE_video, action_init ''GetMute'' (Some (get_mute_video L))),
      (CONTROL_CMD_SET_MUTE_video, action_init ''SetMute'' (Some (set_mute_video L MD))),
      (CONTROL_CMD_GET_VOL_video, action_init ''GetVolume'' (Some (get_volume_video L))),
      (CONTROL_CMD_SET_VOL_video, action_init ''SetVolume'' (Some (set_volume_video L MD))),
      (CONTROL_CMD_GET_VOL_DB_video, action_init ''GetVolumeDB'' (Some (get_volume_db_video L))),
      (CONTROL_CMD_SET_VOL_DB_video, action_init ''SetVolumeDB'' None),
      (CONTROL_CMD_GET_VOL_DBRANGE_video, action_init ''GetVolumeDBRange'' None),
      (CONTROL_CMD_GET_LOUDNESS_video, action_init ''GetLoudness'' (Some (get_loudness_video L))),
      (CONTROL_CMD_SET_LOUDNESS_video, action_init ''SetLoudness'' None),
      (CONTROL_CMD_UNKNOWN_video, no_action)]"

definition control_service_video :: "upnp_lib \<Rightarrow> 'm mpd_lib \<Rightarrow> ('m, 'z) control_env_scheme service" where
  "control_service_video L MD = service_vars.extend control_vars_video
     \<lparr>actions = control_actions_video L MD, subscription_notify = Some control_notify_subscription_video\<rparr>"

end
