(* ===== verification/Control_Video_Facts.thy ===== *)
theory Control_Video_Facts
  imports Control_Video Thread_Safety
begin

text \<open>
  What holds of the video build of RenderingControl. Its tables fit together, so that it is
  described and dispatched like the audio service; the actions both builds have are the same
  program up to the numbering of the variables, which is a refinement by renumbering; and
  the picture settings can be read but never change, whatever events the device with its
  three services handles, so that every query answers with the default.
\<close>

section \<open>Tables\<close>

text \<open>The table in the order of its indices.\<close>

lemma control_actions_video_list:
  "control_actions_video L MD =
     [action_init ''GetBlueVideoBlackLevel'' (Some (get_blue_videoblacklevel L)),
      action_init ''GetBlueVideoGain'' (Some (get_blue_videogain L)),
      action_init ''GetBrightness'' (Some (get_brightness L)),
      action_init ''GetColorTemperature'' (Some (get_colortemperature L)),
      action_init ''GetContrast'' (Some (get_contrast L)),
      action_init ''GetGreenVideoBlackLevel'' (Some (get_green_videoblacklevel L)),
      action_init ''GetGreenVideoGain'' (Some (get_green_videogain L)),
      action_init ''GetHorizontalKeystone'' (Some (get_horizontal_keystone L)),
      action_init ''GetLoudness'' (Some (get_loudness_video L)),
      action_init ''GetMute'' (Some (get_mute_video L)),
      action_init ''GetRedVideoBlackLevel'' (Some (get_red_videoblacklevel L)),
      action_init ''GetRedVideoGain'' (Some (get_red_videogain L)),
      action_init ''GetSharpness'' (Some (get_sharpness L)),
      action_init ''GetVerticalKeystone'' (Some (get_vertical_keystone L)),
      action_init ''GetVolume'' (Some (get_volume_video L)),
      action_init ''GetVolumeDB'' (Some (get_volume_db_video L)),
      action_init ''GetVolumeDBRange'' None,
      action_init ''ListPresets'' (Some (list_presets_video L)),
      action_init ''SelectPreset'' None,
      action_init ''SetBlueVideoBlackLevel'' None,
      action_init ''SetBlueVideoGain'' None,
      action_init ''SetBrightness'' None,
      action_init ''SetColorTemperature'' None,
      action_init ''SetContrast'' None,
      action_init ''SetGreenVideoBlackLevel'' None,
      action_init ''SetGreenVideoGain'' None,
      action_init ''SetHorizontalKeystone'' None,
      action_init ''SetLoudness'' None,
      action_init ''SetMute'' (Some (set_mute_video L MD)),
      action_init ''SetRedVideoBlackLevel'' None,
      action_init ''SetRedVideoGain'' None,
      action_init ''SetSharpness'' None,
      action_init ''SetVerticalKeystone'' None,
      action_init ''SetVolume'' (Some (set_volume_video L MD)),
      action_init ''SetVolumeDB'' None,
      no_action]"
  by (simp add: control_actions_video_def array_of_def upt_rec)

lemma control_video_table: "action_table_ok (control_actions_video L MD)"
  by (simp add: action_table_ok_def control_actions_video_list)

lemma control_video_service [simp]:
  "actions (control_service_video L MD) = control_actions_video L MD"
  "command_count (control_service_video L MD) = CONTROL_CMD_UNKNOWN_video"
  "variable_count (control_service_video L MD) = CONTROL_VAR_UNKNOWN_video"
  "variable_names (control_service_video L MD) = control_variables_video"
  "variable_meta (control_service_video L MD) = control_var_meta_video"
  "action_arguments (control_service_video L MD) = control_argument_list_video"
  "subscription_notify (control_service_video L MD) = Some control_notify_subscription_video"
  "service_vars.truncate (control_service_video L MD) = control_vars_video"
  "service_name (control_service_video L MD) = ''urn:schemas-upnp-org:service:RenderingControl''"
  by (simp_all add: control_service_video_def control_vars_video_def service_vars.extend_def
      service_vars.truncate_def)

lemmas video_arguments =
  arguments_list_presets_video_def arguments_select_preset_video_def
  arguments_get_brightness_def arguments_set_brightness_def arguments_get_contrast_def
  arguments_set_contrast_def arguments_get_sharpness_def arguments_set_sharpness_def
  arguments_get_red_gain_def arguments_set_red_gain_def arguments_get_green_gain_def
  arguments_set_green_gain_def arguments_get_blue_gain_def arguments_set_blue_gain_def
  arguments_get_red_black_def arguments_set_red_black_def arguments_get_green_black_def
  arguments_set_green_black_def arguments_get_blue_black_def arguments_set_blue_black_def
  arguments_get_color_temp_def arguments_set_color_temp_def arguments_get_hor_keystone_def
  arguments_set_hor_keystone_def arguments_get_vert_keystone_def arguments_set_vert_keystone_def
  arguments_get_mute_video_def arguments_set_mute_video_def arguments_get_vol_video_def
  arguments_set_vol_video_def arguments_get_vol_db_video_def arguments_set_vol_db_video_def
  arguments_get_vol_dbrange_video_def arguments_get_loudness_video_def arguments_set_loudness_video_def

lemma control_video_tables_ok: "service_tables_ok (control_service_video L MD)"
proof -
  have "\<forall>i\<in>set [0..<CONTROL_VAR_UNKNOWN_video]. control_variables_video i \<noteq> None
      \<and> (case control_var_meta_video i of None \<Rightarrow> False | Some m \<Rightarrow> datatype_of m \<noteq> DATATYPE_UNKNOWN)"
    by (simp add: upt_rec control_variables_video_def control_var_meta_video_def)
  moreover have "\<forall>i\<in>set [0..<CONTROL_CMD_UNKNOWN_video]. case control_argument_list_video i of
      None \<Rightarrow> True | Some as \<Rightarrow> \<forall>a\<in>set as. statevar a < CONTROL_VAR_UNKNOWN_video"
    by (simp add: upt_rec control_argument_list_video_def video_arguments)
  moreover have "length (control_actions_video L MD) = Suc CONTROL_CMD_UNKNOWN_video"
    by (simp add: control_actions_video_def)
  ultimately show ?thesis
    unfolding service_tables_ok_def control_video_service using control_video_table [of L MD] by simp
qed

section \<open>Renumbering\<close>

text \<open>
  The number a variable of the audio build has in the video build, and the state of the video
  build as the audio build sees it.
\<close>

definition video_var :: "nat \<Rightarrow> nat" where
  "video_var n =
     [CONTROL_VAR_VOLUME_video, CONTROL_VAR_LOUDNESS_video, CONTROL_VAR_AAT_INSTANCE_ID_video,
      CONTROL_VAR_AAT_PRESET_NAME_video, CONTROL_VAR_MUTE_video, CONTROL_VAR_LAST_CHANGE_video,
      CONTROL_VAR_AAT_CHANNEL_video, CONTROL_VAR_VOLUME_DB_video, CONTROL_VAR_PRESET_NAME_LIST_video] ! n"

definition audio_view :: "('m, 'z) control_env_scheme \<Rightarrow> ('m, 'z) control_env_scheme" where
  "audio_view v = v\<lparr>control_values :=
     (\<lambda>n. if n < CONTROL_VAR_UNKNOWN then control_values v (video_var n) else None)\<rparr>"

lemma audio_var_cases:
  "n < CONTROL_VAR_UNKNOWN \<Longrightarrow> n \<in> {0, 1, 2, 3, 4, 5, 6, 7, 8}"
  by auto

lemma video_var_range: "n < CONTROL_VAR_UNKNOWN \<Longrightarrow> video_var n < CONTROL_VAR_UNKNOWN_video"
  by (drule audio_var_cases) (auto simp: video_var_def)

lemma video_var_inject:
  "n < CONTROL_VAR_UNKNOWN \<Longrightarrow> m < CONTROL_VAR_UNKNOWN \<Longrightarrow> video_var n = video_var m \<longleftrightarrow> n = m"
  by (drule audio_var_cases, drule audio_var_cases) (auto simp: video_var_def)

lemma video_tables_agree:
  assumes "n < CONTROL_VAR_UNKNOWN"
  shows "control_variables_video (video_var n) = control_variables n"
    and "control_defaults_video (video_var n) = control_defaults n"
    and "control_var_meta_video (video_var n) = control_var_meta n"
proof -
  have n: "n \<in> {0, 1, 2, 3, 4, 5, 6, 7, 8}" by (rule audio_var_cases [OF assms])
  then show "control_variables_video (video_var n) = control_variables n"
    by (elim insertE emptyE; simp add: video_var_def control_variables_def control_variables_video_def)
  from n show "control_defaults_video (video_var n) = control_defaults n"
    by (elim insertE emptyE; simp add: video_var_def control_defaults_def control_defaults_video_def)
  from n show "control_var_meta_video (video_var n) = control_var_meta n"
    by (elim insertE emptyE; simp add: video_var_def control_var_meta_def control_var_meta_video_def)
qed

lemma audio_view_values [simp]:
  "n < CONTROL_VAR_UNKNOWN \<Longrightarrow> control_values (audio_view v) n = control_values v (video_var n)"
  by (simp add: audio_view_def)

lemma audio_view_update:
  assumes "n < CONTROL_VAR_UNKNOWN"
  shows "audio_view (v\<lparr>control_values := (control_values v)(video_var n \<mapsto> x)\<rparr>)
    = (audio_view v)\<lparr>control_values := (control_values (audio_view v))(n \<mapsto> x)\<rparr>"
  using assms by (auto simp: audio_view_def fun_eq_iff video_var_inject)

lemma audio_view_frame [simp]:
  "held (audio_view v) = held v" "lock_order (audio_view v) = lock_order v"
  "notifications (audio_view v) = notifications v" "subscriptions (audio_view v) = subscriptions v"
  "mpd (audio_view v) = mpd v" "mpd_conn (audio_view v) = mpd_conn v"
  "mpdvolume (audio_view v) = mpdvolume v" "mutevolume (audio_view v) = mutevolume v"
  "test_mode (audio_view v) = test_mode v"
  "output_get_volume (audio_view v) = output_get_volume v"
  by (simp_all add: audio_view_def output_get_volume_def)

lemma audio_view_commutes:
  "(audio_view v)\<lparr>held := h\<rparr> = audio_view (v\<lparr>held := h\<rparr>)"
  "(audio_view v)\<lparr>lock_order := ord\<rparr> = audio_view (v\<lparr>lock_order := ord\<rparr>)"
  "(audio_view v)\<lparr>notifications := ns\<rparr> = audio_view (v\<lparr>notifications := ns\<rparr>)"
  "(audio_view v)\<lparr>subscriptions := ns\<rparr> = audio_view (v\<lparr>subscriptions := ns\<rparr>)"
  "(audio_view v)\<lparr>mpd := m\<rparr> = audio_view (v\<lparr>mpd := m\<rparr>)"
  "(audio_view v)\<lparr>mpd_conn := c\<rparr> = audio_view (v\<lparr>mpd_conn := c\<rparr>)"
  "(audio_view v)\<lparr>mpdvolume := i\<rparr> = audio_view (v\<lparr>mpdvolume := i\<rparr>)"
  "(audio_view v)\<lparr>mutevolume := i\<rparr> = audio_view (v\<lparr>mutevolume := i\<rparr>)"
  by (simp_all add: audio_view_def cong: if_cong)

section \<open>Runs that agree\<close>

text \<open>
  Two runs agree when they fault alike or end in related results; the rules follow the
  syntax of the definitions.
\<close>

definition alike :: "('a \<Rightarrow> 'b \<Rightarrow> bool) \<Rightarrow> 'a result \<Rightarrow> 'b result \<Rightarrow> bool" where
  "alike = rel_sum (=)"

definition views :: "('m, 'z) control_env_scheme \<Rightarrow> ('m, 'z) control_env_scheme \<Rightarrow> bool" where
  "views a v \<longleftrightarrow> a = audio_view v"

definition same_request ::
  "('m, 'z) control_env_scheme action_event \<Rightarrow> ('m, 'z) control_env_scheme action_event \<Rightarrow> bool" where
  "same_request e f \<longleftrightarrow> request e = request f \<and> event_status e = event_status f
     \<and> event_service e = control_vars \<and> event_service f = control_vars_video"

definition same_reply where
  "same_reply = rel_prod (=) (rel_prod same_request views)"

named_theorems alike_rules

lemma alike_Inr [alike_rules]:
  "views a v \<Longrightarrow> alike views (Inr a) (Inr v)"
  "r = s \<Longrightarrow> views a v \<Longrightarrow> alike (rel_prod (=) views) (Inr (r, a)) (Inr (s, v))"
  "r = s \<Longrightarrow> same_request e f \<Longrightarrow> alike (rel_prod (=) same_request) (Inr (r, e)) (Inr (s, f))"
  "r = s \<Longrightarrow> same_request e f \<Longrightarrow> views a v \<Longrightarrow> alike same_reply (Inr (r, e, a)) (Inr (s, f, v))"
  by (simp_all add: alike_def same_reply_def)

lemma alike_Inl [alike_rules]: "alike R (Inl f) (Inl f)"
  by (simp add: alike_def)

lemma alike_split [alike_rules]:
  "c = d \<Longrightarrow> alike R x y \<Longrightarrow> alike R x' y' \<Longrightarrow> alike R (if c then x else x') (if d then y else y')"
  "p = q \<Longrightarrow> alike R x y \<Longrightarrow> (\<And>u. alike R (g u) (h u)) \<Longrightarrow>
     alike R (case p of None \<Rightarrow> x | Some u \<Rightarrow> g u) (case q of None \<Rightarrow> y | Some u \<Rightarrow> h u)"
  by (auto split: option.split)

lemma alike_bind:
  assumes "alike R x y" and "\<And>a b. R a b \<Longrightarrow> alike Q (k a) (l b)"
  shows "alike Q (bindE x k) (bindE y l)"
  using assms by (cases x; cases y) (auto simp: alike_def)

lemma alike_binds [alike_rules]:
  "alike views x y \<Longrightarrow> (\<And>a v. views a v \<Longrightarrow> alike Q (k a) (l v)) \<Longrightarrow> alike Q (bindE x k) (bindE y l)"
  "alike (rel_prod (=) views) m n \<Longrightarrow> (\<And>r a v. views a v \<Longrightarrow> alike Q (p r a) (q r v)) \<Longrightarrow>
     alike Q (bindE m (\<lambda>(r, a). p r a)) (bindE n (\<lambda>(r, v). q r v))"
  "alike (rel_prod (=) same_request) u w \<Longrightarrow> (\<And>r e f. same_request e f \<Longrightarrow> alike Q (g r e) (h r f)) \<Longrightarrow>
     alike Q (bindE u (\<lambda>(r, e). g r e)) (bindE w (\<lambda>(r, f). h r f))"
  by (erule alike_bind, auto)+

lemma alike_views: "alike views x y \<longleftrightarrow> x = map_sum id audio_view y"
  by (cases x; cases y) (auto simp: alike_def views_def)

lemma alike_bind_same [alike_rules]:
  "(\<And>r. alike Q (k r) (l r)) \<Longrightarrow> alike Q (bindE m k) (bindE m l)"
  by (cases m) (auto simp: alike_def)

lemma alike_locks [alike_rules]:
  "views a v \<Longrightarrow> alike views (lock m a) (lock m v)"
  "views a v \<Longrightarrow> alike views (unlock m a) (unlock m v)"
  by (auto simp: alike_def views_def lock_def unlock_def audio_view_commutes)

lemma alike_output [alike_rules]:
  "views a v \<Longrightarrow> alike views (output_set_volume MD d a) (output_set_volume MD d v)"
  "views a v \<Longrightarrow> alike views (output_set_mute MD b a) (output_set_mute MD b v)"
  by (auto simp: alike_def views_def output_set_volume_def output_set_mute_def lock_def unlock_def
      on_conn_def command_failed_def output_printError_def audio_view_commutes Let_def
      split: option.split prod.split)

section \<open>The same operations\<close>

lemma alike_set_var [alike_rules]:
  assumes "views a v" and "m = video_var n" and "n < CONTROL_VAR_UNKNOWN" and "d = e"
  shows "alike views (control_set_var n d a) (control_set_var_video m e v)"
  using assms video_var_range [of n] audio_view_update [of n v]
  by (cases e) (auto simp: alike_def views_def)

lemma rcs_value_alike:
  "views a v \<Longrightarrow> n < CONTROL_VAR_UNKNOWN \<Longrightarrow> rcs_value n a = rcs_value_video (video_var n) v"
  by (simp add: views_def rcs_value_def rcs_value_video_def video_tables_agree)

lemma alike_notify [alike_rules]:
  assumes "same_request e f" and "views a v" and "s = t"
  shows "alike views (control_notify_lastchange e s a) (control_notify_lastchange_video f t v)"
proof -
  let ?n = "\<lambda>r. [\<lparr>DevUDN_sent = DevUDN (request f), ServiceID_sent = ServiceID (request f),
     VarNames_sent = [''LastChange''], VarValues_sent = [r]\<rparr>]"
  have last: "CONTROL_VAR_LAST_CHANGE_video = video_var CONTROL_VAR_LAST_CHANGE"
    by (simp add: video_var_def)
  have frame: "control_values (audio_view (v\<lparr>notifications := ns\<rparr>)) = control_values (audio_view v)" for ns
    by (simp add: audio_view_def cong: if_cong)
  have upd: "a\<lparr>notifications := notifications a @ ?n r, control_values := (control_values a)(CONTROL_VAR_LAST_CHANGE \<mapsto> t)\<rparr>
      = audio_view (v\<lparr>notifications := notifications v @ ?n r,
          control_values := (control_values v)(CONTROL_VAR_LAST_CHANGE_video \<mapsto> t)\<rparr>)" for r
    using assms(2) audio_view_update [of CONTROL_VAR_LAST_CHANGE "v\<lparr>notifications := notifications v @ ?n r\<rparr>" t]
    by (simp add: last views_def audio_view_commutes frame)
  show ?thesis
    using assms(1,3) unfolding control_notify_lastchange_def control_notify_lastchange_video_def
    by (auto intro!: alike_rules simp: same_request_def views_def upd)
qed

lemma alike_change_var [alike_rules]:
  assumes "same_request e f" and "views a v" and "m = video_var n" and "n < CONTROL_VAR_UNKNOWN" and "x = y"
  shows "alike views (control_change_var e n x a) (control_change_var_video f m y v)"
  unfolding control_change_var_def control_change_var_video_def assms(3)
  by (rule alike_rules rcs_value_alike refl assms | (simp add: rcs_value_alike assms; fail))+

lemma alike_update_settings [alike_rules]:
  "views a v \<Longrightarrow> alike views (control_update_settings a) (control_update_settings_video v)"
  unfolding control_update_settings_def control_update_settings_video_def Let_def
  by (assumption | rule alike_rules refl | (simp add: views_def video_var_def; fail))+

lemma alike_notify_subscription:
  "views a v \<Longrightarrow>
     alike (rel_prod (=) views) (control_notify_subscription a) (control_notify_subscription_video v)"
  unfolding control_notify_subscription_def control_notify_subscription_video_def
  by (assumption | rule alike_rules refl
      | (simp add: rcs_value_alike [of _ _ CONTROL_VAR_VOLUME, simplified] video_var_def; fail)
      | (simp add: rcs_value_alike; simp add: video_var_def; fail))+

lemma alike_get_string [alike_rules]:
  assumes "same_request e f"
  shows "alike (rel_prod (=) same_request) (upnp_get_string L e key) (upnp_get_string L f key)"
  using assms
  by (auto simp: alike_def same_request_def upnp_get_string_def upnp_set_error_def deref_def bindE_def
      split: option.split list.split)

lemma same_request_error [alike_rules]:
  "same_request e f \<Longrightarrow> same_request (upnp_set_error L e c m) (upnp_set_error L f c m)"
  by (auto simp: same_request_def upnp_set_error_def)

lemma alike_obtain_instanceid [alike_rules]:
  "same_request e f \<Longrightarrow> alike (rel_prod (=) same_request) (upnp_obtain_instanceid L e) (upnp_obtain_instanceid L f)"
  unfolding upnp_obtain_instanceid_def by (assumption | rule alike_rules refl)+

lemma alike_with_instance:
  "same_request e f \<Longrightarrow> views a v \<Longrightarrow> (\<And>e f. same_request e f \<Longrightarrow> alike same_reply (k e) (l f)) \<Longrightarrow>
     alike same_reply (with_instance L c e a k) (with_instance L c f v l)"
  unfolding with_instance_def by (assumption | rule alike_rules refl | blast)+

lemma alike_add_response [alike_rules]:
  "same_request e f \<Longrightarrow> x = y \<Longrightarrow>
     alike (rel_prod (=) same_request) (upnp_add_response L e key x) (upnp_add_response L f key y)"
  by (auto simp: alike_def same_request_def upnp_add_response_def control_vars_def control_vars_video_def
      split: prod.split)

lemma get_service_var_alike:
  "views a v \<Longrightarrow> n < CONTROL_VAR_UNKNOWN \<Longrightarrow>
     get_service_var control_vars n a = get_service_var control_vars_video (video_var n) v"
  by (auto simp: views_def get_service_var_def control_vars_def control_vars_video_def video_tables_agree
      split: option.split)

lemma control_vars_fields [simp]:
  "service_mutex control_vars_video = ControlMutex" "variable_count control_vars_video = CONTROL_VAR_UNKNOWN_video"
  "variable_names control_vars = control_variables" "variable_names control_vars_video = control_variables_video"
  "variable_meta control_vars = control_var_meta" "variable_meta control_vars_video = control_var_meta_video"
  by (simp_all add: control_vars_def control_vars_video_def)

lemma same_request_service:
  "same_request e f \<Longrightarrow> event_service e = control_vars"
  "same_request e f \<Longrightarrow> event_service f = control_vars_video"
  by (simp_all add: same_request_def)

lemma alike_append_variable:
  assumes e: "same_request e f" and v: "views a v" and n: "m = video_var n" "n < CONTROL_VAR_UNKNOWN"
  shows "alike same_reply (upnp_append_variable L e n key a) (upnp_append_variable L f m key v)"
  using n video_var_range [of n] unfolding upnp_append_variable_def
  by (simp add: same_request_service [OF e])
    (assumption | rule alike_rules refl e v
      | (simp add: get_service_var_alike; fail) | (simp add: same_request_service alike_locks; fail))+

lemma alike_obtain_variable:
  "same_request e f \<Longrightarrow> views a v \<Longrightarrow> m = video_var n \<Longrightarrow> n < CONTROL_VAR_UNKNOWN \<Longrightarrow>
     alike same_reply (cmd_obtain_variable L n key e a) (cmd_obtain_variable L m key f v)"
  unfolding cmd_obtain_variable_def by (auto intro: alike_with_instance alike_append_variable)

lemma alike_handlers:
  assumes e: "same_request e f" and v: "views a v"
  shows "alike same_reply (list_presets L e a) (list_presets_video L f v)"
    and "alike same_reply (get_mute L e a) (get_mute_video L f v)"
    and "alike same_reply (get_volume_db L e a) (get_volume_db_video L f v)"
    and "alike same_reply (get_loudness L e a) (get_loudness_video L f v)"
    and "alike same_reply (get_volume L e a) (get_volume_video L f v)"
    and "alike same_reply (set_mute L MD e a) (set_mute_video L MD f v)"
    and "alike same_reply (set_volume L MD e a) (set_volume_video L MD f v)"
proof -
  show "alike same_reply (list_presets L e a) (list_presets_video L f v)"
    "alike same_reply (get_mute L e a) (get_mute_video L f v)"
    "alike same_reply (get_volume_db L e a) (get_volume_db_video L f v)"
    "alike same_reply (get_loudness L e a) (get_loudness_video L f v)"
    unfolding list_presets_def get_mute_def get_volume_db_def get_loudness_def
      list_presets_video_def get_mute_video_def get_volume_db_video_def get_loudness_video_def
    using assms by (auto intro!: alike_obtain_variable simp: video_var_def)
  note rules = alike_rules alike_with_instance alike_obtain_variable refl
  show "alike same_reply (get_volume L e a) (get_volume_video L f v)"
    unfolding get_volume_def get_volume_video_def
    by (assumption | rule rules e v | (simp add: views_def video_var_def; fail))+
  show "alike same_reply (set_mute L MD e a) (set_mute_video L MD f v)"
    unfolding set_mute_def set_mute_video_def
    by (assumption | rule rules e v | (simp add: views_def video_var_def; fail))+
  show "alike same_reply (set_volume L MD e a) (set_volume_video L MD f v)"
    unfolding set_volume_def set_volume_video_def
    by (assumption | rule rules e v | (simp add: views_def video_var_def; fail))+
qed

section \<open>Dispatching\<close>

definition callbacks_alike ::
  "('m, 'z) control_env_scheme action \<Rightarrow> ('m, 'z) control_env_scheme action \<Rightarrow> bool" where
  "callbacks_alike p q \<longleftrightarrow>
     rel_option (rel_fun same_request (rel_fun views (alike same_reply))) (callback p) (callback q)"

lemma callbacks_alike_init:
  "callbacks_alike (action_init s None) (action_init t None)"
  "(\<And>e f a v. same_request e f \<Longrightarrow> views a v \<Longrightarrow> alike same_reply (g e a) (h f v)) \<Longrightarrow>
     callbacks_alike (action_init s (Some g)) (action_init t (Some h))"
  by (auto simp: callbacks_alike_def rel_fun_def)

lemma control_actions_set:
  "set (control_actions L MD) =
     {action_init ''GetLoudness'' (Some (get_loudness L)), action_init ''GetMute'' (Some (get_mute L)),
      action_init ''GetVolume'' (Some (get_volume L)), action_init ''GetVolumeDB'' (Some (get_volume_db L)),
      action_init ''GetVolumeDBRange'' None, action_init ''ListPresets'' (Some (list_presets L)),
      action_init ''SelectPreset'' None, action_init ''SetLoudness'' None,
      action_init ''SetMute'' (Some (set_mute L MD)), action_init ''SetVolume'' (Some (set_volume L MD)),
      action_init ''SetVolumeDB'' None, no_action}"
  by (simp add: control_actions_def array_of_def upt_rec)

lemma video_names:
  "action_init ''ListPresets'' (Some (list_presets_video L)) \<in> set (control_actions_video L MD)"
  "action_init ''SelectPreset'' None \<in> set (control_actions_video L MD)"
  "action_init ''GetMute'' (Some (get_mute_video L)) \<in> set (control_actions_video L MD)"
  "action_init ''SetMute'' (Some (set_mute_video L MD)) \<in> set (control_actions_video L MD)"
  "action_init ''GetVolume'' (Some (get_volume_video L)) \<in> set (control_actions_video L MD)"
  "action_init ''SetVolume'' (Some (set_volume_video L MD)) \<in> set (control_actions_video L MD)"
  "action_init ''GetVolumeDB'' (Some (get_volume_db_video L)) \<in> set (control_actions_video L MD)"
  "action_init ''SetVolumeDB'' None \<in> set (control_actions_video L MD)"
  "action_init ''GetVolumeDBRange'' None \<in> set (control_actions_video L MD)"
  "action_init ''GetLoudness'' (Some (get_loudness_video L)) \<in> set (control_actions_video L MD)"
  "action_init ''SetLoudness'' None \<in> set (control_actions_video L MD)"
  unfolding control_actions_video_list by simp_all

lemma alike_actionI:
  "action_init n (Some h) \<in> A \<Longrightarrow>
     (\<And>e f a v. same_request e f \<Longrightarrow> views a v \<Longrightarrow> alike same_reply (g e a) (h f v)) \<Longrightarrow>
     \<exists>b\<in>A. action_name b = Some n \<and> callbacks_alike (action_init n (Some g)) b"
  "action_init n None \<in> A \<Longrightarrow> \<exists>b\<in>A. action_name b = Some n \<and> callbacks_alike (action_init n None) b"
  by (rule bexI, rule conjI [OF _ callbacks_alike_init(2)], auto)
    (rule bexI, rule conjI [OF _ callbacks_alike_init(1)], auto)

lemma alike_actions:
  assumes "a \<in> set (control_actions L MD)" and "action_name a = Some n"
  shows "\<exists>b\<in>set (control_actions_video L MD). action_name b = Some n \<and> callbacks_alike a b"
  using assms unfolding control_actions_set
  by (elim insertE emptyE; hypsubst; simp only: action.select_convs option.simps; hypsubst)
    ((rule alike_actionI(1), rule video_names, erule alike_handlers, assumption)
      | (rule alike_actionI(2), rule video_names))+

lemma alike_find_action:
  assumes "find_action (Some (control_service L MD)) n = Inr (Some a)"
  shows "\<exists>b. find_action (Some (control_service_video L MD)) n = Inr (Some b) \<and> callbacks_alike a b"
proof -
  have "a \<in> set (control_actions L MD)" "action_name a = Some n"
    using assms by (auto simp: find_action_def dest: find_action_loop_SomeD)
  with alike_actions obtain b where b: "b \<in> set (control_actions_video L MD)" "action_name b = Some n"
      and c: "callbacks_alike a b" by blast
  show ?thesis
    using find_action_loop_member [OF control_video_table b] c by (simp add: find_action_def)
qed

lemma control_audio_service [simp]:
  "variable_count (control_service L MD) = CONTROL_VAR_UNKNOWN"
  "variable_names (control_service L MD) = control_variables"
  "subscription_notify (control_service L MD) = Some control_notify_subscription"
  by (simp_all add: control_service_def control_vars_def service_vars.extend_def)

lemma evented_variables:
  "filterE (is_evented control_vars) [0..<CONTROL_VAR_UNKNOWN] = Inr [CONTROL_VAR_LAST_CHANGE]"
  "filterE (is_evented control_vars_video) [0..<CONTROL_VAR_UNKNOWN_video] = Inr [CONTROL_VAR_LAST_CHANGE_video]"
  by (simp_all add: is_evented_def upt_rec control_var_meta_def control_var_meta_video_def)

definition same_outcome where
  "same_outcome = rel_prod (=) (rel_prod (=) views)"

lemma alike_action_request:
  fixes v :: "('m, 'z) control_env_scheme" and a :: "('m, 'z) control_env_scheme action"
  assumes d: "find_service d (ServiceID ar) = Some (control_service L MD)"
      "find_service d' (ServiceID ar) = Some (control_service_video L MD)"
    and n: "find_action (Some (control_service L MD)) (ActionName ar) = Inr (Some a)"
  shows "alike same_outcome (handle_action_request L d ar (audio_view v)) (handle_action_request L d' ar v)"
proof -
  obtain b where b: "find_action (Some (control_service_video L MD)) (ActionName ar) = Inr (Some b)"
      "callbacks_alike a b"
    using alike_find_action [OF n] by blast
  have v: "views (audio_view v) v" by (simp add: views_def)
  show ?thesis
  proof (cases "callback a")
    case None
    with b(2) have "callback b = None" by (simp add: callbacks_alike_def)
    with None show ?thesis
      by (simp add: handle_action_request_def Let_def d n b(1) alike_def same_outcome_def v)
  next
    case (Some g)
    with b(2) obtain h where h: "callback b = Some h" "rel_fun same_request (rel_fun views (alike same_reply)) g h"
      by (auto simp: callbacks_alike_def option_rel_Some1)
    let ?e = "\<lambda>s. \<lparr>request = ar, event_status = 0, event_service = s\<rparr>"
    have "alike same_reply (g (?e control_vars) (audio_view v)) (h (?e control_vars_video) v)"
      using h(2) v by (auto simp: rel_fun_def same_request_def)
    then show ?thesis
      unfolding handle_action_request_def Let_def d n b(1) bindE_simps option.case Some h(1) deref_simps
        service_truncate control_video_service
      by (rule alike_bind)
        (auto simp: same_reply_def same_request_def alike_def same_outcome_def Let_def split: prod.split)
  qed
qed

lemma alike_subscription_request:
  fixes v :: "('m, 'z) control_env_scheme"
  assumes d: "find_service d (sr_ServiceId sr) = Some (control_service L MD)"
      "find_service d' (sr_ServiceId sr) = Some (control_service_video L MD)"
  shows "alike (rel_prod (=) views)
    (handle_subscription_request L d sr (audio_view v)) (handle_subscription_request L d' sr v)"
proof -
  have v: "views (audio_view v) v" by (simp add: views_def)
  have last: "video_var CONTROL_VAR_LAST_CHANGE = CONTROL_VAR_LAST_CHANGE_video"
    by (simp add: video_var_def)
  have name: "control_variables_video CONTROL_VAR_LAST_CHANGE_video = control_variables CONTROL_VAR_LAST_CHANGE"
    using video_tables_agree(1) [of CONTROL_VAR_LAST_CHANGE] by (simp add: last)
  have announced: "alike Q (bindE (bindE (bindE (deref (get_service_var control_vars CONTROL_VAR_LAST_CHANGE a)) f) g) k)
      (bindE (bindE (bindE (deref (get_service_var control_vars_video CONTROL_VAR_LAST_CHANGE_video u)) f) g) l)"
    if "views a u" "\<And>r. alike Q (k r) (l r)"
    for a u :: "('m, 'z) control_env_scheme" and Q and f :: "string \<Rightarrow> string result" and g and k :: "'c \<Rightarrow> 'd result" and l :: "'c \<Rightarrow> 'e result"
    using get_service_var_alike [OF that(1), of CONTROL_VAR_LAST_CHANGE] alike_bind_same [OF that(2)] by (simp add: last)
  have sub: "views (a\<lparr>subscriptions := subscriptions a @ ns\<rparr>) (u\<lparr>subscriptions := subscriptions u @ ns\<rparr>)"
    if "views a u" for a u :: "('m, 'z) control_env_scheme" and ns
    using that by (simp add: views_def audio_view_commutes)
  show ?thesis
    unfolding handle_subscription_request_def d option.case service_truncate control_video_service Let_def
    by (simp add: evented_variables name)
      (assumption | rule alike_rules alike_notify_subscription announced v sub refl)+
qed

lemma found_action:
  assumes "find_action (Some (control_service L MD :: ('m, 'z) control_env_scheme service)) n \<noteq> Inr None"
  obtains a :: "('m, 'z) control_env_scheme action" where "find_action (Some (control_service L MD)) n = Inr (Some a)"
  using assms by (auto simp: find_action_def find_action_loop_ok [OF control_table])

text \<open>
  C10. Compiling the video tables in changes nothing for a client of the audio actions: for
  every subscription, and every action request the audio build implements, the two builds of
  RenderingControl send the player the same commands, own the same mutexes, notify the same
  events, answer the same reply or fault alike, and leave corresponding variables, although
  each variable has another number. What the audio build sees of the video build's array is
  the array it would have had itself.
\<close>

theorem video_build_agrees:
  fixes v :: "('m, 'z) control_env_scheme"
  assumes d: "find_service d sid = Some (control_service L MD)"
      "find_service d' sid = Some (control_service_video L MD)"
    and ev: "case ev of
        UPNP_CONTROL_ACTION_REQUEST ar \<Rightarrow> ServiceID ar = sid \<and>
          find_action (Some (control_service L MD :: ('m, 'z) control_env_scheme service)) (ActionName ar) \<noteq> Inr None
      | UPNP_EVENT_SUBSCRIPTION_REQUEST sr \<Rightarrow> sr_ServiceId sr = sid
      | _ \<Rightarrow> True"
  shows "event_handler L d ev (audio_view v)
    = map_sum id (\<lambda>(rc, ev', v'). (rc, ev', audio_view v')) (event_handler L d' ev v)"
proof (cases ev)
  case (UPNP_CONTROL_ACTION_REQUEST ar)
  with ev d have s: "find_service d (ServiceID ar) = Some (control_service L MD)"
      "find_service d' (ServiceID ar) = Some (control_service_video L MD)"
    by simp_all
  have "find_action (Some (control_service L MD :: ('m, 'z) control_env_scheme service)) (ActionName ar) \<noteq> Inr None"
    using ev UPNP_CONTROL_ACTION_REQUEST by simp
  then obtain a where "find_action (Some (control_service L MD :: ('m, 'z) control_env_scheme service)) (ActionName ar)
      = Inr (Some a)"
    by (rule found_action)
  then show ?thesis
    using alike_action_request [OF s, of a v] UPNP_CONTROL_ACTION_REQUEST
    by (auto simp: event_handler_def alike_def same_outcome_def views_def bindE_def rel_sum.simps)
next
  case (UPNP_EVENT_SUBSCRIPTION_REQUEST sr)
  with ev d have "find_service d (sr_ServiceId sr) = Some (control_service L MD)"
      "find_service d' (sr_ServiceId sr) = Some (control_service_video L MD)"
    by simp_all
  from alike_subscription_request [OF this, of v] show ?thesis
    by (auto simp: UPNP_EVENT_SUBSCRIPTION_REQUEST event_handler_def alike_def views_def bindE_def rel_sum.simps)
qed (simp_all add: event_handler_def)

text \<open>The services of the device in the video build: the list of upnp_renderer.c names the same three.\<close>

definition upnp_services_video :: "upnp_lib \<Rightarrow> 'm mpd_lib \<Rightarrow> ('m, 'z) control_env_scheme service list" where
  "upnp_services_video L MD = [transport_service L MD, connmgr_service L, control_service_video L MD]"

definition sample_video_device :: "(mpd_command_call list, unit) control_env_scheme device" where
  "sample_video_device = (render_device sample_lib sample_mpd (\<lambda>_. True))
     \<lparr>services := upnp_services_video sample_lib sample_mpd\<rparr>"

lemma find_service_video:
  assumes "services d = upnp_services_video L MD"
  shows "find_service d ''urn:schemas-upnp-org:service:RenderingControl'' = Some (control_service_video L MD)"
    and "find_service d n = Some s \<Longrightarrow> s \<in> {transport_service L MD, connmgr_service L, control_service_video L MD}"
  using assms find_service_member [of d n s] by (auto simp: find_service_def upnp_services_video_def service_names)

theorem video_build_agrees_witness:
  "let ev = UPNP_CONTROL_ACTION_REQUEST (some_request ''urn:schemas-upnp-org:service:RenderingControl''
         ''SetVolume'' [(''InstanceID'', ''0''), (''DesiredVolume'', ''30'')])
   in event_handler sample_lib (render_device sample_lib sample_mpd (\<lambda>_. True)) ev (audio_view sample_control)
      = map_sum id (\<lambda>(rc, ev', v'). (rc, ev', audio_view v'))
          (event_handler sample_lib sample_video_device ev sample_control)"
proof -
  let ?s = "control_service sample_lib sample_mpd :: (mpd_command_call list, unit) control_env_scheme service"
  let ?d = "render_device sample_lib sample_mpd (\<lambda>_. True) :: (mpd_command_call list, unit) control_env_scheme device"
  let ?sid = "''urn:schemas-upnp-org:service:RenderingControl''"
  have d: "find_service ?d ?sid = Some ?s"
    by (rule find_service_renderer(3)) (simp add: render_device_def)
  have d': "find_service sample_video_device ?sid = Some (control_service_video sample_lib sample_mpd)"
    by (rule find_service_video(1)) (simp add: sample_video_device_def)
  have "action_init ''SetVolume'' (Some (set_volume sample_lib sample_mpd)) \<in> set (actions ?s)"
    by (simp add: control_actions_def array_of_def upt_rec)
  then have "find_action_loop (actions ?s) ''SetVolume''
      = Inr (Some (action_init ''SetVolume'' (Some (set_volume sample_lib sample_mpd))))"
    by (intro find_action_loop_member) (simp_all add: control_table)
  then have "find_action (Some ?s) ''SetVolume'' \<noteq> Inr None"
    by (simp add: find_action_def)
  then show ?thesis
    using video_build_agrees [OF d d', of "UPNP_CONTROL_ACTION_REQUEST (some_request ?sid
         ''SetVolume'' [(''InstanceID'', ''0''), (''DesiredVolume'', ''30'')])" sample_control]
    by simp
qed

section \<open>The picture settings\<close>

text \<open>
  The variables only the video build has, and the actions that read them, with the name of
  their argument.
\<close>

definition picture_settings :: "nat set" where
  "picture_settings =
     {CONTROL_VAR_BRIGHTNESS, CONTROL_VAR_CONTRAST, CONTROL_VAR_SHARPNESS, CONTROL_VAR_R_GAIN,
      CONTROL_VAR_G_GAIN, CONTROL_VAR_B_GAIN, CONTROL_VAR_R_BLACK, CONTROL_VAR_G_BLACK,
      CONTROL_VAR_B_BLACK, CONTROL_VAR_COLOR_TEMP, CONTROL_VAR_HOR_KEYSTONE, CONTROL_VAR_VER_KEYSTONE}"

definition picture_queries :: "(string \<times> string \<times> nat) list" where
  "picture_queries =
     [(''GetBrightness'', ''CurrentBrightness'', CONTROL_VAR_BRIGHTNESS),
      (''GetContrast'', ''CurrentContrast'', CONTROL_VAR_CONTRAST),
      (''GetSharpness'', ''CurrentSharpness'', CONTROL_VAR_SHARPNESS),
      (''GetRedVideoGain'', ''CurrentRedVideoGain'', CONTROL_VAR_R_GAIN),
      (''GetGreenVideoGain'', ''CurrentGreenVideoGain'', CONTROL_VAR_G_GAIN),
      (''GetBlueVideoGain'', ''CurrentBlueVideoGain'', CONTROL_VAR_B_GAIN),
      (''GetRedVideoBlackLevel'', ''CurrentRedVideoBlackLevel'', CONTROL_VAR_R_BLACK),
      (''GetGreenVideoBlackLevel'', ''CurrentGreenVideoBlackLevel'', CONTROL_VAR_G_BLACK),
      (''GetBlueVideoBlackLevel'', ''CurrentBlueVideoBlackLevel'', CONTROL_VAR_B_BLACK),
      (''GetColorTemperature'', ''CurrentColorTemperature'', CONTROL_VAR_COLOR_TEMP),
      (''GetHorizontalKeystone'', ''CurrentHorizontalKeystone'', CONTROL_VAR_HOR_KEYSTONE),
      (''GetVerticalKeystone'', ''CurrentVerticalKeystone'', CONTROL_VAR_VER_KEYSTONE)]"

text \<open>What an operation of the video service keeps: the order of the mutexes and the settings.\<close>

definition picture_step ::
  "('m, 'z) control_env_scheme \<Rightarrow> mutex set \<Rightarrow> ('m, 'z) control_env_scheme \<Rightarrow> bool" where
  "picture_step b M w \<longleftrightarrow> held w = M \<and> (ordered b \<longrightarrow> ordered w)
     \<and> (\<forall>n\<in>picture_settings. control_values w n = control_values b n)"

lemma picture_step_refl: "held w = M \<Longrightarrow> picture_step w M w"
  by (simp add: picture_step_def)

lemma picture_step_trans: "picture_step a M b \<Longrightarrow> picture_step b N c \<Longrightarrow> picture_step a N c"
  by (simp add: picture_step_def)

interpretation vid: lock_relation picture_step
proof
  fix b :: "('m, 'z) control_env_scheme" and M m and w :: "('m, 'z) control_env_scheme"
  show "picture_step b M w \<Longrightarrow> held w = M"
    by (simp add: picture_step_def)
  show "picture_step b (insert m M) (w\<lparr>held := insert m M, lock_order := lock_order w \<union> M \<times> {m}\<rparr>)"
    if s: "picture_step b M w" and m: "may_lock m M"
    using s m ordered_lock [of w m "insert m M"] by (auto simp: picture_step_def)
  show "picture_step b (M - {m}) (w\<lparr>held := M - {m}\<rparr>)" if "picture_step b M w"
    using that by (simp add: picture_step_def)
qed

named_theorems vid_rules

lemma picture_step_frame:
  assumes "picture_step b M w"
  shows "picture_step b M (w\<lparr>mpd := m\<rparr>)" "picture_step b M (w\<lparr>mpd := m, mpd_conn := c\<rparr>)"
    "picture_step b M (w\<lparr>mpdvolume := i\<rparr>)" "picture_step b M (w\<lparr>mutevolume := i\<rparr>)"
    "picture_step b M (w\<lparr>mpdvolume := i, mutevolume := j\<rparr>)"
    "picture_step b M (w\<lparr>notifications := ns\<rparr>)" "picture_step b M (w\<lparr>subscriptions := ns\<rparr>)"
  using assms by (auto simp: picture_step_def ordered_def)

lemma vid_conn [vid_rules]:
  "picture_step b M w \<Longrightarrow> safe (picture_step b M) (on_conn f w)"
  "picture_step b M w \<Longrightarrow> safe_st (picture_step b M) (command_failed MD w)"
  by (auto simp: on_conn_def command_failed_def output_printError_def safe_defs picture_step_frame
      split: prod.split)

lemma vid_output [vid_rules]:
  assumes w: "picture_step b M w" and m: "may_lock MpdMutex M"
  shows "safe_st (picture_step b M) (output_set_volume MD d w)"
    and "safe_st (picture_step b M) (output_set_mute MD c w)"
proof -
  have h: "insert MpdMutex M - {MpdMutex} = M" using may_lock_not_held [OF m] by auto
  show "safe_st (picture_step b M) (output_set_volume MD d w)"
    unfolding output_set_volume_def Let_def
    by (assumption | rule vid_rules safe_rules vid.bind vid.safe_lock vid.safe_unlock
        picture_step_frame insertI1 h w m)+
  have w': "picture_step b M (if c then w\<lparr>mutevolume := mpdvolume w\<rparr> else w)"
    using w by (simp add: picture_step_frame)
  show "safe_st (picture_step b M) (output_set_mute MD c w)"
    unfolding output_set_mute_def Let_def
    by (assumption | rule vid_rules safe_rules vid.bind vid.safe_lock vid.safe_unlock
        picture_step_frame insertI1 h w w' m)+
qed

lemma vid_set_var [vid_rules]:
  "n \<notin> picture_settings \<Longrightarrow> picture_step b M w \<Longrightarrow>
     safe_st (picture_step b M) (control_set_var_video n v w)"
  by (cases v) (auto simp: control_set_var_video_def safe_defs picture_step_def ordered_def)

lemma not_picture [simp]:
  "CONTROL_VAR_VOLUME_video \<notin> picture_settings" "CONTROL_VAR_MUTE_video \<notin> picture_settings"
  "CONTROL_VAR_LAST_CHANGE_video \<notin> picture_settings"
  by (simp_all add: picture_settings_def)

lemma vid_notify [vid_rules]:
  assumes "picture_step b M w"
  shows "safe_st (picture_step b M) (control_notify_lastchange_video ev v w)"
proof -
  have "picture_step b M (w\<lparr>notifications := ns,
      control_values := (control_values w)(CONTROL_VAR_LAST_CHANGE_video \<mapsto> v)\<rparr>)" for ns
    using assms not_picture(3) by (auto simp: picture_step_def ordered_def simp del: not_picture)
  then show ?thesis
    unfolding control_notify_lastchange_video_def
    by (intro benign_bind [OF benign_xmlescape] safe_st_Inr)
qed

lemma vid_change_var [vid_rules]:
  "n \<notin> picture_settings \<Longrightarrow> picture_step b M w \<Longrightarrow>
     safe_st (picture_step b M) (control_change_var_video ev n v w)"
  unfolding control_change_var_video_def by (assumption | rule vid.bind vid_rules)+

lemma vid_notify_subscription:
  assumes s: "picture_step b M w" and M: "M \<subseteq> {DeviceMutex}"
  shows "safe (picture_step b M) (control_notify_subscription_video w)"
proof -
  have m: "may_lock ControlMutex M" "insert ControlMutex M - {ControlMutex} = M"
    using M by (auto simp: may_lock_def)
  have "safe_st (picture_step b N) (control_update_settings_video v)" if "picture_step b N v" for N v
    using that unfolding control_update_settings_video_def Let_def
    by - (assumption | rule safe_rules vid.bind vid_rules not_picture)+
  then show ?thesis
    unfolding control_notify_subscription_video_def
    by - (assumption | rule vid_rules safe_rules vid.bind vid.safe_lock vid.safe_unlock not_picture insertI1 s m)+
qed

lemma vid_obtain_variable:
  assumes "same_call e ev" "service_mutex (event_service e) = ControlMutex"
    and "picture_step b M w" and "may_lock ControlMutex M"
  shows "safe_ev e (picture_step b M) (cmd_obtain_variable L n key ev w)"
  unfolding cmd_obtain_variable_def
  by (assumption | rule with_instance_safe ev_rules vid.safe_ev_append_variable assms)+

lemma vid_handlers:
  assumes e: "same_call e ev" "service_mutex (event_service e) = ControlMutex" and s: "picture_step b {} w"
  shows "safe_ev e (picture_step b {}) (get_volume_video L ev w)"
    and "safe_ev e (picture_step b {}) (set_mute_video L MD ev w)"
    and "safe_ev e (picture_step b {}) (set_volume_video L MD ev w)"
proof -
  have m: "may_lock MpdMutex {ControlMutex}" "{ControlMutex} - {ControlMutex} = {}"
    by simp_all
  note rules = vid_rules ev_rules safe_rules vid.bind vid.ev_bind vid.safe_lock vid.safe_unlock
    with_instance_safe not_picture insertI1 may_lock_empty e s m
  show "safe_ev e (picture_step b {}) (get_volume_video L ev w)"
    unfolding get_volume_video_def
    by (assumption | rule vid_obtain_variable rules)+
  show "safe_ev e (picture_step b {}) (set_mute_video L MD ev w)"
    unfolding set_mute_video_def by (assumption | rule rules)+
  show "safe_ev e (picture_step b {}) (set_volume_video L MD ev w)"
    unfolding set_volume_video_def by (assumption | rule rules)+
qed

lemmas video_getters = list_presets_video_def get_mute_video_def get_volume_db_video_def get_loudness_video_def
  get_brightness_def get_contrast_def get_sharpness_def get_red_videogain_def get_green_videogain_def
  get_blue_videogain_def get_red_videoblacklevel_def get_green_videoblacklevel_def
  get_blue_videoblacklevel_def get_colortemperature_def get_horizontal_keystone_def get_vertical_keystone_def

lemma video_callbacks:
  "a \<in> set (control_actions_video L MD) \<Longrightarrow> callback a = Some cb \<Longrightarrow>
     cb \<in> {get_volume_video L, set_mute_video L MD, set_volume_video L MD}
       \<or> (\<exists>n k. cb = cmd_obtain_variable L n k)"
  by (simp add: control_actions_video_list) (elim disjE; clarsimp simp: video_getters; blast)

lemma vid_callback:
  assumes "a \<in> set (control_actions_video L MD)" and "callback a = Some cb"
    and e: "service_mutex (event_service ev) = ControlMutex" and w: "held w = {}"
  shows "safe_ev ev (picture_step w {}) (cb ev w)"
proof -
  have r: "picture_step w {} w" by (rule picture_step_refl [OF w])
  show ?thesis
    using video_callbacks [OF assms(1,2)] vid_handlers [OF same_call_refl e r]
      vid_obtain_variable [OF same_call_refl e r may_lock_empty]
    by blast
qed

text \<open>The handlers of the other two services never take the mutex of RenderingControl.\<close>

lemma avoids_output [avoids_rules]:
  "avoids ControlMutex (check_mpd_connection_prog MD u) (\<lambda>_. True)"
  "avoids ControlMutex (output_set_uri_prog MD uri) (\<lambda>_. True)"
  "avoids ControlMutex (player_command_prog MD c) (\<lambda>_. True)"
  "avoids ControlMutex (output_seekto_prog MD mode pos) (\<lambda>_. True)"
  "avoids ControlMutex (output_playmode_prog MD newmode) (\<lambda>_. True)"
  "avoids ControlMutex (output_update_status_prog MD) (\<lambda>_. True)"
  unfolding check_mpd_connection_prog_def output_set_uri_prog_def player_command_prog_def output_seekto_prog_def
    output_playmode_prog_def output_update_status_prog_def
  by ((rule avoids_rules avoids_bindP TrueI | (simp; fail))+)

lemma avoids_update_position [avoids_rules]: "avoids ControlMutex (output_update_position_prog MD) (\<lambda>_. True)"
  unfolding output_update_position_prog_def by ((rule avoids_rules avoids_bindP TrueI | (simp; fail))+)

lemma avoids_computed [avoids_rules]:
  assumes "same_call e ev"
  shows "avoids n (compute (upnp_get_string L ev key)) (\<lambda>(v, ev'). same_call e ev')"
    and "avoids n (compute (upnp_obtain_instanceid L ev)) (\<lambda>(rc, ev'). same_call e ev')"
    and "avoids n (compute (upnp_add_response L ev key v)) (\<lambda>(rc, ev'). same_call e ev')"
  by (rule avoids_compute, rule wp_mono [OF wp_get_string [of L ev key]],
      use assms in \<open>auto dest: same_call_trans\<close>)
    (rule avoids_compute, rule wp_mono [OF wp_obtain_instanceid [of L ev]], use assms in \<open>auto dest: same_call_trans\<close>,
     rule avoids_compute, rule wp_mono [OF wp_add_response [of L ev key v]], use assms in \<open>auto dest: same_call_trans\<close>)

lemma avoids_event [avoids_rules]: "same_call e ev \<Longrightarrow> avoids n (Ret (rc, ev)) (\<lambda>(rc, ev'). same_call e ev')"
  by simp

lemma avoids_append_variable [avoids_rules]:
  assumes e: "same_call e ev" "service_mutex (event_service e) \<noteq> n"
  shows "avoids n (upnp_append_variable_prog L ev i k) (\<lambda>(rc, ev'). same_call e ev')"
proof -
  have "service_mutex (event_service ev) \<noteq> n" using e by (simp add: same_call_def)
  moreover have "wp (upnp_add_response L ev k v) (\<lambda>(rc, ev'). same_call e ev') (\<lambda>f. True)" for v
    by (rule wp_mono [OF wp_add_response [of L ev k v]]) (use e in \<open>auto dest: same_call_trans\<close>)
  ultimately show ?thesis
    unfolding upnp_append_variable_prog_def using e(1)
    by (auto intro!: avoids_rules avoids_atom simp: wp_bindE split: option.split elim!: wp_post)
qed

lemma avoids_append_variables [avoids_rules]:
  assumes "same_call e ev" and m: "service_mutex (event_service e) \<noteq> n"
  shows "avoids n (append_variables_prog L ev vs) (\<lambda>(rc, ev'). same_call e ev')"
  using assms(1)
proof (induction vs arbitrary: ev)
  case (Cons v vs)
  obtain i k where v: "v = (i, k)" by (cases v)
  show ?case
    unfolding v append_variables_prog.simps
    by (assumption | rule avoids_append_variable avoids_pair avoids_rules Cons m)+
qed simp

lemma avoids_with_instance [avoids_rules]:
  assumes "same_call e ev" and "\<And>ev. same_call e ev \<Longrightarrow> avoids n (k ev) (\<lambda>(rc, ev'). same_call e ev')"
  shows "avoids n (with_instance_prog L c ev k) (\<lambda>(rc, ev'). same_call e ev')"
  unfolding with_instance_prog_def
  by (assumption | rule avoids_pair avoids_rules same_call_rules assms)+

lemma avoids_with_connection [avoids_rules]:
  assumes "same_call e ev" and "avoids ControlMutex k (\<lambda>(rc, ev'). same_call e ev')"
  shows "avoids ControlMutex (with_connection_prog MD ev k) (\<lambda>(rc, ev'). same_call e ev')"
  unfolding with_connection_prog_def
  by (assumption | rule avoids_bindP avoids_rules assms)+

lemma avoids_transition [avoids_rules]:
  assumes "same_call e ev" and "avoids n c (\<lambda>_. True)"
  shows "avoids n (player_transition_prog L c msg st txt ev) (\<lambda>(rc, ev'). same_call e ev')"
  unfolding player_transition_prog_def
  by (assumption | rule avoids_bindP avoids_rules same_call_rules assms)+

lemma avoids_state_split [avoids_rules]:
  assumes "avoids n a P" "avoids n b P" "avoids n c P" "avoids n d P" "avoids n e P"
  shows "avoids n (case s of TRANSPORT_STOPPED \<Rightarrow> a | TRANSPORT_PLAYING \<Rightarrow> b | TRANSPORT_TRANSITIONING \<Rightarrow> c
      | TRANSPORT_PAUSED_PLAYBACK \<Rightarrow> d | TRANSPORT_NO_MEDIA_PRESENT \<Rightarrow> e) P"
  using assms by (simp split: transport_state.split)

lemmas other_handlers = get_media_info_prog_def get_transport_info_prog_def get_transport_settings_prog_def
  get_device_caps_prog_def get_position_info_prog_def xplay_prog_def xpause_prog_def xstop_prog_def xplaymode_prog_def
  xseek_prog_def xnext_prog_def xprevious_prog_def set_avtransport_uri_prog_def
  get_protocol_info_prog_def get_current_conn_ids_prog_def get_current_conn_info_prog_def

lemmas other_rules = avoids_pair avoids_append_variables avoids_append_variable avoids_with_instance
  avoids_with_connection avoids_transition avoids_rules avoids_bindP same_call_rules TrueI

lemma avoids_control_mutex:
  assumes e: "same_call e ev" and m: "service_mutex (event_service e) \<noteq> ControlMutex"
  shows "c \<in> {get_media_info_prog L, get_transport_info_prog L, get_transport_settings_prog L, get_device_caps_prog L,
      get_position_info_prog L MD, set_avtransport_uri_prog L MD, xplaymode_prog L MD, xstop_prog L MD, xplay_prog L MD, xpause_prog L MD,
      xseek_prog L MD, xnext_prog L MD, xprevious_prog L MD} \<Longrightarrow> avoids ControlMutex (c ev) (\<lambda>(rc, ev'). same_call e ev')"
    and "c' \<in> {get_protocol_info_prog L, get_current_conn_ids_prog L, get_current_conn_info_prog L} \<Longrightarrow>
      avoids ControlMutex (c' ev) (\<lambda>(rc, ev'). same_call e ev')"
  by (elim insertE emptyE; hypsubst; unfold other_handlers Let_def;
      (assumption | rule other_rules e m | (simp; fail))+)+

text \<open>What these programs leave alone, run from their first step to their last.\<close>

lemma other_run_keeps:
  fixes w :: "('m, 'z) control_env_scheme"
  assumes "keeps (dev_rules D) H c (\<lambda>_. True)" and "avoids ControlMutex c Q" and "ControlMutex \<notin> H" "held w = H"
    and r: "run c w = Inr (a, w')"
  shows "held w' = H \<and> (ordered w \<longrightarrow> ordered w') \<and> control_values w' = control_values w"
proof -
  have "((ordered w \<longrightarrow> ordered w') \<and> control_values w' = control_values w) \<and> held w' = H \<and> True"
    by (rule shared.disc_run [OF assms(1) [unfolded keeps_def] assms(2-4) r, where P = "\<lambda>v. (ordered w \<longrightarrow> ordered v) \<and> control_values v = control_values w"])
      (auto simp: dev_change_def guarded_def closes_connection_def ordered_def)
  then show ?thesis by blast
qed

lemma other_callbacks_keep:
  fixes w :: "('m, 'z) control_env_scheme"
  assumes s: "s = transport_service L MD \<or> s = connmgr_service L" and a: "a \<in> set (actions s)" "action_name a = Some n"
      "callback a = Some cb"
    and ev: "event_service ev = service_vars.truncate s" and w: "held w = {}" and r: "cb ev w = Inr (rc, ev', w')"
  shows "held w' = {} \<and> (ordered w \<longrightarrow> ordered w') \<and> control_values w' = control_values w"
proof -
  let ?d = "render_device L MD (\<lambda>_. True) :: ('m, 'z) control_env_scheme device"
  have d: "services ?d = upnp_services L MD" by (simp add: render_device_def)
  obtain sid where sid: "find_service ?d sid = Some s" "sid = service_name s"
    using s find_service_renderer(1,2) [OF d] by (auto simp: service_names)
  have t: "action_table_ok (actions s)"
    using s transport_table connmgr_table by auto
  have fa: "find_action (Some s) n = Inr (Some a)"
    using find_action_loop_member [OF t a(1,2)] by (simp add: find_action_def)
  note k = keeps_weaken [OF keeps_callback [OF d sid(1) _ fa a(3) ev, where D = True], where S = "\<lambda>_. True"]
  have run: "run (callback_prog L MD sid n cb ev) w = Inr ((rc, ev'), w')"
    using run_callback [OF d sid(1) fa a(3), of ev w] r by (simp add: paired_def)
  have "avoids ControlMutex (callback_prog L MD sid n cb ev) (\<lambda>(rc, ev'). same_call ev ev')"
  proof (cases "s = transport_service L MD")
    case True
    with a(1) sid(2) have m: "a \<in> set (transport_actions L MD)" "sid = ''urn:schemas-upnp-org:service:AVTransport''"
      by (simp_all only: service_actions service_names)
    have sm: "service_mutex (event_service ev) \<noteq> ControlMutex" using ev True by simp
    show ?thesis
    proof (cases "n = ''GetPositionInfo''")
      case True
      show ?thesis unfolding m(2) True callback_prog_position
        by (rule avoids_control_mutex(1) [OF same_call_refl sm, where L = L and MD = MD]) simp
    next
      case False
      from callback_prog_transport [OF m(1) a(2,3) False] show ?thesis
        unfolding m(2) by (intro avoids_control_mutex(1) [OF same_call_refl sm]) blast
    qed
  next
    case False
    with s have c: "s = connmgr_service L" by simp
    with a(1) sid(2) have m: "a \<in> set (connmgr_actions L)" "sid = ''urn:schemas-upnp-org:service:ConnectionManager''"
      by (simp_all only: service_actions service_names)
    have sm: "service_mutex (event_service ev) \<noteq> ControlMutex" using ev c by simp
    from callback_prog_connmgr [OF m(1) a(2,3)] show ?thesis
      unfolding m(2) by (intro avoids_control_mutex(2) [OF same_call_refl sm])
  qed
  from other_run_keeps [OF k this _ w run] show ?thesis by simp
qed

lemma other_subscription_keeps:
  fixes w :: "('m, 'z) control_env_scheme"
  assumes "held w = {DeviceMutex}" and r: "transport_notify_subscription MD w = Inr (rc, w')"
  shows "held w' = {DeviceMutex} \<and> (ordered w \<longrightarrow> ordered w') \<and> control_values w' = control_values w"
proof -
  have "avoids ControlMutex (transport_notify_subscription_prog MD) (\<lambda>_. True)"
    unfolding transport_notify_subscription_prog_def by (assumption | rule avoids_rules avoids_bindP TrueI | (simp; fail))+
  moreover have "run (transport_notify_subscription_prog MD) w = Inr (rc, w')"
    using r by (simp add: run_transport_notify_subscription)
  ultimately show ?thesis
    using other_run_keeps [OF keeps_subscriptions(1)] assms(1) by blast
qed

text \<open>So no event does anything to the settings.\<close>

lemma vid_callbacks:
  fixes w :: "('m, 'z) control_env_scheme"
  assumes s: "s \<in> {transport_service L MD, connmgr_service L, control_service_video L MD}"
    and a: "a \<in> set (actions s)" "action_name a = Some n" "callback a = Some cb"
    and ev: "event_service ev = service_vars.truncate s" and w: "held w = {}"
  shows "wp (cb ev w) (\<lambda>(rc, ev', w'). picture_step w {} w') (\<lambda>_. True)"
proof (cases "s = control_service_video L MD")
  case True
  then have "a \<in> set (control_actions_video L MD)" "service_mutex (event_service ev) = ControlMutex"
    using a(1) ev by (simp_all add: control_vars_video_def)
  from vid_callback [OF this(1) a(3) this(2) w] show ?thesis
    unfolding safe_ev_def by (rule wp_mono) auto
next
  case False
  then have "s = transport_service L MD \<or> s = connmgr_service L" using s by blast
  note keep = other_callbacks_keep [OF this a ev w]
  show ?thesis
  proof (cases "cb ev w")
    case (Inr r)
    obtain rc ev' w' where r: "r = (rc, ev', w')" by (cases r)
    with keep [of rc ev' w'] Inr show ?thesis by (simp add: picture_step_def)
  qed simp
qed

lemma vid_tables:
  "s \<in> {transport_service L MD, connmgr_service L, control_service_video L MD} \<Longrightarrow> action_table_ok (actions s)"
  using transport_table connmgr_table control_video_table by auto

lemma vid_action_request:
  fixes w :: "('m, 'z) control_env_scheme"
  assumes d: "services d = upnp_services_video L MD" and w: "held w = {}"
  shows "wp (handle_action_request L d ar w) (\<lambda>(rc, ar', w'). picture_step w {} w') (\<lambda>_. True)"
proof (cases "find_service d (ServiceID ar)")
  case None
  then show ?thesis
    by (simp add: handle_action_request_def find_action_def picture_step_refl [OF w])
next
  case (Some s)
  note srv = find_service_video(2) [OF d Some]
  obtain act where act: "find_action (Some s) (ActionName ar) = Inr act"
    using find_action_loop_ok [OF vid_tables [OF srv]] by (auto simp: find_action_def)
  show ?thesis
  proof (cases "\<exists>a cb. act = Some a \<and> callback a = Some cb")
    case True
    then obtain a cb where a: "act = Some a" "callback a = Some cb" by blast
    from find_action_name [OF act [unfolded a(1)]] have m: "action_name a = Some (ActionName ar)" "a \<in> set (actions s)"
      by simp_all
    let ?e = "\<lparr>request = ar, event_status = 0, event_service = service_vars.truncate s\<rparr>"
    have "wp (cb ?e w) (\<lambda>(rc, ev, w'). picture_step w {} w') (\<lambda>_. True)"
      by (rule vid_callbacks [OF srv m(2,1) a(2) _ w]) simp
    then show ?thesis
      using Some act a by (simp add: handle_action_request_def wp_bindE Let_def) (erule wp_post, clarsimp)
  next
    case False
    with Some act show ?thesis
      by (auto simp: handle_action_request_def picture_step_refl [OF w] split: option.split)
  qed
qed

lemma vid_subscription_request:
  fixes w :: "('m, 'z) control_env_scheme"
  assumes d: "services d = upnp_services_video L MD" and w: "held w = {}"
  shows "wp (handle_subscription_request L d sr w) (\<lambda>(rc, w'). picture_step w {} w') (\<lambda>_. True)"
proof (cases "find_service d (sr_ServiceId sr)")
  case None
  then show ?thesis
    by (simp add: handle_subscription_request_def picture_step_refl [OF w])
next
  case (Some s)
  have locked: "picture_step w {DeviceMutex} (locked DeviceMutex w)"
    using vid.S_lock [OF picture_step_refl [OF w] may_lock_empty] w by (simp add: locked_def)
  have notified: "picture_step w {DeviceMutex} v'"
    if f: "subscription_notify s = Some f" "f (locked DeviceMutex w) = Inr (rc, v')" for f rc v'
  proof -
    from find_service_video(2) [OF d Some] f(1) consider "f = transport_notify_subscription MD" | "f = control_notify_subscription_video"
      by (auto simp: service_notifies)
    then show ?thesis
    proof cases
      case 1
      from other_subscription_keeps [of "locked DeviceMutex w"] f(2) [unfolded 1] vid.S_held [OF locked] locked show ?thesis
        by (auto simp: picture_step_def)
    next
      case 2
      from vid_notify_subscription [OF locked] f(2) [unfolded 2] show ?thesis by (simp add: safe_def)
    qed
  qed
  have l: "lock DeviceMutex w = Inr (locked DeviceMutex w)" using w by (simp add: lock_locked)
  have n: "wp (case subscription_notify s of None \<Rightarrow> Inr (locked DeviceMutex w)
      | Some f \<Rightarrow> bindE (f (locked DeviceMutex w)) (\<lambda>(_, w). Inr w)) (picture_step w {DeviceMutex}) (\<lambda>_. True)"
    using locked notified by (auto simp: wp_def bindE_def split: option.split sum.split)
  have finish: "picture_step w {} (v\<lparr>subscriptions := ns, held := {}\<rparr>)" if "picture_step w {DeviceMutex} v" for v ns
    using that by (auto simp: picture_step_def ordered_def)
  show ?thesis
    unfolding handle_subscription_request_def Some option.case l bindE_simps Let_def wp_bindE
  proof (rule wp_post [OF n])
    fix v assume v: "picture_step w {DeviceMutex} v"
    with vid.S_held [OF v] finish [OF v]
    show "wp (filterE (is_evented (service_vars.truncate s)) [0..<variable_count s]) (\<lambda>idx.
        wp (mapE (\<lambda>i. deref (variable_names s i)) idx) (\<lambda>names.
        wp (mapE (\<lambda>i. bindE (deref (get_service_var (service_vars.truncate s) i v)) (\<lambda>v. xmlescape v False)) idx) (\<lambda>values.
        wp (unlock DeviceMutex (v\<lparr>subscriptions := subscriptions v @
              [\<lparr>DevUDN_sent = sr_UDN sr, ServiceID_sent = sr_ServiceId sr, VarNames_sent = names, VarValues_sent = values\<rparr>]\<rparr>)) (\<lambda>w'.
        wp (Inr (if UpnpAcceptSubscription L (sr_UDN sr) (sr_ServiceId sr) names values (sr_Sid sr) = UPNP_E_SUCCESS L then 0 else - 1, w'))
          (\<lambda>(rc, w'). picture_step w {} w') (\<lambda>_. True)) (\<lambda>_. True)) (\<lambda>_. True)) (\<lambda>_. True)) (\<lambda>_. True)"
      by (simp add: wp_def unlock_def split: sum.split)
  qed
qed

lemma vid_event_handler:
  fixes w :: "('m, 'z) control_env_scheme"
  assumes d: "services d = upnp_services_video L MD" and w: "held w = {}"
  shows "wp (event_handler L d e w) (\<lambda>(rc, e', w'). picture_step w {} w') (\<lambda>_. True)"
proof (cases e)
  case (UPNP_CONTROL_ACTION_REQUEST ar)
  show ?thesis
    unfolding UPNP_CONTROL_ACTION_REQUEST event_handler_def upnp_event.case wp_bindE
    by (rule wp_post [OF vid_action_request [OF d w]]) auto
next
  case (UPNP_EVENT_SUBSCRIPTION_REQUEST sr)
  show ?thesis
    unfolding UPNP_EVENT_SUBSCRIPTION_REQUEST event_handler_def upnp_event.case wp_bindE
    by (rule wp_post [OF vid_subscription_request [OF d w]]) auto
qed (simp_all add: event_handler_def picture_step_refl [OF w])

lemma vid_reachable:
  assumes "reachable L d b w" and d: "services d = upnp_services_video L MD" and b: "held b = {}"
  shows "picture_step b {} w"
  using assms(1)
proof induction
  case reachable_start
  show ?case by (rule picture_step_refl [OF b])
next
  case (reachable_event w e rc e' w')
  with wp_returns [OF vid_event_handler [OF d, of w e]] show ?case
    by (auto simp: picture_step_def)
qed

lemma picture_query:
  assumes "(act, key, n) \<in> set picture_queries"
  shows "action_init act (Some (cmd_obtain_variable L n key)) \<in> set (control_actions_video L MD)"
    and "n \<in> picture_settings" and "n < CONTROL_VAR_UNKNOWN_video" and "control_defaults_video n = Some ''0''"
proof -
  have "\<forall>(act, key, n)\<in>set picture_queries.
      action_init act (Some (cmd_obtain_variable L n key)) \<in> set (control_actions_video L MD)"
    by (simp add: picture_queries_def control_actions_video_list video_getters)
  with assms show "action_init act (Some (cmd_obtain_variable L n key)) \<in> set (control_actions_video L MD)"
    by blast
  have "\<forall>(act, key, n)\<in>set picture_queries.
      n \<in> picture_settings \<and> n < CONTROL_VAR_UNKNOWN_video \<and> control_defaults_video n = Some ''0''"
    by (simp add: picture_queries_def picture_settings_def control_defaults_video_def)
  with assms show "n \<in> picture_settings" and "n < CONTROL_VAR_UNKNOWN_video" and "control_defaults_video n = Some ''0''"
    by blast+
qed

lemma control_vars_video_free: "mutex_free_vars control_vars_video"
  by (simp add: mutex_free_vars_def control_vars_video_def)

text \<open>
  C27. The video build describes its service without a fault: the document lists the 35
  actions of its table, the eleven of the audio build among them, the dispatcher finds each
  of them, and every state variable an argument refers to is declared.
\<close>

theorem video_service_described:
  "\<exists>doc. generate_scpd (control_service_video L MD :: ('m, 'z) control_env_scheme service) = Inr doc
    \<and> length (texts [''scpd'', ''actionList'', ''action'', ''name''] doc) = 35
    \<and> {n. \<exists>a\<in>set (control_actions L MD :: ('m, 'z) control_env_scheme action list). action_name a = Some n}
        \<subseteq> set (texts [''scpd'', ''actionList'', ''action'', ''name''] doc)
    \<and> (\<forall>n\<in>set (texts [''scpd'', ''actionList'', ''action'', ''name''] doc).
         \<exists>a. find_action (Some (control_service_video L MD :: ('m, 'z) control_env_scheme service)) n = Inr (Some a) \<and> action_name a = Some n)
    \<and> set (texts [''scpd'', ''actionList'', ''action'', ''argumentList'', ''argument'', ''relatedStateVariable''] doc)
        \<subseteq> set (texts [''scpd'', ''serviceStateTable'', ''stateVariable'', ''name''] doc)"
proof -
  let ?srv = "control_service_video L MD :: ('m, 'z) control_env_scheme service"
  obtain doc where doc: "generate_scpd ?srv = Inr doc"
      "texts [''scpd'', ''actionList'', ''action'', ''name''] doc
        = map (\<lambda>a. the (action_name a)) (butlast (actions ?srv))"
      "\<forall>n\<in>set (texts [''scpd'', ''actionList'', ''action'', ''name''] doc).
         \<exists>a. find_action (Some ?srv) n = Inr (Some a) \<and> action_name a = Some n"
      "set (texts [''scpd'', ''actionList'', ''action'', ''argumentList'', ''argument'', ''relatedStateVariable''] doc)
        \<subseteq> set (texts [''scpd'', ''serviceStateTable'', ''stateVariable'', ''name''] doc)"
    using service_described [OF control_video_tables_ok, of L MD] by blast
  have "length (butlast (actions ?srv)) = 35"
    by (simp add: control_actions_video_def)
  moreover have "n \<in> set (map (\<lambda>a. the (action_name a)) (butlast (actions ?srv)))"
    if "a \<in> set (control_actions L MD :: ('m, 'z) control_env_scheme action list)" "action_name a = Some n" for a n
  proof -
    note in_table = alike_actions [OF that]
    obtain b where b: "b \<in> set (actions ?srv)" "action_name b = Some n"
      using in_table by auto
    moreover have "action_name (last (actions ?srv)) = None" "actions ?srv \<noteq> []"
      using control_video_table [of L MD] by (auto simp: action_table_ok_def)
    ultimately have "b \<in> set (butlast (actions ?srv))"
      by (cases "actions ?srv" rule: rev_cases) auto
    with b(2) show ?thesis by force
  qed
  ultimately show ?thesis
    using doc by (intro exI [of _ doc]) auto
qed

theorem video_service_described_witness:
  "\<exists>doc. generate_scpd (control_service_video sample_lib sample_mpd :: (mpd_command_call list, unit) control_env_scheme service)
       = Inr doc
     \<and> length (texts [''scpd'', ''actionList'', ''action'', ''name''] doc) = 35
     \<and> ''SetVolume'' \<in> set (texts [''scpd'', ''actionList'', ''action'', ''name''] doc)"
proof -
  have "\<exists>a\<in>set (control_actions sample_lib sample_mpd :: (mpd_command_call list, unit) control_env_scheme action list).
      action_name a = Some ''SetVolume''"
    by (simp add: control_actions_set)
  with video_service_described [of sample_lib sample_mpd] show ?thesis
    by blast
qed

text \<open>
  C17. The picture settings can be queried but never change. Whatever events the device, with
  the three services the video build gives it, has handled since \<open>control_init\<close>, each of the
  twelve queries answers with the default, 0: no action of any service assigns those
  variables, \<open>SetBrightness\<close> and its like are accepted and ignored.
\<close>

theorem picture_queries_reply_default:
  fixes w :: "('m, 'z) control_env_scheme"
  assumes d: "services d = upnp_services_video L MD"
    and w: "held b = {}" "reachable L d (control_init b) w"
    and q: "(act, key, n) \<in> set picture_queries"
    and req: "ServiceID ar = ''urn:schemas-upnp-org:service:RenderingControl''" "ActionName ar = act"
      "ActionRequest ar = Some (request_doc act args)" "map_of args ''InstanceID'' = Some i" "atoi i = 0"
    and L: "adds_succeed L"
      "snd (UpnpAddToActionResponse L (ActionResult ar) act
         ''urn:schemas-upnp-org:service:RenderingControl:1'' key ''0'') = Some doc"
  shows "\<exists>w'. handle_action_request L d ar w
      = Inr (0, ar\<lparr>ActionResult := Some doc, ErrCode := UPNP_E_SUCCESS L\<rparr>, w')
    \<and> control_values w' = control_values w"
proof -
  let ?e = "\<lparr>request = ar, event_status = 0, event_service = control_vars_video\<rparr>"
  have step: "picture_step (control_init b) {} w"
    using vid_reachable [OF w(2) d] w(1) by (simp add: control_init_def)
  then have h: "held w = {}" and v: "control_values w n = None"
    using picture_query(2) [OF q] by (simp_all add: picture_step_def control_init_def)
  have s: "find_service d (ServiceID ar) = Some (control_service_video L MD)"
    using find_service_video(1) [OF d] req(1) by simp
  have a: "find_action (Some (control_service_video L MD :: ('m, 'z) control_env_scheme service)) act
      = Inr (Some (action_init act (Some (cmd_obtain_variable L n key))))"
    by (simp add: find_action_def, rule find_action_loop_member [OF control_video_table picture_query(1) [OF q]]) simp
  have zero: "get_service_var control_vars_video n w = Some ''0''"
    using v picture_query(4) [OF q] by (simp add: get_service_var_def control_vars_video_def)
  have type: "service_type control_vars_video = ''urn:schemas-upnp-org:service:RenderingControl:1''"
    by (simp add: control_vars_video_def)
  have "cmd_obtain_variable L n key ?e w = upnp_append_variable L ?e n key w"
    unfolding cmd_obtain_variable_def by (rule with_instance_pass [of _ act args i]) (simp_all add: req)
  also have "\<dots> = Inr (0, answered L ?e [(key, ''0'')], lock_edges ControlMutex w)"
    using upnp_append_variable_answered [OF L(1), of ?e control_vars_video ControlMutex w n key]
      picture_query(3) [OF q] h zero by (simp add: control_vars_video_free)
  finally have run: "cmd_obtain_variable L n key ?e w = Inr (0, answered L ?e [(key, ''0'')], lock_edges ControlMutex w)" .
  show ?thesis
    using run a req(2) L(2)
    by (simp add: handle_action_request_def s Let_def answered_def add_all_def type
        lock_edges_def)
qed

theorem picture_queries_reply_default_witness:
  "\<exists>e rc e' w reply w'. event_handler sample_lib sample_video_device e (control_init sample_control) = Inr (rc, e', w)
     \<and> e = UPNP_CONTROL_ACTION_REQUEST (some_request ''urn:schemas-upnp-org:service:RenderingControl''
         ''SetBrightness'' [(''InstanceID'', ''0''), (''DesiredBrightness'', ''50'')])
     \<and> handle_action_request sample_lib sample_video_device
       (some_request ''urn:schemas-upnp-org:service:RenderingControl'' ''GetBrightness'' [(''InstanceID'', ''0'')])
       w = Inr (0, reply, w')
     \<and> ActionResult reply = Some (Element ''GetBrightnessResponse'' [] [Element ''CurrentBrightness'' [] [TextNode ''0'']])"
proof -
  let ?set = "UPNP_CONTROL_ACTION_REQUEST (some_request ''urn:schemas-upnp-org:service:RenderingControl''
      ''SetBrightness'' [(''InstanceID'', ''0''), (''DesiredBrightness'', ''50'')])"
  have d: "services sample_video_device = upnp_services_video sample_lib sample_mpd"
    by (simp add: sample_video_device_def)
  have "action_init ''SetBrightness'' None
      \<in> set (control_actions_video sample_lib sample_mpd :: (mpd_command_call list, unit) control_env_scheme action list)"
    by (simp add: control_actions_video_list)
  from find_action_loop_member [OF control_video_table this]
  obtain rc e' w where set: "event_handler sample_lib sample_video_device ?set (control_init sample_control) = Inr (rc, e', w)"
    by (simp add: event_handler_def handle_action_request_def find_action_def find_service_video(1) [OF d])
  have a: "atoi ''0'' = 0"
    by code_simp
  have h: "held sample_control = {}"
    by (simp add: sample_control_def sample_output_def output_env.defs)
  have q: "(''GetBrightness'', ''CurrentBrightness'', CONTROL_VAR_BRIGHTNESS) \<in> set picture_queries"
    by (simp add: picture_queries_def)
  have "\<exists>reply w'. handle_action_request sample_lib sample_video_device
       (some_request ''urn:schemas-upnp-org:service:RenderingControl'' ''GetBrightness'' [(''InstanceID'', ''0'')])
       w = Inr (0, reply, w')
     \<and> ActionResult reply = Some (Element ''GetBrightnessResponse'' [] [Element ''CurrentBrightness'' [] [TextNode ''0'']])"
    using picture_queries_reply_default [OF d h reachable_event [OF reachable_start set] q _ _ _ _ a adds_succeed_sample,
        where ar = "some_request ''urn:schemas-upnp-org:service:RenderingControl'' ''GetBrightness'' [(''InstanceID'', ''0'')]"
          and args = "[(''InstanceID'', ''0'')]"]
    by (force simp: sample_lib_def)
  with set show ?thesis by blast
qed

end
