(* ===== verification/Spec2Isabelle.thy ===== *)
theory Spec2Isabelle
  imports Main_Program Thread_Races Control_Video_Facts
begin

text \<open>
  UPnPMPD turns a Music Player Daemon into a UPnP media renderer. A control point sends
  actions to one of its three services over libupnp; the program translates them into commands
  of libmpdclient and tells the subscribers what changed. This development models the C
  sources under src/src and proves what they promise, and where they break it.

  \<^bold>\<open>The program and its theories.\<close>

  \<^item> \<open>Prelude\<close>, \<open>CLib\<close>: the result type \<open>fault + 'a\<close> with its bind, weakest preconditions, the
    record \<open>env\<close> of mutexes, notifications and subscriptions, and the C library functions the
    sources use (\<open>atoi\<close>, \<open>strtol\<close>, \<open>snprintf\<close>, integer conversions). A fault is an
    undefined step of the C program: a null pointer, an index out of range, an integer
    overflow, locking a mutex twice, unlocking one that is not held. The program's \<open>assert\<close> is
    empty (logging.h), so an index it is meant to rule out is an access out of range.
  \<^item> \<open>Xmlescape\<close> (xmlescape.c) and \<open>Webserver\<close> (webserver.c): the escaping of text, over a buffer
    of bytes that may be unwritten, and the virtual files libupnp serves.
  \<^item> \<open>Upnp\<close>, \<open>Upnp_Desc\<close> (upnp.h, upnp.c): services, actions, variables, the look-up of a
    service and an action, and the description documents as DOM trees.
  \<^item> \<open>Upnp_Device\<close>, \<open>Device_Init\<close> (upnp_device.c): the dispatch of action and subscription
    requests and the initialisation of the device.
  \<^item> \<open>Var_Store\<close>, \<open>Locking\<close>, \<open>Handler_Rules\<close>: the interfaces. \<open>var_store\<close> is what a service's
    variable setter promises, \<open>lock_relation\<close> what an assertion about states has to satisfy
    for the rules of lock and unlock; both are interpreted on the components' own definitions.
  \<^item> \<open>Connmgr\<close>, \<open>Transport_Vars\<close> with \<open>Transport\<close>, \<open>Control\<close> (upnp_connmgr.c, upnp_transport.c,
    upnp_control.c): the services ConnectionManager, AVTransport and RenderingControl, each
    with its tables, variables, LastChange events, action handlers and its \<open>service\<close> record.
  \<^item> \<open>Output_Mpd\<close>, \<open>Output_Init\<close> (output_mpd.c): the connection to MPD, the player's
    operations, the translation of its status, and the options.
  \<^item> \<open>Control_Video\<close>, \<open>Control_Video_Facts\<close>: RenderingControl once more as the preprocessor leaves
    it with \<open>UPNP_VIDEO\<close>, on the same state; what the two builds share, and the picture settings.
  \<^item> \<open>Renderer\<close> (upnp_renderer.c): the device made of the three services, and its identity.
  \<^item> \<open>System\<close>: the event handler on the whole renderer, and sequences of events.
  \<^item> \<open>Threads\<close>, \<open>Event_Programs\<close>, \<open>Thread_Safety\<close>, \<open>Thread_Races\<close>: libupnp calls the event handler
    on several threads. \<open>Threads\<close> has programs of acquire, release and atomic steps, and the
    step relation of a list of them; \<open>Event_Programs\<close> gives every function that locks a mutex,
    from \<open>event_handler\<close> down, as such a program; the other two say what holds of every
    interleaving and what goes wrong in some.
  \<^item> \<open>Main_Program\<close> (main.c): from the command line to the loop.

  The state is one record that grows along the components: \<open>env\<close> (mutexes, events sent),
  \<open>dev_env\<close> (virtual files), \<open>connmgr_env\<close>, \<open>transport_env\<close>, \<open>output_env\<close> (the static
  variables of output_mpd.c and the server's state), \<open>control_env\<close>, \<open>main_env\<close>. Each operation is a
  function on the record of its own component or any extension of it, so a component's lemmas
  hold in the whole program. libupnp and ixml are the record \<open>upnp_lib\<close> of functions,
  libmpdclient is \<open>mpd_lib\<close> over an abstract server state, the file system, libconfig
  and the network interfaces are records of functions as well; nothing is assumed of them
  beyond the hypotheses a theorem states.

  \<^bold>\<open>What is shown.\<close>

  \<^item> Memory and integers: \<open>xmlescape\<close> and \<open>connmgr_init\<close> stay inside the buffers they grow;
    reads and seeks stay inside a served file; volumes and seek targets are clamped; the
    inputs for which an array is overrun or an integer overflows.
  \<^item> Behaviour: what the handlers send to the player, store, answer and announce, on every
    branch; round trips of escaping and of times.
  \<^item> Refinement: Play, Pause and Stop implement an abstract transport state machine
    (\<open>Transport_Facts\<close>).
  \<^item> Locking: no event locks a mutex twice, the order of
    acquisition is acyclic, so threads handling events cannot wait for each other in a
    circle, and between events no mutex is held (\<open>System\<close>). One event releases a mutex it does
    not hold, GetPositionInfo when the connection check succeeds and the status query then
    fails: \<open>output_update_position\<close> releases the player's mutex twice. No theorem assumes this
    away; \<open>status_query_fails\<close> and \<open>position_query\<close> say when it happens, in terms of the state,
    and \<open>answers\<close>, for threads, that it never does. The mutexes are an instance of
    \<open>order\<close>, a run may only go up in it; the proofs go
    through the rules of \<open>Locking\<close>, one lemma per operation (\<open>Output_Facts\<close>, \<open>Transport_Facts\<close>,
    \<open>Control_Facts\<close>).
  \<^item> Interleavings: the program a thread executes for an event, run alone, is the sequential
    handler; handling events one after the other is one of the schedules. In every schedule each
    part of the state changes only under a mutex, no thread waits for ever, and the number of
    steps is bounded, up to the thread that has released a mutex twice and crashes; the locale
    \<open>shared_changes\<close> carries these proofs from single programs, disciplined in the sense of a
    record \<open>rules\<close>, to any number of threads. Two schedules in which
    the code fails: a connection lost between its check and the command, and transport variables
    written under the player's mutex while another thread owns theirs (\<open>Thread_Races\<close>).
  \<^item> The two builds of RenderingControl agree up to the numbering of the variables on all that
    the audio build has, and the picture settings of the video build never change
    (\<open>Control_Video_Facts\<close>).
  \<^item> Tables and start: the tables of the services are consistent with each other and with the
    descriptions generated from them (\<open>Renderer\<close>), and a start with everything in place,
    with or without a configuration file, reaches the loop in a state in which all invariants
    hold, and keeps them (\<open>Main_Program\<close>).

  \<^bold>\<open>Bounds.\<close> No definition needs fuel: the loops of the program run over lists, arrays and
  texts and are structural recursions, so every definition is total. Texts are lists of
  characters without their NUL; where the code depends on the NUL, or on a buffer's size, the
  buffer is modelled with it. Arithmetic on \<open>int\<close> goes through \<open>cint\<close>, which faults outside
  \<open>INT_MIN..INT_MAX\<close>; fields of libmpdclient are words of their width.

  \<^bold>\<open>Not modelled.\<close> DBG_PRINT and the texts printed on the error stream, other than
  those of main.c; failing allocations, except in \<open>connmgr_init\<close> and the web server, which test
  for them; GLib's option parser and main loop; the parser of libconfig; the backtrace
  handler of i386 debug builds; the leaks of memory and of the socket in \<open>getIfInfo\<close>. What a
  thread does between two mutex operations is one step of the model, so a data race shows as a
  change made without the mutex (\<open>transport_variables_race\<close>), not as a torn value; the programs
  of \<open>Event_Programs\<close> are those of the audio build, which is the one the build files configure.
\<close>

end
